(* ===== verification/Go_Prelude.thy ===== *)
theory Go_Prelude
  imports
    Main
    "HOL-Library.List_Lexorder"
    "HOL-Library.Char_ord"
    "HOL-Library.Monad_Syntax"
    "HOL-Library.AList"
begin

text \<open>
  Shared vocabulary of the development: the fragment of Go and of its standard library
  that the operator uses.  Strings are byte lists, a Go \<^verbatim>\<open>map[string]string\<close> is an
  association list under \<open>option\<close> (\<open>None\<close> is the nil map), an \<^verbatim>\<open>error\<close> is a value that
  carries the classification the Kubernetes helpers test for, and a function that can
  panic returns an \<open>option\<close> whose \<open>None\<close> is the panic.
\<close>

named_theorems go_simps \<open>evaluation of the Go string, map and error primitives\<close>

section \<open>Strings\<close>

definition HasPrefix :: "string \<Rightarrow> string \<Rightarrow> bool" where
  "HasPrefix s p \<longleftrightarrow> take (length p) s = p"

fun Contains :: "string \<Rightarrow> string \<Rightarrow> bool" where
  "Contains [] sub = (sub = [])"
| "Contains (c # s) sub = (HasPrefix (c # s) sub \<or> Contains s sub)"

text \<open>\<^verbatim>\<open>strings.Split\<close> with a one-byte separator; it never returns an empty slice.\<close>

fun Split :: "char \<Rightarrow> string \<Rightarrow> string list" where
  "Split sep [] = [[]]"
| "Split sep (c # s) =
     (if c = sep then [] # Split sep s
      else (case Split sep s of [] \<Rightarrow> [[c]] | part # parts \<Rightarrow> (c # part) # parts))"

fun Join :: "string list \<Rightarrow> string \<Rightarrow> string" where
  "Join [] sep = []"
| "Join [s] sep = s"
| "Join (s # t # ts) sep = s @ sep @ Join (t # ts) sep"

text \<open>White space as \<^verbatim>\<open>strings.TrimSpace\<close> sees it in an ASCII string.\<close>

definition IsSpace :: "char \<Rightarrow> bool" where
  "IsSpace c \<longleftrightarrow> of_char c \<in> {9, 10, 11, 12, 13, 32 :: nat}"

definition TrimSpace :: "string \<Rightarrow> string" where
  "TrimSpace s = rev (dropWhile IsSpace (rev (dropWhile IsSpace s)))"

definition ToLowerChar :: "char \<Rightarrow> char" where
  "ToLowerChar c =
     (if 65 \<le> (of_char c :: nat) \<and> (of_char c :: nat) \<le> 90
      then char_of ((of_char c :: nat) + 32) else c)"

definition ToLower :: "string \<Rightarrow> string" where
  "ToLower s = map ToLowerChar s"

lemma HasPrefix_append [simp]: "HasPrefix (p @ s) p"
  by (simp add: HasPrefix_def)

lemma HasPrefix_iff: "HasPrefix s p \<longleftrightarrow> (\<exists>t. s = p @ t)"
  by (metis HasPrefix_def append_eq_conv_conj append_take_drop_id)

lemma Split_not_Nil [simp]: "Split sep s \<noteq> []"
  by (cases s) (auto split: list.splits)

text \<open>The parts contain no separator, and joining them gives the string back.\<close>

lemma Split_no_sep: "p \<in> set (Split sep s) \<Longrightarrow> sep \<notin> set p"
  by (induction s arbitrary: p) (auto split: if_splits list.splits)

lemma Split_append_sep: "Split sep (s @ sep # t) = Split sep s @ Split sep t"
  by (induction s) (auto split: list.splits)

lemma Split_single: "sep \<notin> set s \<Longrightarrow> Split sep s = [s]"
  by (induction s) auto

lemma Join_Cons: "xs \<noteq> [] \<Longrightarrow> Join (x # xs) sep = x @ sep @ Join xs sep"
  by (cases xs) auto

lemma Join_push: "Join ((c # p) # ps) sep = c # Join (p # ps) sep"
  by (cases ps) auto

lemma Join_Split: "Join (Split sep s) [sep] = s"
proof (induction s)
  case Nil
  show ?case by simp
next
  case (Cons c s)
  show ?case
  proof (cases "Split sep s")
    case Nil
    then show ?thesis by simp
  next
    case (Cons p ps)
    with Cons.IH show ?thesis
      by (cases ps) (auto simp: Join_Cons)
  qed
qed

definition newline :: string where
  "newline = [CHR 0x0A]"

text \<open>A text given line by line, each line ended by a newline.\<close>

definition text_lines :: "string list \<Rightarrow> string" where
  "text_lines ls = concat (map (\<lambda>l. l @ newline) ls)"

text \<open>What \<^verbatim>\<open>html/template\<close> does to a string inserted in a text position.\<close>

fun html_char :: "char \<Rightarrow> string" where
  "html_char c =
     (if c = CHR 0x00 then [CHR 0xEF, CHR 0xBF, CHR 0xBD]
      else if c = CHR 0x22 then ''&#34;''
      else if c = CHR ''&'' then ''&amp;''
      else if c = CHR 0x27 then ''&#39;''
      else if c = CHR ''+'' then ''&#43;''
      else if c = CHR ''<'' then ''&lt;''
      else if c = CHR ''>'' then ''&gt;''
      else [c])"

definition HtmlEscape :: "string \<Rightarrow> string" where
  "HtmlEscape s = concat (map html_char s)"

section \<open>Decimal integers (strconv)\<close>

definition DigitVal :: "char \<Rightarrow> nat option" where
  "DigitVal c =
     (if 48 \<le> (of_char c :: nat) \<and> (of_char c :: nat) \<le> 57
      then Some ((of_char c :: nat) - 48) else None)"

definition DigitChar :: "nat \<Rightarrow> char" where
  "DigitChar d = char_of (48 + d)"

fun ParseDigits :: "nat \<Rightarrow> string \<Rightarrow> nat option" where
  "ParseDigits n [] = Some n"
| "ParseDigits n (c # s) =
     (case DigitVal c of None \<Rightarrow> None | Some d \<Rightarrow> ParseDigits (10 * n + d) s)"

fun FormatNat :: "nat \<Rightarrow> string" where
  "FormatNat n = (if n < 10 then [DigitChar n] else FormatNat (n div 10) @ [DigitChar (n mod 10)])"

declare FormatNat.simps [simp del]

definition FormatInt :: "int \<Rightarrow> string" where
  "FormatInt i = (if i < 0 then CHR ''-'' # FormatNat (nat (- i)) else FormatNat (nat i))"

lemma DigitVal_DigitChar [simp]: "d < 10 \<Longrightarrow> DigitVal (DigitChar d) = Some d"
  by (simp add: DigitVal_def DigitChar_def of_char_of)

lemma ParseDigits_append:
  "ParseDigits n (s @ t) = (case ParseDigits n s of None \<Rightarrow> None | Some m \<Rightarrow> ParseDigits m t)"
  by (induction s arbitrary: n) (auto split: option.splits)

lemma ParseDigits_FormatNat: "ParseDigits 0 (FormatNat n) = Some n"
proof (induction n rule: FormatNat.induct)
  case (1 n)
  show ?case
  proof (cases "n < 10")
    case True
    then show ?thesis by (simp add: FormatNat.simps [of n])
  next
    case False
    with "1.IH" show ?thesis
      by (simp add: FormatNat.simps [of n] ParseDigits_append)
  qed
qed

lemma FormatNat_not_Nil [simp]: "FormatNat n \<noteq> []"
  by (subst FormatNat.simps) simp

lemma DigitChar_hd: "hd (FormatNat n) \<in> DigitChar ` {..<10}"
proof (induction n rule: FormatNat.induct)
  case (1 n)
  show ?case
  proof (cases "n < 10")
    case True
    then show ?thesis by (auto simp: FormatNat.simps [of n])
  next
    case False
    with "1.IH" show ?thesis by (simp add: FormatNat.simps [of n])
  qed
qed

lemma DigitChar_not_sign: "d < 10 \<Longrightarrow> DigitChar d \<noteq> CHR ''-'' \<and> DigitChar d \<noteq> CHR ''+''"
proof -
  assume "d < 10"
  then have "of_char (DigitChar d) = 48 + d"
    by (simp add: DigitChar_def of_char_of)
  then show ?thesis by auto
qed

lemma FormatNat_Cons_sign:
  assumes "FormatNat n = c # s"
  shows "c \<noteq> CHR ''-'' \<and> c \<noteq> CHR ''+''"
  using DigitChar_hd [of n] assms DigitChar_not_sign by auto

section \<open>Base64 (encoding/base64, URL alphabet)\<close>

definition base64url_char :: "nat \<Rightarrow> char" where
  "base64url_char n = ''ABCDEFGHIJKLMNOPQRSTUVWXYZabcdefghijklmnopqrstuvwxyz0123456789-_'' ! (n mod 64)"

fun base64url :: "string \<Rightarrow> string" where
  "base64url [] = []"
| "base64url [a] =
     (let n = of_char a * 65536
      in [base64url_char (n div 262144), base64url_char (n div 4096), CHR ''='', CHR ''=''])"
| "base64url [a, b] =
     (let n = of_char a * 65536 + of_char b * 256
      in [base64url_char (n div 262144), base64url_char (n div 4096), base64url_char (n div 64), CHR ''=''])"
| "base64url (a # b # c # s) =
     (let n = of_char a * 65536 + of_char b * 256 + of_char c
      in [base64url_char (n div 262144), base64url_char (n div 4096), base64url_char (n div 64),
          base64url_char n] @ base64url s)"

lemma length_base64url: "length (base64url s) = 4 * ((length s + 2) div 3)"
  by (induction s rule: base64url.induct) (simp_all add: Let_def, presburger)

section \<open>Errors\<close>

text \<open>
  The operator classifies errors only through \<^verbatim>\<open>errors.IsNotFound\<close>,
  \<^verbatim>\<open>errors.IsAlreadyExists\<close>, \<^verbatim>\<open>errors.IsGone\<close>, \<^verbatim>\<open>meta.IsNoMatchError\<close> and
  \<^verbatim>\<open>os.IsNotExist\<close>, and prints them.
  A wrapped error keeps the reason of its cause.
\<close>

datatype err_reason = NotFound | AlreadyExists | Gone | NoMatch | NotExist | OtherReason

datatype goerr = GoErr (reason: err_reason) (err_msg: string)

definition IsNotFound :: "goerr \<Rightarrow> bool" where
  "IsNotFound e \<longleftrightarrow> reason e = NotFound"

definition IsAlreadyExists :: "goerr \<Rightarrow> bool" where
  "IsAlreadyExists e \<longleftrightarrow> reason e = AlreadyExists"

definition IsGone :: "goerr \<Rightarrow> bool" where
  "IsGone e \<longleftrightarrow> reason e = Gone"

definition IsNoMatchError :: "goerr \<Rightarrow> bool" where
  "IsNoMatchError e \<longleftrightarrow> reason e = NoMatch"

definition IsNotExist :: "goerr \<Rightarrow> bool" where
  "IsNotExist e \<longleftrightarrow> reason e = NotExist"

definition New :: "string \<Rightarrow> goerr" where
  "New m = GoErr OtherReason m"

definition Wrap :: "goerr \<Rightarrow> string \<Rightarrow> goerr" where
  "Wrap e m = GoErr (reason e) (m @ '': '' @ err_msg e)"

lemmas err_class_defs = IsNotFound_def IsAlreadyExists_def IsGone_def IsNoMatchError_def
  IsNotExist_def New_def

lemma reason_Wrap [simp]: "reason (Wrap e m) = reason e"
  by (simp add: Wrap_def)

lemma reason_New [simp]: "reason (New m) = OtherReason"
  by (simp add: New_def)

definition ParseInt :: "string \<Rightarrow> goerr + int" where
  "ParseInt s =
     (case s of
        [] \<Rightarrow> Inl (New ''invalid syntax'')
      | c # t \<Rightarrow>
          (let neg = (c = CHR ''-'');
               ds = (if c = CHR ''-'' \<or> c = CHR ''+'' then t else s)
           in if ds = [] then Inl (New ''invalid syntax'')
              else (case ParseDigits 0 ds of
                      None \<Rightarrow> Inl (New ''invalid syntax'')
                    | Some n \<Rightarrow>
                        if \<not> neg \<and> 2 ^ 63 \<le> int n then Inl (New ''value out of range'')
                        else if neg \<and> 2 ^ 63 < int n then Inl (New ''value out of range'')
                        else Inr (if neg then - int n else int n))))"

text \<open>\<^verbatim>\<open>ParseInt\<close> accepts only 64-bit values, and reads back everything \<^verbatim>\<open>FormatInt\<close> writes.\<close>

lemma ParseInt_range: "ParseInt s = Inr i \<Longrightarrow> - (2 ^ 63) \<le> i \<and> i < 2 ^ 63"
  by (auto simp: ParseInt_def Let_def split: list.splits option.splits if_splits)

lemma ParseInt_FormatNat:
  assumes "int n < 2 ^ 63"
  shows "ParseInt (FormatNat n) = Inr (int n)"
proof -
  obtain c s where cs: "FormatNat n = c # s"
    by (cases "FormatNat n") auto
  with FormatNat_Cons_sign have "c \<noteq> CHR ''-''" "c \<noteq> CHR ''+''" by blast+
  with cs assms ParseDigits_FormatNat [of n] show ?thesis
    by (simp add: ParseInt_def Let_def)
qed

lemma ParseInt_FormatInt:
  assumes "- (2 ^ 63) \<le> i" and "i < 2 ^ 63"
  shows "ParseInt (FormatInt i) = Inr i"
proof (cases "i < 0")
  case True
  with assms show ?thesis
    by (simp add: FormatInt_def ParseInt_def Let_def ParseDigits_FormatNat)
next
  case False
  with assms show ?thesis
    by (simp add: FormatInt_def ParseInt_FormatNat)
qed

section \<open>Signed 64-bit arithmetic\<close>

definition wrap64 :: "int \<Rightarrow> int" where
  "wrap64 i = (i + 2 ^ 63) mod 2 ^ 64 - 2 ^ 63"

lemma wrap64_id: "- (2 ^ 63) \<le> i \<Longrightarrow> i < 2 ^ 63 \<Longrightarrow> wrap64 i = i"
  by (simp add: wrap64_def)

lemma wrap64_range: "- (2 ^ 63) \<le> wrap64 i \<and> wrap64 i < 2 ^ 63"
  by (simp add: wrap64_def)

section \<open>Maps from strings\<close>

type_synonym smap = "(string \<times> string) list"
type_synonym gomap = "smap option"

definition entries :: "gomap \<Rightarrow> smap" where
  "entries m = (case m of None \<Rightarrow> [] | Some al \<Rightarrow> al)"

text \<open>\<open>m[k]\<close> with its two results; a missing key reads as the empty string (or nil slice).\<close>

definition mlookup :: "gomap \<Rightarrow> string \<Rightarrow> string option" where
  "mlookup m k = map_of (entries m) k"

definition mget :: "gomap \<Rightarrow> string \<Rightarrow> string" where
  "mget m k = (case mlookup m k of None \<Rightarrow> [] | Some v \<Rightarrow> v)"

text \<open>\<open>for k, v := range src { dst[k] = v }\<close> on a non-nil destination.\<close>

definition mput_all :: "smap \<Rightarrow> smap \<Rightarrow> smap" where
  "mput_all src dst = fold (\<lambda>(k, v). AList.update k v) src dst"

lemma map_of_mput_all:
  assumes "distinct (map fst src)"
  shows "map_of (mput_all src dst) k = (map_of dst ++ map_of src) k"
  using assms unfolding mput_all_def
proof (induction src arbitrary: dst)
  case Nil
  then show ?case by simp
next
  case (Cons kv src)
  obtain k' v where kv: "kv = (k', v)" by (cases kv)
  with Cons.prems have "map_of src k' = None"
    by (simp add: map_of_eq_None_iff)
  with kv Cons show ?case
    by (simp add: update_conv' map_add_def split: option.splits)
qed

lemma mput_all_single [simp]: "mput_all [(k, v)] dst = AList.update k v dst"
  by (simp add: mput_all_def)

lemmas gomap_defs = entries_def mlookup_def mget_def

section \<open>Structured third-party values\<close>

text \<open>
  Values the operator only passes through (affinities, tolerations, pod monitor specs,
  relabel configurations) are kept as the JSON trees they are serialised to.
\<close>

datatype json =
    JNull
  | JBool bool
  | JNum int
  | JStr string
  | JArr "json list"
  | JObj "(string \<times> json) list"

section \<open>Generic facts on option and lists\<close>

lemma bind_Some_iff: "Option.bind x f = Some y \<longleftrightarrow> (\<exists>a. x = Some a \<and> f a = Some y)"
  by (cases x) auto

lemma bind_None_iff: "Option.bind x f = None \<longleftrightarrow> x = None \<or> (\<exists>a. x = Some a \<and> f a = None)"
  by (cases x) auto

lemma filter_eq_singleton_distinct:
  assumes "distinct (map f xs)" and "x \<in> set xs"
  shows "filter (\<lambda>y. f y = f x) xs = [x]"
  using assms
proof (induction xs)
  case Nil
  then show ?case by simp
next
  case (Cons a xs)
  show ?case
  proof (cases "x = a")
    case True
    with Cons.prems have "filter (\<lambda>y. f y = f a) xs = []"
      by (fastforce simp: filter_empty_conv image_iff)
    with True show ?thesis by simp
  next
    case False
    with Cons show ?thesis by auto
  qed
qed

end
