(* ===== verification/Kube_Types.thy ===== *)
theory Kube_Types
  imports Go_Prelude
begin

text \<open>
  The parts of the Kubernetes, OpenShift, Prometheus-operator, Grafana-operator and OLM API
  types that the operator reads or writes.  These structs are declared in packages outside
  the repository, so only the fields that occur in its code are kept, each with the Go zero
  value as its default; a field that is passed through unread is a JSON tree.
\<close>

section \<open>Metadata and selectors\<close>

record ObjectMeta =
  m_name :: string
  m_namespace :: string
  m_labels :: gomap
  m_annotations :: gomap
  m_finalizers :: "string list"
  m_deletionTimestamp :: "int option"
  m_resourceVersion :: string

definition zero_meta :: ObjectMeta where
  "zero_meta = \<lparr>m_name = [], m_namespace = [], m_labels = None, m_annotations = None,
     m_finalizers = [], m_deletionTimestamp = None, m_resourceVersion = []\<rparr>"

record LabelSelector =
  matchLabels :: gomap
  matchExpressions :: "json list"

definition zero_selector :: LabelSelector where
  "zero_selector = \<lparr>matchLabels = None, matchExpressions = []\<rparr>"

abbreviation match_labels :: "smap \<Rightarrow> LabelSelector" where
  "match_labels al \<equiv> \<lparr>matchLabels = Some al, matchExpressions = []\<rparr>"

section \<open>Core values embedded in the custom resource\<close>

text \<open>Quantities are kept in their canonical string form.\<close>

record ResourceRequirements =
  rr_limits :: gomap
  rr_requests :: gomap

definition zero_resources :: ResourceRequirements where
  "zero_resources = \<lparr>rr_limits = None, rr_requests = None\<rparr>"

record StorageSpec =
  ss_claimName :: string
  ss_volumeName :: string
  ss_requests :: gomap
  ss_rest :: json

datatype IntOrString = FromInt int | FromString string

section \<open>Pods\<close>

record EnvVar =
  ev_name :: string
  ev_value :: string
  ev_fieldPath :: "string option"

record ContainerPort =
  cp_name :: string
  cp_port :: int
  cp_protocol :: string

record VolumeMount =
  vm_name :: string
  vm_path :: string

record Container =
  ct_name :: string
  ct_image :: string
  ct_args :: "string list"
  ct_command :: "string list"
  ct_env :: "EnvVar list"
  ct_ports :: "ContainerPort list"
  ct_mounts :: "VolumeMount list"
  ct_pullPolicy :: string
  ct_privileged :: "bool option"
  ct_terminationPath :: string
  ct_terminationPolicy :: string

definition zero_container :: Container where
  "zero_container = \<lparr>ct_name = [], ct_image = [], ct_args = [], ct_command = [], ct_env = [],
     ct_ports = [], ct_mounts = [], ct_pullPolicy = [], ct_privileged = None,
     ct_terminationPath = [], ct_terminationPolicy = []\<rparr>"

datatype VolumeSource = VConfigMap string | VHostPath string | VSecret string

record Volume =
  vol_name :: string
  vol_source :: VolumeSource

record PodSpec =
  ps_serviceAccount :: string
  ps_priorityClass :: string
  ps_containers :: "Container list"
  ps_volumes :: "Volume list"
  ps_pullSecrets :: "string list"
  ps_nodeRequirements :: "(string \<times> string) list"

definition zero_podspec :: PodSpec where
  "zero_podspec = \<lparr>ps_serviceAccount = [], ps_priorityClass = [], ps_containers = [],
     ps_volumes = [], ps_pullSecrets = [], ps_nodeRequirements = []\<rparr>"

record PodTemplate =
  pt_labels :: gomap
  pt_spec :: PodSpec

definition zero_template :: PodTemplate where
  "zero_template = \<lparr>pt_labels = None, pt_spec = zero_podspec\<rparr>"

section \<open>Core and networking objects\<close>

record Secret =
  sec_type :: string
  sec_data :: gomap
  sec_stringData :: gomap

definition zero_secret :: Secret where
  "zero_secret = \<lparr>sec_type = [], sec_data = None, sec_stringData = None\<rparr>"

record ServicePort =
  sp_name :: string
  sp_protocol :: string
  sp_port :: int
  sp_targetPort :: IntOrString

record Service =
  svc_ports :: "ServicePort list"
  svc_selector :: gomap
  svc_conditions :: "(string \<times> string) list"

definition zero_service :: Service where
  "zero_service = \<lparr>svc_ports = [], svc_selector = None, svc_conditions = []\<rparr>"

record Route =
  rt_host :: string
  rt_to :: "string \<times> string"
  rt_port :: "IntOrString option"
  rt_termination :: "string option"
  rt_wildcard :: string
  rt_ingress :: "(string \<times> string) list list"

definition zero_route :: Route where
  "zero_route = \<lparr>rt_host = [], rt_to = ([], []), rt_port = None, rt_termination = None,
     rt_wildcard = [], rt_ingress = []\<rparr>"

record Workload =
  wl_selector :: "LabelSelector option"
  wl_template :: PodTemplate
  wl_readyReplicas :: int

definition zero_workload :: Workload where
  "zero_workload = \<lparr>wl_selector = None, wl_template = zero_template, wl_readyReplicas = 0\<rparr>"

record NetworkPolicy =
  np_podSelector :: LabelSelector
  np_ingressFrom :: "LabelSelector list"
  np_policyTypes :: "string list"

definition zero_policy :: NetworkPolicy where
  "zero_policy = \<lparr>np_podSelector = zero_selector, np_ingressFrom = [], np_policyTypes = []\<rparr>"

record PersistentVolume =
  pv_claimRef :: "(string \<times> string) option"
  pv_capacity :: gomap

definition zero_pv :: PersistentVolume where
  "zero_pv = \<lparr>pv_claimRef = None, pv_capacity = None\<rparr>"

section \<open>RBAC\<close>

record PolicyRule =
  pr_verbs :: "string list"
  pr_apiGroups :: "string list"
  pr_resources :: "string list"
  pr_resourceNames :: "string list"
  pr_nonResourceURLs :: "string list"

record Subject =
  sj_kind :: string
  sj_name :: string
  sj_namespace :: string

record RoleRef =
  rf_apiGroup :: string
  rf_kind :: string
  rf_name :: string

record RoleBinding =
  rb_subjects :: "Subject list"
  rb_roleRef :: RoleRef

definition zero_binding :: RoleBinding where
  "zero_binding = \<lparr>rb_subjects = [], rb_roleRef = \<lparr>rf_apiGroup = [], rf_kind = [], rf_name = []\<rparr>\<rparr>"

section \<open>Operator Lifecycle Manager\<close>

record SubscriptionSpec =
  sb_catalogSource :: string
  sb_catalogSourceNamespace :: string
  sb_package :: string
  sb_channel :: string
  sb_startingCSV :: string
  sb_installPlanApproval :: string
  sb_resources :: "ResourceRequirements option"

record Subscription =
  sub_spec :: "SubscriptionSpec option"
  sub_installedCSV :: string

definition zero_subscription :: Subscription where
  "zero_subscription = \<lparr>sub_spec = None, sub_installedCSV = []\<rparr>"

record CatalogSource =
  cs_sourceType :: string
  cs_image :: string
  cs_securityContextConfig :: "string option"

definition zero_catalog :: CatalogSource where
  "zero_catalog = \<lparr>cs_sourceType = [], cs_image = [], cs_securityContextConfig = None\<rparr>"

text \<open>A CSV's install strategy: the deployments it names, with their priority class.\<close>

type_synonym DeploymentSpecs = "(string \<times> string) list"

section \<open>Prometheus operator\<close>

record RemoteWriteSpec =
  rw_url :: string
  rw_name :: string
  rw_remoteTimeout :: string
  rw_writeRelabelConfigs :: "json list"
  rw_bearerTokenFile :: string
  rw_insecureSkipVerify :: bool
  rw_proxyURL :: string
  rw_queueConfig :: "json option"
  rw_oauth2 :: "(string \<times> string \<times> string \<times> string \<times> string) option"

record AlertmanagerEndpoint =
  ae_namespace :: string
  ae_name :: string
  ae_port :: IntOrString
  ae_scheme :: string
  ae_caFile :: string
  ae_serverName :: string
  ae_bearerTokenFile :: string

record PrometheusSpec =
  pm_podAnnotations :: gomap
  pm_image :: string
  pm_version :: string
  pm_priorityClass :: string
  pm_serviceAccount :: string
  pm_externalURL :: string
  pm_additionalScrapeConfigs :: "(string \<times> string) option"
  pm_externalLabels :: gomap
  pm_volumes :: "Volume list"
  pm_podMonitorSelector :: "LabelSelector option"
  pm_podMonitorNamespaceSelector :: "LabelSelector option"
  pm_serviceMonitorSelector :: "LabelSelector option"
  pm_serviceMonitorNamespaceSelector :: "LabelSelector option"
  pm_probeSelector :: "LabelSelector option"
  pm_probeNamespaceSelector :: "LabelSelector option"
  pm_remoteWrite :: "RemoteWriteSpec list"
  pm_secrets :: "string list"
  pm_containers :: "Container list"
  pm_resources :: ResourceRequirements
  pm_retention :: string
  pm_ruleSelector :: "LabelSelector option"
  pm_ruleNamespaceSelector :: "LabelSelector option"
  pm_alerting :: "AlertmanagerEndpoint list"
  pm_storage :: "StorageSpec option"
  pm_tolerations :: "json list option"
  pm_affinity :: "json option"

record AlertmanagerSpec =
  am_podAnnotations :: gomap
  am_configSecret :: string
  am_listenLocal :: bool
  am_externalURL :: string
  am_serviceAccount :: string
  am_secrets :: "string list"
  am_priorityClass :: string
  am_containers :: "Container list"
  am_version :: string
  am_resources :: ResourceRequirements
  am_storage :: "StorageSpec option"

record AlertRule =
  ar_alert :: string
  ar_expr :: string
  ar_labels :: gomap

record RuleGroup =
  rg_name :: string
  rg_rules :: "AlertRule list"

section \<open>Grafana operator\<close>

record GrafanaSpec =
  gs_logMode :: string
  gs_logLevel :: string
  gs_disableLoginForm :: bool
  gs_disableSignoutMenu :: bool
  gs_basicAuth :: bool
  gs_anonymousAuth :: bool
  gs_containers :: "Container list"
  gs_baseImage :: string
  gs_dashboardLabelSelector :: "LabelSelector list"
  gs_ingress :: "bool \<times> string \<times> string"
  gs_initImage :: string
  gs_secrets :: "string list"
  gs_serviceAnnotations :: gomap
  gs_servicePorts :: "ServicePort list"
  gs_serviceAccountAnnotations :: gomap
  gs_preferService :: bool
  gs_replicas :: int
  gs_priorityClass :: string
  gs_deploymentAnnotations :: gomap
  gs_resources :: ResourceRequirements
  gs_tolerations :: "json list option"
  gs_affinity :: "json option"

record GrafanaDashboardSpec =
  gd_json :: string
  gd_jsonnet :: string
  gd_rest :: json

definition zero_dashboard :: GrafanaDashboardSpec where
  "zero_dashboard = \<lparr>gd_json = [], gd_jsonnet = [], gd_rest = JNull\<rparr>"

record DataSourceFields =
  df_name :: string
  df_type :: string
  df_access :: string
  df_url :: string
  df_isDefault :: bool
  df_version :: int
  df_editable :: bool
  df_tlsSkipVerify :: bool
  df_timeInterval :: string

section \<open>Cluster logging\<close>

record ClusterLoggingSpec =
  cl_managementState :: string
  cl_collectionType :: string
  cl_resources :: ResourceRequirements
  cl_tolerations :: "(string \<times> string \<times> string) list"

record InputSpec =
  in_name :: string
  in_namespaces :: "string list"

record OutputSpec =
  out_name :: string
  out_type :: string
  out_region :: string
  out_groupBy :: string
  out_secret :: string

record PipelineSpec =
  pl_outputRefs :: "string list"
  pl_inputRefs :: "string list"
  pl_name :: string

record LogForwarderSpec =
  lf_inputs :: "InputSpec list"
  lf_outputs :: "OutputSpec list"
  lf_pipelines :: "PipelineSpec list"

definition zero_forwarder :: LogForwarderSpec where
  "zero_forwarder = \<lparr>lf_inputs = [], lf_outputs = [], lf_pipelines = []\<rparr>"

end
