(* ===== verification/Obs_Api.thy ===== *)
theory Obs_Api
  imports Kube_Types
begin

text \<open>
  The package \<^verbatim>\<open>api/v1\<close>: the Observability custom resource (\<^verbatim>\<open>observability_types.go\<close>), the
  repository index that a configuration repository serves (\<^verbatim>\<open>index.go\<close>), the Alertmanager
  configuration document (\<^verbatim>\<open>alertmanager_config.go\<close>) and the admission webhook
  (\<^verbatim>\<open>observability_webhook.go\<close>).  Go pointers to optional values are \<open>option\<close>s; the string
  enumerations are datatypes with one more constructor for any other string.
\<close>

section \<open>Enumerations\<close>

datatype ObservabilityStageName =
    GrafanaInstallation
  | GrafanaConfiguration
  | PrometheusInstallation
  | PrometheusConfiguration
  | Csv
  | TokenRequest
  | PromtailInstallation
  | AlertmanagerInstallation
  | Configuration
  | LoggingInstallation
  | Migration
  | StageName string

fun stage_string :: "ObservabilityStageName \<Rightarrow> string" where
  "stage_string GrafanaInstallation = ''Grafana''"
| "stage_string GrafanaConfiguration = ''GrafanaConfiguration''"
| "stage_string PrometheusInstallation = ''Prometheus''"
| "stage_string PrometheusConfiguration = ''PrometheusConfiguration''"
| "stage_string Csv = ''Csv''"
| "stage_string TokenRequest = ''TokenRequest''"
| "stage_string PromtailInstallation = ''PromtailInstallation''"
| "stage_string AlertmanagerInstallation = ''AlertmanagerInstallation''"
| "stage_string Configuration = ''configuration''"
| "stage_string LoggingInstallation = ''Logging''"
| "stage_string Migration = ''resource name migration''"
| "stage_string (StageName s) = s"

datatype ObservabilityStageStatus = ResultSuccess | ResultFailed | ResultInProgress | StageStatus string

datatype ObservabilityAuthType = AuthTypeDex | AuthTypeRedhat | AuthType string

text \<open>The conversion \<^verbatim>\<open>v1.ObservabilityAuthType(s)\<close> of a string read from a secret.\<close>

definition ToAuthType :: "string \<Rightarrow> ObservabilityAuthType" where
  "ToAuthType s =
     (if s = ''dex'' then AuthTypeDex else if s = ''redhat'' then AuthTypeRedhat else AuthType s)"

section \<open>The custom resource\<close>

record Storage =
  sg_PrometheusStorageSpec :: "StorageSpec option"
  sg_AlertManagerStorageSpec :: "StorageSpec option"

record SelfContained =
  sc_DisableRepoSync :: "bool option"
  sc_DisableObservatorium :: "bool option"
  sc_DisablePagerDuty :: "bool option"
  sc_DisableDeadmansSnitch :: "bool option"
  sc_DisableSmtp :: "bool option"
  sc_DisableBlackboxExporter :: "bool option"
  sc_SelfSignedCerts :: "bool option"
  sc_OverrideSelectors :: "bool option"
  sc_FederatedMetrics :: "string list"
  sc_PodMonitorLabelSelector :: "LabelSelector option"
  sc_PodMonitorNamespaceSelector :: "LabelSelector option"
  sc_ServiceMonitorLabelSelector :: "LabelSelector option"
  sc_ServiceMonitorNamespaceSelector :: "LabelSelector option"
  sc_RuleLabelSelector :: "LabelSelector option"
  sc_RuleNamespaceSelector :: "LabelSelector option"
  sc_ProbeLabelSelector :: "LabelSelector option"
  sc_ProbeNamespaceSelector :: "LabelSelector option"
  sc_GrafanaDashboardLabelSelector :: "LabelSelector option"
  sc_AlertManagerConfigSecret :: string
  sc_AlertManagerVersion :: string
  sc_BlackboxBearerTokenSecret :: string
  sc_PrometheusVersion :: string
  sc_AlertManagerResourceRequirement :: "ResourceRequirements option"
  sc_PrometheusResourceRequirement :: "ResourceRequirements option"
  sc_PrometheusOperatorResourceRequirement :: "ResourceRequirements option"
  sc_GrafanaResourceRequirement :: "ResourceRequirements option"
  sc_GrafanaOperatorResourceRequirement :: "ResourceRequirements option"
  sc_GrafanaVersion :: string
  sc_GrafanaInitImage :: string
  sc_DisableLogging :: "bool option"
  sc_OriginOauthProxyImage :: string

definition zero_selfcontained :: SelfContained where
  "zero_selfcontained = \<lparr>
     sc_DisableRepoSync = None, sc_DisableObservatorium = None, sc_DisablePagerDuty = None,
     sc_DisableDeadmansSnitch = None, sc_DisableSmtp = None, sc_DisableBlackboxExporter = None,
     sc_SelfSignedCerts = None, sc_OverrideSelectors = None, sc_FederatedMetrics = [],
     sc_PodMonitorLabelSelector = None, sc_PodMonitorNamespaceSelector = None,
     sc_ServiceMonitorLabelSelector = None, sc_ServiceMonitorNamespaceSelector = None,
     sc_RuleLabelSelector = None, sc_RuleNamespaceSelector = None,
     sc_ProbeLabelSelector = None, sc_ProbeNamespaceSelector = None,
     sc_GrafanaDashboardLabelSelector = None, sc_AlertManagerConfigSecret = [],
     sc_AlertManagerVersion = [], sc_BlackboxBearerTokenSecret = [], sc_PrometheusVersion = [],
     sc_AlertManagerResourceRequirement = None, sc_PrometheusResourceRequirement = None,
     sc_PrometheusOperatorResourceRequirement = None, sc_GrafanaResourceRequirement = None,
     sc_GrafanaOperatorResourceRequirement = None, sc_GrafanaVersion = [],
     sc_GrafanaInitImage = [], sc_DisableLogging = None, sc_OriginOauthProxyImage = []\<rparr>"

record DescopedMode =
  dm_Enabled :: "bool option"
  dm_PrometheusOperatorNamespace :: string

record ObservabilitySpec =
  sp_ClusterID :: string
  sp_ConfigurationSelector :: "LabelSelector option"
  sp_ResyncPeriod :: string
  sp_Storage :: "Storage option"
  sp_Tolerations :: "json list option"
  sp_Affinity :: "json option"
  sp_SelfContained :: "SelfContained option"
  sp_DescopedMode :: "DescopedMode option"
  sp_Retention :: string
  sp_AlertManagerDefaultName :: string
  sp_PrometheusDefaultName :: string
  sp_GrafanaDefaultName :: string

definition zero_spec :: ObservabilitySpec where
  "zero_spec = \<lparr>sp_ClusterID = [], sp_ConfigurationSelector = None, sp_ResyncPeriod = [],
     sp_Storage = None, sp_Tolerations = None, sp_Affinity = None, sp_SelfContained = None,
     sp_DescopedMode = None, sp_Retention = [], sp_AlertManagerDefaultName = [],
     sp_PrometheusDefaultName = [], sp_GrafanaDefaultName = []\<rparr>"

record ObservabilityStatus =
  st_Stage :: ObservabilityStageName
  st_StageStatus :: ObservabilityStageStatus
  st_LastMessage :: string
  st_TokenExpires :: int
  st_ClusterID :: string
  st_LastSynced :: int
  st_Migrated :: bool
  st_ResourcesRoute :: string

definition zero_status :: ObservabilityStatus where
  "zero_status = \<lparr>st_Stage = StageName [], st_StageStatus = StageStatus [], st_LastMessage = [],
     st_TokenExpires = 0, st_ClusterID = [], st_LastSynced = 0, st_Migrated = False,
     st_ResourcesRoute = []\<rparr>"

record Observability =
  o_meta :: ObjectMeta
  o_spec :: ObservabilitySpec
  o_status :: ObservabilityStatus

abbreviation o_name :: "Observability \<Rightarrow> string" where
  "o_name cr \<equiv> m_name (o_meta cr)"

abbreviation o_namespace :: "Observability \<Rightarrow> string" where
  "o_namespace cr \<equiv> m_namespace (o_meta cr)"

section \<open>Methods of Observability\<close>

text \<open>\<open>p != nil && *p\<close> for a pointer to a boolean.\<close>

definition deref_true :: "bool option \<Rightarrow> bool" where
  "deref_true p = (case p of None \<Rightarrow> False | Some b \<Rightarrow> b)"

definition ExternalSyncDisabled :: "Observability \<Rightarrow> bool" where
  "ExternalSyncDisabled cr = (case sp_SelfContained (o_spec cr) of None \<Rightarrow> False
     | Some sc \<Rightarrow> deref_true (sc_DisableRepoSync sc))"

definition OverrideSelectors :: "Observability \<Rightarrow> bool" where
  "OverrideSelectors cr = (case sp_SelfContained (o_spec cr) of None \<Rightarrow> False
     | Some sc \<Rightarrow> deref_true (sc_OverrideSelectors sc))"

definition ObservatoriumDisabled :: "Observability \<Rightarrow> bool" where
  "ObservatoriumDisabled cr = (case sp_SelfContained (o_spec cr) of None \<Rightarrow> False
     | Some sc \<Rightarrow> deref_true (sc_DisableObservatorium sc))"

definition PagerDutyDisabled :: "Observability \<Rightarrow> bool" where
  "PagerDutyDisabled cr = (case sp_SelfContained (o_spec cr) of None \<Rightarrow> False
     | Some sc \<Rightarrow> deref_true (sc_DisablePagerDuty sc))"

definition DeadMansSnitchDisabled :: "Observability \<Rightarrow> bool" where
  "DeadMansSnitchDisabled cr = (case sp_SelfContained (o_spec cr) of None \<Rightarrow> False
     | Some sc \<Rightarrow> deref_true (sc_DisableDeadmansSnitch sc))"

definition SmtpDisabled :: "Observability \<Rightarrow> bool" where
  "SmtpDisabled cr = (case sp_SelfContained (o_spec cr) of None \<Rightarrow> False
     | Some sc \<Rightarrow> deref_true (sc_DisableSmtp sc))"

definition BlackboxExporterDisabled :: "Observability \<Rightarrow> bool" where
  "BlackboxExporterDisabled cr = (case sp_SelfContained (o_spec cr) of None \<Rightarrow> False
     | Some sc \<Rightarrow> deref_true (sc_DisableBlackboxExporter sc))"

definition SelfSignedCerts :: "Observability \<Rightarrow> bool" where
  "SelfSignedCerts cr = (case sp_SelfContained (o_spec cr) of None \<Rightarrow> False
     | Some sc \<Rightarrow> deref_true (sc_SelfSignedCerts sc))"

definition HasAlertmanagerConfigSecret :: "Observability \<Rightarrow> bool \<times> string" where
  "HasAlertmanagerConfigSecret cr =
     (case sp_SelfContained (o_spec cr) of
        Some sc \<Rightarrow> if sc_AlertManagerConfigSecret sc \<noteq> []
                   then (True, sc_AlertManagerConfigSecret sc) else (False, [])
      | None \<Rightarrow> (False, []))"

definition HasBlackboxBearerTokenSecret :: "Observability \<Rightarrow> bool \<times> string" where
  "HasBlackboxBearerTokenSecret cr =
     (case sp_SelfContained (o_spec cr) of
        Some sc \<Rightarrow> if sc_BlackboxBearerTokenSecret sc \<noteq> []
                   then (True, sc_BlackboxBearerTokenSecret sc) else (False, [])
      | None \<Rightarrow> (False, []))"

definition DescopedModeEnabled :: "Observability \<Rightarrow> bool" where
  "DescopedModeEnabled cr =
     (case sp_DescopedMode (o_spec cr) of
        Some dm \<Rightarrow> (case dm_Enabled dm of Some b \<Rightarrow> b | None \<Rightarrow> False)
      | None \<Rightarrow> False)"

definition GetPrometheusOperatorNamespace :: "Observability \<Rightarrow> string" where
  "GetPrometheusOperatorNamespace cr =
     (if DescopedModeEnabled cr
         \<and> (case sp_DescopedMode (o_spec cr) of Some dm \<Rightarrow> dm_PrometheusOperatorNamespace dm \<noteq> []
            | None \<Rightarrow> False)
      then (case sp_DescopedMode (o_spec cr) of Some dm \<Rightarrow> dm_PrometheusOperatorNamespace dm
            | None \<Rightarrow> [])
      else o_namespace cr)"

lemma GetPrometheusOperatorNamespace_scoped [simp]:
  "\<not> DescopedModeEnabled cr \<Longrightarrow> GetPrometheusOperatorNamespace cr = o_namespace cr"
  by (simp add: GetPrometheusOperatorNamespace_def)

section \<open>The repository index\<close>

text \<open>
  \<^verbatim>\<open>Source\<close> is a pointer to a secret.  All pointers that occur are addresses of one loop
  variable of the configuration reconciler, so a pointer is an address of its local store.
\<close>

type_synonym secret_ptr = nat

record RepositoryInfo =
  ri_Repository :: string
  ri_Channel :: string
  ri_Tag :: string
  ri_AccessToken :: string
  ri_Source :: "secret_ptr option"

record GrafanaIndex =
  gi_Dashboards :: "string list"
  gi_DashboardLabelSelector :: "LabelSelector option"
  gi_GrafanaVersion :: string

record DexConfig =
  dx_Url :: string
  dx_Username :: string
  dx_Password :: string
  dx_Secret :: string
  dx_CredentialSecretNamespace :: string
  dx_CredentialSecretName :: string

definition zero_dex :: DexConfig where
  "zero_dex = \<lparr>dx_Url = [], dx_Username = [], dx_Password = [], dx_Secret = [],
     dx_CredentialSecretNamespace = [], dx_CredentialSecretName = []\<rparr>"

record RedhatSsoConfig =
  rh_Url :: string
  rh_Realm :: string
  rh_MetricsClient :: string
  rh_MetricsSecret :: string
  rh_LogsClient :: string
  rh_LogsSecret :: string

definition HasAuthServer :: "RedhatSsoConfig \<Rightarrow> bool" where
  "HasAuthServer c \<longleftrightarrow> rh_Url c \<noteq> [] \<and> rh_Realm c \<noteq> []"

definition HasMetrics :: "RedhatSsoConfig \<Rightarrow> bool" where
  "HasMetrics c \<longleftrightarrow> HasAuthServer c \<and> rh_MetricsClient c \<noteq> [] \<and> rh_MetricsSecret c \<noteq> []"

definition HasLogs :: "RedhatSsoConfig \<Rightarrow> bool" where
  "HasLogs c \<longleftrightarrow> HasAuthServer c \<and> rh_LogsClient c \<noteq> [] \<and> rh_LogsSecret c \<noteq> []"

record ObservatoriumIndex =
  oi_Id :: string
  oi_SecretName :: string
  oi_Gateway :: string
  oi_Tenant :: string
  oi_AuthType :: ObservabilityAuthType
  oi_DexConfig :: "DexConfig option"
  oi_RedhatSsoConfig :: "RedhatSsoConfig option"

definition IsValid :: "ObservatoriumIndex \<Rightarrow> bool" where
  "IsValid ob \<longleftrightarrow> oi_Gateway ob \<noteq> []"

record RemoteWriteIndex =
  wi_QueueConfig :: "json option"
  wi_RemoteTimeout :: string
  wi_ProxyUrl :: string
  wi_WriteRelabelConfigs :: "json list"

record AlertmanagerIndex =
  ai_PagerDutySecretName :: string
  ai_PagerDutySecretNamespace :: string
  ai_DeadmansSnitchSecretName :: string
  ai_DeadmansSnitchSecretNamespace :: string
  ai_SmtpSecretName :: string
  ai_SmtpSecretNamespace :: string
  ai_SmtpToEmailAddress :: "string list"
  ai_SmtpFromEmailAddress :: string
  ai_OverrideAlertmanagerPvcSize :: string

definition zero_alertmanager_index :: AlertmanagerIndex where
  "zero_alertmanager_index = \<lparr>ai_PagerDutySecretName = [], ai_PagerDutySecretNamespace = [],
     ai_DeadmansSnitchSecretName = [], ai_DeadmansSnitchSecretNamespace = [],
     ai_SmtpSecretName = [], ai_SmtpSecretNamespace = [], ai_SmtpToEmailAddress = [],
     ai_SmtpFromEmailAddress = [], ai_OverrideAlertmanagerPvcSize = []\<rparr>"

record PrometheusIndex =
  pi_Rules :: "string list"
  pi_PodMonitors :: "string list"
  pi_Federation :: string
  pi_Observatorium :: string
  pi_RemoteWrite :: string
  pi_OverridePrometheusPvcSize :: string
  pi_Labels :: "LabelSelector option"
  pi_PodMonitorLabelSelector :: "LabelSelector option"
  pi_PodMonitorNamespaceSelector :: "LabelSelector option"
  pi_ServiceMonitorLabelSelector :: "LabelSelector option"
  pi_ServiceMonitorNamespaceSelector :: "LabelSelector option"
  pi_RuleLabelSelector :: "LabelSelector option"
  pi_RuleNamespaceSelector :: "LabelSelector option"
  pi_ProbeLabelSelector :: "LabelSelector option"
  pi_ProbeNamespaceSelector :: "LabelSelector option"

definition zero_prometheus_index :: PrometheusIndex where
  "zero_prometheus_index = \<lparr>pi_Rules = [], pi_PodMonitors = [], pi_Federation = [],
     pi_Observatorium = [], pi_RemoteWrite = [], pi_OverridePrometheusPvcSize = [],
     pi_Labels = None, pi_PodMonitorLabelSelector = None, pi_PodMonitorNamespaceSelector = None,
     pi_ServiceMonitorLabelSelector = None, pi_ServiceMonitorNamespaceSelector = None,
     pi_RuleLabelSelector = None, pi_RuleNamespaceSelector = None,
     pi_ProbeLabelSelector = None, pi_ProbeNamespaceSelector = None\<rparr>"

record PromtailIndex =
  pt_Enabled :: bool
  pt_NamespaceLabelSelector :: gomap
  pt_Observatorium :: string
  pt_DaemonSetLabelSelector :: "LabelSelector option"

record RepositoryConfig =
  rc_Grafana :: "GrafanaIndex option"
  rc_Prometheus :: "PrometheusIndex option"
  rc_Alertmanager :: "AlertmanagerIndex option"
  rc_Promtail :: "PromtailIndex option"
  rc_Observatoria :: "ObservatoriumIndex list option"

record RepositoryIndex =
  ix_BaseUrl :: string
  ix_AccessToken :: string
  ix_Tag :: string
  ix_Source :: "secret_ptr option"
  ix_Id :: string
  ix_Config :: "RepositoryConfig option"

section \<open>The Alertmanager configuration document\<close>

record AlertmanagerConfigGlobal =
  ag_ResolveTimeout :: string
  ag_SmtpSmartHost :: string
  ag_SmtpFrom :: string
  ag_SmtpAuthUserName :: string
  ag_SmtpAuthPassword :: string
  ag_SmtpRequireTls :: bool

datatype AlertmanagerConfigRoute =
  AlertmanagerConfigRoute
    (ro_Receiver: string) (ro_RepeatInterval: string) (ro_Match: gomap)
    (ro_Routes: "AlertmanagerConfigRoute list")

record EmailConfig =
  em_SendResolved :: bool
  em_To :: string
  em_Subject :: string
  em_Html :: string

record AlertmanagerConfigReceiver =
  re_Name :: string
  re_PagerDutyConfigs :: "string list"
  re_WebhookConfigs :: "string list"
  re_EmailConfig :: "EmailConfig list"

record AlertmanagerConfigRoot =
  ac_Global :: "AlertmanagerConfigGlobal option"
  ac_Route :: "AlertmanagerConfigRoute option"
  ac_Receivers :: "AlertmanagerConfigReceiver list"

section \<open>The admission webhook\<close>

definition ValidateCreate :: "Observability \<Rightarrow> goerr option" where
  "ValidateCreate cr = None"

definition ValidateUpdate :: "Observability \<Rightarrow> Observability \<Rightarrow> goerr option" where
  "ValidateUpdate new old =
     (let os = o_spec old; ns = o_spec new in
      if sp_AlertManagerDefaultName os \<noteq> [] \<and> sp_AlertManagerDefaultName ns = []
      then Some (New ''cannot unset AlertManagerDefaultName after cr creation'')
      else if sp_AlertManagerDefaultName os = [] \<and> sp_AlertManagerDefaultName ns \<noteq> []
      then Some (New ''cannot set AlertManagerDefaultName after cr creation'')
      else if sp_AlertManagerDefaultName os \<noteq> [] \<and> sp_AlertManagerDefaultName ns \<noteq> []
              \<and> sp_AlertManagerDefaultName os \<noteq> sp_AlertManagerDefaultName ns
      then Some (New ''cannot update AlertManagerDefaultName after cr creation'')
      else if sp_GrafanaDefaultName os \<noteq> [] \<and> sp_GrafanaDefaultName ns = []
      then Some (New ''cannot unset GrafanaDefaultName after cr creation'')
      else if sp_GrafanaDefaultName os = [] \<and> sp_GrafanaDefaultName ns \<noteq> []
      then Some (New ''cannot set GrafanaDefaultName after cr creation'')
      else if sp_GrafanaDefaultName os \<noteq> [] \<and> sp_GrafanaDefaultName ns \<noteq> []
              \<and> sp_GrafanaDefaultName os \<noteq> sp_GrafanaDefaultName ns
      then Some (New ''cannot update GrafanaDefaultName after cr creation'')
      else if sp_PrometheusDefaultName os \<noteq> [] \<and> sp_PrometheusDefaultName ns = []
      then Some (New ''cannot unset PrometheusDefaultName after cr creation'')
      else if sp_PrometheusDefaultName os = [] \<and> sp_PrometheusDefaultName ns \<noteq> []
      then Some (New ''cannot set PrometheusDefaultName after cr creation'')
      else if sp_PrometheusDefaultName os \<noteq> [] \<and> sp_PrometheusDefaultName ns \<noteq> []
              \<and> sp_PrometheusDefaultName os \<noteq> sp_PrometheusDefaultName ns
      then Some (New ''cannot update PrometheusDefaultName after cr creation'')
      else None)"

definition ValidateDelete :: "Observability \<Rightarrow> goerr option" where
  "ValidateDelete cr = None"

text \<open>
  The webhook freezes the three default names: an update passes exactly when it leaves
  all of them as they were.  (It compares nothing else of the specification.)
\<close>

lemma ValidateUpdate_iff:
  "ValidateUpdate new old = None \<longleftrightarrow>
     sp_AlertManagerDefaultName (o_spec new) = sp_AlertManagerDefaultName (o_spec old)
     \<and> sp_GrafanaDefaultName (o_spec new) = sp_GrafanaDefaultName (o_spec old)
     \<and> sp_PrometheusDefaultName (o_spec new) = sp_PrometheusDefaultName (o_spec old)"
  by (auto simp: ValidateUpdate_def Let_def)

end
