(* ===== verification/Kube_Api.thy ===== *)
theory Kube_Api
  imports Obs_Api
begin

text \<open>
  The operator's environment.  The Kubernetes client (\<^verbatim>\<open>controller-runtime\<close>), the HTTP
  endpoints, the clock, the decoders and the other third-party functions are the fields of a
  record \<open>env\<close> over an abstract world \<open>'w\<close>; every operation of the model takes it as an
  argument.  The locale \<open>kube_client\<close> states what the operator relies on the client for, and
  is interpreted on an in-memory API server with fault injection (\<open>mem_env\<close>).
\<close>

section \<open>Objects\<close>

datatype kind =
    KSecret | KConfigMap | KServiceAccount | KService | KNamespace
  | KPersistentVolume | KPersistentVolumeClaim
  | KDeployment | KDaemonSet | KStatefulSet | KNetworkPolicy | KRoute
  | KClusterRole | KClusterRoleBinding
  | KSubscription | KCatalogSource | KOperatorGroup | KClusterServiceVersion
  | KPrometheus | KAlertmanager | KPrometheusRule | KPodMonitor
  | KGrafana | KGrafanaDashboard | KGrafanaDataSource
  | KClusterLogging | KClusterLogForwarder
  | KClusterVersion | KInfrastructure | KObservability

text \<open>\<open>NoBody\<close> is the zero value of every kind's payload.\<close>

datatype body =
    NoBody
  | BSecret Secret
  | BConfigMap gomap
  | BService Service
  | BRoute Route
  | BWorkload Workload
  | BNetworkPolicy NetworkPolicy
  | BPersistentVolume PersistentVolume
  | BPersistentVolumeClaim string
  | BClusterRole "PolicyRule list"
  | BClusterRoleBinding RoleBinding
  | BSubscription Subscription
  | BCatalogSource CatalogSource
  | BOperatorGroup "string list"
  | BClusterServiceVersion DeploymentSpecs
  | BPrometheus PrometheusSpec
  | BAlertmanager AlertmanagerSpec
  | BPrometheusRule "RuleGroup list"
  | BPodMonitor json
  | BGrafana GrafanaSpec
  | BGrafanaDashboard GrafanaDashboardSpec
  | BGrafanaDataSource string "DataSourceFields list"
  | BClusterLogging ClusterLoggingSpec
  | BClusterLogForwarder LogForwarderSpec
  | BClusterVersion string string
  | BInfrastructure "string option"
  | BObservability ObservabilitySpec ObservabilityStatus

record kobj =
  k_kind :: kind
  k_meta :: ObjectMeta
  k_body :: body

type_synonym okey = "kind \<times> string \<times> string"

definition key_of :: "kobj \<Rightarrow> okey" where
  "key_of ob = (k_kind ob, m_namespace (k_meta ob), m_name (k_meta ob))"

text \<open>A typed object literal with name and namespace set, as \<^verbatim>\<open>controllers/model\<close> builds them.\<close>

definition named_obj :: "kind \<Rightarrow> string \<Rightarrow> string \<Rightarrow> kobj" where
  "named_obj kd ns nm =
     \<lparr>k_kind = kd, k_meta = zero_meta\<lparr>m_name := nm, m_namespace := ns\<rparr>, k_body = NoBody\<rparr>"

abbreviation ob_name :: "kobj \<Rightarrow> string" where
  "ob_name ob \<equiv> m_name (k_meta ob)"

abbreviation ob_namespace :: "kobj \<Rightarrow> string" where
  "ob_namespace ob \<equiv> m_namespace (k_meta ob)"

abbreviation ob_labels :: "kobj \<Rightarrow> gomap" where
  "ob_labels ob \<equiv> m_labels (k_meta ob)"

definition set_labels :: "gomap \<Rightarrow> kobj \<Rightarrow> kobj" where
  "set_labels ls ob = ob\<lparr>k_meta := (k_meta ob)\<lparr>m_labels := ls\<rparr>\<rparr>"

definition set_annotations :: "gomap \<Rightarrow> kobj \<Rightarrow> kobj" where
  "set_annotations an ob = ob\<lparr>k_meta := (k_meta ob)\<lparr>m_annotations := an\<rparr>\<rparr>"

definition set_name :: "string \<Rightarrow> kobj \<Rightarrow> kobj" where
  "set_name nm ob = ob\<lparr>k_meta := (k_meta ob)\<lparr>m_name := nm\<rparr>\<rparr>"

definition set_namespace :: "string \<Rightarrow> kobj \<Rightarrow> kobj" where
  "set_namespace ns ob = ob\<lparr>k_meta := (k_meta ob)\<lparr>m_namespace := ns\<rparr>\<rparr>"

definition set_body :: "body \<Rightarrow> kobj \<Rightarrow> kobj" where
  "set_body b ob = ob\<lparr>k_body := b\<rparr>"

lemma named_sel [simp]:
  "k_kind (named_obj kd ns nm) = kd"
  "ob_namespace (named_obj kd ns nm) = ns"
  "ob_name (named_obj kd ns nm) = nm"
  "key_of (named_obj kd ns nm) = (kd, ns, nm)"
  by (simp_all add: named_obj_def key_of_def zero_meta_def)

lemma key_of_set [simp]:
  "key_of (set_labels ls ob) = key_of ob"
  "key_of (set_annotations an ob) = key_of ob"
  "key_of (set_body b ob) = key_of ob"
  "key_of (set_name nm ob) = (k_kind ob, ob_namespace ob, nm)"
  by (simp_all add: set_labels_def set_annotations_def set_body_def set_name_def key_of_def)

text \<open>Typed reads of the payload; a field of an object that was never filled reads as zero.\<close>

fun secret_of :: "body \<Rightarrow> Secret" where
  "secret_of (BSecret s) = s" | "secret_of _ = zero_secret"

fun configmap_of :: "body \<Rightarrow> gomap" where
  "configmap_of (BConfigMap m) = m" | "configmap_of _ = None"

fun service_of :: "body \<Rightarrow> Service" where
  "service_of (BService s) = s" | "service_of _ = zero_service"

fun route_of :: "body \<Rightarrow> Route" where
  "route_of (BRoute r) = r" | "route_of _ = zero_route"

fun workload_of :: "body \<Rightarrow> Workload" where
  "workload_of (BWorkload x) = x" | "workload_of _ = zero_workload"

fun pv_of :: "body \<Rightarrow> PersistentVolume" where
  "pv_of (BPersistentVolume p) = p" | "pv_of _ = zero_pv"

fun pvc_volume_of :: "body \<Rightarrow> string" where
  "pvc_volume_of (BPersistentVolumeClaim v) = v" | "pvc_volume_of _ = []"

fun binding_of :: "body \<Rightarrow> RoleBinding" where
  "binding_of (BClusterRoleBinding b) = b" | "binding_of _ = zero_binding"

fun subscription_of :: "body \<Rightarrow> Subscription" where
  "subscription_of (BSubscription s) = s" | "subscription_of _ = zero_subscription"

fun operatorgroup_of :: "body \<Rightarrow> string list" where
  "operatorgroup_of (BOperatorGroup ns) = ns" | "operatorgroup_of _ = []"

fun csv_of :: "body \<Rightarrow> DeploymentSpecs" where
  "csv_of (BClusterServiceVersion ds) = ds" | "csv_of _ = []"

fun rules_of :: "body \<Rightarrow> RuleGroup list" where
  "rules_of (BPrometheusRule gs) = gs" | "rules_of _ = []"

fun forwarder_of :: "body \<Rightarrow> LogForwarderSpec" where
  "forwarder_of (BClusterLogForwarder f) = f" | "forwarder_of _ = zero_forwarder"

fun clusterversion_of :: "body \<Rightarrow> string \<times> string" where
  "clusterversion_of (BClusterVersion c v) = (c, v)" | "clusterversion_of _ = ([], [])"

fun infrastructure_of :: "body \<Rightarrow> string option" where
  "infrastructure_of (BInfrastructure p) = p" | "infrastructure_of _ = None"

text \<open>The custom resource as a stored object.\<close>

definition obs_obj :: "Observability \<Rightarrow> kobj" where
  "obs_obj cr = \<lparr>k_kind = KObservability, k_meta = o_meta cr, k_body = BObservability (o_spec cr) (o_status cr)\<rparr>"

fun obj_obs :: "kobj \<Rightarrow> Observability" where
  "obj_obs ob = (case k_body ob of
     BObservability sp st \<Rightarrow> \<lparr>o_meta = k_meta ob, o_spec = sp, o_status = st\<rparr>
   | _ \<Rightarrow> \<lparr>o_meta = k_meta ob, o_spec = zero_spec, o_status = zero_status\<rparr>)"

lemma obj_obs_obs_obj [simp]: "obj_obs (obs_obj cr) = cr"
  by (simp add: obs_obj_def)

section \<open>The environment\<close>

record ListOptions =
  lo_namespace :: string
  lo_labels :: smap

definition list_matches :: "kind \<Rightarrow> ListOptions \<Rightarrow> kobj \<Rightarrow> bool" where
  "list_matches kd lo ob \<longleftrightarrow>
     k_kind ob = kd
     \<and> (lo_namespace lo = [] \<or> ob_namespace ob = lo_namespace lo)
     \<and> (\<forall>(k, v) \<in> set (lo_labels lo). mlookup (ob_labels ob) k = Some v)"

record http_request =
  hr_url :: string
  hr_headers :: smap
  hr_ref :: "string option"

record http_response =
  hp_status :: int
  hp_statusLine :: string
  hp_body :: "goerr + string"

record URL =
  u_host :: string
  u_path :: string
  u_rest :: json

type_synonym 'w mutator = "kobj \<Rightarrow> 'w \<Rightarrow> ((goerr option \<times> kobj) \<times> 'w) option"

record 'w env =
  e_get :: "kind \<Rightarrow> string \<Rightarrow> string \<Rightarrow> 'w \<Rightarrow> (goerr + kobj) \<times> 'w"
  e_list :: "kind \<Rightarrow> ListOptions \<Rightarrow> 'w \<Rightarrow> (goerr + kobj list) \<times> 'w"
  e_create :: "kobj \<Rightarrow> 'w \<Rightarrow> goerr option \<times> 'w"
  e_update :: "kobj \<Rightarrow> 'w \<Rightarrow> (goerr + kobj) \<times> 'w"
  e_status_update :: "kobj \<Rightarrow> 'w \<Rightarrow> goerr option \<times> 'w"
  e_delete :: "kobj \<Rightarrow> 'w \<Rightarrow> goerr option \<times> 'w"
  e_create_or_update :: "kobj \<Rightarrow> 'w mutator \<Rightarrow> 'w \<Rightarrow> ((goerr option \<times> kobj option) \<times> 'w) option"
  e_http_get :: "http_request \<Rightarrow> 'w \<Rightarrow> (goerr + http_response) \<times> 'w"
  e_http_post :: "string \<Rightarrow> smap \<Rightarrow> 'w \<Rightarrow> (goerr + http_response) \<times> 'w"
  e_now :: "'w \<Rightarrow> int"
  e_random :: "nat \<Rightarrow> 'w \<Rightarrow> (goerr + string) \<times> 'w"
  e_inc_counter :: "string \<Rightarrow> smap \<Rightarrow> 'w \<Rightarrow> 'w"
  e_read_file :: "string \<Rightarrow> goerr + string"
  e_getenv :: "string \<Rightarrow> string"
  e_range :: "(string \<times> RepositoryInfo) list \<Rightarrow> (string \<times> RepositoryInfo) list"
  e_parse_uri :: "string \<Rightarrow> goerr + URL"
  e_parse_url :: "string \<Rightarrow> goerr + URL"
  e_uri_string :: "URL \<Rightarrow> string"
  e_request_url :: "http_request \<Rightarrow> string"
  e_path_join :: "string list \<Rightarrow> string"
  e_url_join :: "string \<Rightarrow> string \<Rightarrow> goerr + string"
  e_parse_quantity :: "string \<Rightarrow> goerr + string"
  e_parse_semver :: "string \<Rightarrow> goerr + string"
  e_parse_duration :: "string \<Rightarrow> goerr + int"
  e_sha256 :: "string \<Rightarrow> string"
  e_decode_index :: "string \<Rightarrow> goerr + RepositoryIndex"
  e_decode_federation :: "string \<Rightarrow> goerr + string list"
  e_decode_remote_write :: "string \<Rightarrow> goerr + RemoteWriteIndex"
  e_decode_object :: "kind \<Rightarrow> string \<Rightarrow> goerr + kobj"
  e_decode_dex :: "string \<Rightarrow> goerr + (string \<times> int)"
  e_encode_alertmanager :: "AlertmanagerConfigRoot \<Rightarrow> goerr + string"

text \<open>A mutate function without effects of its own, as most \<^verbatim>\<open>CreateOrUpdate\<close> calls pass.\<close>

definition pure_mutate :: "(kobj \<Rightarrow> kobj) \<Rightarrow> 'w mutator" where
  "pure_mutate g = (\<lambda>ob w. Some ((None, g ob), w))"

text \<open>
  \<^verbatim>\<open>controllerutil.CreateOrUpdate\<close> also gives the object as the call left it, \<open>None\<close> when the
  mutate function was never called; the panic of a mutate function is the call's panic.  The
  wrapper for a function without effects keeps only the error.
\<close>

definition CreateOrUpdate :: "'w env \<Rightarrow> kobj \<Rightarrow> (kobj \<Rightarrow> kobj) \<Rightarrow> 'w \<Rightarrow> (goerr option \<times> 'w) option" where
  "CreateOrUpdate E ob g w =
     (case e_create_or_update E ob (pure_mutate g) w of
        None \<Rightarrow> None
      | Some ((e, _), w') \<Rightarrow> Some (e, w'))"

section \<open>What the API server does to a stored object\<close>

text \<open>\<^verbatim>\<open>stringData\<close> of a secret is write-only: it is merged into \<^verbatim>\<open>data\<close>.\<close>

fun admit :: "body \<Rightarrow> body" where
  "admit (BSecret s) =
     BSecret (s\<lparr>sec_data := (case sec_stringData s of None \<Rightarrow> sec_data s
                             | Some sd \<Rightarrow> Some (mput_all sd (entries (sec_data s)))),
               sec_stringData := None\<rparr>)"
| "admit b = b"

definition gone :: "(okey \<Rightarrow> kobj option) \<Rightarrow> okey \<Rightarrow> bool" where
  "gone s k = (case s k of None \<Rightarrow> True | Some ob \<Rightarrow> m_deletionTimestamp (k_meta ob) \<noteq> None)"

text \<open>The finalizers and the deletion time of a stored object.\<close>

definition lifecycle_at :: "(okey \<Rightarrow> kobj option) \<Rightarrow> okey \<Rightarrow> (string list \<times> int option) option" where
  "lifecycle_at s k = map_option (\<lambda>ob. (m_finalizers (k_meta ob), m_deletionTimestamp (k_meta ob))) (s k)"

text \<open>The object \<^verbatim>\<open>CreateOrUpdate\<close> hands to the mutate function.\<close>

definition existing_or :: "(okey \<Rightarrow> kobj option) \<Rightarrow> kobj \<Rightarrow> kobj" where
  "existing_or s ob = (case s (key_of ob) of None \<Rightarrow> ob | Some cur \<Rightarrow> cur)"

text \<open>A mutate function that changes nothing on the server itself.\<close>

definition quiet :: "('w \<Rightarrow> okey \<Rightarrow> kobj option) \<Rightarrow> 'w mutator \<Rightarrow> bool" where
  "quiet look f \<longleftrightarrow> (\<forall>x v r v'. f x v = Some (r, v') \<longrightarrow> look v' = look v)"

lemma quiet_pure [simp]: "quiet look (pure_mutate g)"
  by (simp add: quiet_def pure_mutate_def)

text \<open>A mutate function that leaves one object of the server alone.\<close>

definition quiet_at :: "('w \<Rightarrow> okey \<Rightarrow> kobj option) \<Rightarrow> okey \<Rightarrow> 'w mutator \<Rightarrow> bool" where
  "quiet_at look k f \<longleftrightarrow> (\<forall>x v r v'. f x v = Some (r, v') \<longrightarrow> look v' k = look v k)"

lemma quiet_quiet_at: "quiet look f \<Longrightarrow> quiet_at look k f"
  unfolding quiet_def quiet_at_def by metis

section \<open>The client's contract\<close>

text \<open>
  \<open>look w\<close> is the content of the API server in world \<open>w\<close>.  A delete that is acknowledged
  leaves the object absent or terminating; reads change nothing; a write touches the object
  it names and no other; the status of an object is written apart from its metadata; an
  error classified \<^verbatim>\<open>NotFound\<close> means the object is absent.
\<close>

locale kube_client =
  fixes E :: "'w env"
    and look :: "'w \<Rightarrow> okey \<Rightarrow> kobj option"
  assumes look_key: "look w k = Some ob \<Longrightarrow> key_of ob = k"
    and get_frame: "e_get E kd ns nm w = (r, w') \<Longrightarrow> look w' = look w"
    and get_found: "e_get E kd ns nm w = (Inr ob, w') \<Longrightarrow> look w (kd, ns, nm) = Some ob"
    and get_notfound: "e_get E kd ns nm w = (Inl e, w') \<Longrightarrow> IsNotFound e \<Longrightarrow> look w (kd, ns, nm) = None"
    and list_frame: "e_list E kd lo w = (rl, w') \<Longrightarrow> look w' = look w"
    and list_items: "e_list E kd lo w = (Inr obs, w') \<Longrightarrow>
          set obs = {ob. look w (key_of ob) = Some ob \<and> list_matches kd lo ob}"
    and list_notfound: "e_list E kd lo w = (Inl e, w') \<Longrightarrow> IsNotFound e \<Longrightarrow>
          list_matches kd lo ob \<Longrightarrow> look w (key_of ob) \<noteq> Some ob"
    and create_frame: "e_create E ob w = (rc, w') \<Longrightarrow> k \<noteq> key_of ob \<Longrightarrow> look w' k = look w k"
    and create_stored: "e_create E ob w = (None, w') \<Longrightarrow>
          \<exists>o'. look w' (key_of ob) = Some o' \<and> k_body o' = admit (k_body ob) \<and> ob_labels o' = ob_labels ob"
    and update_frame: "e_update E ob w = (r, w') \<Longrightarrow> k \<noteq> key_of ob \<Longrightarrow> look w' k = look w k"
    and update_key: "e_update E ob w = (Inr ou, w') \<Longrightarrow> key_of ou = key_of ob"
    and update_stored: "e_update E ob w = (Inr ou, w') \<Longrightarrow> m_deletionTimestamp (k_meta ob) = None \<Longrightarrow>
          look w' (key_of ob) = Some ou \<and> m_finalizers (k_meta ou) = m_finalizers (k_meta ob)
          \<and> ob_labels ou = ob_labels ob"
    and update_released: "e_update E ob w = (Inr ou, w') \<Longrightarrow> look w (key_of ob) = Some cur \<Longrightarrow>
          m_deletionTimestamp (k_meta cur) = m_deletionTimestamp (k_meta ob) \<Longrightarrow>
          m_deletionTimestamp (k_meta ob) \<noteq> None \<Longrightarrow> m_finalizers (k_meta ob) = [] \<Longrightarrow> look w' (key_of ob) = None"
    and status_update_frame:
          "e_status_update E ob w = (rc, w') \<Longrightarrow> k \<noteq> key_of ob \<Longrightarrow> look w' k = look w k"
    and status_update_lifecycle: "e_status_update E ob w = (rc, w') \<Longrightarrow>
          lifecycle_at (look w') (key_of ob) = lifecycle_at (look w) (key_of ob)"
    and status_update_stored: "e_status_update E ob w = (None, w') \<Longrightarrow>
          \<exists>o'. look w' (key_of ob) = Some o' \<and> o_status (obj_obs o') = o_status (obj_obs ob)"
    and delete_frame: "e_delete E ob w = (rc, w') \<Longrightarrow> k \<noteq> key_of ob \<Longrightarrow> look w' k = look w k"
    and delete_acked: "e_delete E ob w = (None, w') \<Longrightarrow> gone (look w') (key_of ob)"
    and delete_notfound: "e_delete E ob w = (Some e, w') \<Longrightarrow> IsNotFound e \<Longrightarrow> look w' (key_of ob) = None"
    and delete_nomatch: "e_delete E ob w = (Some e, w') \<Longrightarrow> IsNoMatchError e \<Longrightarrow> look w' (key_of ob) = None"
    and delete_mono: "e_delete E ob w = (rc, w') \<Longrightarrow> gone (look w) (key_of ob) \<Longrightarrow> gone (look w') (key_of ob)"
    and apply_total: "\<exists>er rs w'. e_create_or_update E ob (pure_mutate g) w = Some ((er, rs), w')"
    and apply_frame_at: "e_create_or_update E ob f w = Some ((er, rs), w') \<Longrightarrow> quiet_at look k f \<Longrightarrow>
          k \<noteq> key_of ob \<Longrightarrow> look w' k = look w k"
    and apply_stored: "e_create_or_update E ob f w = Some ((None, rs), w') \<Longrightarrow> quiet look f \<Longrightarrow>
          \<exists>v o1 v'. look v = look w \<and> f (existing_or (look w) ob) v = Some ((None, o1), v')
            \<and> (m_deletionTimestamp (k_meta o1) = None \<longrightarrow>
                 (\<exists>o'. rs = Some o' \<and> look w' (key_of ob) = Some o'
                    \<and> k_body o' = admit (k_body o1) \<and> ob_labels o' = ob_labels o1))"
    and http_get_frame: "e_http_get E rq w = (rh, w') \<Longrightarrow> look w' = look w"
    and http_post_frame: "e_http_post E url form w = (rh, w') \<Longrightarrow> look w' = look w"
    and random_frame: "e_random E n w = (rn, w') \<Longrightarrow> look w' = look w"
    and inc_counter_frame: "look (e_inc_counter E nm ls w) = look w"
begin

lemma apply_frame:
  assumes "e_create_or_update E ob f w = Some ((er, rs), w')" and "quiet look f" and "k \<noteq> key_of ob"
  shows "look w' k = look w k"
  by (rule apply_frame_at [OF assms(1) quiet_quiet_at [OF assms(2)] assms(3)])

lemma delete_settled:
  assumes "e_delete E ob w = (r, w')" and "r = None \<or> (\<exists>e. r = Some e \<and> IsNotFound e)"
  shows "gone (look w') (key_of ob)"
  using assms delete_acked delete_notfound by (auto simp: gone_def)

lemma delete_keeps_gone:
  assumes "e_delete E ob w = (r, w')" and "gone (look w) k"
  shows "gone (look w') k"
  using assms delete_frame [OF assms(1), of k] delete_mono [OF assms(1)]
  by (cases "k = key_of ob") (auto simp: gone_def)

lemma CreateOrUpdate_total: "\<exists>e w'. CreateOrUpdate E ob g w = Some (e, w')"
  using apply_total [of ob g w] by (auto simp: CreateOrUpdate_def)

lemma CreateOrUpdate_frame:
  assumes "CreateOrUpdate E ob g w = Some (e, w')" and "k \<noteq> key_of ob"
  shows "look w' k = look w k"
  using assms apply_frame [of ob "pure_mutate g" w _ _ w' k]
  by (auto simp: CreateOrUpdate_def split: option.splits)

lemma CreateOrUpdate_stored:
  assumes "CreateOrUpdate E ob g w = Some (None, w')"
    and "m_deletionTimestamp (k_meta (g (existing_or (look w) ob))) = None"
  shows "\<exists>o'. look w' (key_of ob) = Some o'
     \<and> k_body o' = admit (k_body (g (existing_or (look w) ob)))
     \<and> ob_labels o' = ob_labels (g (existing_or (look w) ob))"
proof -
  from assms(1) obtain rs where "e_create_or_update E ob (pure_mutate g) w = Some ((None, rs), w')"
    by (auto simp: CreateOrUpdate_def split: option.splits)
  from apply_stored [OF this quiet_pure] assms(2) show ?thesis
    unfolding pure_mutate_def by auto
qed

end

end
