(* ===== verification/Obs_Model.thy ===== *)
theory Obs_Model
  imports Kube_Api
begin

text \<open>
  The package \<^verbatim>\<open>controllers/model\<close>: the names and namespaces of the objects the operator
  manages, the label selectors and versions resolved from the custom resource and the
  repository index, and the generated configuration texts.
\<close>

definition ObservabilityPriorityClassName :: string where
  "ObservabilityPriorityClassName = ''observability-operator-priority-class''"

abbreviation managed_label :: smap where
  "managed_label \<equiv> [(''managed-by'', ''observability-operator'')]"

section \<open>prometheus_resources.go\<close>

definition PrometheusVersion :: string where
  "PrometheusVersion = ''v2.36.2''"

definition PrometheusDefaultStorage :: string where
  "PrometheusDefaultStorage = ''250Gi''"

definition PrometheusOldDefaultName :: string where
  "PrometheusOldDefaultName = ''kafka-prometheus''"

definition defaultPrometheusLabelSelectors :: smap where
  "defaultPrometheusLabelSelectors = [(''app'', ''strimzi'')]"

definition GetPrometheusNamespace :: "Observability \<Rightarrow> kobj" where
  "GetPrometheusNamespace cr = named_obj KNamespace [] (GetPrometheusOperatorNamespace cr)"

definition GetDefaultNamePrometheus :: "Observability \<Rightarrow> string" where
  "GetDefaultNamePrometheus cr =
     (if sp_SelfContained (o_spec cr) \<noteq> None \<and> sp_PrometheusDefaultName (o_spec cr) \<noteq> []
      then sp_PrometheusDefaultName (o_spec cr) else ''obs-prometheus'')"

definition GetPrometheusAuthTokenLifetimes :: "Observability \<Rightarrow> kobj" where
  "GetPrometheusAuthTokenLifetimes cr =
     named_obj KConfigMap (o_namespace cr) ''observatorium-token-lifetimes''"

definition GetPrometheusOperatorgroup :: "Observability \<Rightarrow> kobj" where
  "GetPrometheusOperatorgroup cr =
     named_obj KOperatorGroup (GetPrometheusOperatorNamespace cr) ''observability-operatorgroup''"

definition GetPrometheusSubscription :: "Observability \<Rightarrow> kobj" where
  "GetPrometheusSubscription cr =
     named_obj KSubscription (GetPrometheusOperatorNamespace cr) ''prometheus-subscription''"

definition GetPrometheusCatalogSource :: "Observability \<Rightarrow> kobj" where
  "GetPrometheusCatalogSource cr =
     named_obj KCatalogSource (GetPrometheusOperatorNamespace cr) ''prometheus-catalogsource''"

definition GetPrometheusProxySecret :: "Observability \<Rightarrow> kobj" where
  "GetPrometheusProxySecret cr =
     named_obj KSecret (GetPrometheusOperatorNamespace cr) ''prometheus-proxy''"

definition GetPrometheusTLSSecret :: "Observability \<Rightarrow> kobj" where
  "GetPrometheusTLSSecret cr =
     named_obj KSecret (GetPrometheusOperatorNamespace cr) ''prometheus-k8s-tls''"

definition GetPrometheusRoute :: "Observability \<Rightarrow> kobj" where
  "GetPrometheusRoute cr =
     named_obj KRoute (GetPrometheusOperatorNamespace cr) (GetDefaultNamePrometheus cr)"

text \<open>The JSON value of the OAuth redirect annotation, which names a route.\<close>

definition oauth_redirect :: "string \<Rightarrow> string" where
  "oauth_redirect route =
     ''{\"kind\":\"OAuthRedirectReference\",\"apiVersion\":\"v1\",\"reference\":{\"kind\":\"Route\",\"name\":\"''
     @ route @ ''\"}}''"

abbreviation redirect_annotation :: string where
  "redirect_annotation \<equiv> ''serviceaccounts.openshift.io/oauth-redirectreference.primary''"

definition GetPrometheusServiceAccount :: "Observability \<Rightarrow> kobj" where
  "GetPrometheusServiceAccount cr =
     set_annotations (Some [(redirect_annotation, oauth_redirect (ob_name (GetPrometheusRoute cr)))])
       (named_obj KServiceAccount (GetPrometheusOperatorNamespace cr) (GetDefaultNamePrometheus cr))"

definition GetPrometheusService :: "Observability \<Rightarrow> kobj" where
  "GetPrometheusService cr =
     named_obj KService (GetPrometheusOperatorNamespace cr) (GetDefaultNamePrometheus cr)"

definition GetPrometheusClusterRole :: "Observability \<Rightarrow> kobj" where
  "GetPrometheusClusterRole cr = named_obj KClusterRole [] (GetDefaultNamePrometheus cr)"

definition GetPrometheusClusterRoleBinding :: "Observability \<Rightarrow> kobj" where
  "GetPrometheusClusterRoleBinding cr = named_obj KClusterRoleBinding [] (GetDefaultNamePrometheus cr)"

definition GetFederationConfigBearerToken :: "string list \<Rightarrow> string" where
  "GetFederationConfigBearerToken patterns =
     newline
     @ text_lines [
       ''- job_name: openshift-monitoring-federation'',
       ''  honor_labels: true'',
       ''  kubernetes_sd_configs:'',
       ''    - role: service'',
       ''      namespaces:'',
       ''        names:'',
       ''          - openshift-monitoring'',
       ''  scrape_interval: 120s'',
       ''  scrape_timeout: 60s'',
       ''  metrics_path: /federate'',
       ''  relabel_configs:'',
       ''    - action: keep'',
       ''      source_labels: [ '' @ [CHR 0x27] @ ''__meta_kubernetes_service_name'' @ [CHR 0x27] @ '' ]'',
       ''      regex: prometheus-k8s'',
       ''    - action: keep'',
       ''      source_labels: [ '' @ [CHR 0x27] @ ''__meta_kubernetes_service_port_name'' @ [CHR 0x27] @ '' ]'',
       ''      regex: web'',
       ''  params:'',
       ''    match[]: ['' @ Join patterns '','' @ '']'',
       ''  scheme: https'',
       ''  bearer_token_file: \"/var/run/secrets/kubernetes.io/serviceaccount/token\"'',
       ''  tls_config:'',
       ''    insecure_skip_verify: true'']"

definition GetPrometheusAdditionalScrapeConfig :: "Observability \<Rightarrow> kobj" where
  "GetPrometheusAdditionalScrapeConfig cr =
     named_obj KSecret (GetPrometheusOperatorNamespace cr) ''additional-scrape-configs''"

definition GetPrometheusBlackBoxConfig :: "Observability \<Rightarrow> kobj" where
  "GetPrometheusBlackBoxConfig cr =
     set_labels (Some managed_label)
       (named_obj KConfigMap (GetPrometheusOperatorNamespace cr) ''black-box-config'')"

definition GetBlackboxBearerToken :: "'w env \<Rightarrow> Observability \<Rightarrow> 'w \<Rightarrow> (bool \<times> string) \<times> 'w" where
  "GetBlackboxBearerToken E cr w =
     (case HasBlackboxBearerTokenSecret cr of
        (True, secretName) \<Rightarrow>
          (case e_get E KSecret (o_namespace cr) secretName w of
             (Inl err, w1) \<Rightarrow> ((False, []), w1)
           | (Inr secret, w1) \<Rightarrow> ((True, mget (sec_data (secret_of (k_body secret))) ''token''), w1))
      | (False, _) \<Rightarrow> ((False, []), w))"

definition blackbox_tls :: "bool \<Rightarrow> string" where
  "blackbox_tls selfSigned =
     (if selfSigned then
        newline @ Join [
          ''      tls_config:'',
          ''        ca_file: /var/run/secrets/kubernetes.io/serviceaccount/ca.crt'',
          ''        cert_file: /etc/tls/private/tls.crt'',
          ''        key_file: /etc/tls/private/tls.key''] newline
      else [])"

definition blackbox_text :: "bool \<Rightarrow> bool \<Rightarrow> string \<Rightarrow> string" where
  "blackbox_text selfSigned hasToken token =
     text_lines [
       ''modules:'',
       ''  http_extern_2xx:'',
       ''    prober: http'',
       ''    http:'',
       ''      preferred_ip_protocol: ip4'',
       ''  http_2xx:'',
       ''    prober: http'',
       ''    http:'',
       ''      preferred_ip_protocol: ip4'' @ blackbox_tls selfSigned
         @ (if hasToken then newline @ ''      bearer_token: '' @ HtmlEscape token else []),
       ''  http_post_2xx:'',
       ''    prober: http'',
       ''    http:'',
       ''      method: POST'']
     @ ''      preferred_ip_protocol: ip4'' @ blackbox_tls selfSigned"

definition GetDefaultBlackBoxConfig :: "'w env \<Rightarrow> Observability \<Rightarrow> 'w \<Rightarrow> (string \<times> string) \<times> 'w" where
  "GetDefaultBlackBoxConfig E cr w =
     (case GetBlackboxBearerToken E cr w of
        ((hasToken, token), w1) \<Rightarrow>
          let buffer = blackbox_text (SelfSignedCerts cr) hasToken token
          in ((buffer, e_sha256 E buffer), w1))"

definition GetPrometheus :: "Observability \<Rightarrow> kobj" where
  "GetPrometheus cr =
     named_obj KPrometheus (GetPrometheusOperatorNamespace cr) (GetDefaultNamePrometheus cr)"

definition GetDeadmansSwitch :: "Observability \<Rightarrow> kobj" where
  "GetDeadmansSwitch cr =
     named_obj KPrometheusRule (GetPrometheusOperatorNamespace cr) ''generated-deadmansswitch''"

definition getPrometheusRepositoryIndexConfig :: "RepositoryIndex list \<Rightarrow> PrometheusIndex option" where
  "getPrometheusRepositoryIndexConfig indexes =
     (case indexes of
        ix # _ \<Rightarrow> (case ix_Config ix of
                    Some c \<Rightarrow> rc_Prometheus c
                  | None \<Rightarrow> Some zero_prometheus_index)
      | [] \<Rightarrow> Some zero_prometheus_index)"

text \<open>
  The common shape of the eight selector functions: the custom resource wins, the override
  flag alone selects everything, then the first repository index, then the default.
\<close>

definition resolve_selector ::
  "(SelfContained \<Rightarrow> LabelSelector option) \<Rightarrow> (PrometheusIndex \<Rightarrow> LabelSelector option)
    \<Rightarrow> LabelSelector option \<Rightarrow> Observability \<Rightarrow> RepositoryIndex list \<Rightarrow> LabelSelector option" where
  "resolve_selector fromCr fromIndex dflt cr indexes =
     (case Option.bind (sp_SelfContained (o_spec cr)) fromCr of
        Some sel \<Rightarrow> Some sel
      | None \<Rightarrow>
          if OverrideSelectors cr then Some zero_selector
          else (case Option.bind (getPrometheusRepositoryIndexConfig indexes) fromIndex of
                  Some sel \<Rightarrow> Some sel
                | None \<Rightarrow> dflt))"

definition GetPrometheusPodMonitorLabelSelectors :: "Observability \<Rightarrow> RepositoryIndex list \<Rightarrow> LabelSelector option" where
  "GetPrometheusPodMonitorLabelSelectors =
     resolve_selector sc_PodMonitorLabelSelector pi_PodMonitorLabelSelector
       (Some (match_labels defaultPrometheusLabelSelectors))"

definition GetPrometheusServiceMonitorLabelSelectors :: "Observability \<Rightarrow> RepositoryIndex list \<Rightarrow> LabelSelector option" where
  "GetPrometheusServiceMonitorLabelSelectors =
     resolve_selector sc_ServiceMonitorLabelSelector pi_ServiceMonitorLabelSelector
       (Some (match_labels defaultPrometheusLabelSelectors))"

definition GetPrometheusRuleLabelSelectors :: "Observability \<Rightarrow> RepositoryIndex list \<Rightarrow> LabelSelector option" where
  "GetPrometheusRuleLabelSelectors =
     resolve_selector sc_RuleLabelSelector pi_RuleLabelSelector
       (Some (match_labels defaultPrometheusLabelSelectors))"

definition GetProbeLabelSelectors :: "Observability \<Rightarrow> RepositoryIndex list \<Rightarrow> LabelSelector option" where
  "GetProbeLabelSelectors =
     resolve_selector sc_ProbeLabelSelector pi_ProbeLabelSelector
       (Some (match_labels defaultPrometheusLabelSelectors))"

definition GetPrometheusPodMonitorNamespaceSelectors :: "Observability \<Rightarrow> RepositoryIndex list \<Rightarrow> LabelSelector option" where
  "GetPrometheusPodMonitorNamespaceSelectors =
     resolve_selector sc_PodMonitorNamespaceSelector pi_PodMonitorNamespaceSelector None"

definition GetPrometheusServiceMonitorNamespaceSelectors :: "Observability \<Rightarrow> RepositoryIndex list \<Rightarrow> LabelSelector option" where
  "GetPrometheusServiceMonitorNamespaceSelectors =
     resolve_selector sc_ServiceMonitorNamespaceSelector pi_ServiceMonitorNamespaceSelector None"

definition GetPrometheusRuleNamespaceSelectors :: "Observability \<Rightarrow> RepositoryIndex list \<Rightarrow> LabelSelector option" where
  "GetPrometheusRuleNamespaceSelectors =
     resolve_selector sc_RuleNamespaceSelector pi_RuleNamespaceSelector None"

definition GetProbeNamespaceSelectors :: "Observability \<Rightarrow> RepositoryIndex list \<Rightarrow> LabelSelector option" where
  "GetProbeNamespaceSelectors =
     resolve_selector sc_ProbeNamespaceSelector pi_ProbeNamespaceSelector None"

definition GetPrometheusVersion :: "Observability \<Rightarrow> string" where
  "GetPrometheusVersion cr =
     (case sp_SelfContained (o_spec cr) of
        Some sc \<Rightarrow> if sc_PrometheusVersion sc \<noteq> [] then sc_PrometheusVersion sc else PrometheusVersion
      | None \<Rightarrow> PrometheusVersion)"

definition resources_or_zero ::
  "(SelfContained \<Rightarrow> ResourceRequirements option) \<Rightarrow> Observability \<Rightarrow> ResourceRequirements" where
  "resources_or_zero f cr =
     (case Option.bind (sp_SelfContained (o_spec cr)) f of Some r \<Rightarrow> r | None \<Rightarrow> zero_resources)"

definition GetPrometheusResourceRequirement :: "Observability \<Rightarrow> ResourceRequirements" where
  "GetPrometheusResourceRequirement = resources_or_zero sc_PrometheusResourceRequirement"

definition GetPrometheusOperatorResourceRequirement :: "Observability \<Rightarrow> ResourceRequirements" where
  "GetPrometheusOperatorResourceRequirement = resources_or_zero sc_PrometheusOperatorResourceRequirement"

text \<open>\<^verbatim>\<open>ResourceList.Storage().String()\<close>: a missing entry is the zero quantity.\<close>

definition storage_quantity :: "gomap \<Rightarrow> string" where
  "storage_quantity m = (case mlookup m ''storage'' of Some q \<Rightarrow> q | None \<Rightarrow> ''0'')"

definition GetPrometheusStorageSize :: "Observability \<Rightarrow> RepositoryIndex list \<Rightarrow> string" where
  "GetPrometheusStorageSize cr indexes =
     (let fromCr =
            (case (sp_SelfContained (o_spec cr), Option.bind (sp_Storage (o_spec cr)) sg_PrometheusStorageSpec) of
               (Some _, Some ss) \<Rightarrow>
                 if ss_requests ss \<noteq> None then storage_quantity (ss_requests ss)
                 else PrometheusDefaultStorage
             | _ \<Rightarrow> PrometheusDefaultStorage)
      in case getPrometheusRepositoryIndexConfig indexes of
           Some p \<Rightarrow> if pi_OverridePrometheusPvcSize p \<noteq> [] then pi_OverridePrometheusPvcSize p else fromCr
         | None \<Rightarrow> fromCr)"

section \<open>alertmanager_resources.go\<close>

definition AlertManagerOldDefaultName :: string where
  "AlertManagerOldDefaultName = ''kafka-alertmanager''"

definition GetDefaultNameAlertmanager :: "Observability \<Rightarrow> string" where
  "GetDefaultNameAlertmanager cr =
     (if sp_SelfContained (o_spec cr) \<noteq> None \<and> sp_AlertManagerDefaultName (o_spec cr) \<noteq> []
      then sp_AlertManagerDefaultName (o_spec cr) else ''obs-alertmanager'')"

definition GetAlertmanagerProxySecret :: "Observability \<Rightarrow> kobj" where
  "GetAlertmanagerProxySecret cr =
     named_obj KSecret (GetPrometheusOperatorNamespace cr) ''alertmanager-proxy''"

definition GetAlertmanagerTLSSecret :: "Observability \<Rightarrow> kobj" where
  "GetAlertmanagerTLSSecret cr =
     named_obj KSecret (GetPrometheusOperatorNamespace cr) ''alertmanager-k8s-tls''"

definition GetAlertmanagerRoute :: "Observability \<Rightarrow> kobj" where
  "GetAlertmanagerRoute cr =
     named_obj KRoute (GetPrometheusOperatorNamespace cr) (GetDefaultNameAlertmanager cr)"

definition GetAlertmanagerServiceAccount :: "Observability \<Rightarrow> kobj" where
  "GetAlertmanagerServiceAccount cr =
     set_annotations (Some [(redirect_annotation, oauth_redirect (ob_name (GetAlertmanagerRoute cr)))])
       (named_obj KServiceAccount (GetPrometheusOperatorNamespace cr) (GetDefaultNameAlertmanager cr))"

definition GetAlertmanagerClusterRole :: "Observability \<Rightarrow> kobj" where
  "GetAlertmanagerClusterRole cr = named_obj KClusterRole [] (GetDefaultNameAlertmanager cr)"

definition GetAlertmanagerClusterRoleBinding :: "Observability \<Rightarrow> kobj" where
  "GetAlertmanagerClusterRoleBinding cr = named_obj KClusterRoleBinding [] (GetDefaultNameAlertmanager cr)"

definition GetAlertmanagerCr :: "Observability \<Rightarrow> kobj" where
  "GetAlertmanagerCr cr =
     named_obj KAlertmanager (GetPrometheusOperatorNamespace cr) (GetDefaultNameAlertmanager cr)"

definition GetAlertmanagerSecret :: "Observability \<Rightarrow> kobj" where
  "GetAlertmanagerSecret cr =
     named_obj KSecret (GetPrometheusOperatorNamespace cr)
       (''alertmanager-'' @ ob_name (GetAlertmanagerCr cr))"

definition GetAlertmanagerSecretName :: "Observability \<Rightarrow> string" where
  "GetAlertmanagerSecretName cr =
     (case HasAlertmanagerConfigSecret cr of
        (True, name) \<Rightarrow> name
      | (False, _) \<Rightarrow> ob_name (GetAlertmanagerSecret cr))"

definition GetAlertmanagerService :: "Observability \<Rightarrow> kobj" where
  "GetAlertmanagerService cr =
     named_obj KService (GetPrometheusOperatorNamespace cr) (GetDefaultNameAlertmanager cr)"

definition GetAlertmanagerVersion :: "Observability \<Rightarrow> string" where
  "GetAlertmanagerVersion cr =
     (case sp_SelfContained (o_spec cr) of
        Some sc \<Rightarrow> if sc_AlertManagerVersion sc \<noteq> [] then sc_AlertManagerVersion sc else []
      | None \<Rightarrow> [])"

definition GetAlertmanagerResourceRequirement :: "Observability \<Rightarrow> ResourceRequirements" where
  "GetAlertmanagerResourceRequirement = resources_or_zero sc_AlertManagerResourceRequirement"

definition getAlertmanagerRepositoryIndexConfig :: "RepositoryIndex list \<Rightarrow> AlertmanagerIndex option" where
  "getAlertmanagerRepositoryIndexConfig indexes =
     (case indexes of
        ix # _ \<Rightarrow> (case ix_Config ix of
                    Some c \<Rightarrow> rc_Alertmanager c
                  | None \<Rightarrow> Some zero_alertmanager_index)
      | [] \<Rightarrow> Some zero_alertmanager_index)"

definition GetAlertmanagerStorageSize :: "Observability \<Rightarrow> RepositoryIndex list \<Rightarrow> string" where
  "GetAlertmanagerStorageSize cr indexes =
     (let fromCr =
            (case Option.bind (sp_Storage (o_spec cr)) sg_AlertManagerStorageSpec of
               Some ss \<Rightarrow> if ss_requests ss \<noteq> None then storage_quantity (ss_requests ss) else []
             | None \<Rightarrow> [])
      in case getAlertmanagerRepositoryIndexConfig indexes of
           Some a \<Rightarrow> if ai_OverrideAlertmanagerPvcSize a \<noteq> [] then ai_OverrideAlertmanagerPvcSize a else fromCr
         | None \<Rightarrow> fromCr)"

section \<open>grafana_resources.go\<close>

definition GrafanaOldDefaultName :: string where
  "GrafanaOldDefaultName = ''kafka-grafana''"

definition GrafanaDefaultInitImage :: string where
  "GrafanaDefaultInitImage = ''quay.io/grafana-operator/grafana_plugins_init:0.1.0''"

definition defaultGrafanaLabelSelectors :: smap where
  "defaultGrafanaLabelSelectors = [(''app'', ''strimzi'')]"

definition GetDefaultNameGrafana :: "Observability \<Rightarrow> string" where
  "GetDefaultNameGrafana cr =
     (if sp_SelfContained (o_spec cr) \<noteq> None \<and> sp_GrafanaDefaultName (o_spec cr) \<noteq> []
      then sp_GrafanaDefaultName (o_spec cr) else ''obs-grafana'')"

definition GetGrafanaCatalogSource :: "Observability \<Rightarrow> kobj" where
  "GetGrafanaCatalogSource cr = named_obj KCatalogSource (o_namespace cr) ''grafana-operator-catalog-source''"

definition GetGrafanaSubscription :: "Observability \<Rightarrow> kobj" where
  "GetGrafanaSubscription cr = named_obj KSubscription (o_namespace cr) ''grafana-subscription''"

definition GetGrafanaOperatorGroup :: "Observability \<Rightarrow> kobj" where
  "GetGrafanaOperatorGroup cr = named_obj KOperatorGroup (o_namespace cr) ''observability-operatorgroup''"

definition GetGrafanaProxySecret :: "Observability \<Rightarrow> kobj" where
  "GetGrafanaProxySecret cr = named_obj KSecret (o_namespace cr) ''grafana-k8s-proxy''"

definition GetGrafanaClusterRole :: "Observability \<Rightarrow> kobj" where
  "GetGrafanaClusterRole cr = named_obj KClusterRole [] ''grafana-oauth-proxy-cluster-role''"

definition GetGrafanaClusterRoleBinding :: "Observability \<Rightarrow> kobj" where
  "GetGrafanaClusterRoleBinding cr =
     named_obj KClusterRoleBinding [] ''cluster-grafana-oauth-proxy-cluster-role-binding''"

definition GetGrafanaCr :: "Observability \<Rightarrow> kobj" where
  "GetGrafanaCr cr = named_obj KGrafana (o_namespace cr) (GetDefaultNameGrafana cr)"

definition GetGrafanaDatasource :: "Observability \<Rightarrow> kobj" where
  "GetGrafanaDatasource cr = named_obj KGrafanaDataSource (o_namespace cr) ''on-cluster-prometheus''"

definition GetGrafanaDashboardLabelSelectors :: "Observability \<Rightarrow> RepositoryIndex list \<Rightarrow> LabelSelector" where
  "GetGrafanaDashboardLabelSelectors cr indexes =
     (case Option.bind (sp_SelfContained (o_spec cr)) sc_GrafanaDashboardLabelSelector of
        Some sel \<Rightarrow> sel
      | None \<Rightarrow>
          (case indexes of
             [] \<Rightarrow> match_labels defaultGrafanaLabelSelectors
           | ix # _ \<Rightarrow>
               (case Option.bind (Option.bind (ix_Config ix) rc_Grafana) gi_DashboardLabelSelector of
                  Some sel \<Rightarrow> sel
                | None \<Rightarrow> match_labels defaultGrafanaLabelSelectors)))"

definition GetGrafanaResourceRequirement :: "Observability \<Rightarrow> ResourceRequirements" where
  "GetGrafanaResourceRequirement = resources_or_zero sc_GrafanaResourceRequirement"

text \<open>\<open>None\<close>: the nil dereference of \<^verbatim>\<open>config.Grafana\<close> when the index has no Grafana section.\<close>

definition GetGrafanaVersion :: "RepositoryIndex list \<Rightarrow> Observability \<Rightarrow> string option" where
  "GetGrafanaVersion indexes cr =
     (let fromCr = (case sp_SelfContained (o_spec cr) of
                      Some sc \<Rightarrow> if sc_GrafanaVersion sc \<noteq> [] then sc_GrafanaVersion sc else []
                    | None \<Rightarrow> [])
      in case indexes of
           [] \<Rightarrow> Some fromCr
         | ix # _ \<Rightarrow>
             (case ix_Config ix of
                None \<Rightarrow> Some fromCr
              | Some config \<Rightarrow>
                  (case rc_Grafana config of
                     None \<Rightarrow> None
                   | Some g \<Rightarrow> if gi_GrafanaVersion g \<noteq> [] then Some (gi_GrafanaVersion g) else Some fromCr)))"

definition GetGrafanaOperatorResourceRequirement :: "Observability \<Rightarrow> ResourceRequirements" where
  "GetGrafanaOperatorResourceRequirement = resources_or_zero sc_GrafanaOperatorResourceRequirement"

definition GetGrafanaInitImage :: "Observability \<Rightarrow> string" where
  "GetGrafanaInitImage cr =
     (case sp_SelfContained (o_spec cr) of
        Some sc \<Rightarrow> if sc_GrafanaInitImage sc \<noteq> [] then sc_GrafanaInitImage sc else GrafanaDefaultInitImage
      | None \<Rightarrow> GrafanaDefaultInitImage)"

section \<open>token_refresher_resources.go, token_resources.go, configuration_resources.go\<close>

datatype TokenRefresherType = MetricsTokenRefresher | LogsTokenRefresher

fun refresher_string :: "TokenRefresherType \<Rightarrow> string" where
  "refresher_string MetricsTokenRefresher = ''metrics''"
| "refresher_string LogsTokenRefresher = ''logs''"

record TokenRefresherConfigSet =
  tr_ObservatoriumUrl :: string
  tr_AuthUrl :: string
  tr_Name :: string
  tr_Realm :: string
  tr_Client :: string
  tr_Tenant :: string
  tr_Secret :: string
  tr_Type :: TokenRefresherType

definition GetTokenRefresherName :: "string \<Rightarrow> TokenRefresherType \<Rightarrow> string" where
  "GetTokenRefresherName ident t = ''token-refresher-'' @ refresher_string t @ ''-'' @ ident"

definition GetTokenRefresherService :: "Observability \<Rightarrow> string \<Rightarrow> kobj" where
  "GetTokenRefresherService cr name = named_obj KService (GetPrometheusOperatorNamespace cr) name"

definition GetTokenRefresherDeployment :: "Observability \<Rightarrow> string \<Rightarrow> kobj" where
  "GetTokenRefresherDeployment cr name = named_obj KDeployment (GetPrometheusOperatorNamespace cr) name"

definition GetTokenRefresherNetworkPolicy :: "Observability \<Rightarrow> string \<Rightarrow> kobj" where
  "GetTokenRefresherNetworkPolicy cr name =
     named_obj KNetworkPolicy (GetPrometheusOperatorNamespace cr) (name @ ''-network-policy'')"

definition token_secret_labels :: smap where
  "token_secret_labels = [(''managed-by'', ''observability-operator''), (''purpose'', ''observatorium-token-secret'')]"

definition GetTokenSecret :: "Observability \<Rightarrow> string \<Rightarrow> kobj" where
  "GetTokenSecret cr name = set_labels (Some token_secret_labels) (named_obj KSecret (o_namespace cr) name)"

definition GetResourcesDefaultName :: "Observability \<Rightarrow> string" where
  "GetResourcesDefaultName cr = ''obs-resources''"

definition GetResourcesService :: "Observability \<Rightarrow> kobj" where
  "GetResourcesService cr = named_obj KService (o_namespace cr) (GetResourcesDefaultName cr)"

definition GetResourcesDeployment :: "Observability \<Rightarrow> kobj" where
  "GetResourcesDeployment cr = named_obj KDeployment (o_namespace cr) (GetResourcesDefaultName cr)"

definition GetResourcesRoute :: "Observability \<Rightarrow> kobj" where
  "GetResourcesRoute cr = named_obj KRoute (o_namespace cr) ''observability-resources-route''"

section \<open>logging_resources.go\<close>

abbreviation logging_label :: smap where
  "logging_label \<equiv> [(''app.kubernetes.io/managed-by'', ''observability-operator'')]"

definition GetLoggingSubscription :: "Observability \<Rightarrow> kobj" where
  "GetLoggingSubscription cr =
     set_labels (Some logging_label) (named_obj KSubscription ''openshift-logging'' ''cluster-logging'')"

definition GetClusterLoggingCR :: kobj where
  "GetClusterLoggingCR =
     set_body (BClusterLogging
       \<lparr>cl_managementState = ''Managed'', cl_collectionType = ''fluentd'',
        cl_resources = \<lparr>rr_limits = Some [], rr_requests = Some [(''memory'', ''736Mi'')]\<rparr>,
        cl_tolerations = [(''bf2.org/kafkaInstanceProfileType'', ''Exists'', ''NoExecute'')]\<rparr>)
       (set_labels (Some logging_label) (named_obj KClusterLogging ''openshift-logging'' ''instance''))"

definition GetClusterLogForwarderCR :: kobj where
  "GetClusterLogForwarderCR = named_obj KClusterLogForwarder ''openshift-logging'' ''instance''"

section \<open>promtail_resources.go\<close>

definition PromtailOldDefaultName :: string where
  "PromtailOldDefaultName = ''kafka-promtail''"

definition PromtailDefaultName :: string where
  "PromtailDefaultName = ''obs-promtail''"

definition GetPromtailConfigmap :: "Observability \<Rightarrow> string \<Rightarrow> kobj" where
  "GetPromtailConfigmap cr name =
     set_labels (Some managed_label) (named_obj KConfigMap (o_namespace cr) (''promtail-config-'' @ name))"

definition GetPromtailDaemonSet :: "Observability \<Rightarrow> string \<Rightarrow> kobj" where
  "GetPromtailDaemonSet cr name =
     set_labels (Some managed_label) (named_obj KDaemonSet (o_namespace cr) (''promtail-'' @ name))"

definition GetPromtailServiceAccount :: "Observability \<Rightarrow> kobj" where
  "GetPromtailServiceAccount cr = named_obj KServiceAccount (o_namespace cr) PromtailDefaultName"

definition GetPromtailClusterRole :: "Observability \<Rightarrow> kobj" where
  "GetPromtailClusterRole cr = named_obj KClusterRole [] PromtailDefaultName"

definition GetPromtailClusterRoleBinding :: "Observability \<Rightarrow> kobj" where
  "GetPromtailClusterRoleBinding cr = named_obj KClusterRoleBinding [] PromtailDefaultName"

definition promtail_text :: "string \<Rightarrow> bool \<Rightarrow> string \<Rightarrow> string \<Rightarrow> string \<Rightarrow> string" where
  "promtail_text url requireToken clusterId observabilityId namespaces =
     newline
     @ text_lines [
       ''server:'',
       ''  http_listen_port: 9080'',
       ''  http_listen_address: 0.0.0.0'',
       ''clients:'',
       ''  - url: '' @ url
         @ (if requireToken then newline @ ''    bearer_token_file: /opt/secrets/token'' else []),
       ''    external_labels:'',
       ''      cluster_id: \"'' @ clusterId @ ''\"'',
       ''      observability_id: \"'' @ observabilityId @ ''\"'',
       ''    tls_config:'',
       ''      insecure_skip_verify: true'',
       ''scrape_configs:'',
       ''  - job_name: \"strimzi\"'',
       ''    relabel_configs:'',
       ''    - source_labels:'',
       ''      - __meta_kubernetes_pod_node_name'',
       ''      target_label: __host__'',
       ''    - action: replace'',
       ''      source_labels:'',
       ''      - __meta_kubernetes_pod_node_name'',
       ''      target_label: nodename'',
       ''    - action: replace'',
       ''      source_labels:'',
       ''      - __meta_kubernetes_namespace'',
       ''      target_label: namespace'',
       ''    - action: replace'',
       ''      source_labels:'',
       ''      - __meta_kubernetes_pod_name'',
       ''      target_label: instance'',
       ''    - action: replace'',
       ''      source_labels:'',
       ''      - __meta_kubernetes_pod_container_name'',
       ''      target_label: container_name'',
       ''    - action: labelmap'',
       ''      regex: __meta_kubernetes_pod_label_strimzi_io_(.+)'',
       ''      replacement: strimzi_io_$1'',
       ''    - replacement: /var/log/pods/*$1/*.log'',
       ''      separator: /'',
       ''      source_labels:'',
       ''      - __meta_kubernetes_pod_uid'',
       ''      - __meta_kubernetes_pod_container_name'',
       ''      target_label: __path__'',
       ''    kubernetes_sd_configs:'',
       ''      - role: \"pod\"'',
       ''        namespaces:'',
       ''          names: ['' @ namespaces @ '']'']"

text \<open>The address and the token mode of the log endpoint, or the error of an unusable index.\<close>

definition promtail_target :: "Observability \<Rightarrow> ObservatoriumIndex option \<Rightarrow> goerr + (string \<times> bool)" where
  "promtail_target cr c =
     (case c of
        None \<Rightarrow> Inr ([], False)
      | Some c' \<Rightarrow>
          if \<not> IsValid c' then Inl (New (''invalid observatorium config for '' @ oi_Id c'))
          else (case oi_AuthType c' of
                  AuthTypeDex \<Rightarrow>
                    Inr (oi_Gateway c' @ ''/api/logs/v1/'' @ oi_Tenant c' @ ''/loki/api/v1/push'', True)
                | AuthTypeRedhat \<Rightarrow>
                    (case oi_RedhatSsoConfig c' of
                       Some sso \<Rightarrow>
                         if HasLogs sso
                         then Inr (''http://'' @ GetTokenRefresherName (oi_Id c') LogsTokenRefresher
                                   @ ''.'' @ o_namespace cr @ ''.svc.cluster.local'', False)
                         else Inl (New (''invalid sso config for '' @ oi_Id c'))
                     | None \<Rightarrow> Inl (New (''invalid sso config for '' @ oi_Id c')))
                | AuthType _ \<Rightarrow> Inr ([], False)))"

definition GetPromtailConfig ::
  "Observability \<Rightarrow> ObservatoriumIndex option \<Rightarrow> string \<Rightarrow> string list \<Rightarrow> goerr + string" where
  "GetPromtailConfig cr c indexId namespaces =
     (case promtail_target cr c of
        Inl e \<Rightarrow> Inl e
      | Inr (url, requireToken) \<Rightarrow>
          Inr (promtail_text url requireToken (st_ClusterID (o_status cr)) indexId
                 (Join (sort namespaces) '','')))"

definition GetPromtailDaemonSetLabels :: "RepositoryIndex \<Rightarrow> LabelSelector" where
  "GetPromtailDaemonSetLabels index =
     (case Option.bind (Option.bind (ix_Config index) rc_Promtail) pt_DaemonSetLabelSelector of
        Some sel \<Rightarrow> sel
      | None \<Rightarrow> match_labels [(''app'', ''promtail'')])"

lemmas model_obj_defs =
  GetPrometheusNamespace_def GetPrometheusAuthTokenLifetimes_def GetPrometheusOperatorgroup_def
  GetPrometheusSubscription_def GetPrometheusCatalogSource_def GetPrometheusProxySecret_def
  GetPrometheusTLSSecret_def GetPrometheusRoute_def GetPrometheusServiceAccount_def
  GetPrometheusService_def GetPrometheusClusterRole_def GetPrometheusClusterRoleBinding_def
  GetPrometheusAdditionalScrapeConfig_def GetPrometheusBlackBoxConfig_def GetPrometheus_def
  GetDeadmansSwitch_def GetAlertmanagerProxySecret_def GetAlertmanagerTLSSecret_def
  GetAlertmanagerRoute_def GetAlertmanagerServiceAccount_def GetAlertmanagerClusterRole_def
  GetAlertmanagerClusterRoleBinding_def GetAlertmanagerCr_def GetAlertmanagerSecret_def
  GetAlertmanagerService_def GetGrafanaCatalogSource_def GetGrafanaSubscription_def
  GetGrafanaOperatorGroup_def GetGrafanaProxySecret_def GetGrafanaClusterRole_def
  GetGrafanaClusterRoleBinding_def GetGrafanaCr_def GetGrafanaDatasource_def
  GetTokenRefresherService_def GetTokenRefresherDeployment_def GetTokenRefresherNetworkPolicy_def
  GetTokenSecret_def GetResourcesService_def GetResourcesDeployment_def GetResourcesRoute_def
  GetLoggingSubscription_def GetClusterLoggingCR_def GetClusterLogForwarderCR_def
  GetPromtailConfigmap_def GetPromtailDaemonSet_def GetPromtailServiceAccount_def
  GetPromtailClusterRole_def GetPromtailClusterRoleBinding_def

lemmas obj_upd_defs = named_obj_def set_labels_def set_annotations_def set_name_def
  set_namespace_def set_body_def key_of_def zero_meta_def

end
