(* ===== verification/Obs_Utils.thy ===== *)
theory Obs_Utils
  imports Obs_Model
begin

text \<open>
  The packages \<^verbatim>\<open>controllers/utils\<close> and \<^verbatim>\<open>controllers/metrics\<close>: cluster identity, readiness
  tests, random strings, the waits for an operand's workload to disappear, and the counters.
\<close>

abbreviation in_namespace :: "string \<Rightarrow> ListOptions" where
  "in_namespace ns \<equiv> \<lparr>lo_namespace = ns, lo_labels = []\<rparr>"

definition GetClusterId :: "'w env \<Rightarrow> 'w \<Rightarrow> (goerr + string) \<times> 'w" where
  "GetClusterId E w =
     (case e_get E KClusterVersion [] ''version'' w of
        (Inl err, w1) \<Rightarrow> (Inl err, w1)
      | (Inr v, w1) \<Rightarrow> (Inr (fst (clusterversion_of (k_body v))), w1))"

definition GetClusterOSVersion :: "'w env \<Rightarrow> 'w \<Rightarrow> (goerr + string) \<times> 'w" where
  "GetClusterOSVersion E w =
     (case e_get E KClusterVersion [] ''version'' w of
        (Inl err, w1) \<Rightarrow> (Inl err, w1)
      | (Inr v, w1) \<Rightarrow> (Inr (snd (clusterversion_of (k_body v))), w1))"

definition HasOperatorGroupForNamespace :: "'w env \<Rightarrow> string \<Rightarrow> 'w \<Rightarrow> (goerr + bool) \<times> 'w" where
  "HasOperatorGroupForNamespace E ns w =
     (case e_list E KOperatorGroup (in_namespace ns) w of
        (Inl err, w1) \<Rightarrow> (Inl err, w1)
      | (Inr items, w1) \<Rightarrow>
          (Inr (list_ex (\<lambda>group. list_ex (\<lambda>n. n = ns) (operatorgroup_of (k_body group))) items), w1))"

text \<open>A pointer to the object; \<open>None\<close> is nil.\<close>

definition IsRouteReady :: "Route option \<Rightarrow> bool" where
  "IsRouteReady route =
     (case route of
        None \<Rightarrow> False
      | Some r \<Rightarrow>
          list_all (\<lambda>conditions. list_all (\<lambda>(ty, st). \<not> (ty = ''Admitted'' \<and> st \<noteq> ''True'')) conditions)
            (rt_ingress r))"

definition IsServiceReady :: "Service option \<Rightarrow> bool" where
  "IsServiceReady service =
     (case service of
        None \<Rightarrow> False
      | Some s \<Rightarrow> list_all (\<lambda>(ty, st). \<not> (ty = ''Ready'' \<and> st \<noteq> ''True'')) (svc_conditions s))"

text \<open>\<open>None\<close>: the panic on a failing random source.\<close>

definition GenerateRandomBytes :: "'w env \<Rightarrow> nat \<Rightarrow> 'w \<Rightarrow> (string \<times> 'w) option" where
  "GenerateRandomBytes E n w =
     (case e_random E n w of
        (Inl err, w1) \<Rightarrow> None
      | (Inr b, w1) \<Rightarrow> Some (b, w1))"

definition GenerateRandomString :: "'w env \<Rightarrow> nat \<Rightarrow> 'w \<Rightarrow> (string \<times> 'w) option" where
  "GenerateRandomString E s w =
     (case GenerateRandomBytes E s w of
        None \<Rightarrow> None
      | Some (b, w1) \<Rightarrow> Some (base64url b, w1))"

text \<open>\<open>err := List; if err != nil && !IsNotFound(err)\<close>: a missing kind lists as empty.\<close>

definition list_or_empty :: "'w env \<Rightarrow> kind \<Rightarrow> ListOptions \<Rightarrow> 'w \<Rightarrow> (goerr + kobj list) \<times> 'w" where
  "list_or_empty E kd lo w =
     (case e_list E kd lo w of
        (Inl err, w1) \<Rightarrow> (if IsNotFound err then (Inr [], w1) else (Inl err, w1))
      | (Inr items, w1) \<Rightarrow> (Inr items, w1))"

definition wait_removed ::
  "'w env \<Rightarrow> kind \<Rightarrow> string \<Rightarrow> string \<Rightarrow> 'w \<Rightarrow> (ObservabilityStageStatus \<times> goerr option) \<times> 'w" where
  "wait_removed E kd ns name w =
     (case list_or_empty E kd (in_namespace ns) w of
        (Inl err, w1) \<Rightarrow> ((ResultFailed, Some err), w1)
      | (Inr items, w1) \<Rightarrow>
          if list_ex (\<lambda>ss. ob_name ss = name) items then ((ResultInProgress, None), w1)
          else ((ResultSuccess, None), w1))"

definition WaitForGrafanaToBeRemoved ::
  "'w env \<Rightarrow> Observability \<Rightarrow> 'w \<Rightarrow> (ObservabilityStageStatus \<times> goerr option) \<times> 'w" where
  "WaitForGrafanaToBeRemoved E cr w = wait_removed E KDeployment (o_namespace cr) ''grafana-deployment'' w"

definition WaitForAlertmanagerToBeRemoved ::
  "'w env \<Rightarrow> Observability \<Rightarrow> 'w \<Rightarrow> (ObservabilityStageStatus \<times> goerr option) \<times> 'w" where
  "WaitForAlertmanagerToBeRemoved E cr w =
     wait_removed E KStatefulSet (o_namespace cr) (''alertmanager-'' @ ob_name (GetAlertmanagerCr cr)) w"

definition WaitForPrometheusToBeRemoved ::
  "'w env \<Rightarrow> Observability \<Rightarrow> 'w \<Rightarrow> (ObservabilityStageStatus \<times> goerr option) \<times> 'w" where
  "WaitForPrometheusToBeRemoved E cr w =
     wait_removed E KStatefulSet (o_namespace cr) (''prometheus-'' @ ob_name (GetPrometheus cr)) w"

definition RunningLocally :: "'w env \<Rightarrow> bool" where
  "RunningLocally E =
     (case e_read_file E ''/var/run/secrets/kubernetes.io/serviceaccount/namespace'' of
        Inl err \<Rightarrow> IsNotExist err
      | Inr _ \<Rightarrow> False)"

section \<open>metrics.go\<close>

definition IncreaseTotalReconciliationsMetric :: "'w env \<Rightarrow> ObservabilityStageName \<Rightarrow> 'w \<Rightarrow> 'w" where
  "IncreaseTotalReconciliationsMetric E stage =
     e_inc_counter E ''observability_operator_reconciler_total_count'' [(''stage'', stage_string stage)]"

definition IncreaseFailedReconciliationsMetric :: "'w env \<Rightarrow> ObservabilityStageName \<Rightarrow> 'w \<Rightarrow> 'w" where
  "IncreaseFailedReconciliationsMetric E stage =
     e_inc_counter E ''observability_operator_reconciler_failure_count'' [(''stage'', stage_string stage)]"

definition IncreaseSuccessfulConfigurationSyncsMetric :: "'w env \<Rightarrow> 'w \<Rightarrow> 'w" where
  "IncreaseSuccessfulConfigurationSyncsMetric E =
     e_inc_counter E ''observability_operator_configuration_syncs_total_count'' []"

definition IncreaseFailedConfigurationSyncsMetric :: "'w env \<Rightarrow> 'w \<Rightarrow> 'w" where
  "IncreaseFailedConfigurationSyncsMetric E =
     e_inc_counter E ''observability_operator_configuration_sync_failure_count'' []"

end
