(* ===== verification/Kube_Mem.thy ===== *)
theory Kube_Mem
  imports Kube_Api "HOL-Library.Code_Target_Nat"
begin

text \<open>
  An in-memory API server, the counterpart of the fake client of the operator's own tests,
  with a script of faults to inject: every client call first consumes one entry of the
  script and fails when it holds a message.  It gives the contract \<open>kube_client\<close> a model on
  which every operation of the development can be evaluated.  The fields of the environment
  that are not the client's are left to the argument \<open>base\<close>.
\<close>

record mem =
  mw_store :: "kobj list"
  mw_faults :: "string option list"
  mw_now :: int
  mw_http :: "(string \<times> http_response) list"
  mw_counters :: "((string \<times> smap) \<times> nat) list"

definition mem_look :: "mem \<Rightarrow> okey \<Rightarrow> kobj option" where
  "mem_look w k = find (\<lambda>ob. key_of ob = k) (mw_store w)"

definition mem_remove :: "okey \<Rightarrow> mem \<Rightarrow> mem" where
  "mem_remove k w = w\<lparr>mw_store := filter (\<lambda>x. key_of x \<noteq> k) (mw_store w)\<rparr>"

definition mem_put :: "kobj \<Rightarrow> mem \<Rightarrow> mem" where
  "mem_put ob w = w\<lparr>mw_store := ob # filter (\<lambda>x. key_of x \<noteq> key_of ob) (mw_store w)\<rparr>"

definition take_fault :: "mem \<Rightarrow> goerr option \<times> mem" where
  "take_fault w =
     (case mw_faults w of
        [] \<Rightarrow> (None, w)
      | f # fs \<Rightarrow> (map_option New f, w\<lparr>mw_faults := fs\<rparr>))"

definition not_found :: goerr where
  "not_found = GoErr NotFound ''not found''"

definition mem_get :: "kind \<Rightarrow> string \<Rightarrow> string \<Rightarrow> mem \<Rightarrow> (goerr + kobj) \<times> mem" where
  "mem_get kd ns nm w =
     (case take_fault w of
        (Some e, w1) \<Rightarrow> (Inl e, w1)
      | (None, w1) \<Rightarrow> (case mem_look w1 (kd, ns, nm) of
                         None \<Rightarrow> (Inl not_found, w1)
                       | Some ob \<Rightarrow> (Inr ob, w1)))"

definition mem_list :: "kind \<Rightarrow> ListOptions \<Rightarrow> mem \<Rightarrow> (goerr + kobj list) \<times> mem" where
  "mem_list kd lo w =
     (case take_fault w of
        (Some e, w1) \<Rightarrow> (Inl e, w1)
      | (None, w1) \<Rightarrow>
          (Inr (filter (\<lambda>ob. mem_look w1 (key_of ob) = Some ob \<and> list_matches kd lo ob) (mw_store w1)), w1))"

definition mem_create :: "kobj \<Rightarrow> mem \<Rightarrow> goerr option \<times> mem" where
  "mem_create ob w =
     (case take_fault w of
        (Some e, w1) \<Rightarrow> (Some e, w1)
      | (None, w1) \<Rightarrow> (case mem_look w1 (key_of ob) of
                         Some _ \<Rightarrow> (Some (GoErr AlreadyExists ''already exists''), w1)
                       | None \<Rightarrow> (None, mem_put (set_body (admit (k_body ob)) ob) w1)))"

definition mem_update :: "kobj \<Rightarrow> mem \<Rightarrow> (goerr + kobj) \<times> mem" where
  "mem_update ob w =
     (case take_fault w of
        (Some e, w1) \<Rightarrow> (Inl e, w1)
      | (None, w1) \<Rightarrow> (case mem_look w1 (key_of ob) of
                         None \<Rightarrow> (Inl not_found, w1)
                       | Some _ \<Rightarrow>
                           let ob' = set_body (admit (k_body ob)) ob in
                           if m_deletionTimestamp (k_meta ob) \<noteq> None \<and> m_finalizers (k_meta ob) = []
                           then (Inr ob', mem_remove (key_of ob) w1)
                           else (Inr ob', mem_put ob' w1)))"

fun with_status :: "body \<Rightarrow> body \<Rightarrow> body" where
  "with_status (BObservability sp st) (BObservability sp' st') = BObservability sp st'"
| "with_status b b' = b'"

definition mem_status_update :: "kobj \<Rightarrow> mem \<Rightarrow> goerr option \<times> mem" where
  "mem_status_update ob w =
     (case take_fault w of
        (Some e, w1) \<Rightarrow> (Some e, w1)
      | (None, w1) \<Rightarrow> (case mem_look w1 (key_of ob) of
                         None \<Rightarrow> (Some not_found, w1)
                       | Some cur \<Rightarrow> (None, mem_put (set_body (with_status (k_body cur) (k_body ob)) cur) w1)))"

definition mem_delete :: "kobj \<Rightarrow> mem \<Rightarrow> goerr option \<times> mem" where
  "mem_delete ob w =
     (case take_fault w of
        (Some e, w1) \<Rightarrow> (Some e, w1)
      | (None, w1) \<Rightarrow> (case mem_look w1 (key_of ob) of
                         None \<Rightarrow> (Some not_found, w1)
                       | Some cur \<Rightarrow>
                           if m_finalizers (k_meta cur) = [] then (None, mem_remove (key_of ob) w1)
                           else (None, mem_put (cur\<lparr>k_meta := (k_meta cur)\<lparr>m_deletionTimestamp := Some (mw_now w1)\<rparr>\<rparr>) w1)))"

definition mem_apply :: "kobj \<Rightarrow> mem mutator \<Rightarrow> mem \<Rightarrow> ((goerr option \<times> kobj option) \<times> mem) option" where
  "mem_apply ob f w =
     (case mem_get (k_kind ob) (ob_namespace ob) (ob_name ob) w of
        (Inl e, w1) \<Rightarrow>
          if IsNotFound e then
            (case f ob w1 of
               None \<Rightarrow> None
             | Some ((Some fe, o1), w2) \<Rightarrow> Some ((Some fe, Some o1), w2)
             | Some ((None, o1), w2) \<Rightarrow>
                 if key_of o1 \<noteq> key_of ob
                 then Some ((Some (New ''MutateFn cannot mutate object name and/or object namespace''), Some o1), w2)
                 else (case mem_create o1 w2 of
                         (Some e2, w3) \<Rightarrow> Some ((Some e2, Some o1), w3)
                       | (None, w3) \<Rightarrow> Some ((None, Some (set_body (admit (k_body o1)) o1)), w3)))
          else Some ((Some e, None), w1)
      | (Inr cur, w1) \<Rightarrow>
          (case f cur w1 of
             None \<Rightarrow> None
           | Some ((Some fe, o1), w2) \<Rightarrow> Some ((Some fe, Some o1), w2)
           | Some ((None, o1), w2) \<Rightarrow>
               if key_of o1 \<noteq> key_of ob
               then Some ((Some (New ''MutateFn cannot mutate object name and/or object namespace''), Some o1), w2)
               else (case mem_update o1 w2 of
                       (Inl e2, w3) \<Rightarrow> Some ((Some e2, Some o1), w3)
                     | (Inr o2, w3) \<Rightarrow> Some ((None, Some o2), w3))))"

definition mem_http_get :: "http_request \<Rightarrow> mem \<Rightarrow> (goerr + http_response) \<times> mem" where
  "mem_http_get rq w =
     (case map_of (mw_http w) (hr_url rq) of
        None \<Rightarrow> (Inl (New ''connection refused''), w)
      | Some rs \<Rightarrow> (Inr rs, w))"

definition mem_http_post :: "string \<Rightarrow> smap \<Rightarrow> mem \<Rightarrow> (goerr + http_response) \<times> mem" where
  "mem_http_post url form w =
     (case map_of (mw_http w) url of
        None \<Rightarrow> (Inl (New ''connection refused''), w)
      | Some rs \<Rightarrow> (Inr rs, w))"

definition mem_random :: "nat \<Rightarrow> mem \<Rightarrow> (goerr + string) \<times> mem" where
  "mem_random n w =
     (case take_fault w of
        (Some e, w1) \<Rightarrow> (Inl e, w1)
      | (None, w1) \<Rightarrow> (Inr (replicate n CHR 0x2A), w1))"

definition mem_inc_counter :: "string \<Rightarrow> smap \<Rightarrow> mem \<Rightarrow> mem" where
  "mem_inc_counter nm ls w =
     w\<lparr>mw_counters := AList.update (nm, ls)
         (Suc (case map_of (mw_counters w) (nm, ls) of None \<Rightarrow> 0 | Some n \<Rightarrow> n)) (mw_counters w)\<rparr>"

definition mem_env :: "mem env \<Rightarrow> mem env" where
  "mem_env base = base\<lparr>
     e_get := mem_get, e_list := mem_list, e_create := mem_create, e_update := mem_update,
     e_status_update := mem_status_update, e_delete := mem_delete,
     e_create_or_update := mem_apply, e_http_get := mem_http_get,
     e_http_post := mem_http_post, e_random := mem_random, e_inc_counter := mem_inc_counter,
     e_now := mw_now\<rparr>"

definition sample_observatorium :: ObservatoriumIndex where
  "sample_observatorium =
     \<lparr>oi_Id = ''a'', oi_SecretName = [], oi_Gateway = ''gw'', oi_Tenant = ''t'', oi_AuthType = AuthTypeDex,
      oi_DexConfig = None, oi_RedhatSsoConfig = None\<rparr>"

definition sample_config :: RepositoryConfig where
  "sample_config =
     \<lparr>rc_Grafana = Some \<lparr>gi_Dashboards = [], gi_DashboardLabelSelector = None, gi_GrafanaVersion = ''9.0.9''\<rparr>,
      rc_Prometheus = Some (zero_prometheus_index\<lparr>pi_Observatorium := ''a''\<rparr>),
      rc_Alertmanager = Some zero_alertmanager_index,
      rc_Promtail = Some \<lparr>pt_Enabled = True, pt_NamespaceLabelSelector = None, pt_Observatorium = ''a'',
                          pt_DaemonSetLabelSelector = None\<rparr>,
      rc_Observatoria = Some [sample_observatorium]\<rparr>"

definition sample_index :: "string \<Rightarrow> RepositoryConfig \<Rightarrow> RepositoryIndex" where
  "sample_index ident config =
     \<lparr>ix_BaseUrl = ''http://repo'', ix_AccessToken = [], ix_Tag = [], ix_Source = None, ix_Id = ident,
      ix_Config = Some config\<rparr>"

definition sample_remote_write :: RemoteWriteIndex where
  "sample_remote_write = \<lparr>wi_QueueConfig = None, wi_RemoteTimeout = ''30s'', wi_ProxyUrl = [], wi_WriteRelabelConfigs = []\<rparr>"

text \<open>
  A concrete environment on this server, on which operations are evaluated: an operator
  outside a cluster for which every document is an index with the document as its identifier,
  and whose quantities and versions are taken as they are.
\<close>

definition sample_env :: "mem env" where
  "sample_env = \<lparr>
     e_get = mem_get, e_list = mem_list, e_create = mem_create, e_update = mem_update,
     e_status_update = mem_status_update, e_delete = mem_delete, e_create_or_update = mem_apply,
     e_http_get = mem_http_get, e_http_post = mem_http_post, e_now = mw_now, e_random = mem_random,
     e_inc_counter = mem_inc_counter,
     e_read_file = (\<lambda>_. Inl (GoErr NotExist ''no such file'')),
     e_getenv = (\<lambda>_. ''ops''),
     e_range = (\<lambda>repos. repos),
     e_parse_uri = (\<lambda>s. Inr \<lparr>u_host = s, u_path = [], u_rest = JNull\<rparr>),
     e_parse_url = (\<lambda>s. Inr \<lparr>u_host = s, u_path = [], u_rest = JNull\<rparr>),
     e_uri_string = (\<lambda>u. u_host u @ u_path u),
     e_request_url = hr_url,
     e_path_join = concat,
     e_url_join = (\<lambda>a b. Inr (a @ b)),
     e_parse_quantity = Inr, e_parse_semver = Inr,
     e_parse_duration = (\<lambda>_. Inr (3600 * 10 ^ 9)),
     e_sha256 = (\<lambda>_. ''hash''),
     e_decode_index = (\<lambda>s. Inr (sample_index s sample_config)),
     e_decode_federation = (\<lambda>s. Inr [s]),
     e_decode_remote_write = (\<lambda>_. Inr sample_remote_write),
     e_decode_object = (\<lambda>kd s. Inr \<lparr>k_kind = kd, k_meta = zero_meta, k_body = NoBody\<rparr>),
     e_decode_dex = (\<lambda>_. Inl (New ''no document'')),
     e_encode_alertmanager = (\<lambda>_. Inr ''config'')\<rparr>"

definition sample_world :: "kobj list \<Rightarrow> mem" where
  "sample_world obs = \<lparr>mw_store = obs, mw_faults = [], mw_now = 10 ^ 18, mw_http = [], mw_counters = []\<rparr>"

definition sample_cr :: Observability where
  "sample_cr = \<lparr>o_meta = zero_meta\<lparr>m_name := ''obs'', m_namespace := ''ops''\<rparr>,
     o_spec = zero_spec\<lparr>sp_SelfContained := Some zero_selfcontained\<rparr>, o_status = zero_status\<rparr>"

definition sample_secret :: "string \<Rightarrow> smap \<Rightarrow> kobj" where
  "sample_secret nm dat =
     \<lparr>k_kind = KSecret, k_meta = zero_meta\<lparr>m_name := nm, m_namespace := ''ops''\<rparr>,
      k_body = BSecret \<lparr>sec_type = [], sec_data = Some dat, sec_stringData = None\<rparr>\<rparr>"

text \<open>The results of runs, as tests that can be evaluated.\<close>

definition returned :: "'a option \<Rightarrow> ('a \<Rightarrow> bool) \<Rightarrow> bool" where
  "returned m P = (case m of None \<Rightarrow> False | Some y \<Rightarrow> P y)"

definition succeeded :: "((goerr + 'a) \<times> 'w) option \<Rightarrow> ('a \<Rightarrow> 'w \<Rightarrow> bool) \<Rightarrow> bool" where
  "succeeded m P = (case m of Some (Inr x, w) \<Rightarrow> P x w | _ \<Rightarrow> False)"

lemma returned_iff: "returned m P \<longleftrightarrow> (\<exists>y. m = Some y \<and> P y)"
  by (auto simp: returned_def split: option.splits)

lemma succeeded_iff: "succeeded m P \<longleftrightarrow> (\<exists>x w. m = Some (Inr x, w) \<and> P x w)"
  by (auto simp: succeeded_def split: option.splits prod.splits sum.splits)

section \<open>The server keeps the client's contract\<close>

lemma take_fault_look:
  assumes "take_fault w = (r, w1)"
  shows "mem_look w1 = mem_look w"
    and "\<And>e. r = Some e \<Longrightarrow> \<not> IsNotFound e"
  using assms
  by (auto simp: take_fault_def mem_look_def fun_eq_iff IsNotFound_def split: list.splits)

lemma mem_look_key: "mem_look w k = Some ob \<Longrightarrow> key_of ob = k"
  by (auto simp: mem_look_def find_Some_iff)

lemma mem_look_in_store: "mem_look w k = Some ob \<Longrightarrow> ob \<in> set (mw_store w)"
  by (auto simp: mem_look_def find_Some_iff)

lemma find_filter_key:
  "k \<noteq> k' \<Longrightarrow>
     find (\<lambda>ob. key_of ob = k) (filter (\<lambda>x. key_of x \<noteq> k') xs) = find (\<lambda>ob. key_of ob = k) xs"
  by (induction xs) auto

lemma mem_look_put [simp]:
  "mem_look (mem_put ob w) k = (if k = key_of ob then Some ob else mem_look w k)"
  by (auto simp: mem_look_def mem_put_def find_filter_key)

lemma mem_look_remove [simp]:
  "mem_look (mem_remove k' w) k = (if k = k' then None else mem_look w k)"
  by (auto simp: mem_look_def mem_remove_def find_filter_key find_None_iff)

lemma not_found_IsNotFound [simp]: "IsNotFound not_found"
  by (simp add: not_found_def IsNotFound_def)

lemmas mem_defs = mem_get_def mem_list_def mem_create_def mem_update_def mem_status_update_def
  mem_delete_def

lemma mem_get_cases:
  assumes "mem_get kd ns nm w = (r, w')"
  obtains (fault) e where "r = Inl e" "\<not> IsNotFound e" "mem_look w' = mem_look w"
  | (missing) "r = Inl not_found" "mem_look w' = mem_look w" "mem_look w (kd, ns, nm) = None"
  | (found) ob where "r = Inr ob" "mem_look w' = mem_look w" "mem_look w (kd, ns, nm) = Some ob"
  using assms take_fault_look [of w "fst (take_fault w)" "snd (take_fault w)"]
  by (auto simp: mem_get_def split: prod.splits option.splits)

lemma mem_create_frame:
  "mem_create ob w = (r, w') \<Longrightarrow> k \<noteq> key_of ob \<Longrightarrow> mem_look w' k = mem_look w k"
  using take_fault_look [of w "fst (take_fault w)" "snd (take_fault w)"]
  by (auto simp: mem_create_def split: prod.splits option.splits)

lemma mem_create_stored:
  "mem_create ob w = (None, w') \<Longrightarrow> mem_look w' (key_of ob) = Some (set_body (admit (k_body ob)) ob)"
  by (auto simp: mem_create_def split: prod.splits option.splits)

lemma mem_update_frame:
  "mem_update ob w = (r, w') \<Longrightarrow> k \<noteq> key_of ob \<Longrightarrow> mem_look w' k = mem_look w k"
  using take_fault_look [of w "fst (take_fault w)" "snd (take_fault w)"]
  by (auto simp: mem_update_def Let_def split: prod.splits option.splits if_splits)

lemma mem_update_stored:
  "mem_update ob w = (Inr o', w') \<Longrightarrow> m_deletionTimestamp (k_meta ob) = None \<Longrightarrow>
     o' = set_body (admit (k_body ob)) ob \<and> mem_look w' (key_of ob) = Some o'"
  by (auto simp: mem_update_def Let_def split: prod.splits option.splits if_splits)

lemma mem_apply_pure_total: "\<exists>e rs w'. mem_apply ob (pure_mutate g) w = Some ((e, rs), w')"
  by (auto simp: mem_apply_def pure_mutate_def split: prod.splits sum.splits option.splits)

lemma mem_apply_frame:
  assumes "mem_apply ob f w = Some ((e, rs), w')" and "quiet_at mem_look k f" and "k \<noteq> key_of ob"
  shows "mem_look w' k = mem_look w k"
proof -
  have q: "f x v = Some (y, v') \<Longrightarrow> mem_look v' k = mem_look v k" for x v y v'
    using assms(2) unfolding quiet_at_def by blast
  obtain r w1 where r: "mem_get (k_kind ob) (ob_namespace ob) (ob_name ob) w = (r, w1)"
    by fastforce
  then show ?thesis
  proof (cases rule: mem_get_cases)
    case fault
    with assms r show ?thesis by (simp add: mem_apply_def)
  next
    case missing
    with assms r show ?thesis
      by (auto simp: mem_apply_def split: if_splits prod.splits option.splits dest: q)
        (metis mem_create_frame q)+
  next
    case found
    with assms r show ?thesis
      by (auto simp: mem_apply_def split: if_splits prod.splits sum.splits option.splits dest: q)
        (metis mem_update_frame q)+
  qed
qed

lemma mem_apply_stored:
  assumes "mem_apply ob f w = Some ((None, rs), w')" and "quiet mem_look f"
  shows "\<exists>v o1 v'. mem_look v = mem_look w \<and> f (existing_or (mem_look w) ob) v = Some ((None, o1), v')
     \<and> (m_deletionTimestamp (k_meta o1) = None \<longrightarrow>
          (\<exists>o'. rs = Some o' \<and> mem_look w' (key_of ob) = Some o'
             \<and> k_body o' = admit (k_body o1) \<and> ob_labels o' = ob_labels o1))"
proof -
  obtain r w1 where r: "mem_get (k_kind ob) (ob_namespace ob) (ob_name ob) w = (r, w1)"
    by fastforce
  then show ?thesis
  proof (cases rule: mem_get_cases)
    case fault
    with assms r show ?thesis by (simp add: mem_apply_def)
  next
    case missing
    then have ex: "existing_or (mem_look w) ob = ob" by (simp add: existing_or_def key_of_def)
    from missing assms(1) r obtain o1 w2 w3 where
      o1: "f ob w1 = Some ((None, o1), w2)" "key_of o1 = key_of ob" "mem_create o1 w2 = (None, w3)"
        "rs = Some (set_body (admit (k_body o1)) o1)" "w' = w3"
      by (auto simp: mem_apply_def split: if_splits prod.splits option.splits)
    with missing ex mem_create_stored [OF o1(3)] show ?thesis
      by (intro exI [of _ w1] exI [of _ o1] exI [of _ w2]) (simp add: set_body_def)
  next
    case (found cur)
    then have ex: "existing_or (mem_look w) ob = cur" by (simp add: existing_or_def key_of_def)
    from found assms(1) r obtain o1 w2 w3 o2 where
      o1: "f cur w1 = Some ((None, o1), w2)" "key_of o1 = key_of ob" "mem_update o1 w2 = (Inr o2, w3)"
        "rs = Some o2" "w' = w3"
      by (auto simp: mem_apply_def split: if_splits prod.splits sum.splits option.splits)
    with found ex mem_update_stored [OF o1(3)] show ?thesis
      by (intro exI [of _ w1] exI [of _ o1] exI [of _ w2]) (auto simp: set_body_def)
  qed
qed

lemma mem_get_frame: "mem_get kd ns nm w = (r, w') \<Longrightarrow> mem_look w' = mem_look w"
  by (erule mem_get_cases) simp_all

lemma mem_get_found: "mem_get kd ns nm w = (Inr ob, w') \<Longrightarrow> mem_look w (kd, ns, nm) = Some ob"
  by (erule mem_get_cases) simp_all

lemma mem_get_notfound:
  "mem_get kd ns nm w = (Inl e, w') \<Longrightarrow> IsNotFound e \<Longrightarrow> mem_look w (kd, ns, nm) = None"
  by (erule mem_get_cases) simp_all

lemma mem_list_frame: "mem_list kd lo w = (r, w') \<Longrightarrow> mem_look w' = mem_look w"
  using take_fault_look [of w "fst (take_fault w)" "snd (take_fault w)"]
  by (auto simp: mem_list_def split: prod.splits option.splits)

lemma mem_list_items:
  "mem_list kd lo w = (Inr obs, w') \<Longrightarrow>
     set obs = {ob. mem_look w (key_of ob) = Some ob \<and> list_matches kd lo ob}"
  using take_fault_look(1) [of w "fst (take_fault w)" "snd (take_fault w)"]
  by (auto simp: mem_list_def split: prod.splits option.splits)
    (metis mem_look_in_store)

lemma mem_list_notfound: "mem_list kd lo w = (Inl e, w') \<Longrightarrow> IsNotFound e \<Longrightarrow>
    list_matches kd lo ob \<Longrightarrow> mem_look w (key_of ob) \<noteq> Some ob"
  using take_fault_look(2) [of w "fst (take_fault w)" "snd (take_fault w)"]
  by (auto simp: mem_list_def split: prod.splits option.splits)

lemma mem_update_key: "mem_update ob w = (Inr o', w') \<Longrightarrow> key_of o' = key_of ob"
  by (auto simp: mem_update_def Let_def split: prod.splits option.splits if_splits)

lemma mem_status_update_frame:
  "mem_status_update ob w = (r, w') \<Longrightarrow> k \<noteq> key_of ob \<Longrightarrow> mem_look w' k = mem_look w k"
  using take_fault_look [of w "fst (take_fault w)" "snd (take_fault w)"]
  by (auto simp: mem_status_update_def split: prod.splits option.splits dest: mem_look_key)

lemma mem_update_kept: "mem_update ob w = (Inr o', w') \<Longrightarrow> m_deletionTimestamp (k_meta ob) = None \<Longrightarrow>
    mem_look w' (key_of ob) = Some o' \<and> m_finalizers (k_meta o') = m_finalizers (k_meta ob)
    \<and> ob_labels o' = ob_labels ob"
  by (auto simp: set_body_def dest!: mem_update_stored)

lemma mem_update_released:
  "mem_update ob w = (Inr o', w') \<Longrightarrow> m_deletionTimestamp (k_meta ob) \<noteq> None \<Longrightarrow> m_finalizers (k_meta ob) = [] \<Longrightarrow>
     mem_look w' (key_of ob) = None"
  by (auto simp: mem_update_def Let_def split: prod.splits option.splits if_splits)

lemma mem_status_update_lifecycle:
  "mem_status_update ob w = (r, w') \<Longrightarrow>
     lifecycle_at (mem_look w') (key_of ob) = lifecycle_at (mem_look w) (key_of ob)"
  using take_fault_look(1) [of w "fst (take_fault w)" "snd (take_fault w)"]
  by (auto simp: mem_status_update_def lifecycle_at_def set_body_def [of _ "_ :: kobj"]
      split: prod.splits option.splits dest: mem_look_key)

lemma mem_create_kept: "mem_create ob w = (None, w') \<Longrightarrow>
    \<exists>o'. mem_look w' (key_of ob) = Some o' \<and> k_body o' = admit (k_body ob) \<and> ob_labels o' = ob_labels ob"
  by (drule mem_create_stored) (simp add: set_body_def)

lemma with_status_status:
  "o_status (obj_obs (set_body (with_status b (k_body ob)) cur)) = o_status (obj_obs ob)"
  by (cases "k_body ob"; cases b) (simp_all add: set_body_def)

lemma mem_status_update_stored: "mem_status_update ob w = (None, w') \<Longrightarrow>
    \<exists>o'. mem_look w' (key_of ob) = Some o' \<and> o_status (obj_obs o') = o_status (obj_obs ob)"
  by (auto simp: mem_status_update_def with_status_status simp del: obj_obs.simps
      split: prod.splits option.splits dest: mem_look_key)

lemma key_of_meta_upd [simp]:
  "key_of (ob\<lparr>k_meta := (k_meta ob)\<lparr>m_deletionTimestamp := t\<rparr>\<rparr>) = key_of ob"
  by (simp add: key_of_def)

lemma mem_delete_frame:
  "mem_delete ob w = (r, w') \<Longrightarrow> k \<noteq> key_of ob \<Longrightarrow> mem_look w' k = mem_look w k"
  using take_fault_look [of w "fst (take_fault w)" "snd (take_fault w)"]
  by (auto simp: mem_delete_def split: prod.splits option.splits if_splits dest: mem_look_key)

lemma mem_delete_acked: "mem_delete ob w = (None, w') \<Longrightarrow> gone (mem_look w') (key_of ob)"
  by (auto simp: mem_delete_def gone_def split: prod.splits option.splits if_splits)
    (metis mem_look_key)

lemma mem_delete_notfound:
  "mem_delete ob w = (Some e, w') \<Longrightarrow> IsNotFound e \<Longrightarrow> mem_look w' (key_of ob) = None"
  using take_fault_look [of w "fst (take_fault w)" "snd (take_fault w)"]
  by (auto simp: mem_delete_def split: prod.splits option.splits if_splits)

lemma mem_delete_nomatch:
  "mem_delete ob w = (Some e, w') \<Longrightarrow> IsNoMatchError e \<Longrightarrow> mem_look w' (key_of ob) = None"
  by (auto simp: mem_delete_def take_fault_def not_found_def err_class_defs
      split: prod.splits option.splits if_splits list.splits)

lemma mem_delete_mono:
  "mem_delete ob w = (r, w') \<Longrightarrow> gone (mem_look w) (key_of ob) \<Longrightarrow> gone (mem_look w') (key_of ob)"
  using take_fault_look [of w "fst (take_fault w)" "snd (take_fault w)"] mem_delete_acked [of ob w w']
  by (cases r) (auto simp: mem_delete_def gone_def split: prod.splits option.splits if_splits)

lemma mem_http_get_frame: "mem_http_get rq w = (r, w') \<Longrightarrow> mem_look w' = mem_look w"
  by (auto simp: mem_http_get_def split: option.splits)

lemma mem_http_post_frame: "mem_http_post url form w = (r, w') \<Longrightarrow> mem_look w' = mem_look w"
  by (auto simp: mem_http_post_def split: option.splits)

lemma mem_random_frame: "mem_random n w = (r, w') \<Longrightarrow> mem_look w' = mem_look w"
  using take_fault_look [of w "fst (take_fault w)" "snd (take_fault w)"]
  by (auto simp: mem_random_def split: prod.splits option.splits)

lemma mem_inc_counter_frame: "mem_look (mem_inc_counter nm ls w) = mem_look w"
  by (auto simp: mem_inc_counter_def mem_look_def fun_eq_iff)

lemmas mem_contract = mem_look_key mem_get_frame mem_get_found mem_get_notfound mem_list_frame
  mem_list_items mem_list_notfound mem_create_frame mem_create_kept mem_update_frame mem_update_key
  mem_update_kept mem_update_released mem_status_update_frame mem_status_update_lifecycle mem_status_update_stored mem_delete_frame
  mem_delete_acked mem_delete_notfound mem_delete_nomatch mem_delete_mono mem_apply_pure_total mem_apply_frame
  mem_apply_stored mem_http_get_frame mem_http_post_frame mem_random_frame
  mem_inc_counter_frame

lemma mem_env_simps [simp]:
  "e_get (mem_env base) = mem_get"
  "e_list (mem_env base) = mem_list"
  "e_create (mem_env base) = mem_create"
  "e_update (mem_env base) = mem_update"
  "e_status_update (mem_env base) = mem_status_update"
  "e_delete (mem_env base) = mem_delete"
  "e_create_or_update (mem_env base) = mem_apply"
  "e_http_get (mem_env base) = mem_http_get"
  "e_http_post (mem_env base) = mem_http_post"
  "e_random (mem_env base) = mem_random"
  "e_inc_counter (mem_env base) = mem_inc_counter"
  "e_now (mem_env base) = mw_now"
  by (simp_all add: mem_env_def)

interpretation memory: kube_client "mem_env base" mem_look
  for base :: "mem env"
  by (unfold_locales, unfold mem_env_simps) (rule mem_contract; assumption?)+

lemma sample_env_client: "kube_client sample_env mem_look"
proof -
  have "sample_env = mem_env sample_env" by (simp add: sample_env_def mem_env_def)
  with memory.kube_client_axioms show ?thesis by metis
qed

end
