(* ===== verification/Obs_Stage.thy ===== *)
theory Obs_Stage
  imports Obs_Utils Kube_Mem
begin

text \<open>
  The interface \<^verbatim>\<open>reconcilers.ObservabilityReconciler\<close> that all stages implement, the control
  idioms their bodies are written in (\<^verbatim>\<open>reconciler.go\<close> and the early returns of every stage),
  and the rules that carry frame, error and deletion facts through these idioms.
\<close>

section \<open>Outcomes and the idioms of a stage body\<close>

type_synonym 'w outcome = "((ObservabilityStageStatus \<times> goerr option) \<times> 'w) option"

definition success :: "'w \<Rightarrow> 'w outcome" where
  "success w = Some ((ResultSuccess, None), w)"

definition in_progress :: "'w \<Rightarrow> 'w outcome" where
  "in_progress w = Some ((ResultInProgress, None), w)"

definition failed :: "goerr \<Rightarrow> 'w \<Rightarrow> 'w outcome" where
  "failed e w = Some ((ResultFailed, Some e), w)"

text \<open>\<open>status, err := step(); if status != ResultSuccess { return status, err }\<close>\<close>

definition and_then :: "'w outcome \<Rightarrow> ('w \<Rightarrow> 'w outcome) \<Rightarrow> 'w outcome" where
  "and_then r k =
     (case r of
        None \<Rightarrow> None
      | Some ((s, e), w) \<Rightarrow> if s = ResultSuccess then k w else Some ((s, e), w))"

text \<open>\<open>status, err := step(); if err != nil { return status, err }\<close>\<close>

definition unless_err :: "'w outcome \<Rightarrow> ('w \<Rightarrow> 'w outcome) \<Rightarrow> 'w outcome" where
  "unless_err r k =
     (case r of
        None \<Rightarrow> None
      | Some ((s, Some e), w) \<Rightarrow> Some ((s, Some e), w)
      | Some ((s, None), w) \<Rightarrow> k w)"

text \<open>\<open>if err != nil { return ResultFailed, err }\<close>\<close>

definition on_ok :: "goerr option \<times> 'w \<Rightarrow> ('w \<Rightarrow> 'w outcome) \<Rightarrow> 'w outcome" where
  "on_ok r k = (case r of (Some e, w) \<Rightarrow> failed e w | (None, w) \<Rightarrow> k w)"

text \<open>\<open>err := Delete(ob); if err != nil && !errors.IsNotFound(err) { return ResultFailed, err }\<close>\<close>

definition delete_then :: "'w env \<Rightarrow> kobj \<Rightarrow> ('w \<Rightarrow> 'w outcome) \<Rightarrow> 'w \<Rightarrow> 'w outcome" where
  "delete_then E ob k w =
     (case e_delete E ob w of
        (Some e, w1) \<Rightarrow> if IsNotFound e then k w1 else failed e w1
      | (None, w1) \<Rightarrow> k w1)"

fun delete_each :: "'w env \<Rightarrow> kobj list \<Rightarrow> ('w \<Rightarrow> 'w outcome) \<Rightarrow> 'w \<Rightarrow> 'w outcome" where
  "delete_each E [] k = k"
| "delete_each E (ob # obs) k = delete_then E ob (delete_each E obs k)"

text \<open>\<open>_, err := CreateOrUpdate(ob, mutate); if err != nil { return ResultFailed, err }\<close>\<close>

definition mutate_then :: "'w env \<Rightarrow> kobj \<Rightarrow> 'w mutator \<Rightarrow> ('w \<Rightarrow> 'w outcome) \<Rightarrow> 'w \<Rightarrow> 'w outcome" where
  "mutate_then E ob f k w =
     (case e_create_or_update E ob f w of
        None \<Rightarrow> None
      | Some ((Some e, _), w1) \<Rightarrow> failed e w1
      | Some ((None, _), w1) \<Rightarrow> k w1)"

definition apply_then :: "'w env \<Rightarrow> kobj \<Rightarrow> (kobj \<Rightarrow> kobj) \<Rightarrow> ('w \<Rightarrow> 'w outcome) \<Rightarrow> 'w \<Rightarrow> 'w outcome" where
  "apply_then E ob g = mutate_then E ob (pure_mutate g)"

text \<open>A list that fails the stage unless the error says the kind is missing.\<close>

definition list_then :: "'w env \<Rightarrow> kind \<Rightarrow> ListOptions \<Rightarrow> (kobj list \<Rightarrow> 'w \<Rightarrow> 'w outcome) \<Rightarrow> 'w \<Rightarrow> 'w outcome" where
  "list_then E kd lo k w =
     (case list_or_empty E kd lo w of
        (Inl e, w1) \<Rightarrow> failed e w1
      | (Inr items, w1) \<Rightarrow> k items w1)"

text \<open>\<open>for _, x := range list.Items { if P(x) { Delete(x) ... } }\<close> after a list that must succeed.\<close>

definition delete_listed ::
  "'w env \<Rightarrow> kind \<Rightarrow> ListOptions \<Rightarrow> (kobj \<Rightarrow> bool) \<Rightarrow> ('w \<Rightarrow> 'w outcome) \<Rightarrow> 'w \<Rightarrow> 'w outcome" where
  "delete_listed E kd lo P k w =
     (case e_list E kd lo w of
        (Inl e, w1) \<Rightarrow> failed e w1
      | (Inr items, w1) \<Rightarrow> delete_each E (filter P items) k w1)"

text \<open>The same deletion where a kind the server does not know is accepted too.\<close>

definition delete_known_then :: "'w env \<Rightarrow> kobj \<Rightarrow> ('w \<Rightarrow> 'w outcome) \<Rightarrow> 'w \<Rightarrow> 'w outcome" where
  "delete_known_then E ob k w =
     (case e_delete E ob w of
        (Some e, w1) \<Rightarrow> if IsNotFound e \<or> IsNoMatchError e then k w1 else failed e w1
      | (None, w1) \<Rightarrow> k w1)"

text \<open>The wait for a route to be admitted, which two stages share word for word.\<close>

definition wait_route :: "'w env \<Rightarrow> kobj \<Rightarrow> 'w \<Rightarrow> 'w outcome" where
  "wait_route E route w =
     (case e_get E KRoute (ob_namespace route) (ob_name route) w of
        (Inl err, w1) \<Rightarrow> if IsNotFound err then in_progress w1 else failed err w1
      | (Inr found, w1) \<Rightarrow>
          if IsRouteReady (Some (route_of (k_body found))) then success w1 else in_progress w1)"

text \<open>
  The mutate function of the OAuth proxy secrets: a secret without data gets a fresh session
  key, drawn inside the function; one with data is left as it is.
\<close>

definition session_secret_mutate :: "'w env \<Rightarrow> nat \<Rightarrow> (Secret \<Rightarrow> Secret) \<Rightarrow> 'w mutator" where
  "session_secret_mutate E n typed secret w =
     (if sec_data (secret_of (k_body secret)) = None then
        (case GenerateRandomString E n w of
           None \<Rightarrow> None
         | Some (key, w1) \<Rightarrow>
             Some ((None, set_body (BSecret ((typed (secret_of (k_body secret)))\<lparr>
                 sec_stringData := Some [(''session_secret'', key)]\<rparr>)) secret), w1))
      else Some ((None, secret), w))"

definition service_account_binding :: "string \<Rightarrow> string \<Rightarrow> string \<Rightarrow> RoleBinding" where
  "service_account_binding role sa ns =
     \<lparr>rb_subjects = [\<lparr>sj_kind = ''ServiceAccount'', sj_name = sa, sj_namespace = ns\<rparr>],
      rb_roleRef = \<lparr>rf_apiGroup = ''rbac.authorization.k8s.io'', rf_kind = ''ClusterRole'', rf_name = role\<rparr>\<rparr>"

definition subscribe :: "SubscriptionSpec \<Rightarrow> kobj \<Rightarrow> kobj" where
  "subscribe spec ob = set_body (BSubscription ((subscription_of (k_body ob))\<lparr>sub_spec := Some spec\<rparr>)) ob"

lemmas idiom_defs = success_def in_progress_def failed_def and_then_def on_ok_def delete_then_def
  mutate_then_def apply_then_def list_then_def list_or_empty_def

section \<open>Facts carried through the idioms\<close>

text \<open>Every returned outcome (a panic returns none) satisfies \<open>P\<close>.\<close>

definition outcome_sat :: "(ObservabilityStageStatus \<Rightarrow> goerr option \<Rightarrow> 'w \<Rightarrow> bool) \<Rightarrow> 'w outcome \<Rightarrow> bool" where
  "outcome_sat P r = (case r of None \<Rightarrow> True | Some ((s, e), w) \<Rightarrow> P s e w)"

text \<open>Only objects in \<open>K\<close> change; nothing deleted comes back; the objects in \<open>D\<close> are gone.\<close>

definition only :: "('w \<Rightarrow> okey \<Rightarrow> kobj option) \<Rightarrow> okey set \<Rightarrow> 'w \<Rightarrow> 'w \<Rightarrow> bool" where
  "only look K w w' \<longleftrightarrow> (\<forall>k. k \<notin> K \<longrightarrow> look w' k = look w k)"

definition decays :: "('w \<Rightarrow> okey \<Rightarrow> kobj option) \<Rightarrow> 'w \<Rightarrow> 'w \<Rightarrow> bool" where
  "decays look w w' \<longleftrightarrow> (\<forall>k. gone (look w) k \<longrightarrow> gone (look w') k)"

definition all_gone :: "('w \<Rightarrow> okey \<Rightarrow> kobj option) \<Rightarrow> okey set \<Rightarrow> 'w \<Rightarrow> bool" where
  "all_gone look D w \<longleftrightarrow> (\<forall>k \<in> D. gone (look w) k)"

lemma only_refl [simp]: "only look K w w"
  by (simp add: only_def)

lemma only_trans: "only look K w w1 \<Longrightarrow> only look K w1 w2 \<Longrightarrow> only look K w w2"
  unfolding only_def by metis

lemma only_mono: "only look K w w' \<Longrightarrow> K \<subseteq> K' \<Longrightarrow> only look K' w w'"
  unfolding only_def by blast

lemma decays_refl [simp]: "decays look w w"
  by (simp add: decays_def)

lemma decaysD: "decays look w w' \<Longrightarrow> gone (look w) k \<Longrightarrow> gone (look w') k"
  unfolding decays_def by blast

lemma decays_trans: "decays look w w1 \<Longrightarrow> decays look w1 w2 \<Longrightarrow> decays look w w2"
  unfolding decays_def by metis

lemma all_gone_decays: "all_gone look D w \<Longrightarrow> decays look w w' \<Longrightarrow> all_gone look D w'"
  unfolding all_gone_def decays_def by metis

lemma all_gone_simps [simp]:
  "all_gone look {} w"
  "all_gone look (insert k D) w \<longleftrightarrow> gone (look w) k \<and> all_gone look D w"
  "all_gone look (D1 \<union> D2) w \<longleftrightarrow> all_gone look D1 w \<and> all_gone look D2 w"
  unfolding all_gone_def by blast+

lemma all_gone_mono: "all_gone look D w \<Longrightarrow> D' \<subseteq> D \<Longrightarrow> all_gone look D' w"
  unfolding all_gone_def by blast

lemma same_look:
  "look w' = look w \<Longrightarrow> only look K w w'" "look w' = look w \<Longrightarrow> decays look w w'"
  by (simp_all add: only_def decays_def)

text \<open>
  \<open>steps look K f\<close>: whatever \<open>f\<close> does, an error is reported as a failure, and only objects in
  \<open>K\<close> change.  \<open>cleans look K D f\<close>: moreover nothing deleted comes back, and success means
  that the objects in \<open>D\<close> are gone.
\<close>

definition steps :: "('w \<Rightarrow> okey \<Rightarrow> kobj option) \<Rightarrow> okey set \<Rightarrow> ('w \<Rightarrow> 'w outcome) \<Rightarrow> bool" where
  "steps look K f \<longleftrightarrow>
     (\<forall>w. outcome_sat (\<lambda>s e w'. (e \<noteq> None \<longrightarrow> s = ResultFailed) \<and> only look K w w') (f w))"

definition cleans :: "('w \<Rightarrow> okey \<Rightarrow> kobj option) \<Rightarrow> okey set \<Rightarrow> okey set \<Rightarrow> ('w \<Rightarrow> 'w outcome) \<Rightarrow> bool" where
  "cleans look K D f \<longleftrightarrow>
     (\<forall>w. outcome_sat (\<lambda>s e w'. (e \<noteq> None \<longrightarrow> s = ResultFailed) \<and> only look K w w'
        \<and> decays look w w' \<and> (s = ResultSuccess \<longrightarrow> all_gone look D w')) (f w))"

named_theorems steps_intros \<open>rules for steps\<close>
named_theorems cleans_intros \<open>rules for cleans\<close>

lemma cleansD:
  assumes "cleans look K D f" and "f w = Some ((s, e), w')"
  shows "(e \<noteq> None \<longrightarrow> s = ResultFailed) \<and> only look K w w' \<and> decays look w w'
    \<and> (s = ResultSuccess \<longrightarrow> all_gone look D w')"
proof -
  have "outcome_sat (\<lambda>s e w'. (e \<noteq> None \<longrightarrow> s = ResultFailed) \<and> only look K w w'
        \<and> decays look w w' \<and> (s = ResultSuccess \<longrightarrow> all_gone look D w')) (f w)"
    using assms(1) by (simp add: cleans_def)
  with assms(2) show ?thesis by (simp add: outcome_sat_def)
qed

lemma stepsD:
  assumes "steps look K f" and "f w = Some ((s, e), w')"
  shows "(e \<noteq> None \<longrightarrow> s = ResultFailed) \<and> only look K w w'"
proof -
  have "outcome_sat (\<lambda>s e w'. (e \<noteq> None \<longrightarrow> s = ResultFailed) \<and> only look K w w') (f w)"
    using assms(1) by (simp add: steps_def)
  with assms(2) show ?thesis by (simp add: outcome_sat_def)
qed

lemma stepsI:
  assumes "\<And>w s e w'. f w = Some ((s, e), w') \<Longrightarrow> (e \<noteq> None \<longrightarrow> s = ResultFailed) \<and> only look K w w'"
  shows "steps look K f"
  using assms unfolding steps_def outcome_sat_def by (auto split: option.splits)

lemma cleansI:
  assumes "\<And>w s e w'. f w = Some ((s, e), w') \<Longrightarrow>
    (e \<noteq> None \<longrightarrow> s = ResultFailed) \<and> only look K w w' \<and> decays look w w'
    \<and> (s = ResultSuccess \<longrightarrow> all_gone look D w')"
  shows "cleans look K D f"
  using assms unfolding cleans_def outcome_sat_def by (auto split: option.splits)

lemma cleans_steps: "cleans look K D f \<Longrightarrow> steps look K f"
  by (rule stepsI) (metis cleansD)

lemma steps_weaken: "steps look K f \<Longrightarrow> K \<subseteq> K' \<Longrightarrow> steps look K' f"
  by (rule stepsI) (metis stepsD only_mono)

lemma cleans_weaken: "cleans look K D f \<Longrightarrow> K \<subseteq> K' \<Longrightarrow> D' \<subseteq> D \<Longrightarrow> cleans look K' D' f"
  by (rule cleansI) (metis cleansD only_mono all_gone_mono)

lemma cleans_sub: "cleans look K D f \<Longrightarrow> D' \<subseteq> D \<Longrightarrow> cleans look K D' f"
  by (erule cleans_weaken) simp_all

lemma steps_leaf [steps_intros]:
  "steps look K success" "steps look K in_progress" "steps look K (failed e)"
  "steps look K (\<lambda>w. None)" "steps look K (\<lambda>w. success w)" "steps look K (\<lambda>w. in_progress w)"
  "steps look K (\<lambda>w. failed e w)"
  "s \<noteq> ResultSuccess \<Longrightarrow> steps look K (\<lambda>w. Some ((s, None), w))"
  by (auto intro!: stepsI simp: idiom_defs)

text \<open>A step that may report an error together with success, when another step follows it.\<close>

definition loose_steps :: "('w \<Rightarrow> okey \<Rightarrow> kobj option) \<Rightarrow> okey set \<Rightarrow> ('w \<Rightarrow> 'w outcome) \<Rightarrow> bool" where
  "loose_steps look K f \<longleftrightarrow> (\<forall>w. outcome_sat
     (\<lambda>s e w'. (e \<noteq> None \<longrightarrow> s = ResultFailed \<or> s = ResultSuccess) \<and> only look K w w') (f w))"

lemma loose_stepsD:
  assumes "loose_steps look K f" and "f w = Some ((s, e), w')"
  shows "(e \<noteq> None \<longrightarrow> s = ResultFailed \<or> s = ResultSuccess) \<and> only look K w w'"
proof -
  have "outcome_sat (\<lambda>s e w'. (e \<noteq> None \<longrightarrow> s = ResultFailed \<or> s = ResultSuccess) \<and> only look K w w') (f w)"
    using assms(1) by (simp add: loose_steps_def)
  with assms(2) show ?thesis by (simp add: outcome_sat_def)
qed

lemma and_then_cases:
  assumes "and_then r k = Some ((s, e), w')"
  obtains (stop) "r = Some ((s, e), w')" "s \<noteq> ResultSuccess"
  | (go) e1 w1 where "r = Some ((ResultSuccess, e1), w1)" "k w1 = Some ((s, e), w')"
  using assms by (auto simp: and_then_def split: option.splits if_splits)

lemma steps_and_then [steps_intros]:
  assumes "steps look K f" and "steps look K k"
  shows "steps look K (\<lambda>w. and_then (f w) k)"
proof (rule stepsI)
  fix w s e w'
  assume "and_then (f w) k = Some ((s, e), w')"
  then show "(e \<noteq> None \<longrightarrow> s = ResultFailed) \<and> only look K w w'"
  proof (cases rule: and_then_cases)
    case stop
    with assms(1) show ?thesis by (metis stepsD)
  next
    case go
    with assms show ?thesis by (metis stepsD only_trans)
  qed
qed

lemma steps_and_then_loose:
  assumes "loose_steps look K f" and "steps look K k"
  shows "steps look K (\<lambda>w. and_then (f w) k)"
proof (rule stepsI)
  fix w s e w'
  assume "and_then (f w) k = Some ((s, e), w')"
  then show "(e \<noteq> None \<longrightarrow> s = ResultFailed) \<and> only look K w w'"
  proof (cases rule: and_then_cases)
    case stop
    with loose_stepsD [OF assms(1) stop(1)] show ?thesis by auto
  next
    case go
    with loose_stepsD [OF assms(1) go(1)] stepsD [OF assms(2) go(2)] show ?thesis
      by (auto intro: only_trans)
  qed
qed

lemma steps_unless_err [steps_intros]:
  assumes "steps look K f" and "steps look K k"
  shows "steps look K (\<lambda>w. unless_err (f w) k)"
proof (rule stepsI)
  fix w s e w'
  assume "unless_err (f w) k = Some ((s, e), w')"
  then consider (stop) "f w = Some ((s, e), w')"
    | (go) s1 w1 where "f w = Some ((s1, None), w1)" "k w1 = Some ((s, e), w')"
    by (auto simp: unless_err_def split: option.splits)
  then show "(e \<noteq> None \<longrightarrow> s = ResultFailed) \<and> only look K w w'"
  proof cases
    case stop
    with stepsD [OF assms(1)] show ?thesis by blast
  next
    case go
    with stepsD [OF assms(1) go(1)] stepsD [OF assms(2) go(2)] show ?thesis by (auto intro: only_trans)
  qed
qed

lemma steps_if [steps_intros]:
  "(b \<Longrightarrow> steps look K f) \<Longrightarrow> (\<not> b \<Longrightarrow> steps look K g) \<Longrightarrow> steps look K (\<lambda>w. if b then f w else g w)"
  by (cases b) simp_all

lemma steps_option [steps_intros]:
  "(x = None \<Longrightarrow> steps look K f) \<Longrightarrow> (\<And>a. x = Some a \<Longrightarrow> steps look K (g a)) \<Longrightarrow>
     steps look K (\<lambda>w. case x of None \<Rightarrow> f w | Some a \<Rightarrow> g a w)"
  by (cases x) simp_all

lemma steps_sum [steps_intros]:
  "(\<And>a. x = Inl a \<Longrightarrow> steps look K (f a)) \<Longrightarrow> (\<And>b. x = Inr b \<Longrightarrow> steps look K (g b)) \<Longrightarrow>
     steps look K (\<lambda>w. case x of Inl a \<Rightarrow> f a w | Inr b \<Rightarrow> g b w)"
  by (cases x) simp_all

text \<open>A call that changes nothing, followed by a continuation on its result.\<close>

lemma steps_frame:
  assumes "\<And>w r w1. c w = (r, w1) \<Longrightarrow> look w1 = look w" and "\<And>r. steps look K (k r)"
  shows "steps look K (\<lambda>w. case c w of (r, w1) \<Rightarrow> k r w1)"
proof (rule stepsI)
  fix w s e w'
  assume eq: "(case c w of (r, w1) \<Rightarrow> k r w1) = Some ((s, e), w')"
  obtain r w1 where c: "c w = (r, w1)" by fastforce
  with eq have "k r w1 = Some ((s, e), w')" by simp
  with assms(2) [of r] same_look(1) [OF assms(1) [OF c]]
  show "(e \<noteq> None \<longrightarrow> s = ResultFailed) \<and> only look K w w'"
    by (metis stepsD only_trans)
qed

lemma cleans_leaf [cleans_intros]:
  "cleans look K {} success" "cleans look K D in_progress" "cleans look K D (failed e)"
  "cleans look K {} (\<lambda>w. success w)" "cleans look K D (\<lambda>w. in_progress w)"
  "cleans look K D (\<lambda>w. failed e w)"
  by (auto intro!: cleansI simp: idiom_defs)

lemma cleans_and_then [cleans_intros]:
  assumes "cleans look K D1 f" and "cleans look K D2 k"
  shows "cleans look K (D1 \<union> D2) (\<lambda>w. and_then (f w) k)"
proof (rule cleansI)
  fix w s e w'
  assume "and_then (f w) k = Some ((s, e), w')"
  then show "(e \<noteq> None \<longrightarrow> s = ResultFailed) \<and> only look K w w' \<and> decays look w w'
    \<and> (s = ResultSuccess \<longrightarrow> all_gone look (D1 \<union> D2) w')"
  proof (cases rule: and_then_cases)
    case stop
    with assms(1) show ?thesis by (metis cleansD)
  next
    case go
    note c1 = cleansD [OF assms(1) go(1)] and c2 = cleansD [OF assms(2) go(2)]
    from c1 c2 have "only look K w w'" "decays look w w'"
      by (metis only_trans, metis decays_trans)
    moreover from c1 c2 have "all_gone look D1 w'" by (metis all_gone_decays)
    ultimately show ?thesis using c2 by simp
  qed
qed

lemma cleans_if [cleans_intros]:
  "(b \<Longrightarrow> cleans look K D f) \<Longrightarrow> (\<not> b \<Longrightarrow> cleans look K D g) \<Longrightarrow>
     cleans look K D (\<lambda>w. if b then f w else g w)"
  by (cases b) simp_all

lemma cleans_frame:
  assumes "\<And>w r w1. c w = (r, w1) \<Longrightarrow> look w1 = look w" and "\<And>r. cleans look K D (k r)"
  shows "cleans look K D (\<lambda>w. case c w of (r, w1) \<Rightarrow> k r w1)"
proof (rule cleansI)
  fix w s e w'
  assume eq: "(case c w of (r, w1) \<Rightarrow> k r w1) = Some ((s, e), w')"
  obtain r w1 where c: "c w = (r, w1)" by fastforce
  with eq have "k r w1 = Some ((s, e), w')" by simp
  with assms(2) [of r] same_look [OF assms(1) [OF c]]
  show "(e \<noteq> None \<longrightarrow> s = ResultFailed) \<and> only look K w w' \<and> decays look w w'
    \<and> (s = ResultSuccess \<longrightarrow> all_gone look D w')"
    by (metis cleansD only_trans decays_trans)
qed

context kube_client begin

lemma delete_then_step:
  assumes "delete_then E ob k w = Some ((s, e), w')" and "key_of ob \<in> K"
  obtains (failed) e1 where "s = ResultFailed" "e = Some e1" "only look K w w'" "decays look w w'"
  | (deleted) w1 where "k w1 = Some ((s, e), w')" "gone (look w1) (key_of ob)"
      "only look K w w1" "decays look w w1"
proof -
  obtain r w1 where d: "e_delete E ob w = (r, w1)" by fastforce
  have fr: "only look K w w1"
    using delete_frame [OF d] assms(2) unfolding only_def by metis
  have mono: "decays look w w1"
    using delete_keeps_gone [OF d] unfolding decays_def by metis
  show thesis
  proof (cases "\<exists>e1. r = Some e1 \<and> \<not> IsNotFound e1")
    case True
    with assms(1) d obtain e1 where "s = ResultFailed" "w' = w1" "e = Some e1"
      by (auto simp: delete_then_def failed_def)
    with fr mono show thesis using failed by blast
  next
    case False
    then have "r = None \<or> (\<exists>e1. r = Some e1 \<and> IsNotFound e1)" by (cases r) auto
    then have "gone (look w1) (key_of ob)" by (rule delete_settled [OF d])
    moreover have "k w1 = Some ((s, e), w')"
      using assms(1) d False by (auto simp: delete_then_def split: option.splits)
    ultimately show thesis using fr mono deleted by blast
  qed
qed

lemma cleans_delete_then [cleans_intros]:
  assumes "key_of ob \<in> K" and "cleans look K D k"
  shows "cleans look K (insert (key_of ob) D) (delete_then E ob k)"
proof (rule cleansI)
  fix w s e w'
  assume "delete_then E ob k w = Some ((s, e), w')"
  then show "(e \<noteq> None \<longrightarrow> s = ResultFailed) \<and> only look K w w' \<and> decays look w w'
    \<and> (s = ResultSuccess \<longrightarrow> all_gone look (insert (key_of ob) D) w')"
    using assms(1)
  proof (cases rule: delete_then_step)
    case failed
    then show ?thesis by simp
  next
    case (deleted w1)
    note c = cleansD [OF assms(2) deleted(1)]
    with deleted have "gone (look w') (key_of ob)" unfolding decays_def by metis
    with c deleted show ?thesis by (simp add: only_trans [of look K w w1] decays_trans [of look w w1])
  qed
qed

lemma cleans_delete_known_then [cleans_intros]:
  assumes "key_of ob \<in> K" and "cleans look K D k"
  shows "cleans look K (insert (key_of ob) D) (delete_known_then E ob k)"
proof (rule cleansI)
  fix w s e w'
  assume eq: "delete_known_then E ob k w = Some ((s, e), w')"
  show "(e \<noteq> None \<longrightarrow> s = ResultFailed) \<and> only look K w w' \<and> decays look w w'
    \<and> (s = ResultSuccess \<longrightarrow> all_gone look (insert (key_of ob) D) w')"
  proof (cases "\<exists>e1 w1. e_delete E ob w = (Some e1, w1) \<and> IsNoMatchError e1")
    case False
    with eq have "delete_then E ob k w = Some ((s, e), w')"
      by (auto simp: delete_known_then_def delete_then_def split: prod.splits option.splits if_splits)
    with cleansD [OF cleans_delete_then [OF assms]] show ?thesis by blast
  next
    case True
    then obtain e1 w1 where d: "e_delete E ob w = (Some e1, w1)" "IsNoMatchError e1" by blast
    have "only look K w w1"
      using delete_frame [OF d(1)] assms(1) unfolding only_def by metis
    moreover have "decays look w w1"
      using delete_keeps_gone [OF d(1)] unfolding decays_def by metis
    moreover have g: "gone (look w1) (key_of ob)"
      using delete_nomatch [OF d] by (simp add: gone_def)
    moreover from eq d have k: "k w1 = Some ((s, e), w')" by (simp add: delete_known_then_def)
    moreover from g cleansD [OF assms(2) k] have "gone (look w') (key_of ob)" by (blast intro: decaysD)
    ultimately show ?thesis
      using cleansD [OF assms(2) k] by (auto intro: only_trans decays_trans)
  qed
qed

lemma cleans_delete_each [cleans_intros]:
  assumes "key_of ` set obs \<subseteq> K" and "cleans look K D k"
  shows "cleans look K (key_of ` set obs \<union> D) (delete_each E obs k)"
  using assms(1)
proof (induction obs)
  case Nil
  with assms(2) show ?case by simp
next
  case (Cons ob obs)
  with cleans_delete_then [of ob K _ "delete_each E obs k"] show ?case by simp
qed

lemma steps_delete_then [steps_intros]:
  assumes "key_of ob \<in> K" and "steps look K k"
  shows "steps look K (delete_then E ob k)"
proof (rule stepsI)
  fix w s e w'
  assume "delete_then E ob k w = Some ((s, e), w')"
  then show "(e \<noteq> None \<longrightarrow> s = ResultFailed) \<and> only look K w w'"
    using assms(1)
  proof (cases rule: delete_then_step)
    case failed
    then show ?thesis by simp
  next
    case (deleted w1)
    with stepsD [OF assms(2) deleted(1)] show ?thesis by (metis only_trans)
  qed
qed

lemma steps_delete_each [steps_intros]:
  assumes "key_of ` set obs \<subseteq> K" and "steps look K k"
  shows "steps look K (delete_each E obs k)"
  using assms(1)
proof (induction obs)
  case Nil
  with assms(2) show ?case by simp
next
  case (Cons ob obs)
  with steps_delete_then [of ob K "delete_each E obs k"] show ?case by simp
qed

lemma write_only:
  "e_delete E ob w = (rd, w') \<Longrightarrow> key_of ob \<in> K \<Longrightarrow> only look K w w'"
  "e_create E ob w = (rd, w') \<Longrightarrow> key_of ob \<in> K \<Longrightarrow> only look K w w'"
  "e_update E ob w = (ru, w') \<Longrightarrow> key_of ob \<in> K \<Longrightarrow> only look K w w'"
  "e_create_or_update E ob f w = Some ((rd, rs), w') \<Longrightarrow> quiet look f \<Longrightarrow> key_of ob \<in> K \<Longrightarrow> only look K w w'"
  unfolding only_def by (metis delete_frame, metis create_frame, metis update_frame, metis apply_frame)

lemma read_only:
  "e_get E kd ns nm w = (rg, w') \<Longrightarrow> only look K w w'"
  "e_list E kd lo w = (rl, w') \<Longrightarrow> only look K w w'"
  "list_or_empty E kd lo w = (rl, w') \<Longrightarrow> only look K w w'"
  "e_http_get E rq w = (rh, w') \<Longrightarrow> only look K w w'"
  "GetClusterId E w = (rc, w') \<Longrightarrow> only look K w w'"
  "GetClusterOSVersion E w = (rc, w') \<Longrightarrow> only look K w w'"
  by (auto simp: list_or_empty_def GetClusterId_def GetClusterOSVersion_def
      dest!: get_frame list_frame http_get_frame intro: same_look
      split: prod.splits sum.splits if_splits)

lemma CreateOrUpdate_only: "CreateOrUpdate E ob g w = Some (r, w') \<Longrightarrow> key_of ob \<in> K \<Longrightarrow> only look K w w'"
  unfolding only_def using CreateOrUpdate_frame by metis

lemma steps_mutate_then [steps_intros]:
  assumes "quiet look f" and "key_of ob \<in> K" and "steps look K k"
  shows "steps look K (mutate_then E ob f k)"
proof (rule stepsI)
  fix w s e w'
  assume eq: "mutate_then E ob f k w = Some ((s, e), w')"
  then obtain r rs w1 where c: "e_create_or_update E ob f w = Some ((r, rs), w1)"
    by (auto simp: mutate_then_def split: option.splits)
  have fr: "only look K w w1"
    using apply_frame [OF c assms(1)] assms(2) unfolding only_def by metis
  show "(e \<noteq> None \<longrightarrow> s = ResultFailed) \<and> only look K w w'"
  proof (cases r)
    case None
    with eq c have "k w1 = Some ((s, e), w')" by (simp add: mutate_then_def)
    with fr stepsD [OF assms(3)] show ?thesis by (metis only_trans)
  next
    case (Some e1)
    with eq c fr show ?thesis by (simp add: mutate_then_def failed_def)
  qed
qed

lemma steps_apply_then [steps_intros]:
  "key_of ob \<in> K \<Longrightarrow> steps look K k \<Longrightarrow> steps look K (apply_then E ob g k)"
  unfolding apply_then_def by (rule steps_mutate_then) simp_all

lemma list_or_empty_frame: "list_or_empty E kd lo w = (r, w') \<Longrightarrow> look w' = look w"
  by (auto simp: list_or_empty_def dest: list_frame split: prod.splits sum.splits if_splits)

text \<open>A successful list is complete, also when it stands for a missing kind.\<close>

lemma list_or_empty_items:
  assumes "list_or_empty E kd lo w = (Inr items, w')"
  shows "set items = {ob. look w (key_of ob) = Some ob \<and> list_matches kd lo ob}"
proof (cases "e_list E kd lo w")
  case (Pair r w1)
  show ?thesis
  proof (cases r)
    case (Inl e)
    with assms Pair have "IsNotFound e" "items = []"
      by (auto simp: list_or_empty_def split: if_splits)
    with list_notfound [OF Pair [unfolded Inl]] show ?thesis by auto
  next
    case (Inr obs)
    with assms Pair list_items show ?thesis by (auto simp: list_or_empty_def)
  qed
qed

lemma listed_kind: "list_or_empty E kd lo w = (Inr items, w') \<Longrightarrow> ob \<in> set items \<Longrightarrow> k_kind ob = kd"
  using list_or_empty_items [of kd lo w items w'] by (auto simp: list_matches_def)

lemma delete_each_listed:
  assumes items: "set items = {ob. look w (key_of ob) = Some ob \<and> list_matches kd lo ob}"
    and K: "\<And>ob. list_matches kd lo ob \<Longrightarrow> P ob \<Longrightarrow> key_of ob \<in> K"
    and D: "\<And>ob. key_of ob \<in> D \<Longrightarrow> list_matches kd lo ob \<and> P ob"
    and k: "cleans look K D2 k" and same: "look w1 = look w"
    and run: "delete_each E (filter P items) k w1 = Some ((s, e), w')"
  shows "(e \<noteq> None \<longrightarrow> s = ResultFailed) \<and> only look K w w' \<and> decays look w w'
    \<and> (s = ResultSuccess \<longrightarrow> all_gone look (D \<union> D2) w')"
proof -
  have "key_of ` set (filter P items) \<subseteq> K" using items K by auto
  note c = cleansD [OF cleans_delete_each [OF this k] run]
  have o: "only look K w w'" and d: "decays look w w'"
    using c same_look [OF same] by (auto intro: only_trans decays_trans)
  have "gone (look w') k" if s: "s = ResultSuccess" and k: "k \<in> D" for k
  proof (cases "look w k")
    case None
    then have "gone (look w) k" by (simp add: gone_def)
    with d show ?thesis by (rule decaysD)
  next
    case (Some ob)
    then have "key_of ob = k" by (rule look_key)
    with D k Some items have "ob \<in> set (filter P items)" by auto
    with \<open>key_of ob = k\<close> c s show ?thesis by (auto simp: all_gone_def)
  qed
  with c o d show ?thesis by (auto simp: all_gone_def [of look D])
qed

lemma cleans_delete_listed [cleans_intros]:
  assumes "\<And>ob. list_matches kd lo ob \<Longrightarrow> P ob \<Longrightarrow> key_of ob \<in> K"
    and "\<And>ob. key_of ob \<in> D \<Longrightarrow> list_matches kd lo ob \<and> P ob"
    and "cleans look K D2 k"
  shows "cleans look K (D \<union> D2) (delete_listed E kd lo P k)"
proof (rule cleansI)
  fix w s e w'
  assume eq: "delete_listed E kd lo P k w = Some ((s, e), w')"
  obtain r w1 where l: "e_list E kd lo w = (r, w1)" by fastforce
  show "(e \<noteq> None \<longrightarrow> s = ResultFailed) \<and> only look K w w' \<and> decays look w w'
    \<and> (s = ResultSuccess \<longrightarrow> all_gone look (D \<union> D2) w')"
  proof (cases r)
    case (Inl err)
    with eq l same_look [OF list_frame [OF l]] show ?thesis by (simp add: delete_listed_def failed_def)
  next
    case (Inr items)
    from eq l Inr have "delete_each E (filter P items) k w1 = Some ((s, e), w')"
      by (simp add: delete_listed_def)
    from delete_each_listed [OF list_items [OF l [unfolded Inr]] assms list_frame [OF l] this]
    show ?thesis .
  qed
qed

lemma cleans_list_delete [cleans_intros]:
  assumes "\<And>ob. list_matches kd lo ob \<Longrightarrow> P ob \<Longrightarrow> key_of ob \<in> K"
    and "\<And>ob. key_of ob \<in> D \<Longrightarrow> list_matches kd lo ob \<and> P ob"
    and "cleans look K D2 k"
  shows "cleans look K (D \<union> D2) (list_then E kd lo (\<lambda>items. delete_each E (filter P items) k))"
proof (rule cleansI)
  fix w s e w'
  assume eq: "list_then E kd lo (\<lambda>items. delete_each E (filter P items) k) w = Some ((s, e), w')"
  obtain r w1 where l: "list_or_empty E kd lo w = (r, w1)" by fastforce
  show "(e \<noteq> None \<longrightarrow> s = ResultFailed) \<and> only look K w w' \<and> decays look w w'
    \<and> (s = ResultSuccess \<longrightarrow> all_gone look (D \<union> D2) w')"
  proof (cases r)
    case (Inl err)
    with eq l same_look [OF list_or_empty_frame [OF l]] show ?thesis by (simp add: list_then_def failed_def)
  next
    case (Inr items)
    from eq l Inr have "delete_each E (filter P items) k w1 = Some ((s, e), w')"
      by (simp add: list_then_def)
    from delete_each_listed [OF list_or_empty_items [OF l [unfolded Inr]] assms list_or_empty_frame [OF l] this]
    show ?thesis .
  qed
qed

lemma list_then_alt:
  "list_then E kd lo k =
     (\<lambda>w. case list_or_empty E kd lo w of (r, w1) \<Rightarrow> (case r of Inl e \<Rightarrow> failed e | Inr items \<Rightarrow> k items) w1)"
  by (auto simp: list_then_def fun_eq_iff split: prod.splits sum.splits)

lemma steps_list_then [steps_intros]:
  assumes "\<And>items. steps look K (k items)"
  shows "steps look K (list_then E kd lo k)"
  unfolding list_then_alt
  by (rule steps_frame) (auto dest: list_or_empty_frame intro: assms steps_leaf split: sum.splits)

lemma cleans_list_then [cleans_intros]:
  assumes "\<And>items. cleans look K D (k items)"
  shows "cleans look K D (list_then E kd lo k)"
  unfolding list_then_alt
  by (rule cleans_frame) (auto dest: list_or_empty_frame intro: assms cleans_leaf split: sum.splits)

lemma steps_get [steps_intros]:
  "(\<And>r. steps look K (k r)) \<Longrightarrow> steps look K (\<lambda>w. case e_get E kd ns nm w of (r, w1) \<Rightarrow> k r w1)"
  by (rule steps_frame) (auto dest: get_frame)

lemma steps_list [steps_intros]:
  "(\<And>r. steps look K (k r)) \<Longrightarrow> steps look K (\<lambda>w. case e_list E kd lo w of (r, w1) \<Rightarrow> k r w1)"
  by (rule steps_frame) (auto dest: list_frame)

lemma quiet_session_secret [simp]: "quiet look (session_secret_mutate E n typed)"
proof -
  have "GenerateRandomString E n v = Some (key, v') \<Longrightarrow> look v' = look v" for v key v'
    by (auto simp: GenerateRandomString_def GenerateRandomBytes_def dest: random_frame
        split: option.splits prod.splits sum.splits)
  then show ?thesis
    unfolding quiet_def session_secret_mutate_def by (auto split: if_splits option.splits)
qed

lemma steps_wait_route [steps_intros]: "steps look K (wait_route E route)"
proof (rule stepsI)
  fix w s e w'
  assume eq: "wait_route E route w = Some ((s, e), w')"
  obtain r w1 where g: "e_get E KRoute (ob_namespace route) (ob_name route) w = (r, w1)" by fastforce
  with eq same_look(1) [OF get_frame [OF g]]
  show "(e \<noteq> None \<longrightarrow> s = ResultFailed) \<and> only look K w w'"
    by (auto simp: wait_route_def idiom_defs split: sum.splits if_splits)
qed

lemma HasOperatorGroupForNamespace_frame: "HasOperatorGroupForNamespace E ns w = (r, w') \<Longrightarrow> look w' = look w"
  by (auto simp: HasOperatorGroupForNamespace_def dest: list_frame split: prod.splits sum.splits)

lemma wait_removed_frame: "wait_removed E kd ns nm w = (r, w') \<Longrightarrow> look w' = look w"
  by (auto simp: wait_removed_def dest: list_or_empty_frame split: prod.splits sum.splits if_splits)

lemma wait_removed_result: "wait_removed E kd ns nm w = ((s, e), w') \<Longrightarrow> e \<noteq> None \<Longrightarrow> s = ResultFailed"
  by (auto simp: wait_removed_def split: prod.splits sum.splits if_splits)

lemma cleans_wait_removed [cleans_intros]: "cleans look K {} (\<lambda>w. Some (wait_removed E kd ns nm w))"
proof (rule cleansI)
  fix w s e w'
  assume "Some (wait_removed E kd ns nm w) = Some ((s, e), w')"
  then have "wait_removed E kd ns nm w = ((s, e), w')" by simp
  from same_look [OF wait_removed_frame [OF this]] wait_removed_result [OF this]
  show "(e \<noteq> None \<longrightarrow> s = ResultFailed) \<and> only look K w w' \<and> decays look w w'
    \<and> (s = ResultSuccess \<longrightarrow> all_gone look {} w')"
    by simp
qed

end

section \<open>The stage interface\<close>

text \<open>
  A value of the Go interface is the pair of its methods.  \<^verbatim>\<open>Reconcile\<close> gets pointers to the
  custom resource and to the next status and may change both; \<^verbatim>\<open>Cleanup\<close> changes neither.
\<close>

record 'w reconciler =
  rec_Reconcile :: "'w env \<Rightarrow> Observability \<Rightarrow> ObservabilityStatus \<Rightarrow> 'w
    \<Rightarrow> ((ObservabilityStageStatus \<times> goerr option) \<times> Observability \<times> ObservabilityStatus \<times> 'w) option"
  rec_Cleanup :: "'w env \<Rightarrow> Observability \<Rightarrow> 'w \<Rightarrow> 'w outcome"

text \<open>A \<^verbatim>\<open>Reconcile\<close> that leaves both pointers' targets alone.\<close>

definition leave ::
  "Observability \<Rightarrow> ObservabilityStatus \<Rightarrow> 'w outcome
    \<Rightarrow> ((ObservabilityStageStatus \<times> goerr option) \<times> Observability \<times> ObservabilityStatus \<times> 'w) option" where
  "leave cr st r = (case r of None \<Rightarrow> None | Some (se, w) \<Rightarrow> Some (se, cr, st, w))"

text \<open>The parts of the custom resource and of the status that belong to the controller.\<close>

definition same_identity :: "Observability \<Rightarrow> Observability \<Rightarrow> bool" where
  "same_identity cr cr' \<longleftrightarrow>
     o_meta cr' = (o_meta cr)\<lparr>m_labels := m_labels (o_meta cr')\<rparr>
     \<and> o_status cr' = (o_status cr)\<lparr>st_ClusterID := st_ClusterID (o_status cr')\<rparr>"

definition same_progress :: "ObservabilityStatus \<Rightarrow> ObservabilityStatus \<Rightarrow> bool" where
  "same_progress st st' \<longleftrightarrow>
     st_Stage st' = st_Stage st \<and> st_StageStatus st' = st_StageStatus st
     \<and> st_LastMessage st' = st_LastMessage st"

lemma same_refl [simp]: "same_identity cr cr" "same_progress st st"
  by (simp_all add: same_identity_def same_progress_def)

text \<open>No stage writes an Observability resource; that is the controller's alone.\<close>

definition foreign :: "okey set" where
  "foreign = {k. fst k \<noteq> KObservability}"

text \<open>
  The contract of a stage: an error comes with a status other than success; the controller's
  fields and the stored custom resource are left alone; cleanup stays within the stage's
  objects \<open>K\<close>, brings nothing back, and succeeds only when its objects \<open>D\<close> are gone.
\<close>

locale stage_reconciler = kube_client E look
  for E :: "'w env" and look :: "'w \<Rightarrow> okey \<Rightarrow> kobj option" +
  fixes R :: "'w reconciler"
    and K D :: "Observability \<Rightarrow> okey set"
  assumes reconcile_error:
      "rec_Reconcile R E cr st w = Some ((s, Some e), cr', st', w') \<Longrightarrow> s = ResultFailed"
    and reconcile_identity:
      "rec_Reconcile R E cr st w = Some ((s, er), cr', st', w') \<Longrightarrow> same_identity cr cr'"
    and reconcile_progress:
      "rec_Reconcile R E cr st w = Some ((s, er), cr', st', w') \<Longrightarrow> same_progress st st'"
    and reconcile_frame:
      "rec_Reconcile R E cr st w = Some ((s, er), cr', st', w') \<Longrightarrow> only look foreign w w'"
    and cleanup_cleans: "cleans look (K cr) (D cr) (rec_Cleanup R E cr)"
    and owned_foreign: "K cr \<subseteq> foreign"

lemma leave_Some_iff: "leave cr st r = Some (se, cr', st', w') \<longleftrightarrow> r = Some (se, w') \<and> cr' = cr \<and> st' = st"
  by (auto simp: leave_def split: option.splits)

text \<open>Laws of a stage whose \<^verbatim>\<open>Reconcile\<close> leaves the pointers' targets alone.\<close>

context kube_client begin

lemma stage_reconcilerI:
  assumes "\<And>cr st w s er cr' st' w'. rec_Reconcile R E cr st w = Some ((s, er), cr', st', w') \<Longrightarrow>
      (er \<noteq> None \<longrightarrow> s = ResultFailed) \<and> same_identity cr cr' \<and> same_progress st st' \<and> only look foreign w w'"
    and "\<And>cr. cleans look (K cr) (D cr) (rec_Cleanup R E cr)"
    and "\<And>cr. K cr \<subseteq> foreign"
  shows "stage_reconciler E look R K D"
  using assms(2,3) by unfold_locales (auto dest!: assms(1))

lemma stage_reconciler_leaveI:
  assumes "\<And>cr st w. rec_Reconcile R E cr st w = leave cr st (f cr st w)"
    and "\<And>cr st. steps look foreign (f cr st)"
    and "\<And>cr. cleans look (K cr) (D cr) (rec_Cleanup R E cr)"
    and "\<And>cr. K cr \<subseteq> foreign"
  shows "stage_reconciler E look R K D"
  using assms(3,4)
  by unfold_locales
    (auto simp: assms(1) leave_Some_iff only_def foreign_def dest!: stepsD [OF assms(2)])

end

end
