(* ===== verification/Promtail_Stage.thy ===== *)
theory Promtail_Stage
  imports Obs_Stage
begin

text \<open>
  \<^verbatim>\<open>controllers/reconcilers/promtail_installation\<close>: the service account, role and role binding
  of Promtail, installed unless Observatorium or the external sync is disabled.
\<close>

definition promtail_rules :: "PolicyRule list" where
  "promtail_rules = [
     \<lparr>pr_verbs = [''get'', ''list'', ''watch''], pr_apiGroups = [[]],
      pr_resources = [''nodes'', ''nodes/proxy'', ''services'', ''endpoints'', ''pods''],
      pr_resourceNames = [], pr_nonResourceURLs = []\<rparr>,
     \<lparr>pr_verbs = [''use''], pr_apiGroups = [''security.openshift.io''],
      pr_resources = [''securitycontextconstraints''], pr_resourceNames = [''privileged''],
      pr_nonResourceURLs = []\<rparr>]"

definition reconcilePromtailServiceAccount :: "'w env \<Rightarrow> Observability \<Rightarrow> 'w \<Rightarrow> 'w outcome" where
  "reconcilePromtailServiceAccount E cr = apply_then E (GetPromtailServiceAccount cr) (\<lambda>sa. sa) success"

definition reconcilePromtailClusterRole :: "'w env \<Rightarrow> Observability \<Rightarrow> 'w \<Rightarrow> 'w outcome" where
  "reconcilePromtailClusterRole E cr =
     apply_then E (GetPromtailClusterRole cr) (set_body (BClusterRole promtail_rules)) success"

definition reconcilePromtailClusterRoleBinding :: "'w env \<Rightarrow> Observability \<Rightarrow> 'w \<Rightarrow> 'w outcome" where
  "reconcilePromtailClusterRoleBinding E cr =
     (let sa = GetPromtailServiceAccount cr; role = GetPromtailClusterRole cr
      in apply_then E (GetPromtailClusterRoleBinding cr)
           (set_body (BClusterRoleBinding
              (service_account_binding (ob_name role) (ob_name sa) (ob_namespace sa)))) success)"

definition promtail_installation_Cleanup :: "'w env \<Rightarrow> Observability \<Rightarrow> 'w \<Rightarrow> 'w outcome" where
  "promtail_installation_Cleanup E cr w =
     (if ObservatoriumDisabled cr \<or> ExternalSyncDisabled cr then success w
      else delete_each E [GetPromtailClusterRoleBinding cr, GetPromtailClusterRole cr,
             GetPromtailServiceAccount cr] success w)"

definition promtail_installation_Reconcile ::
  "'w env \<Rightarrow> Observability \<Rightarrow> ObservabilityStatus \<Rightarrow> 'w
    \<Rightarrow> ((ObservabilityStageStatus \<times> goerr option) \<times> Observability \<times> ObservabilityStatus \<times> 'w) option" where
  "promtail_installation_Reconcile E cr s w = leave cr s
     (if ObservatoriumDisabled cr \<or> ExternalSyncDisabled cr then success w
      else and_then (reconcilePromtailServiceAccount E cr w) (\<lambda>w.
           and_then (reconcilePromtailClusterRole E cr w) (\<lambda>w.
           and_then (reconcilePromtailClusterRoleBinding E cr w) success)))"

definition promtail_reconciler :: "'w reconciler" where
  "promtail_reconciler =
     \<lparr>rec_Reconcile = promtail_installation_Reconcile, rec_Cleanup = promtail_installation_Cleanup\<rparr>"

text \<open>The objects a cleanup deletes, none when the stage is switched off.\<close>

definition promtail_objects :: "Observability \<Rightarrow> kobj list" where
  "promtail_objects cr =
     [GetPromtailClusterRoleBinding cr, GetPromtailClusterRole cr, GetPromtailServiceAccount cr]"

definition promtail_owned :: "Observability \<Rightarrow> okey set" where
  "promtail_owned cr =
     (if ObservatoriumDisabled cr \<or> ExternalSyncDisabled cr then {} else key_of ` set (promtail_objects cr))"

context kube_client begin

lemma promtail_Cleanup_cleans:
  "cleans look (promtail_owned cr) (promtail_owned cr) (promtail_installation_Cleanup E cr)"
proof (cases "ObservatoriumDisabled cr \<or> ExternalSyncDisabled cr")
  case True
  then show ?thesis
    by (simp add: promtail_installation_Cleanup_def [abs_def] promtail_owned_def cleans_leaf)
next
  case False
  then have "promtail_installation_Cleanup E cr = delete_each E (promtail_objects cr) success"
    by (simp add: promtail_installation_Cleanup_def promtail_objects_def fun_eq_iff)
  with False cleans_delete_each [of "promtail_objects cr" "promtail_owned cr" "{}" success]
  show ?thesis by (simp add: promtail_owned_def cleans_leaf)
qed

lemma promtail_Reconcile_steps:
  "steps look foreign (\<lambda>w. if ObservatoriumDisabled cr \<or> ExternalSyncDisabled cr then success w
      else and_then (reconcilePromtailServiceAccount E cr w) (\<lambda>w.
           and_then (reconcilePromtailClusterRole E cr w) (\<lambda>w.
           and_then (reconcilePromtailClusterRoleBinding E cr w) success)))"
  unfolding reconcilePromtailServiceAccount_def reconcilePromtailClusterRole_def
    reconcilePromtailClusterRoleBinding_def Let_def
  by (rule steps_intros | simp add: foreign_def model_obj_defs obj_upd_defs)+

lemma promtail_stage_laws: "stage_reconciler E look promtail_reconciler promtail_owned promtail_owned"
  by (rule stage_reconciler_leaveI [OF _ promtail_Reconcile_steps])
    (simp_all add: promtail_reconciler_def promtail_installation_Reconcile_def promtail_Cleanup_cleans,
      auto simp: promtail_owned_def promtail_objects_def foreign_def model_obj_defs obj_upd_defs)

end

sublocale kube_client \<subseteq> promtail_stage: stage_reconciler E look promtail_reconciler promtail_owned promtail_owned
  by (rule promtail_stage_laws)

end
