(* ===== verification/Go_Effects.thy ===== *)
theory Go_Effects
  imports Obs_Stage
begin

text \<open>
  Go functions that return \<^verbatim>\<open>(T, error)\<close> and act on the world: \<open>None\<close> is a panic, \<open>Inl\<close> an
  error, \<open>Inr\<close> the result.  \<open>attempt m k\<close> is the idiom
  \<^verbatim>\<open>x, err := m(); if err != nil { return err }; k\<close>, \<open>each\<close> a range loop with the same early
  return.  The predicate \<open>touches\<close> carries frame facts through them.
\<close>

type_synonym ('w, 'a) go = "'w \<Rightarrow> ((goerr + 'a) \<times> 'w) option"

definition ret :: "'a \<Rightarrow> ('w, 'a) go" where
  "ret x w = Some (Inr x, w)"

definition throw :: "goerr \<Rightarrow> ('w, 'a) go" where
  "throw e w = Some (Inl e, w)"

definition panic :: "('w, 'a) go" where
  "panic w = None"

definition attempt :: "('w, 'a) go \<Rightarrow> ('a \<Rightarrow> ('w, 'b) go) \<Rightarrow> ('w, 'b) go" where
  "attempt m k w =
     (case m w of
        None \<Rightarrow> None
      | Some (Inl e, w1) \<Rightarrow> Some (Inl e, w1)
      | Some (Inr x, w1) \<Rightarrow> k x w1)"

text \<open>\<open>errors2.Wrap(err, msg)\<close> on the error of a call.\<close>

definition wrapped :: "string \<Rightarrow> ('w, 'a) go \<Rightarrow> ('w, 'a) go" where
  "wrapped msg m w =
     (case m w of
        None \<Rightarrow> None
      | Some (Inl e, w1) \<Rightarrow> Some (Inl (Wrap e msg), w1)
      | Some (Inr x, w1) \<Rightarrow> Some (Inr x, w1))"

text \<open>An error that is logged and dropped: \<open>None\<close> is the value of the failed call.\<close>

definition recovered :: "('w, 'a) go \<Rightarrow> ('w, 'a option) go" where
  "recovered m w =
     (case m w of
        None \<Rightarrow> None
      | Some (Inl e, w1) \<Rightarrow> Some (Inr None, w1)
      | Some (Inr x, w1) \<Rightarrow> Some (Inr (Some x), w1))"

fun each :: "('a \<Rightarrow> ('w, unit) go) \<Rightarrow> 'a list \<Rightarrow> ('w, unit) go" where
  "each f [] = ret ()"
| "each f (x # xs) = attempt (f x) (\<lambda>_. each f xs)"

text \<open>Calls of the environment, and values that carry an error or a panic of their own.\<close>

definition call :: "('w \<Rightarrow> (goerr + 'a) \<times> 'w) \<Rightarrow> ('w, 'a) go" where
  "call f w = Some (f w)"

definition act :: "('w \<Rightarrow> goerr option \<times> 'w) \<Rightarrow> ('w, unit) go" where
  "act f w = (case f w of (Some e, w1) \<Rightarrow> Some (Inl e, w1) | (None, w1) \<Rightarrow> Some (Inr (), w1))"

definition value_of :: "goerr + 'a \<Rightarrow> ('w, 'a) go" where
  "value_of r = (case r of Inl e \<Rightarrow> throw e | Inr x \<Rightarrow> ret x)"

definition need :: "'a option \<Rightarrow> ('w, 'a) go" where
  "need x = (case x of None \<Rightarrow> panic | Some y \<Rightarrow> ret y)"

text \<open>\<open>_, err := CreateOrUpdate(...)\<close>, with and without effects of the mutate function.\<close>

definition mutate :: "'w env \<Rightarrow> kobj \<Rightarrow> 'w mutator \<Rightarrow> ('w, kobj option) go" where
  "mutate E ob f w =
     (case e_create_or_update E ob f w of
        None \<Rightarrow> None
      | Some ((Some e, rs), w1) \<Rightarrow> Some (Inl e, w1)
      | Some ((None, rs), w1) \<Rightarrow> Some (Inr rs, w1))"

definition apply_pure :: "'w env \<Rightarrow> kobj \<Rightarrow> (kobj \<Rightarrow> kobj) \<Rightarrow> ('w, unit) go" where
  "apply_pure E ob g = attempt (mutate E ob (pure_mutate g)) (\<lambda>_. ret ())"

text \<open>A loop that deletes every listed object for which \<open>P\<close> does not hold, stopping at any error.\<close>

definition delete_unless :: "'w env \<Rightarrow> (kobj \<Rightarrow> bool) \<Rightarrow> kobj list \<Rightarrow> ('w, unit) go" where
  "delete_unless E P items = each (\<lambda>ob. act (e_delete E ob)) (filter (\<lambda>ob. \<not> P ob) items)"

text \<open>\<open>err := List(...); if err != nil { return err }\<close>, going on with the listed items.\<close>

definition listing :: "'w env \<Rightarrow> kind \<Rightarrow> ListOptions \<Rightarrow> (kobj list \<Rightarrow> ('w, 'a) go) \<Rightarrow> ('w, 'a) go" where
  "listing E kd lo k = attempt (call (e_list E kd lo)) k"

text \<open>Every listed object is deleted; and a deletion for which a missing object is no error.\<close>

definition delete_all :: "'w env \<Rightarrow> kind \<Rightarrow> ListOptions \<Rightarrow> ('w, unit) go" where
  "delete_all E kd lo = listing E kd lo (each (\<lambda>ob. act (e_delete E ob)))"

definition delete_if_present :: "'w env \<Rightarrow> kobj \<Rightarrow> ('w, unit) go" where
  "delete_if_present E ob w =
     (case e_delete E ob w of
        (Some err, w1) \<Rightarrow> if IsNotFound err then Some (Inr (), w1) else Some (Inl err, w1)
      | (None, w1) \<Rightarrow> Some (Inr (), w1))"

lemmas go_defs = ret_def throw_def panic_def attempt_def wrapped_def call_def act_def value_of_def
  need_def mutate_def apply_pure_def

section \<open>Frame facts\<close>

definition touches :: "('w \<Rightarrow> okey \<Rightarrow> kobj option) \<Rightarrow> okey set \<Rightarrow> ('w \<Rightarrow> ('r \<times> 'w) option) \<Rightarrow> bool" where
  "touches look K m \<longleftrightarrow> (\<forall>w r w'. m w = Some (r, w') \<longrightarrow> only look K w w')"

named_theorems touches_intros \<open>rules for touches\<close>

lemma touchesD: "touches look K m \<Longrightarrow> m w = Some (r, w') \<Longrightarrow> only look K w w'"
  unfolding touches_def by blast

lemma touchesI: "(\<And>w r w'. m w = Some (r, w') \<Longrightarrow> only look K w w') \<Longrightarrow> touches look K m"
  unfolding touches_def by blast

lemma touches_mono: "touches look K m \<Longrightarrow> K \<subseteq> K' \<Longrightarrow> touches look K' m"
  by (rule touchesI) (rule only_mono [OF touchesD])

lemma touches_leaf [touches_intros]:
  "touches look K (ret x)" "touches look K (throw e)" "touches look K panic"
  "touches look K (value_of v)" "touches look K (need y)"
  by (auto intro!: touchesI simp: go_defs split: sum.splits option.splits)

lemma touches_attempt [touches_intros]:
  assumes "touches look K m" and "\<And>x. touches look K (k x)"
  shows "touches look K (attempt m k)"
proof (rule touchesI)
  fix w r w'
  assume eq: "attempt m k w = Some (r, w')"
  then obtain r1 w1 where m: "m w = Some (r1, w1)" by (auto simp: attempt_def split: option.splits)
  note f1 = touchesD [OF assms(1) m]
  show "only look K w w'"
  proof (cases r1)
    case (Inl e)
    with eq m f1 show ?thesis by (simp add: attempt_def)
  next
    case (Inr x)
    with eq m have "k x w1 = Some (r, w')" by (simp add: attempt_def)
    from touchesD [OF assms(2) this] f1 show ?thesis by (rule only_trans [rotated])
  qed
qed

text \<open>The continuation may use what a pure value is, and what a call guarantees of its result.\<close>

lemma touches_value:
  "(\<And>x. v = Inr x \<Longrightarrow> touches look K (k x)) \<Longrightarrow> touches look K (attempt (value_of v) k)"
  by (cases v) (auto simp: touches_def attempt_def value_of_def throw_def ret_def)

lemma touches_post:
  assumes "touches look K m" and "\<And>w x w'. m w = Some (Inr x, w') \<Longrightarrow> P x"
    and "\<And>x. P x \<Longrightarrow> touches look K (k x)"
  shows "touches look K (attempt m k)"
proof (rule touchesI)
  fix w r w'
  assume eq: "attempt m k w = Some (r, w')"
  then obtain r1 w1 where m: "m w = Some (r1, w1)" by (auto simp: attempt_def split: option.splits)
  note f1 = touchesD [OF assms(1) m]
  show "only look K w w'"
  proof (cases r1)
    case (Inl e)
    with eq m f1 show ?thesis by (simp add: attempt_def)
  next
    case (Inr x)
    with eq m have k: "k x w1 = Some (r, w')" by (simp add: attempt_def)
    from touchesD [OF assms(3) [OF assms(2) [OF m [unfolded Inr]]] k] f1
    show ?thesis by (rule only_trans [rotated])
  qed
qed

lemma attempt_Inr_iff:
  "attempt m k w = Some (Inr y, w') \<longleftrightarrow> (\<exists>x w1. m w = Some (Inr x, w1) \<and> k x w1 = Some (Inr y, w'))"
  by (auto simp: attempt_def split: option.splits sum.splits)

lemma value_of_Inr_iff: "value_of v w = Some (Inr x, w') \<longleftrightarrow> v = Inr x \<and> w' = w"
  by (cases v) (auto simp: value_of_def throw_def ret_def)

lemma ret_Inr_iff: "ret x w = Some (Inr y, w') \<longleftrightarrow> y = x \<and> w' = w"
  by (auto simp: ret_def)

lemma throw_Inr_iff: "throw e w = Some (Inr y, w') \<longleftrightarrow> False"
  by (auto simp: throw_def)

lemma wrapped_Inr_iff: "wrapped msg m w = Some (Inr y, w') \<longleftrightarrow> m w = Some (Inr y, w')"
  by (auto simp: wrapped_def split: option.splits sum.splits)

lemma recovered_Inr_iff:
  "recovered m w = Some (Inr y, w') \<longleftrightarrow>
     (case y of None \<Rightarrow> \<exists>e. m w = Some (Inl e, w') | Some x \<Rightarrow> m w = Some (Inr x, w'))"
  by (auto simp: recovered_def split: option.splits sum.splits)

lemma call_Inr_iff: "call f w = Some (Inr y, w') \<longleftrightarrow> f w = (Inr y, w')"
  by (auto simp: call_def)

lemma act_Inr_iff: "act f w = Some (Inr y, w') \<longleftrightarrow> f w = (None, w')"
  by (auto simp: act_def split: prod.splits option.splits)

lemma apply_pure_Inr_iff:
  "apply_pure E ob g w = Some (Inr y, w') \<longleftrightarrow> CreateOrUpdate E ob g w = Some (None, w')"
  by (auto simp: apply_pure_def attempt_def mutate_def CreateOrUpdate_def ret_def
      split: option.splits sum.splits)

lemmas Inr_iffs = attempt_Inr_iff value_of_Inr_iff ret_Inr_iff throw_Inr_iff wrapped_Inr_iff
  recovered_Inr_iff call_Inr_iff act_Inr_iff apply_pure_Inr_iff

lemma touches_wrapped [touches_intros]: "touches look K m \<Longrightarrow> touches look K (wrapped msg m)"
  unfolding touches_def wrapped_def by (fastforce split: option.splits sum.splits)

lemma touches_recovered [touches_intros]: "touches look K m \<Longrightarrow> touches look K (recovered m)"
  unfolding touches_def recovered_def by (fastforce split: option.splits sum.splits)

lemma touches_each [touches_intros]:
  "(\<And>x. x \<in> set xs \<Longrightarrow> touches look K (f x)) \<Longrightarrow> touches look K (each f xs)"
  by (induction xs) (auto intro: touches_intros)

lemma touches_if [touches_intros]:
  "(b \<Longrightarrow> touches look K m) \<Longrightarrow> (\<not> b \<Longrightarrow> touches look K n) \<Longrightarrow> touches look K (if b then m else n)"
  by simp

lemma touches_option [touches_intros]:
  "(x = None \<Longrightarrow> touches look K m) \<Longrightarrow> (\<And>a. x = Some a \<Longrightarrow> touches look K (n a)) \<Longrightarrow>
     touches look K (case x of None \<Rightarrow> m | Some a \<Rightarrow> n a)"
  by (cases x) simp_all

lemma touches_sum [touches_intros]:
  "(\<And>a. x = Inl a \<Longrightarrow> touches look K (m a)) \<Longrightarrow> (\<And>b. x = Inr b \<Longrightarrow> touches look K (n b)) \<Longrightarrow>
     touches look K (case x of Inl a \<Rightarrow> m a | Inr b \<Rightarrow> n b)"
  by (cases x) simp_all

lemma touches_prod [touches_intros]:
  "(\<And>a b. x = (a, b) \<Longrightarrow> touches look K (m a b)) \<Longrightarrow> touches look K (case x of (a, b) \<Rightarrow> m a b)"
  by (cases x) simp

text \<open>An error ends the stage; otherwise it goes on with the result.\<close>

definition or_fail :: "('w, 'a) go \<Rightarrow> ('a \<Rightarrow> 'w \<Rightarrow> 'w outcome) \<Rightarrow> 'w \<Rightarrow> 'w outcome" where
  "or_fail m k w =
     (case m w of
        None \<Rightarrow> None
      | Some (Inl e, w1) \<Rightarrow> failed e w1
      | Some (Inr x, w1) \<Rightarrow> k x w1)"

lemma steps_or_fail [steps_intros]:
  assumes "touches look K m" and "\<And>x. steps look K (k x)"
  shows "steps look K (or_fail m k)"
proof (rule stepsI)
  fix w s e w'
  assume eq: "or_fail m k w = Some ((s, e), w')"
  then obtain r1 w1 where m: "m w = Some (r1, w1)" by (auto simp: or_fail_def split: option.splits)
  note f1 = touchesD [OF assms(1) m]
  show "(e \<noteq> None \<longrightarrow> s = ResultFailed) \<and> only look K w w'"
  proof (cases r1)
    case (Inl er)
    with eq m f1 show ?thesis by (simp add: or_fail_def failed_def)
  next
    case (Inr x)
    with eq m have "k x w1 = Some ((s, e), w')" by (simp add: or_fail_def)
    from stepsD [OF assms(2) this] f1 show ?thesis by (auto intro: only_trans)
  qed
qed

context kube_client begin

lemma touches_act [touches_intros]:
  "key_of ob \<in> K \<Longrightarrow> touches look K (act (e_delete E ob))"
  "key_of ob \<in> K \<Longrightarrow> touches look K (act (e_create E ob))"
  by (auto intro!: touchesI simp: act_def split: prod.splits option.splits dest: write_only)

lemma touches_call [touches_intros]:
  "touches look K (call (e_get E kd ns nm))"
  "touches look K (call (e_list E kd lo))"
  "touches look K (call (e_http_get E rq))"
  "touches look K (call (GetClusterId E))"
  "touches look K (call (GetClusterOSVersion E))"
  by (auto intro!: touchesI simp: call_def dest: read_only)

lemma touches_update [touches_intros]: "key_of ob \<in> K \<Longrightarrow> touches look K (call (e_update E ob))"
  by (auto intro!: touchesI simp: call_def dest: write_only)

lemma touches_mutate [touches_intros]:
  "quiet look f \<Longrightarrow> key_of ob \<in> K \<Longrightarrow> touches look K (mutate E ob f)"
  by (rule touchesI) (auto simp: mutate_def split: option.splits dest: write_only(4) [where K = K])

lemma touches_apply_pure [touches_intros]: "key_of ob \<in> K \<Longrightarrow> touches look K (apply_pure E ob g)"
  unfolding apply_pure_def by (rule touches_attempt, rule touches_mutate) (auto intro: touches_leaf)

lemma touches_delete_unless [touches_intros]:
  assumes "\<And>ob. ob \<in> set items \<Longrightarrow> key_of ob \<in> K"
  shows "touches look K (delete_unless E P items)"
  unfolding delete_unless_def by (rule touches_each, rule touches_act) (simp add: assms)

lemma touches_listing [touches_intros]:
  assumes "\<And>items. (\<And>ob. ob \<in> set items \<Longrightarrow> list_matches kd lo ob) \<Longrightarrow> touches look K (k items)"
  shows "touches look K (listing E kd lo k)"
proof (rule touchesI)
  fix w r w'
  assume eq: "listing E kd lo k w = Some (r, w')"
  obtain rl w1 where l: "e_list E kd lo w = (rl, w1)" by fastforce
  note f1 = read_only(2) [OF l]
  show "only look K w w'"
  proof (cases rl)
    case (Inl e)
    with eq l f1 show ?thesis by (simp add: listing_def attempt_def call_def)
  next
    case (Inr items)
    with eq l have k: "k items w1 = Some (r, w')" by (simp add: listing_def attempt_def call_def)
    have "touches look K (k items)"
      by (rule assms) (use list_items [OF l [unfolded Inr]] in auto)
    from touchesD [OF this k] f1 show ?thesis by (rule only_trans [rotated])
  qed
qed

text \<open>A deletion loop that ends without an error leaves nothing of what it should delete.\<close>

lemma each_delete_gone:
  "each (\<lambda>ob. act (e_delete E ob)) obs w = Some (Inr u, w') \<Longrightarrow>
     decays look w w' \<and> (\<forall>ob \<in> set obs. gone (look w') (key_of ob))"
proof (induction obs arbitrary: w)
  case Nil
  then show ?case by (simp add: ret_def)
next
  case (Cons ob obs)
  from Cons.prems obtain w1 where d: "e_delete E ob w = (None, w1)"
    and r: "each (\<lambda>ob. act (e_delete E ob)) obs w1 = Some (Inr u, w')"
    by (auto simp: Inr_iffs)
  have "decays look w w1" using delete_keeps_gone [OF d] by (simp add: decays_def)
  moreover have "gone (look w1) (key_of ob)" by (rule delete_acked [OF d])
  ultimately show ?case using Cons.IH [OF r] by (auto intro: decays_trans dest: decaysD)
qed

text \<open>
  After \<open>listing\<close> and \<open>delete_unless\<close>, what is left of the listed kind satisfies \<open>P\<close>.
\<close>

lemma delete_unless_left:
  assumes run: "listing E kd lo (delete_unless E P) w = Some (Inr u, w')"
    and left: "look w' k = Some ob" "list_matches kd lo ob" "\<not> gone (look w') k"
    and P: "\<And>x y. key_of x = key_of y \<Longrightarrow> P x = P y"
    and lm: "\<And>x. key_of x = k \<Longrightarrow> list_matches kd lo x"
  shows "P ob"
proof -
  from run obtain items w1 where l: "e_list E kd lo w = (Inr items, w1)"
    and d: "each (\<lambda>ob. act (e_delete E ob)) (filter (\<lambda>ob. \<not> P ob) items) w1 = Some (Inr u, w')"
    by (auto simp: listing_def delete_unless_def Inr_iffs)
  note g = each_delete_gone [OF d]
  have "\<not> gone (look w1) k" using g left(3) by (auto dest: decaysD)
  then obtain x where x: "look w1 k = Some x" by (auto simp: gone_def split: option.splits)
  with look_key have kx: "key_of x = k" by blast
  with x l lm list_frame [OF l] list_items [OF l] have "x \<in> set items" by simp
  with g left(3) kx have "P x" by auto
  with P [of x ob] kx look_key [OF left(1)] show ?thesis by simp
qed

lemma delete_if_present_gone:
  "delete_if_present E ob w = Some (Inr u, w') \<Longrightarrow> gone (look w') (key_of ob)"
  using delete_settled [of ob w] by (auto simp: delete_if_present_def split: prod.splits option.splits if_splits)

lemma delete_if_present_run:
  assumes "delete_if_present E ob w = Some (r, w')"
  obtains rd where "e_delete E ob w = (rd, w')"
  using assms by (auto simp: delete_if_present_def split: prod.splits option.splits if_splits)

lemma touches_delete_if_present [touches_intros]:
  assumes "key_of ob \<in> K"
  shows "touches look K (delete_if_present E ob)"
proof (rule touchesI)
  fix w r w'
  assume "delete_if_present E ob w = Some (r, w')"
  then show "only look K w w'" by (rule delete_if_present_run) (rule write_only(1) [OF _ assms])
qed

end

section \<open>Deletion runs\<close>

text \<open>
  \<open>sweeps look K D m\<close>: the run changes only objects in \<open>K\<close>, brings nothing back, and when it
  returns without an error the objects in \<open>D\<close> (of the world it started in) are gone.
\<close>

definition sweeps ::
  "('w \<Rightarrow> okey \<Rightarrow> kobj option) \<Rightarrow> okey set \<Rightarrow> ('w \<Rightarrow> okey set) \<Rightarrow> ('w, unit) go \<Rightarrow> bool" where
  "sweeps look K D m \<longleftrightarrow>
     (\<forall>w r w'. m w = Some (r, w') \<longrightarrow> only look K w w' \<and> decays look w w'
        \<and> (case r of Inl e \<Rightarrow> True | Inr u \<Rightarrow> all_gone look (D w) w'))"

lemma sweepsD:
  "sweeps look K D m \<Longrightarrow> m w = Some (r, w') \<Longrightarrow> only look K w w'"
  "sweeps look K D m \<Longrightarrow> m w = Some (r, w') \<Longrightarrow> decays look w w'"
  "sweeps look K D m \<Longrightarrow> m w = Some (Inr u, w') \<Longrightarrow> all_gone look (D w) w'"
  unfolding sweeps_def by fastforce+

lemma sweepsI:
  assumes "\<And>w r w'. m w = Some (r, w') \<Longrightarrow> only look K w w'"
    and "\<And>w r w'. m w = Some (r, w') \<Longrightarrow> decays look w w'"
    and "\<And>w u w'. m w = Some (Inr u, w') \<Longrightarrow> all_gone look (D w) w'"
  shows "sweeps look K D m"
  unfolding sweeps_def using assms by (auto split: sum.splits)

lemma sweeps_weaken:
  "sweeps look K D m \<Longrightarrow> K \<subseteq> K' \<Longrightarrow> (\<And>w. D' w \<subseteq> D w) \<Longrightarrow> sweeps look K' D' m"
  by (rule sweepsI) (blast intro: only_mono sweepsD(1), blast intro: sweepsD(2), rule all_gone_mono [OF sweepsD(3)])

lemma sweeps_if:
  "sweeps look K D m \<Longrightarrow> sweeps look K (\<lambda>w. if b then D w else {}) (if b then m else ret ())"
  by (cases b) (auto intro!: sweepsI simp: ret_def dest: sweepsD)

lemma sweeps_attempt:
  assumes m: "sweeps look K1 D1 m" and n: "sweeps look K2 D2 n"
    and stable: "\<And>w w'. only look K1 w w' \<Longrightarrow> D2 w \<subseteq> D2 w'"
  shows "sweeps look (K1 \<union> K2) (\<lambda>w. D1 w \<union> D2 w) (attempt m (\<lambda>_. n))"
proof (rule sweepsI)
  fix w r w'
  assume eq: "attempt m (\<lambda>_. n) w = Some (r, w')"
  then consider (stop) e where "m w = Some (Inl e, w')" | (go) x w1 where "m w = Some (Inr x, w1)" "n w1 = Some (r, w')"
    by (auto simp: attempt_def split: option.splits sum.splits)
  then have "only look (K1 \<union> K2) w w' \<and> decays look w w'"
  proof cases
    case stop
    from only_mono [OF sweepsD(1) [OF m stop], of "K1 \<union> K2"] sweepsD(2) [OF m stop] show ?thesis by simp
  next
    case go
    have "only look (K1 \<union> K2) w w'"
      by (rule only_trans [OF only_mono [OF sweepsD(1) [OF m go(1)]] only_mono [OF sweepsD(1) [OF n go(2)]]]) simp_all
    with decays_trans [OF sweepsD(2) [OF m go(1)] sweepsD(2) [OF n go(2)]] show ?thesis by simp
  qed
  then show "only look (K1 \<union> K2) w w'" and "decays look w w'" by simp_all
next
  fix w u w'
  assume "attempt m (\<lambda>_. n) w = Some (Inr u, w')"
  then obtain x w1 where go: "m w = Some (Inr x, w1)" "n w1 = Some (Inr u, w')" by (auto simp: attempt_Inr_iff)
  have "all_gone look (D1 w) w'"
    by (rule all_gone_decays [OF sweepsD(3) [OF m go(1)] sweepsD(2) [OF n go(2)]])
  moreover have "all_gone look (D2 w) w'"
    by (rule all_gone_mono [OF sweepsD(3) [OF n go(2)] stable [OF sweepsD(1) [OF m go(1)]]])
  ultimately show "all_gone look (D1 w \<union> D2 w) w'" by simp
qed

lemma sweeps_cleans:
  assumes "sweeps look K D m" and "\<And>w. D' \<subseteq> D w"
  shows "cleans look K D' (or_fail m (\<lambda>_. success))"
proof (rule cleansI)
  fix w s e w'
  assume "or_fail m (\<lambda>_. success) w = Some ((s, e), w')"
  then consider er where "m w = Some (Inl er, w')" "s = ResultFailed" | u where "m w = Some (Inr u, w')" "e = None"
    by (auto simp: or_fail_def failed_def success_def split: option.splits sum.splits)
  then show "(e \<noteq> None \<longrightarrow> s = ResultFailed) \<and> only look K w w' \<and> decays look w w'
    \<and> (s = ResultSuccess \<longrightarrow> all_gone look D' w')"
    by cases (auto dest: sweepsD(1,2) [OF assms(1)] intro: all_gone_mono [OF sweepsD(3) [OF assms(1)] assms(2)])
qed

text \<open>The objects a list matches in a world.\<close>

definition matching :: "('w \<Rightarrow> okey \<Rightarrow> kobj option) \<Rightarrow> kind \<Rightarrow> ListOptions \<Rightarrow> 'w \<Rightarrow> okey set" where
  "matching look kd lo w = {key_of ob | ob. look w (key_of ob) = Some ob \<and> list_matches kd lo ob}"

lemma matching_stable:
  assumes "only look K w w'" and "\<And>k. k \<in> K \<Longrightarrow> fst k \<noteq> kd"
  shows "matching look kd lo w \<subseteq> matching look kd lo w'"
proof
  fix k
  assume "k \<in> matching look kd lo w"
  then obtain ob where ob: "k = key_of ob" "look w (key_of ob) = Some ob" "list_matches kd lo ob"
    by (auto simp: matching_def)
  then have "fst (key_of ob) = kd" by (simp add: list_matches_def key_of_def)
  with assms have "key_of ob \<notin> K" by blast
  with assms(1) ob(2) have "look w' (key_of ob) = Some ob" unfolding only_def by metis
  with ob show "k \<in> matching look kd lo w'" unfolding matching_def by blast
qed

text \<open>The objects a list over a namespace can match; the empty namespace stands for all.\<close>

definition of_kind :: "kind \<Rightarrow> string \<Rightarrow> okey set" where
  "of_kind kd ns = {k. fst k = kd \<and> (ns = [] \<or> fst (snd k) = ns)}"

context kube_client begin

lemma each_delete_decays:
  "each (\<lambda>ob. act (e_delete E ob)) obs w = Some (r, w') \<Longrightarrow> decays look w w'"
proof (induction obs arbitrary: w)
  case Nil
  then show ?case by (simp add: ret_def)
next
  case (Cons ob obs)
  obtain rd w1 where d: "e_delete E ob w = (rd, w1)" by fastforce
  have "decays look w w1" using delete_keeps_gone [OF d] unfolding decays_def by metis
  moreover have "w' = w1 \<or> each (\<lambda>ob. act (e_delete E ob)) obs w1 = Some (r, w')"
    using Cons.prems d by (cases rd) (simp_all add: attempt_def act_def [of "e_delete E ob"])
  ultimately show ?case using Cons.IH by (auto intro: decays_trans)
qed

lemma sweeps_delete_all:
  assumes "lo_namespace lo = ns"
  shows "sweeps look (of_kind kd ns) (matching look kd lo) (delete_all E kd lo)"
proof (rule sweepsI)
  have "touches look (of_kind kd ns) (delete_all E kd lo)"
    unfolding delete_all_def
    by (rule touches_listing, rule touches_each, rule touches_act)
      (use assms in \<open>force simp: list_matches_def of_kind_def key_of_def\<close>)
  then show "only look (of_kind kd ns) w w'" if "delete_all E kd lo w = Some (r, w')" for w r w'
    using that by (rule touchesD)
next
  fix w r w'
  assume eq: "delete_all E kd lo w = Some (r, w')"
  obtain rl w1 where l: "e_list E kd lo w = (rl, w1)" by fastforce
  have "w' = w1 \<or> (\<exists>items. each (\<lambda>ob. act (e_delete E ob)) items w1 = Some (r, w'))"
    using eq l by (auto simp: delete_all_def listing_def attempt_def call_def split: sum.splits)
  with same_look(2) [OF list_frame [OF l]] show "decays look w w'"
    by (auto dest: each_delete_decays intro: decays_trans)
next
  fix w u w'
  assume "delete_all E kd lo w = Some (Inr u, w')"
  then obtain items w1 where l: "e_list E kd lo w = (Inr items, w1)"
    and d: "each (\<lambda>ob. act (e_delete E ob)) items w1 = Some (Inr u, w')"
    by (auto simp: delete_all_def listing_def Inr_iffs)
  from each_delete_gone [OF d] list_items [OF l] show "all_gone look (matching look kd lo w) w'"
    by (auto simp: all_gone_def matching_def)
qed

lemma sweeps_delete_if_present:
  "sweeps look {key_of ob} (\<lambda>w. {key_of ob}) (delete_if_present E ob)"
proof (rule sweepsI)
  fix w r w'
  assume eq: "delete_if_present E ob w = Some (r, w')"
  then show "only look {key_of ob} w w'" by (rule touchesD [OF touches_delete_if_present, rotated]) simp
  from eq show "decays look w w'"
    by (rule delete_if_present_run) (metis delete_keeps_gone decays_def)
next
  fix w u w'
  assume "delete_if_present E ob w = Some (Inr u, w')"
  then show "all_gone look {key_of ob} w'" by (simp add: delete_if_present_gone)
qed

end

end
