(* ===== verification/Csv_Stage.thy ===== *)
theory Csv_Stage
  imports Go_Effects
begin

text \<open>
  \<^verbatim>\<open>controllers/reconcilers/csv\<close>: sets the operator's priority class on the deployments of the
  Grafana and Prometheus operators' ClusterServiceVersions, and deletes these on cleanup.
\<close>

text \<open>
  The loop over one CSV's deployments.  The slice that is ranged over is fixed when the loop
  starts; the update refreshes the object, and an index it no longer has is a panic.
\<close>

fun patch_deployments ::
  "'w env \<Rightarrow> string \<Rightarrow> nat list \<Rightarrow> DeploymentSpecs \<Rightarrow> kobj \<Rightarrow> ('w, kobj) go" where
  "patch_deployments E name [] ranged csv = ret csv"
| "patch_deployments E name (i # is) ranged csv =
     (if fst (ranged ! i) \<noteq> name then patch_deployments E name is ranged csv
      else if length (csv_of (k_body csv)) \<le> i then panic
      else attempt (call (e_update E (set_body (BClusterServiceVersion
                 ((csv_of (k_body csv))[i := (fst (csv_of (k_body csv) ! i), ObservabilityPriorityClassName)])) csv)))
             (patch_deployments E name is ranged))"

definition patch_csv :: "'w env \<Rightarrow> Observability \<Rightarrow> string \<Rightarrow> string \<Rightarrow> kobj \<Rightarrow> ('w, kobj) go" where
  "patch_csv E cr prefix deployment csv =
     (if ob_namespace csv = o_namespace cr \<and> HasPrefix (ob_name csv) prefix
      then patch_deployments E deployment [0..<length (csv_of (k_body csv))] (csv_of (k_body csv)) csv
      else ret csv)"

fun csv_reconcile_each :: "'w env \<Rightarrow> Observability \<Rightarrow> kobj list \<Rightarrow> 'w \<Rightarrow> 'w outcome" where
  "csv_reconcile_each E cr [] = success"
| "csv_reconcile_each E cr (csv # csvs) =
     or_fail (attempt (patch_csv E cr ''grafana-operator.'' ''grafana-operator'' csv)
                (patch_csv E cr ''prometheusoperator.'' ''prometheus-operator''))
       (\<lambda>_. csv_reconcile_each E cr csvs)"

definition csv_Reconcile ::
  "'w env \<Rightarrow> Observability \<Rightarrow> ObservabilityStatus \<Rightarrow> 'w
    \<Rightarrow> ((ObservabilityStageStatus \<times> goerr option) \<times> Observability \<times> ObservabilityStatus \<times> 'w) option" where
  "csv_Reconcile E cr s w = leave cr s
     (list_then E KClusterServiceVersion (in_namespace (o_namespace cr)) (csv_reconcile_each E cr) w)"

fun csv_cleanup_each :: "'w env \<Rightarrow> Observability \<Rightarrow> kobj list \<Rightarrow> 'w \<Rightarrow> 'w outcome" where
  "csv_cleanup_each E cr [] w = success w"
| "csv_cleanup_each E cr (csv # csvs) w =
     (if ob_namespace csv = o_namespace cr \<and> HasPrefix (ob_name csv) ''grafana-operator.''
      then delete_then E csv in_progress w
      else if ob_namespace csv = o_namespace cr \<and> HasPrefix (ob_name csv) ''prometheusoperator.''
      then delete_then E csv in_progress w
      else csv_cleanup_each E cr csvs w)"

definition csv_Cleanup :: "'w env \<Rightarrow> Observability \<Rightarrow> 'w \<Rightarrow> 'w outcome" where
  "csv_Cleanup E cr =
     list_then E KClusterServiceVersion (in_namespace (o_namespace cr)) (csv_cleanup_each E cr)"

definition csv_reconciler :: "'w reconciler" where
  "csv_reconciler = \<lparr>rec_Reconcile = csv_Reconcile, rec_Cleanup = csv_Cleanup\<rparr>"

text \<open>The CSVs of the two operators in the resource's namespace.\<close>

definition csv_owned :: "Observability \<Rightarrow> okey set" where
  "csv_owned cr = {(KClusterServiceVersion, o_namespace cr, name) | name.
     HasPrefix name ''grafana-operator.'' \<or> HasPrefix name ''prometheusoperator.''}"

lemma csv_cleanup_each_success:
  assumes "csv_cleanup_each E cr csvs w = Some ((ResultSuccess, e), w')"
  shows "\<forall>csv \<in> set csvs. ob_namespace csv = o_namespace cr \<longrightarrow>
    \<not> HasPrefix (ob_name csv) ''grafana-operator.'' \<and> \<not> HasPrefix (ob_name csv) ''prometheusoperator.''"
  using assms
  by (induction csvs)
    (auto simp: delete_then_def in_progress_def failed_def split: if_splits prod.splits option.splits)

context kube_client begin

lemma patch_deployments_key:
  "patch_deployments E name is ranged csv w = Some (Inr csv', w') \<Longrightarrow> key_of csv' = key_of csv"
proof (induction "is" arbitrary: csv w)
  case Nil
  then show ?case by (simp add: Inr_iffs)
next
  case (Cons i "is")
  then show ?case by (fastforce simp: Inr_iffs panic_def dest: update_key split: if_splits)
qed

lemma patch_deployments_touches:
  "key_of csv \<in> K \<Longrightarrow> touches look K (patch_deployments E name is ranged csv)"
proof (induction "is" arbitrary: csv)
  case Nil
  show ?case by (simp add: touches_leaf)
next
  case (Cons i "is")
  have "touches look K (attempt (call (e_update E ob)) (patch_deployments E name is ranged))"
    if ob: "key_of ob \<in> K" for ob
  proof (rule touches_post [OF touches_update [OF ob], where P = "\<lambda>x. key_of x \<in> K"])
    fix w x w'
    assume "call (e_update E ob) w = Some (Inr x, w')"
    with update_key ob show "key_of x \<in> K" by (auto simp: Inr_iffs)
  qed (rule Cons.IH)
  with Cons show ?case by (simp add: touches_leaf)
qed

lemma patch_csv_key: "patch_csv E cr prefix deployment csv w = Some (Inr csv', w') \<Longrightarrow> key_of csv' = key_of csv"
  by (auto simp: patch_csv_def Inr_iffs split: if_splits dest: patch_deployments_key)

lemma patch_csv_touches: "key_of csv \<in> K \<Longrightarrow> touches look K (patch_csv E cr prefix deployment csv)"
  by (simp add: patch_csv_def patch_deployments_touches touches_leaf)

lemma csv_reconcile_each_steps:
  "\<forall>csv \<in> set csvs. key_of csv \<in> K \<Longrightarrow> steps look K (csv_reconcile_each E cr csvs)"
proof (induction csvs)
  case Nil
  show ?case by (simp add: steps_leaf)
next
  case (Cons csv csvs)
  from Cons.prems have K: "key_of csv \<in> K" by simp
  have "touches look K (attempt (patch_csv E cr ''grafana-operator.'' ''grafana-operator'' csv)
                (patch_csv E cr ''prometheusoperator.'' ''prometheus-operator''))"
    by (rule touches_post [OF patch_csv_touches [OF K], where P = "\<lambda>x. key_of x \<in> K"])
      (use K in \<open>simp_all add: patch_csv_key patch_csv_touches\<close>)
  with Cons show ?case by (simp add: steps_or_fail)
qed

lemma csv_Reconcile_steps:
  "steps look foreign (list_then E KClusterServiceVersion (in_namespace (o_namespace cr)) (csv_reconcile_each E cr))"
proof (rule stepsI)
  fix w s e w'
  assume eq: "list_then E KClusterServiceVersion (in_namespace (o_namespace cr)) (csv_reconcile_each E cr) w
    = Some ((s, e), w')"
  obtain r w1 where l: "list_or_empty E KClusterServiceVersion (in_namespace (o_namespace cr)) w = (r, w1)"
    by fastforce
  note f1 = same_look(1) [OF list_or_empty_frame [OF l], of foreign]
  show "(e \<noteq> None \<longrightarrow> s = ResultFailed) \<and> only look foreign w w'"
  proof (cases r)
    case (Inl err)
    with eq l f1 show ?thesis by (simp add: list_then_def failed_def)
  next
    case (Inr items)
    have "\<forall>csv \<in> set items. key_of csv \<in> foreign"
      using listed_kind [OF l [unfolded Inr]] by (auto simp: foreign_def key_of_def)
    moreover from eq l Inr have "csv_reconcile_each E cr items w1 = Some ((s, e), w')"
      by (simp add: list_then_def)
    ultimately have "(e \<noteq> None \<longrightarrow> s = ResultFailed) \<and> only look foreign w1 w'"
      by (rule stepsD [OF csv_reconcile_each_steps])
    with f1 show ?thesis by (auto intro: only_trans)
  qed
qed

lemma csv_cleanup_each_cleans:
  assumes "\<forall>csv \<in> set csvs. k_kind csv = KClusterServiceVersion"
  shows "cleans look (csv_owned cr) {} (csv_cleanup_each E cr csvs)"
  using assms
proof (induction csvs)
  case Nil
  show ?case by (rule cleansI) (simp add: success_def)
next
  case (Cons csv csvs)
  have del: "cleans look (csv_owned cr) {} (delete_then E csv in_progress)" if "key_of csv \<in> csv_owned cr"
    by (rule cleans_sub [OF cleans_delete_then [OF that cleans_leaf(2)]]) simp
  show ?case
  proof (cases "ob_namespace csv = o_namespace cr
      \<and> (HasPrefix (ob_name csv) ''grafana-operator.'' \<or> HasPrefix (ob_name csv) ''prometheusoperator.'')")
    case True
    with Cons.prems have "key_of csv \<in> csv_owned cr" by (simp add: csv_owned_def key_of_def)
    from del [OF this] True show ?thesis
      unfolding csv_cleanup_each.simps [abs_def] by (auto intro: cleans_if)
  next
    case False
    then have "csv_cleanup_each E cr (csv # csvs) = csv_cleanup_each E cr csvs"
      by (auto simp: fun_eq_iff)
    with Cons show ?thesis by simp
  qed
qed

text \<open>Success means that no CSV of the two operators was left.\<close>

lemma csv_cleanup_each_all_gone:
  assumes "list_or_empty E KClusterServiceVersion (in_namespace (o_namespace cr)) w = (Inr items, w1)"
    and "csv_cleanup_each E cr items w1 = Some ((ResultSuccess, e), w')"
  shows "all_gone look (csv_owned cr) w"
  unfolding all_gone_def
proof
  fix k
  assume k: "k \<in> csv_owned cr"
  show "gone (look w) k"
  proof (cases "look w k")
    case None
    then show ?thesis by (simp add: gone_def)
  next
    case (Some ob)
    then have key: "key_of ob = k" by (rule look_key)
    with k have "list_matches KClusterServiceVersion (in_namespace (o_namespace cr)) ob"
      by (auto simp: csv_owned_def key_of_def list_matches_def)
    with Some key list_or_empty_items [OF assms(1)] have "ob \<in> set items" by simp
    with csv_cleanup_each_success [OF assms(2)] k key show ?thesis
      by (auto simp: csv_owned_def key_of_def)
  qed
qed

lemma csv_cleanup_each_success_frame:
  "csv_cleanup_each E cr csvs w = Some ((ResultSuccess, e), w') \<Longrightarrow> w' = w"
  by (induction csvs)
    (auto simp: delete_then_def idiom_defs split: if_splits prod.splits option.splits)

lemma csv_Cleanup_cleans: "cleans look (csv_owned cr) (csv_owned cr) (csv_Cleanup E cr)"
proof (rule cleansI)
  fix w s e w'
  assume eq: "csv_Cleanup E cr w = Some ((s, e), w')"
  obtain r w1 where l: "list_or_empty E KClusterServiceVersion (in_namespace (o_namespace cr)) w = (r, w1)"
    by fastforce
  note f1 = same_look [OF list_or_empty_frame [OF l]]
  show "(e \<noteq> None \<longrightarrow> s = ResultFailed) \<and> only look (csv_owned cr) w w' \<and> decays look w w'
    \<and> (s = ResultSuccess \<longrightarrow> all_gone look (csv_owned cr) w')"
  proof (cases r)
    case (Inl err)
    with eq l f1 show ?thesis by (simp add: csv_Cleanup_def list_then_def failed_def)
  next
    case (Inr items)
    have c: "cleans look (csv_owned cr) {} (csv_cleanup_each E cr items)"
      by (rule csv_cleanup_each_cleans) (use listed_kind [OF l [unfolded Inr]] in simp)
    from eq l Inr have eq1: "csv_cleanup_each E cr items w1 = Some ((s, e), w')"
      by (simp add: csv_Cleanup_def list_then_def)
    have "s = ResultSuccess \<Longrightarrow> all_gone look (csv_owned cr) w"
      using csv_cleanup_each_all_gone [OF l [unfolded Inr]] eq1 by simp
    with f1 cleansD [OF c eq1] show ?thesis
      by (auto intro: only_trans decays_trans all_gone_decays)
  qed
qed

lemma csv_owned_foreign: "csv_owned cr \<subseteq> foreign"
  by (auto simp: csv_owned_def foreign_def)

lemma csv_stage_laws: "stage_reconciler E look csv_reconciler csv_owned csv_owned"
  by (rule stage_reconciler_leaveI [OF _ csv_Reconcile_steps])
    (simp_all add: csv_reconciler_def csv_Reconcile_def csv_Cleanup_cleans csv_owned_foreign)

end

sublocale kube_client \<subseteq> csv_stage: stage_reconciler E look csv_reconciler csv_owned csv_owned
  by (rule csv_stage_laws)

end
