(* ===== verification/Migration_Stage.thy ===== *)
theory Migration_Stage
  imports Obs_Stage
begin

text \<open>
  \<^verbatim>\<open>controllers/reconcilers/migration/resource_name_migration.go\<close>: deletes the objects that
  earlier releases created under their old default names, once.
\<close>

text \<open>The waits are called for their effect only: their results are discarded.\<close>

definition ignoring :: "(ObservabilityStageStatus \<times> goerr option) \<times> 'w \<Rightarrow> ('w \<Rightarrow> 'w outcome) \<Rightarrow> 'w outcome" where
  "ignoring r k = (case r of (_, w) \<Rightarrow> k w)"

definition migrate_prometheus :: "'w env \<Rightarrow> Observability \<Rightarrow> 'w \<Rightarrow> 'w outcome" where
  "migrate_prometheus E cr w =
     (if sp_PrometheusDefaultName (o_spec cr) = [] then
        delete_then E (set_name PrometheusOldDefaultName (GetPrometheus cr)) (\<lambda>w.
        ignoring (WaitForPrometheusToBeRemoved E cr w)
          (delete_each E (map (set_name PrometheusOldDefaultName)
             [GetPrometheusRoute cr, GetPrometheusService cr, GetPrometheusServiceAccount cr,
              GetPrometheusClusterRole cr, GetPrometheusClusterRoleBinding cr]) success)) w
      else success w)"

definition migrate_alertmanager_secret :: "'w env \<Rightarrow> Observability \<Rightarrow> 'w \<Rightarrow> 'w outcome" where
  "migrate_alertmanager_secret E cr w =
     (if \<not> fst (HasAlertmanagerConfigSecret cr) \<and> \<not> ExternalSyncDisabled cr then
        delete_then E (set_name (''alertmanager-'' @ AlertManagerOldDefaultName) (GetAlertmanagerSecret cr)) success w
      else success w)"

definition migrate_alertmanager :: "'w env \<Rightarrow> Observability \<Rightarrow> 'w \<Rightarrow> 'w outcome" where
  "migrate_alertmanager E cr w =
     (if sp_AlertManagerDefaultName (o_spec cr) = [] then
        and_then (migrate_alertmanager_secret E cr w)
          (delete_then E (set_name AlertManagerOldDefaultName (GetAlertmanagerCr cr)) (\<lambda>w.
           ignoring (WaitForAlertmanagerToBeRemoved E cr w)
             (delete_each E (map (set_name AlertManagerOldDefaultName)
                [GetAlertmanagerServiceAccount cr, GetAlertmanagerRoute cr, GetAlertmanagerService cr,
                 GetAlertmanagerClusterRole cr, GetAlertmanagerClusterRoleBinding cr]) success)))
      else success w)"

definition migrate_grafana :: "'w env \<Rightarrow> Observability \<Rightarrow> 'w \<Rightarrow> 'w outcome" where
  "migrate_grafana E cr w =
     (if \<not> DescopedModeEnabled cr \<and> sp_GrafanaDefaultName (o_spec cr) = [] then
        delete_then E (set_name GrafanaOldDefaultName (GetGrafanaCr cr)) (\<lambda>w.
        ignoring (WaitForGrafanaToBeRemoved E cr w) success) w
      else success w)"

definition migrate_promtail :: "'w env \<Rightarrow> Observability \<Rightarrow> 'w \<Rightarrow> 'w outcome" where
  "migrate_promtail E cr w =
     (if \<not> ExternalSyncDisabled cr \<or> \<not> ObservatoriumDisabled cr then
        delete_each E (map (set_name PromtailOldDefaultName)
          [GetPromtailServiceAccount cr, GetPromtailClusterRole cr, GetPromtailClusterRoleBinding cr]) success w
      else success w)"

definition migrate_all :: "'w env \<Rightarrow> Observability \<Rightarrow> 'w \<Rightarrow> 'w outcome" where
  "migrate_all E cr w =
     and_then (migrate_prometheus E cr w) (\<lambda>w.
     and_then (migrate_alertmanager E cr w) (\<lambda>w.
     and_then (migrate_grafana E cr w) (migrate_promtail E cr)))"

definition migration_Reconcile ::
  "'w env \<Rightarrow> Observability \<Rightarrow> ObservabilityStatus \<Rightarrow> 'w
    \<Rightarrow> ((ObservabilityStageStatus \<times> goerr option) \<times> Observability \<times> ObservabilityStatus \<times> 'w) option" where
  "migration_Reconcile E cr s w =
     (if st_Migrated s then leave cr s (success w)
      else case migrate_all E cr w of
             None \<Rightarrow> None
           | Some ((status, err), w1) \<Rightarrow>
               if status = ResultSuccess
               then Some ((ResultSuccess, None), cr, s\<lparr>st_Migrated := True\<rparr>, w1)
               else Some ((status, err), cr, s, w1))"

definition migration_Cleanup :: "'w env \<Rightarrow> Observability \<Rightarrow> 'w \<Rightarrow> 'w outcome" where
  "migration_Cleanup E cr = success"

definition migration_reconciler :: "'w reconciler" where
  "migration_reconciler = \<lparr>rec_Reconcile = migration_Reconcile, rec_Cleanup = migration_Cleanup\<rparr>"

text \<open>The objects of earlier releases that the migration removes for a given resource.\<close>

definition old_prometheus :: "Observability \<Rightarrow> okey set" where
  "old_prometheus cr =
     (if sp_PrometheusDefaultName (o_spec cr) = [] then
        key_of ` set (map (set_name PrometheusOldDefaultName)
          [GetPrometheus cr, GetPrometheusRoute cr, GetPrometheusService cr, GetPrometheusServiceAccount cr,
           GetPrometheusClusterRole cr, GetPrometheusClusterRoleBinding cr]) else {})"

definition old_alertmanager :: "Observability \<Rightarrow> okey set" where
  "old_alertmanager cr =
     (if sp_AlertManagerDefaultName (o_spec cr) = [] then
        (if \<not> fst (HasAlertmanagerConfigSecret cr) \<and> \<not> ExternalSyncDisabled cr
         then {key_of (set_name (''alertmanager-'' @ AlertManagerOldDefaultName) (GetAlertmanagerSecret cr))} else {})
        \<union> key_of ` set (map (set_name AlertManagerOldDefaultName)
          [GetAlertmanagerCr cr, GetAlertmanagerServiceAccount cr, GetAlertmanagerRoute cr,
           GetAlertmanagerService cr, GetAlertmanagerClusterRole cr, GetAlertmanagerClusterRoleBinding cr])
      else {})"

definition old_grafana :: "Observability \<Rightarrow> okey set" where
  "old_grafana cr =
     (if \<not> DescopedModeEnabled cr \<and> sp_GrafanaDefaultName (o_spec cr) = []
      then {key_of (set_name GrafanaOldDefaultName (GetGrafanaCr cr))} else {})"

definition old_promtail :: "Observability \<Rightarrow> okey set" where
  "old_promtail cr =
     (if \<not> ExternalSyncDisabled cr \<or> \<not> ObservatoriumDisabled cr then
        key_of ` set (map (set_name PromtailOldDefaultName)
          [GetPromtailServiceAccount cr, GetPromtailClusterRole cr, GetPromtailClusterRoleBinding cr]) else {})"

definition old_objects :: "Observability \<Rightarrow> okey set" where
  "old_objects cr = old_prometheus cr \<union> (old_alertmanager cr \<union> (old_grafana cr \<union> old_promtail cr))"

lemmas old_defs = old_prometheus_def old_alertmanager_def old_grafana_def old_promtail_def

context kube_client begin

lemma cleans_ignoring_wait [cleans_intros]:
  "cleans look K D k \<Longrightarrow> cleans look K D (\<lambda>w. ignoring (wait_removed E kd ns nm w) k)"
  unfolding ignoring_def by (rule cleans_frame [OF wait_removed_frame])

lemma migrate_prometheus_cleans: "cleans look (old_prometheus cr) (old_prometheus cr) (migrate_prometheus E cr)"
proof (cases "sp_PrometheusDefaultName (o_spec cr) = []")
  case True
  then show ?thesis
    unfolding migrate_prometheus_def [abs_def] WaitForPrometheusToBeRemoved_def
    by simp (rule cleans_sub, (rule cleans_intros | simp add: old_defs)+)
next
  case False
  then have "migrate_prometheus E cr = success" by (auto simp: migrate_prometheus_def fun_eq_iff)
  with False show ?thesis by (auto simp: old_defs intro: cleans_leaf)
qed

lemma migrate_alertmanager_secret_cleans:
  assumes "sp_AlertManagerDefaultName (o_spec cr) = []"
  shows "cleans look (old_alertmanager cr)
    (if \<not> fst (HasAlertmanagerConfigSecret cr) \<and> \<not> ExternalSyncDisabled cr
     then {key_of (set_name (''alertmanager-'' @ AlertManagerOldDefaultName) (GetAlertmanagerSecret cr))} else {})
    (migrate_alertmanager_secret E cr)"
proof (cases "\<not> fst (HasAlertmanagerConfigSecret cr) \<and> \<not> ExternalSyncDisabled cr")
  case True
  with assms show ?thesis
    unfolding migrate_alertmanager_secret_def [abs_def]
    by simp (rule cleans_sub, (rule cleans_intros | simp add: old_defs)+)
next
  case False
  then have "migrate_alertmanager_secret E cr = success" by (auto simp: migrate_alertmanager_secret_def fun_eq_iff)
  with False show ?thesis by (auto simp: old_defs intro: cleans_leaf)
qed

lemma migrate_alertmanager_cleans: "cleans look (old_alertmanager cr) (old_alertmanager cr) (migrate_alertmanager E cr)"
proof (cases "sp_AlertManagerDefaultName (o_spec cr) = []")
  case True
  then show ?thesis
    unfolding migrate_alertmanager_def [abs_def] WaitForAlertmanagerToBeRemoved_def
    by simp (rule cleans_sub,
      (rule migrate_alertmanager_secret_cleans cleans_intros | simp add: old_defs)+)
next
  case False
  then have "migrate_alertmanager E cr = success" by (auto simp: migrate_alertmanager_def fun_eq_iff)
  with False show ?thesis by (auto simp: old_defs intro: cleans_leaf)
qed

lemma migrate_grafana_cleans: "cleans look (old_grafana cr) (old_grafana cr) (migrate_grafana E cr)"
proof (cases "\<not> DescopedModeEnabled cr \<and> sp_GrafanaDefaultName (o_spec cr) = []")
  case True
  then show ?thesis
    unfolding migrate_grafana_def [abs_def] WaitForGrafanaToBeRemoved_def
    by simp (rule cleans_sub, (rule cleans_intros | simp add: old_defs)+)
next
  case False
  then have "migrate_grafana E cr = success" by (auto simp: migrate_grafana_def fun_eq_iff)
  with False show ?thesis by (auto simp: old_defs intro: cleans_leaf)
qed

lemma migrate_promtail_cleans: "cleans look (old_promtail cr) (old_promtail cr) (migrate_promtail E cr)"
proof (cases "\<not> ExternalSyncDisabled cr \<or> \<not> ObservatoriumDisabled cr")
  case True
  then show ?thesis
    unfolding migrate_promtail_def [abs_def]
    by simp (rule cleans_sub, (rule cleans_intros | simp add: old_defs)+)
next
  case False
  then have "migrate_promtail E cr = success" by (auto simp: migrate_promtail_def fun_eq_iff)
  with False show ?thesis by (auto simp: old_defs intro: cleans_leaf)
qed

lemma migrate_all_cleans: "cleans look (old_objects cr) (old_objects cr) (migrate_all E cr)"
  unfolding migrate_all_def [abs_def] old_objects_def
  by (rule cleans_and_then cleans_weaken [OF migrate_prometheus_cleans]
        cleans_weaken [OF migrate_alertmanager_cleans] cleans_weaken [OF migrate_grafana_cleans]
        cleans_weaken [OF migrate_promtail_cleans] | blast)+

lemma old_objects_foreign: "old_objects cr \<subseteq> foreign"
  by (auto simp: old_objects_def old_defs foreign_def model_obj_defs obj_upd_defs)

lemma migration_Reconcile_cases:
  assumes "migration_Reconcile E cr st w = Some ((s, er), cr', st', w')"
  obtains (already) "st_Migrated st" "s = ResultSuccess" "er = None" "st' = st" "w' = w" "cr' = cr"
  | (migrated) e where "migrate_all E cr w = Some ((ResultSuccess, e), w')" "s = ResultSuccess" "er = None"
      "st' = st\<lparr>st_Migrated := True\<rparr>" "cr' = cr"
  | (stopped) "migrate_all E cr w = Some ((s, er), w')" "s \<noteq> ResultSuccess" "st' = st" "cr' = cr"
  using assms
  by (auto simp: migration_Reconcile_def leave_Some_iff success_def split: if_splits option.splits)

lemma migration_stage_laws: "stage_reconciler E look migration_reconciler (\<lambda>_. {}) (\<lambda>_. {})"
proof (rule stage_reconcilerI)
  fix cr st w s er cr' st' w'
  assume "rec_Reconcile migration_reconciler E cr st w = Some ((s, er), cr', st', w')"
  then have "migration_Reconcile E cr st w = Some ((s, er), cr', st', w')"
    by (simp add: migration_reconciler_def)
  then show "(er \<noteq> None \<longrightarrow> s = ResultFailed) \<and> same_identity cr cr' \<and> same_progress st st' \<and> only look foreign w w'"
    by (cases rule: migration_Reconcile_cases)
      (auto simp: same_progress_def dest!: cleansD [OF migrate_all_cleans]
        intro: only_mono [OF _ old_objects_foreign])
qed (simp_all add: migration_reconciler_def migration_Cleanup_def cleans_leaf)

end

sublocale kube_client \<subseteq> migration_stage: stage_reconciler E look migration_reconciler "\<lambda>_. {}" "\<lambda>_. {}"
  by (rule migration_stage_laws)

section \<open>Properties\<close>

text \<open>
  C17: the migration touches only objects with old default names; it is recorded as done only once
  all of them are gone, and does nothing from then on.
\<close>

theorem migrated_once:
  assumes "kube_client E look" and "migration_Reconcile E cr s w = Some ((status, er), cr', s', w')"
  shows "only look (old_objects cr) w w'
    \<and> (st_Migrated s' \<longrightarrow> (if st_Migrated s then w' = w \<and> s' = s else all_gone look (old_objects cr) w'))
    \<and> (status = ResultSuccess \<longleftrightarrow> st_Migrated s')"
proof -
  have cl: "cleans look (old_objects cr) (old_objects cr) (migrate_all E cr)"
    by (rule kube_client.migrate_all_cleans [OF assms(1)])
  show ?thesis
  proof (cases "st_Migrated s")
    case True
    with assms(2) show ?thesis by (simp add: migration_Reconcile_def leave_def success_def)
  next
    case False
    with assms(2) obtain st e where m: "migrate_all E cr w = Some ((st, e), w')"
      and "s' = (if st = ResultSuccess then s\<lparr>st_Migrated := True\<rparr> else s)" "status = st"
      by (auto simp: migration_Reconcile_def split: option.splits if_splits)
    with cleansD [OF cl m] False show ?thesis by auto
  qed
qed

theorem migrated_once_witness:
  "\<exists>er cr' s' w'. migration_Reconcile sample_env sample_cr zero_status
        (sample_world [set_name PrometheusOldDefaultName (GetPrometheus sample_cr)]) = Some ((ResultSuccess, er), cr', s', w')
     \<and> gone (mem_look w') (key_of (set_name PrometheusOldDefaultName (GetPrometheus sample_cr)))"
proof -
  let ?old = "set_name PrometheusOldDefaultName (GetPrometheus sample_cr)"
  let ?run = "migration_Reconcile sample_env sample_cr zero_status (sample_world [?old])"
  have "returned ?run (\<lambda>((status, _), _). status = ResultSuccess)" by code_simp
  then obtain er cr' s' w' where run: "?run = Some ((ResultSuccess, er), cr', s', w')" unfolding returned_iff by auto
  have "sp_PrometheusDefaultName (o_spec sample_cr) = []" by code_simp
  then have "key_of ?old \<in> old_objects sample_cr" by (simp add: old_objects_def old_prometheus_def)
  moreover have "\<not> st_Migrated zero_status" by code_simp
  ultimately have "gone (mem_look w') (key_of ?old)"
    using migrated_once [OF sample_env_client, OF run] unfolding all_gone_def by auto
  with run show ?thesis by blast
qed

end
