(* ===== verification/Prometheus_Stages.thy ===== *)
theory Prometheus_Stages
  imports Obs_Stage
begin

text \<open>
  \<^verbatim>\<open>controllers/reconcilers/prometheus_installation\<close> (the Prometheus operator through OLM) and
  \<^verbatim>\<open>controllers/reconcilers/prometheus_configuration\<close> (secrets, RBAC, service and route of the
  Prometheus instance, and the cluster identifier).
\<close>

section \<open>prometheus_installation\<close>

definition prometheus_installation_Cleanup :: "'w env \<Rightarrow> Observability \<Rightarrow> 'w \<Rightarrow> 'w outcome" where
  "prometheus_installation_Cleanup E cr =
     delete_each E [GetPrometheusSubscription cr, GetPrometheusOperatorgroup cr, GetPrometheusCatalogSource cr]
       (\<lambda>w. if DescopedModeEnabled cr then delete_then E (GetPrometheusNamespace cr) success w else success w)"

definition waitForPrometheusOperator :: "'w env \<Rightarrow> Observability \<Rightarrow> 'w \<Rightarrow> 'w outcome" where
  "waitForPrometheusOperator E cr w =
     (case e_list E KDeployment (in_namespace (GetPrometheusOperatorNamespace cr)) w of
        (Inl err, w1) \<Rightarrow> failed err w1
      | (Inr deployments, w1) \<Rightarrow>
          if list_ex (\<lambda>d. ob_name d = ''prometheus-operator'' \<and> wl_readyReplicas (workload_of (k_body d)) > 0) deployments
          then success w1 else in_progress w1)"

definition reconcileNamespace :: "'w env \<Rightarrow> Observability \<Rightarrow> 'w \<Rightarrow> 'w outcome" where
  "reconcileNamespace E cr = apply_then E (GetPrometheusNamespace cr) (\<lambda>ns. ns) success"

definition removePrometheusOperatorResources ::
  "'w env \<Rightarrow> Observability \<Rightarrow> ('w \<Rightarrow> 'w outcome) \<Rightarrow> 'w \<Rightarrow> 'w outcome" where
  "removePrometheusOperatorResources E cr k =
     delete_each E
       [set_body (BSubscription (zero_subscription\<lparr>sub_spec := Some
            \<lparr>sb_catalogSource = [], sb_catalogSourceNamespace = [], sb_package = [], sb_channel = [],
             sb_startingCSV = ''prometheusoperator.0.56.3'', sb_installPlanApproval = [], sb_resources = None\<rparr>\<rparr>))
          (named_obj KSubscription (GetPrometheusOperatorNamespace cr) ''prometheus-subscription''),
        named_obj KClusterServiceVersion (GetPrometheusOperatorNamespace cr) ''prometheusoperator.0.56.3''] k"

definition prometheus_catalog :: CatalogSource where
  "prometheus_catalog =
     \<lparr>cs_sourceType = ''grpc'', cs_image = ''quay.io/integreatly/custom-prometheus-index:2.0.0'',
      cs_securityContextConfig = Some ''restricted''\<rparr>"

text \<open>After a successful read \<^verbatim>\<open>source\<close> is the stored object, with the same key.\<close>

definition prometheus_reconcileCatalogSource :: "'w env \<Rightarrow> Observability \<Rightarrow> 'w \<Rightarrow> 'w outcome" where
  "prometheus_reconcileCatalogSource E cr w =
     (let source = named_obj KCatalogSource (GetPrometheusOperatorNamespace cr) ''prometheus-catalogsource'';
          install = (\<lambda>source. apply_then E source (set_body (BCatalogSource prometheus_catalog)) success)
      in case e_get E KCatalogSource (ob_namespace source) (ob_name source) w of
           (Inl err, w1) \<Rightarrow>
             if \<not> IsNotFound err then failed err w1
             else removePrometheusOperatorResources E cr (install source) w1
         | (Inr found, w1) \<Rightarrow> install found w1)"

definition prometheus_reconcileSubscription :: "'w env \<Rightarrow> Observability \<Rightarrow> 'w \<Rightarrow> 'w outcome" where
  "prometheus_reconcileSubscription E cr =
     apply_then E (GetPrometheusSubscription cr) (subscribe
       \<lparr>sb_catalogSource = ob_name (GetPrometheusCatalogSource cr),
        sb_catalogSourceNamespace = GetPrometheusOperatorNamespace cr,
        sb_package = ''prometheus'', sb_channel = ''preview'', sb_startingCSV = [],
        sb_installPlanApproval = ''Automatic'',
        sb_resources = Some (GetPrometheusOperatorResourceRequirement cr)\<rparr>) success"

definition prometheus_reconcileOperatorgroup :: "'w env \<Rightarrow> Observability \<Rightarrow> 'w \<Rightarrow> 'w outcome" where
  "prometheus_reconcileOperatorgroup E cr w =
     (case HasOperatorGroupForNamespace E (o_namespace cr) w of
        (Inl err, w1) \<Rightarrow> failed err w1
      | (Inr exists, w1) \<Rightarrow>
          if exists then success w1
          else apply_then E (GetPrometheusOperatorgroup cr)
                 (set_body (BOperatorGroup [GetPrometheusOperatorNamespace cr])) success w1)"

text \<open>The namespace step is followed up on its error, not on its status.\<close>

definition prometheus_installation_steps :: "'w env \<Rightarrow> Observability \<Rightarrow> 'w \<Rightarrow> 'w outcome" where
  "prometheus_installation_steps E cr w =
     (let rest = (\<lambda>w.
        and_then (prometheus_reconcileCatalogSource E cr w) (\<lambda>w.
        and_then (prometheus_reconcileSubscription E cr w) (\<lambda>w.
        and_then (prometheus_reconcileOperatorgroup E cr w) (\<lambda>w.
        and_then (waitForPrometheusOperator E cr w) success))))
      in if DescopedModeEnabled cr then unless_err (reconcileNamespace E cr w) rest
         else rest w)"

definition prometheus_installation_Reconcile ::
  "'w env \<Rightarrow> Observability \<Rightarrow> ObservabilityStatus \<Rightarrow> 'w
    \<Rightarrow> ((ObservabilityStageStatus \<times> goerr option) \<times> Observability \<times> ObservabilityStatus \<times> 'w) option" where
  "prometheus_installation_Reconcile E cr s w = leave cr s (prometheus_installation_steps E cr w)"

definition prometheus_installation_reconciler :: "'w reconciler" where
  "prometheus_installation_reconciler =
     \<lparr>rec_Reconcile = prometheus_installation_Reconcile, rec_Cleanup = prometheus_installation_Cleanup\<rparr>"

definition prometheus_installation_owned :: "Observability \<Rightarrow> okey set" where
  "prometheus_installation_owned cr =
     key_of ` set ([GetPrometheusSubscription cr, GetPrometheusOperatorgroup cr, GetPrometheusCatalogSource cr]
       @ (if DescopedModeEnabled cr then [GetPrometheusNamespace cr] else []))"

section \<open>prometheus_configuration\<close>

definition prometheus_configuration_Cleanup :: "'w env \<Rightarrow> Observability \<Rightarrow> 'w \<Rightarrow> 'w outcome" where
  "prometheus_configuration_Cleanup E cr =
     delete_each E [GetPrometheusAdditionalScrapeConfig cr, GetPrometheusRoute cr]
       (delete_known_then E (GetPrometheus cr) (\<lambda>w.
        and_then (Some (WaitForPrometheusToBeRemoved E cr w))
          (delete_each E [GetPrometheusClusterRoleBinding cr, GetPrometheusClusterRole cr,
             GetPrometheusServiceAccount cr, GetPrometheusService cr, GetPrometheusProxySecret cr,
             GetPrometheusTLSSecret cr] success)))"

definition reconcileTokenLifetimeStorage :: "'w env \<Rightarrow> Observability \<Rightarrow> 'w \<Rightarrow> 'w outcome" where
  "reconcileTokenLifetimeStorage E cr =
     apply_then E (GetPrometheusAuthTokenLifetimes cr) (set_labels (Some managed_label)) success"

definition prometheus_reconcileServiceAccount :: "'w env \<Rightarrow> Observability \<Rightarrow> 'w \<Rightarrow> 'w outcome" where
  "prometheus_reconcileServiceAccount E cr = apply_then E (GetPrometheusServiceAccount cr) (\<lambda>sa. sa) success"

definition reconcilePrometheusProxySecret :: "'w env \<Rightarrow> Observability \<Rightarrow> 'w \<Rightarrow> 'w outcome" where
  "reconcilePrometheusProxySecret E cr =
     mutate_then E (GetPrometheusProxySecret cr) (session_secret_mutate E 64 (\<lambda>s. s)) success"

definition serve :: "string \<Rightarrow> smap \<Rightarrow> ServicePort list \<Rightarrow> kobj \<Rightarrow> kobj" where
  "serve cert selector ports ob =
     set_body (BService ((service_of (k_body ob))\<lparr>svc_selector := Some selector, svc_ports := ports\<rparr>))
       (set_annotations (Some [(''service.alpha.openshift.io/serving-cert-secret-name'', cert)]) ob)"

definition prometheus_reconcileService :: "'w env \<Rightarrow> Observability \<Rightarrow> 'w \<Rightarrow> 'w outcome" where
  "prometheus_reconcileService E cr =
     apply_then E (GetPrometheusService cr)
       (serve ''prometheus-k8s-tls'' [(''prometheus'', ob_name (GetPrometheus cr))]
          [\<lparr>sp_name = ''web'', sp_protocol = [], sp_port = 9091, sp_targetPort = FromString ''proxy''\<rparr>,
           \<lparr>sp_name = ''upstream'', sp_protocol = [], sp_port = 9090, sp_targetPort = FromString ''web''\<rparr>]) success"

definition prometheus_rules :: "PolicyRule list" where
  "prometheus_rules = [
     \<lparr>pr_verbs = [''get'', ''list'', ''watch''], pr_apiGroups = [[]],
      pr_resources = [''services'', ''endpoints'', ''pods''], pr_resourceNames = [], pr_nonResourceURLs = []\<rparr>,
     \<lparr>pr_verbs = [''create''], pr_apiGroups = [''authorization.k8s.io''],
      pr_resources = [''subjectaccessreviews''], pr_resourceNames = [], pr_nonResourceURLs = []\<rparr>,
     \<lparr>pr_verbs = [''create''], pr_apiGroups = [''authentication.k8s.io''],
      pr_resources = [''tokenreviews''], pr_resourceNames = [], pr_nonResourceURLs = []\<rparr>,
     \<lparr>pr_verbs = [''get''], pr_apiGroups = [[]],
      pr_resources = [''configmaps'', ''namespaces''], pr_resourceNames = [], pr_nonResourceURLs = []\<rparr>,
     \<lparr>pr_verbs = [''get''], pr_apiGroups = [], pr_resources = [], pr_resourceNames = [],
      pr_nonResourceURLs = [''/metrics'']\<rparr>]"

definition prometheus_reconcileClusterRole :: "'w env \<Rightarrow> Observability \<Rightarrow> 'w \<Rightarrow> 'w outcome" where
  "prometheus_reconcileClusterRole E cr =
     apply_then E (GetPrometheusClusterRole cr) (set_body (BClusterRole prometheus_rules)) success"

definition prometheus_reconcileClusterRoleBinding :: "'w env \<Rightarrow> Observability \<Rightarrow> 'w \<Rightarrow> 'w outcome" where
  "prometheus_reconcileClusterRoleBinding E cr =
     apply_then E (GetPrometheusClusterRoleBinding cr)
       (set_body (BClusterRoleBinding (service_account_binding
          (ob_name (GetPrometheusClusterRole cr)) (ob_name (GetPrometheusServiceAccount cr))
          (GetPrometheusOperatorNamespace cr)))) success"

definition prometheus_reconcileRoute :: "'w env \<Rightarrow> Observability \<Rightarrow> 'w \<Rightarrow> 'w outcome" where
  "prometheus_reconcileRoute E cr w =
     (case CreateOrUpdate E (GetPrometheusRoute cr)
        (\<lambda>route. set_body (BRoute (zero_route\<lparr>
             rt_to := (''Service'', ob_name (GetPrometheusService cr)),
             rt_port := Some (FromString ''web''), rt_wildcard := ''None'',
             rt_termination := Some ''reencrypt'', rt_ingress := rt_ingress (route_of (k_body route))\<rparr>)) route) w of
        None \<Rightarrow> None
      | Some (Some err, w1) \<Rightarrow> if \<not> IsAlreadyExists err then failed err w1 else success w1
      | Some (None, w1) \<Rightarrow> success w1)"

definition prometheus_waitForRoute :: "'w env \<Rightarrow> Observability \<Rightarrow> 'w \<Rightarrow> 'w outcome" where
  "prometheus_waitForRoute E cr = wait_route E (GetPrometheusRoute cr)"

text \<open>Both the next status and the resource itself get the identifier, for the later stages.\<close>

definition fetchClusterId ::
  "'w env \<Rightarrow> Observability \<Rightarrow> ObservabilityStatus \<Rightarrow> 'w
    \<Rightarrow> (ObservabilityStageStatus \<times> goerr option) \<times> Observability \<times> ObservabilityStatus \<times> 'w" where
  "fetchClusterId E cr nextStatus w =
     (if st_ClusterID (o_status cr) \<noteq> [] then ((ResultSuccess, None), cr, nextStatus, w)
      else if sp_ClusterID (o_spec cr) \<noteq> [] then
        ((ResultSuccess, None), cr\<lparr>o_status := (o_status cr)\<lparr>st_ClusterID := sp_ClusterID (o_spec cr)\<rparr>\<rparr>,
         nextStatus\<lparr>st_ClusterID := sp_ClusterID (o_spec cr)\<rparr>, w)
      else case GetClusterId E w of
             (Inl err, w1) \<Rightarrow> ((ResultFailed, Some err), cr, nextStatus, w1)
           | (Inr clusterId, w1) \<Rightarrow>
               ((ResultSuccess, None), cr\<lparr>o_status := (o_status cr)\<lparr>st_ClusterID := clusterId\<rparr>\<rparr>,
                nextStatus\<lparr>st_ClusterID := clusterId\<rparr>, w1))"

definition prometheus_configuration_steps :: "'w env \<Rightarrow> Observability \<Rightarrow> 'w \<Rightarrow> 'w outcome" where
  "prometheus_configuration_steps E cr w =
     and_then (reconcilePrometheusProxySecret E cr w) (\<lambda>w.
     and_then (prometheus_reconcileServiceAccount E cr w) (\<lambda>w.
     and_then (prometheus_reconcileClusterRole E cr w) (\<lambda>w.
     and_then (prometheus_reconcileClusterRoleBinding E cr w) (\<lambda>w.
     and_then (prometheus_reconcileService E cr w) (\<lambda>w.
     and_then (prometheus_reconcileRoute E cr w) (prometheus_waitForRoute E cr))))))"

definition prometheus_configuration_Reconcile ::
  "'w env \<Rightarrow> Observability \<Rightarrow> ObservabilityStatus \<Rightarrow> 'w
    \<Rightarrow> ((ObservabilityStageStatus \<times> goerr option) \<times> Observability \<times> ObservabilityStatus \<times> 'w) option" where
  "prometheus_configuration_Reconcile E cr s w =
     (case prometheus_configuration_steps E cr w of
        None \<Rightarrow> None
      | Some ((status, err), w1) \<Rightarrow>
          if status \<noteq> ResultSuccess then Some ((status, err), cr, s, w1)
          else (case fetchClusterId E cr s w1 of
                  ((status, err), cr1, s1, w2) \<Rightarrow>
                    if status \<noteq> ResultSuccess then Some ((status, err), cr1, s1, w2)
                    else leave cr1 s1 (and_then (reconcileTokenLifetimeStorage E cr1 w2) success)))"

definition prometheus_configuration_reconciler :: "'w reconciler" where
  "prometheus_configuration_reconciler =
     \<lparr>rec_Reconcile = prometheus_configuration_Reconcile, rec_Cleanup = prometheus_configuration_Cleanup\<rparr>"

definition prometheus_configuration_owned :: "Observability \<Rightarrow> okey set" where
  "prometheus_configuration_owned cr = key_of ` set
     [GetPrometheusAdditionalScrapeConfig cr, GetPrometheusRoute cr, GetPrometheus cr,
      GetPrometheusClusterRoleBinding cr, GetPrometheusClusterRole cr, GetPrometheusServiceAccount cr,
      GetPrometheusService cr, GetPrometheusProxySecret cr, GetPrometheusTLSSecret cr]"

section \<open>The stages keep the contract\<close>

context kube_client begin

lemma prometheus_installation_Cleanup_cleans:
  "cleans look (prometheus_installation_owned cr) (prometheus_installation_owned cr)
     (prometheus_installation_Cleanup E cr)"
proof -
  have "cleans look (prometheus_installation_owned cr)
      (if DescopedModeEnabled cr then {key_of (GetPrometheusNamespace cr)} else {})
      (\<lambda>w. if DescopedModeEnabled cr then delete_then E (GetPrometheusNamespace cr) success w else success w)"
    by (cases "DescopedModeEnabled cr")
      (auto simp: prometheus_installation_owned_def intro!: cleans_intros)
  then show ?thesis
    unfolding prometheus_installation_Cleanup_def
    by (rule cleans_sub [OF cleans_delete_each [rotated]]) (auto simp: prometheus_installation_owned_def)
qed

lemma prometheus_reconcileCatalogSource_steps:
  "steps look foreign (prometheus_reconcileCatalogSource E cr)"
proof (rule stepsI)
  let ?ns = "GetPrometheusOperatorNamespace cr"
  let ?source = "named_obj KCatalogSource ?ns ''prometheus-catalogsource''"
  fix w s e w'
  assume eq: "prometheus_reconcileCatalogSource E cr w = Some ((s, e), w')"
  obtain r w1 where g: "e_get E KCatalogSource ?ns ''prometheus-catalogsource'' w = (r, w1)" by fastforce
  have inst: "steps look foreign (apply_then E ob (set_body (BCatalogSource prometheus_catalog)) success)"
    if "k_kind ob = KCatalogSource" for ob
    using that by (intro steps_intros) (simp add: foreign_def key_of_def)
  show "(e \<noteq> None \<longrightarrow> s = ResultFailed) \<and> only look foreign w w'"
  proof (cases r)
    case (Inl err)
    have "steps look foreign (removePrometheusOperatorResources E cr
        (apply_then E ?source (set_body (BCatalogSource prometheus_catalog)) success))"
      unfolding removePrometheusOperatorResources_def
      by (rule steps_intros inst | simp add: foreign_def obj_upd_defs)+
    from stepsD [OF this, of w1 s e w'] eq g Inl same_look(1) [OF get_frame [OF g], of foreign] show ?thesis
      by (auto simp: prometheus_reconcileCatalogSource_def Let_def failed_def named_sel
          split: if_splits intro: only_trans)
  next
    case (Inr found)
    then have "k_kind found = KCatalogSource"
      using get_found look_key g by (fastforce simp: key_of_def)
    from stepsD [OF inst [OF this], of w1 s e w'] eq g Inr same_look(1) [OF get_frame [OF g], of foreign]
    show ?thesis
      by (auto simp: prometheus_reconcileCatalogSource_def Let_def named_sel intro: only_trans)
  qed
qed

lemma prometheus_installation_steps_steps: "steps look foreign (prometheus_installation_steps E cr)"
proof -
  have og: "steps look foreign (prometheus_reconcileOperatorgroup E cr)"
    unfolding prometheus_reconcileOperatorgroup_def [abs_def]
    by (rule steps_frame [OF HasOperatorGroupForNamespace_frame] steps_intros
        | simp add: foreign_def model_obj_defs obj_upd_defs)+
  have wt: "steps look foreign (waitForPrometheusOperator E cr)"
    unfolding waitForPrometheusOperator_def [abs_def] by (rule steps_intros)+
  have rest: "steps look foreign (\<lambda>w.
        and_then (prometheus_reconcileCatalogSource E cr w) (\<lambda>w.
        and_then (prometheus_reconcileSubscription E cr w) (\<lambda>w.
        and_then (prometheus_reconcileOperatorgroup E cr w) (\<lambda>w.
        and_then (waitForPrometheusOperator E cr w) success))))"
    unfolding prometheus_reconcileSubscription_def
    by (rule steps_intros prometheus_reconcileCatalogSource_steps og wt
        | simp add: foreign_def model_obj_defs obj_upd_defs)+
  have ns: "steps look foreign (reconcileNamespace E cr)"
    unfolding reconcileNamespace_def
    by (rule steps_intros | simp add: foreign_def model_obj_defs obj_upd_defs)+
  show ?thesis
    unfolding prometheus_installation_steps_def [abs_def] Let_def
    by (rule steps_if steps_unless_err ns rest)+
qed

lemma prometheus_installation_stage_laws:
  "stage_reconciler E look prometheus_installation_reconciler prometheus_installation_owned prometheus_installation_owned"
  by (rule stage_reconciler_leaveI [OF _ prometheus_installation_steps_steps])
    (simp_all add: prometheus_installation_reconciler_def prometheus_installation_Reconcile_def
      prometheus_installation_Cleanup_cleans,
      auto simp: prometheus_installation_owned_def foreign_def model_obj_defs obj_upd_defs)

lemma prometheus_configuration_Cleanup_cleans:
  "cleans look (prometheus_configuration_owned cr) (prometheus_configuration_owned cr)
     (prometheus_configuration_Cleanup E cr)"
  unfolding prometheus_configuration_Cleanup_def WaitForPrometheusToBeRemoved_def
  by (rule cleans_sub, (rule cleans_intros | simp add: prometheus_configuration_owned_def)+)

lemma prometheus_reconcileRoute_steps: "steps look foreign (prometheus_reconcileRoute E cr)"
proof (rule stepsI)
  fix w s e w'
  assume "prometheus_reconcileRoute E cr w = Some ((s, e), w')"
  then show "(e \<noteq> None \<longrightarrow> s = ResultFailed) \<and> only look foreign w w'"
    by (auto simp: prometheus_reconcileRoute_def idiom_defs foreign_def model_obj_defs
        split: option.splits if_splits intro: CreateOrUpdate_only)
qed

lemma prometheus_configuration_steps_steps: "steps look foreign (prometheus_configuration_steps E cr)"
  unfolding prometheus_configuration_steps_def [abs_def] reconcilePrometheusProxySecret_def
    prometheus_reconcileServiceAccount_def prometheus_reconcileClusterRole_def
    prometheus_reconcileClusterRoleBinding_def prometheus_reconcileService_def prometheus_waitForRoute_def
  by (rule steps_intros prometheus_reconcileRoute_steps | simp add: foreign_def model_obj_defs)+

lemma reconcileTokenLifetimeStorage_steps:
  "steps look foreign (\<lambda>w. and_then (reconcileTokenLifetimeStorage E cr w) success)"
  unfolding reconcileTokenLifetimeStorage_def
  by (rule steps_intros | simp add: foreign_def model_obj_defs)+

lemma fetchClusterId_ok:
  assumes "fetchClusterId E cr st w = ((s, er), cr', st', w')"
  shows "(er \<noteq> None \<longrightarrow> s = ResultFailed) \<and> same_identity cr cr' \<and> same_progress st st' \<and> only look K w w'"
proof -
  have "GetClusterId E v = (r, v') \<Longrightarrow> look v' = look v" for v r v'
    by (auto simp: GetClusterId_def dest: get_frame split: prod.splits sum.splits)
  with assms show ?thesis
    by (auto simp: fetchClusterId_def same_identity_def same_progress_def only_def
        split: if_splits prod.splits sum.splits)
qed

lemma prometheus_configuration_Reconcile_ok:
  assumes "prometheus_configuration_Reconcile E cr st w = Some ((s, er), cr', st', w')"
  shows "(er \<noteq> None \<longrightarrow> s = ResultFailed) \<and> same_identity cr cr' \<and> same_progress st st'
    \<and> only look foreign w w'"
proof -
  obtain s1 e1 w1 where p: "prometheus_configuration_steps E cr w = Some ((s1, e1), w1)"
    using assms by (auto simp: prometheus_configuration_Reconcile_def split: option.splits)
  note ok1 = stepsD [OF prometheus_configuration_steps_steps p]
  obtain s2 e2 cr2 st2 w2 where f: "fetchClusterId E cr st w1 = ((s2, e2), cr2, st2, w2)"
    by (cases "fetchClusterId E cr st w1") auto
  note ok2 = fetchClusterId_ok [OF f, of foreign]
  show ?thesis
  proof (cases "s1 = ResultSuccess")
    case False
    with assms p ok1 show ?thesis by (simp add: prometheus_configuration_Reconcile_def)
  next
    case s1: True
    show ?thesis
    proof (cases "s2 = ResultSuccess")
      case False
      with assms p f s1 ok1 ok2 show ?thesis
        by (auto simp: prometheus_configuration_Reconcile_def intro: only_trans)
    next
      case True
      with assms p f s1 have l: "and_then (reconcileTokenLifetimeStorage E cr2 w2) success = Some ((s, er), w')"
        and "cr' = cr2" "st' = st2"
        by (simp_all add: prometheus_configuration_Reconcile_def leave_Some_iff)
      with ok1 ok2 stepsD [OF reconcileTokenLifetimeStorage_steps l] show ?thesis
        by (auto intro: only_trans)
    qed
  qed
qed

lemma prometheus_configuration_stage_laws:
  "stage_reconciler E look prometheus_configuration_reconciler prometheus_configuration_owned prometheus_configuration_owned"
proof (rule stage_reconcilerI)
  show "prometheus_configuration_owned cr \<subseteq> foreign" for cr
    by (simp add: prometheus_configuration_owned_def foreign_def model_obj_defs)
qed (simp_all add: prometheus_configuration_reconciler_def prometheus_configuration_Cleanup_cleans
    prometheus_configuration_Reconcile_ok)

end

sublocale kube_client \<subseteq> prometheus_installation: stage_reconciler E look prometheus_installation_reconciler
    prometheus_installation_owned prometheus_installation_owned
  by (rule prometheus_installation_stage_laws)

sublocale kube_client \<subseteq> prometheus_configuration: stage_reconciler E look prometheus_configuration_reconciler
    prometheus_configuration_owned prometheus_configuration_owned
  by (rule prometheus_configuration_stage_laws)

end
