(* ===== verification/Alertmanager_Stage.thy ===== *)
theory Alertmanager_Stage
  imports Obs_Stage
begin

text \<open>
  \<^verbatim>\<open>controllers/reconcilers/alertmanager_installation\<close>: proxy secret, service account, RBAC,
  service and route of Alertmanager, and the removal of all of it.
\<close>

definition alertmanager_installation_Cleanup :: "'w env \<Rightarrow> Observability \<Rightarrow> 'w \<Rightarrow> 'w outcome" where
  "alertmanager_installation_Cleanup E cr =
     delete_then E (GetAlertmanagerCr cr) (\<lambda>w.
     and_then (Some (WaitForAlertmanagerToBeRemoved E cr w))
       (delete_each E [GetAlertmanagerSecret cr, GetAlertmanagerProxySecret cr, GetAlertmanagerTLSSecret cr,
          GetAlertmanagerRoute cr, GetAlertmanagerService cr, GetAlertmanagerServiceAccount cr,
          GetAlertmanagerClusterRole cr, GetAlertmanagerClusterRoleBinding cr] success))"

definition alertmanager_waitForRoute :: "'w env \<Rightarrow> Observability \<Rightarrow> 'w \<Rightarrow> 'w outcome" where
  "alertmanager_waitForRoute E cr = wait_route E (GetAlertmanagerRoute cr)"

definition reconcileAlertmanagerServiceAccount :: "'w env \<Rightarrow> Observability \<Rightarrow> 'w \<Rightarrow> 'w outcome" where
  "reconcileAlertmanagerServiceAccount E cr = apply_then E (GetAlertmanagerServiceAccount cr) (\<lambda>sa. sa) success"

definition alertmanager_rules :: "PolicyRule list" where
  "alertmanager_rules = [
     \<lparr>pr_verbs = [''create''], pr_apiGroups = [''authorization.k8s.io''],
      pr_resources = [''subjectaccessreviews''], pr_resourceNames = [], pr_nonResourceURLs = []\<rparr>,
     \<lparr>pr_verbs = [''create''], pr_apiGroups = [''authentication.k8s.io''],
      pr_resources = [''tokenreviews''], pr_resourceNames = [], pr_nonResourceURLs = []\<rparr>]"

definition reconcileAlertmanagerClusterRole :: "'w env \<Rightarrow> Observability \<Rightarrow> 'w \<Rightarrow> 'w outcome" where
  "reconcileAlertmanagerClusterRole E cr =
     apply_then E (GetAlertmanagerClusterRole cr) (set_body (BClusterRole alertmanager_rules)) success"

definition reconcileAlertmanagerClusterRoleBinding :: "'w env \<Rightarrow> Observability \<Rightarrow> 'w \<Rightarrow> 'w outcome" where
  "reconcileAlertmanagerClusterRoleBinding E cr =
     apply_then E (GetAlertmanagerClusterRoleBinding cr)
       (set_body (BClusterRoleBinding (service_account_binding
          (ob_name (GetAlertmanagerClusterRole cr)) (ob_name (GetAlertmanagerServiceAccount cr))
          (GetPrometheusOperatorNamespace cr)))) success"

definition reconcileAlertmanagerService :: "'w env \<Rightarrow> Observability \<Rightarrow> 'w \<Rightarrow> 'w outcome" where
  "reconcileAlertmanagerService E cr =
     apply_then E (GetAlertmanagerService cr)
       (\<lambda>service. set_body (BService ((service_of (k_body service))\<lparr>
            svc_ports := [\<lparr>sp_name = ''web'', sp_protocol = ''TCP'', sp_port = 9091,
                           sp_targetPort = FromString ''proxy''\<rparr>],
            svc_selector := Some [(''alertmanager'', ob_name (GetAlertmanagerCr cr))]\<rparr>))
          (set_annotations (Some [(''service.alpha.openshift.io/serving-cert-secret-name'', ''alertmanager-k8s-tls'')])
             service)) success"

text \<open>An \<^verbatim>\<open>AlreadyExists\<close> error is passed on, together with success.\<close>

definition reconcileAlertmanagerRoute :: "'w env \<Rightarrow> Observability \<Rightarrow> 'w \<Rightarrow> 'w outcome" where
  "reconcileAlertmanagerRoute E cr w =
     (case CreateOrUpdate E (GetAlertmanagerRoute cr)
        (\<lambda>route. set_body (BRoute ((route_of (k_body route))\<lparr>
             rt_port := Some (FromString ''web''), rt_termination := Some ''reencrypt'',
             rt_to := (''Service'', ob_name (GetAlertmanagerService cr)), rt_wildcard := ''None''\<rparr>)) route) w of
        None \<Rightarrow> None
      | Some (Some err, w1) \<Rightarrow>
          if \<not> IsAlreadyExists err then failed err w1 else Some ((ResultSuccess, Some err), w1)
      | Some (None, w1) \<Rightarrow> success w1)"

definition reconcileAlertmanagerProxySecret :: "'w env \<Rightarrow> Observability \<Rightarrow> 'w \<Rightarrow> 'w outcome" where
  "reconcileAlertmanagerProxySecret E cr =
     mutate_then E (GetAlertmanagerProxySecret cr)
       (session_secret_mutate E 64 (\<lambda>s. s\<lparr>sec_type := ''Opaque''\<rparr>)) success"

definition alertmanager_installation_steps :: "'w env \<Rightarrow> Observability \<Rightarrow> 'w \<Rightarrow> 'w outcome" where
  "alertmanager_installation_steps E cr w =
     and_then (reconcileAlertmanagerProxySecret E cr w) (\<lambda>w.
     and_then (reconcileAlertmanagerServiceAccount E cr w) (\<lambda>w.
     and_then (reconcileAlertmanagerClusterRole E cr w) (\<lambda>w.
     and_then (reconcileAlertmanagerClusterRoleBinding E cr w) (\<lambda>w.
     and_then (reconcileAlertmanagerService E cr w) (\<lambda>w.
     and_then (reconcileAlertmanagerRoute E cr w) (\<lambda>w.
     and_then (alertmanager_waitForRoute E cr w) success))))))"

definition alertmanager_installation_Reconcile ::
  "'w env \<Rightarrow> Observability \<Rightarrow> ObservabilityStatus \<Rightarrow> 'w
    \<Rightarrow> ((ObservabilityStageStatus \<times> goerr option) \<times> Observability \<times> ObservabilityStatus \<times> 'w) option" where
  "alertmanager_installation_Reconcile E cr s w = leave cr s (alertmanager_installation_steps E cr w)"

definition alertmanager_reconciler :: "'w reconciler" where
  "alertmanager_reconciler =
     \<lparr>rec_Reconcile = alertmanager_installation_Reconcile, rec_Cleanup = alertmanager_installation_Cleanup\<rparr>"

definition alertmanager_owned :: "Observability \<Rightarrow> okey set" where
  "alertmanager_owned cr = key_of ` set
     [GetAlertmanagerCr cr, GetAlertmanagerSecret cr, GetAlertmanagerProxySecret cr, GetAlertmanagerTLSSecret cr,
      GetAlertmanagerRoute cr, GetAlertmanagerService cr, GetAlertmanagerServiceAccount cr,
      GetAlertmanagerClusterRole cr, GetAlertmanagerClusterRoleBinding cr]"

context kube_client begin

lemma alertmanager_Cleanup_cleans:
  "cleans look (alertmanager_owned cr) (alertmanager_owned cr) (alertmanager_installation_Cleanup E cr)"
  unfolding alertmanager_installation_Cleanup_def WaitForAlertmanagerToBeRemoved_def
  by (rule cleans_sub, (rule cleans_intros | simp add: alertmanager_owned_def)+)

lemma reconcileAlertmanagerRoute_loose: "loose_steps look foreign (reconcileAlertmanagerRoute E cr)"
  unfolding loose_steps_def
  by (auto simp: outcome_sat_def reconcileAlertmanagerRoute_def idiom_defs foreign_def model_obj_defs
      split: option.splits if_splits intro: CreateOrUpdate_only)

lemma alertmanager_installation_steps_steps: "steps look foreign (alertmanager_installation_steps E cr)"
  unfolding alertmanager_installation_steps_def [abs_def] reconcileAlertmanagerProxySecret_def
    reconcileAlertmanagerServiceAccount_def reconcileAlertmanagerClusterRole_def
    reconcileAlertmanagerClusterRoleBinding_def reconcileAlertmanagerService_def alertmanager_waitForRoute_def
  by (rule steps_and_then_loose [OF reconcileAlertmanagerRoute_loose] steps_intros
      | simp add: foreign_def model_obj_defs)+

lemma alertmanager_stage_laws: "stage_reconciler E look alertmanager_reconciler alertmanager_owned alertmanager_owned"
  by (rule stage_reconciler_leaveI [OF _ alertmanager_installation_steps_steps])
    (simp_all add: alertmanager_reconciler_def alertmanager_installation_Reconcile_def
      alertmanager_Cleanup_cleans, simp add: alertmanager_owned_def foreign_def model_obj_defs)

end

sublocale kube_client \<subseteq> alertmanager_stage: stage_reconciler E look alertmanager_reconciler
    alertmanager_owned alertmanager_owned
  by (rule alertmanager_stage_laws)

end
