(* ===== verification/Grafana_Stages.thy ===== *)
theory Grafana_Stages
  imports Obs_Stage
begin

text \<open>
  \<^verbatim>\<open>controllers/reconcilers/grafana_installation\<close> (the Grafana operator through OLM) and
  \<^verbatim>\<open>controllers/reconcilers/grafana_configuration\<close> (proxy secret, RBAC and data source).  Both
  stages do nothing in descoped mode.
\<close>

section \<open>grafana_installation\<close>

definition GrafanaOperatorDefaultVersion :: string where
  "GrafanaOperatorDefaultVersion = ''v3.10.8''"

definition grafana_installation_Cleanup :: "'w env \<Rightarrow> Observability \<Rightarrow> 'w \<Rightarrow> 'w outcome" where
  "grafana_installation_Cleanup E cr w =
     (if DescopedModeEnabled cr then success w
      else delete_each E [GetGrafanaCatalogSource cr, GetGrafanaSubscription cr, GetGrafanaOperatorGroup cr]
        (delete_listed E KDeployment (in_namespace (o_namespace cr))
           (\<lambda>deployment. ob_name deployment = ''grafana-operator'') success) w)"

text \<open>
  The loop over the subscriptions: whether an old one was found, or the error of its deletion.
  \<open>None\<close>: the nil dereference of a subscription of that name without a spec.
\<close>

fun delete_old_subscriptions ::
  "'w env \<Rightarrow> string \<Rightarrow> bool \<Rightarrow> kobj list \<Rightarrow> 'w \<Rightarrow> ((goerr + bool) \<times> 'w) option" where
  "delete_old_subscriptions E name found [] w = Some (Inr found, w)"
| "delete_old_subscriptions E name found (subscription # subscriptions) w =
     (if ob_name subscription \<noteq> name then delete_old_subscriptions E name found subscriptions w
      else case sub_spec (subscription_of (k_body subscription)) of
             None \<Rightarrow> None
           | Some spec \<Rightarrow>
               if sb_catalogSourceNamespace spec = ''openshift-marketplace''
                  \<and> sb_catalogSource spec = ''community-operators''
               then (case e_delete E subscription w of
                       (Some err, w1) \<Rightarrow> Some (Inl err, w1)
                     | (None, w1) \<Rightarrow> delete_old_subscriptions E name True subscriptions w1)
               else delete_old_subscriptions E name found subscriptions w)"

definition delete_old_csv :: "'w env \<Rightarrow> Observability \<Rightarrow> kobj list \<Rightarrow> 'w \<Rightarrow> 'w outcome" where
  "delete_old_csv E cr csvs w =
     (case find (\<lambda>csv. ob_namespace csv = o_namespace cr \<and> HasPrefix (ob_name csv) ''grafana-operator.'') csvs of
        None \<Rightarrow> success w
      | Some csv \<Rightarrow> delete_then E csv in_progress w)"

definition deleteUnrequestedSubscriptions :: "'w env \<Rightarrow> Observability \<Rightarrow> 'w \<Rightarrow> 'w outcome" where
  "deleteUnrequestedSubscriptions E cr w =
     (case e_list E KSubscription (in_namespace (o_namespace cr)) w of
        (Inl err, w1) \<Rightarrow> failed err w1
      | (Inr subscriptions, w1) \<Rightarrow>
          (case delete_old_subscriptions E (ob_name (GetGrafanaSubscription cr)) False subscriptions w1 of
             None \<Rightarrow> None
           | Some (Inl err, w2) \<Rightarrow> failed err w2
           | Some (Inr foundOldSubscription, w2) \<Rightarrow>
               if \<not> foundOldSubscription then success w2
               else (case e_list E KClusterServiceVersion (in_namespace (o_namespace cr)) w2 of
                       (Inl err, w3) \<Rightarrow> failed err w3
                     | (Inr csvs, w3) \<Rightarrow> delete_old_csv E cr csvs w3)))"

definition grafana_reconcileCatalogSource :: "'w env \<Rightarrow> Observability \<Rightarrow> 'w \<Rightarrow> 'w outcome" where
  "grafana_reconcileCatalogSource E cr =
     apply_then E (GetGrafanaCatalogSource cr) (set_body (BCatalogSource
       \<lparr>cs_sourceType = ''grpc'',
        cs_image = ''quay.io/rhoas/grafana-operator-index:'' @ GrafanaOperatorDefaultVersion,
        cs_securityContextConfig = Some ''restricted''\<rparr>)) success"

definition grafana_reconcileSubscription :: "'w env \<Rightarrow> Observability \<Rightarrow> 'w \<Rightarrow> 'w outcome" where
  "grafana_reconcileSubscription E cr =
     apply_then E (GetGrafanaSubscription cr) (subscribe
       \<lparr>sb_catalogSource = ob_name (GetGrafanaCatalogSource cr),
        sb_catalogSourceNamespace = ob_namespace (GetGrafanaCatalogSource cr),
        sb_package = ''grafana-operator'', sb_channel = ''alpha'',
        sb_startingCSV = ''grafana-operator.'' @ GrafanaOperatorDefaultVersion,
        sb_installPlanApproval = [],
        sb_resources = Some (GetGrafanaOperatorResourceRequirement cr)\<rparr>) success"

definition grafana_reconcileOperatorgroup :: "'w env \<Rightarrow> Observability \<Rightarrow> 'w \<Rightarrow> 'w outcome" where
  "grafana_reconcileOperatorgroup E cr w =
     (case HasOperatorGroupForNamespace E (o_namespace cr) w of
        (Inl err, w1) \<Rightarrow> failed err w1
      | (Inr exists, w1) \<Rightarrow>
          if exists then success w1
          else apply_then E (GetGrafanaOperatorGroup cr)
                 (set_body (BOperatorGroup [o_namespace cr])) success w1)"

definition waitForGrafanaOperator :: "'w env \<Rightarrow> Observability \<Rightarrow> 'w \<Rightarrow> 'w outcome" where
  "waitForGrafanaOperator E cr w =
     (case e_list E KDeployment (in_namespace (o_namespace cr)) w of
        (Inl err, w1) \<Rightarrow> failed err w1
      | (Inr deployments, w1) \<Rightarrow>
          if list_ex (\<lambda>d. ob_name d = ''grafana-operator'' \<and> wl_readyReplicas (workload_of (k_body d)) > 0) deployments
          then success w1 else in_progress w1)"

definition grafana_installation_steps :: "'w env \<Rightarrow> Observability \<Rightarrow> 'w \<Rightarrow> 'w outcome" where
  "grafana_installation_steps E cr w =
     (if DescopedModeEnabled cr then success w
      else and_then (deleteUnrequestedSubscriptions E cr w) (\<lambda>w.
           and_then (grafana_reconcileCatalogSource E cr w) (\<lambda>w.
           and_then (grafana_reconcileSubscription E cr w) (\<lambda>w.
           and_then (grafana_reconcileOperatorgroup E cr w) (\<lambda>w.
           and_then (waitForGrafanaOperator E cr w) success)))))"

definition grafana_installation_Reconcile ::
  "'w env \<Rightarrow> Observability \<Rightarrow> ObservabilityStatus \<Rightarrow> 'w
    \<Rightarrow> ((ObservabilityStageStatus \<times> goerr option) \<times> Observability \<times> ObservabilityStatus \<times> 'w) option" where
  "grafana_installation_Reconcile E cr s w = leave cr s (grafana_installation_steps E cr w)"

definition grafana_installation_reconciler :: "'w reconciler" where
  "grafana_installation_reconciler =
     \<lparr>rec_Reconcile = grafana_installation_Reconcile, rec_Cleanup = grafana_installation_Cleanup\<rparr>"

text \<open>A list with an empty namespace is a list over all of them.\<close>

definition grafana_operator_deployments :: "Observability \<Rightarrow> okey set" where
  "grafana_operator_deployments cr =
     {(KDeployment, ns, ''grafana-operator'') | ns. o_namespace cr = [] \<or> ns = o_namespace cr}"

definition grafana_installation_owned :: "Observability \<Rightarrow> okey set" where
  "grafana_installation_owned cr =
     (if DescopedModeEnabled cr then {}
      else key_of ` set [GetGrafanaCatalogSource cr, GetGrafanaSubscription cr, GetGrafanaOperatorGroup cr]
        \<union> grafana_operator_deployments cr)"

section \<open>grafana_configuration\<close>

datatype SourceType = SourceTypeJson | SourceTypeJsonnet | SourceTypeYaml | SourceTypeUnknown

definition grafana_configuration_Cleanup :: "'w env \<Rightarrow> Observability \<Rightarrow> 'w \<Rightarrow> 'w outcome" where
  "grafana_configuration_Cleanup E cr w =
     (if DescopedModeEnabled cr then success w
      else delete_known_then E (GetGrafanaCr cr) (\<lambda>w.
        and_then (Some (WaitForGrafanaToBeRemoved E cr w))
          (delete_known_then E (GetGrafanaDatasource cr)
          (delete_each E [GetGrafanaProxySecret cr, GetGrafanaClusterRoleBinding cr, GetGrafanaClusterRole cr]
             success))) w)"

definition reconileProxySecret :: "'w env \<Rightarrow> Observability \<Rightarrow> 'w \<Rightarrow> 'w outcome" where
  "reconileProxySecret E cr =
     mutate_then E (GetGrafanaProxySecret cr) (session_secret_mutate E 32 (\<lambda>s. s)) success"

definition grafana_rules :: "PolicyRule list" where
  "grafana_rules = [
     \<lparr>pr_verbs = [''create''], pr_apiGroups = [''authentication.k8s.io''],
      pr_resources = [''tokenreviews''], pr_resourceNames = [], pr_nonResourceURLs = []\<rparr>,
     \<lparr>pr_verbs = [''create''], pr_apiGroups = [''authorization.k8s.io''],
      pr_resources = [''subjectaccessreviews''], pr_resourceNames = [], pr_nonResourceURLs = []\<rparr>]"

definition grafana_reconcileClusterRole :: "'w env \<Rightarrow> Observability \<Rightarrow> 'w \<Rightarrow> 'w outcome" where
  "grafana_reconcileClusterRole E cr =
     apply_then E (GetGrafanaClusterRole cr) (set_body (BClusterRole grafana_rules)) success"

definition grafana_reconcileClusterRoleBinding :: "'w env \<Rightarrow> Observability \<Rightarrow> 'w \<Rightarrow> 'w outcome" where
  "grafana_reconcileClusterRoleBinding E cr =
     apply_then E (GetGrafanaClusterRoleBinding cr)
       (set_body (BClusterRoleBinding (service_account_binding
          (ob_name (GetGrafanaClusterRole cr)) ''grafana-serviceaccount'' (o_namespace cr)))) success"

definition reconcileGrafanaDatasource :: "'w env \<Rightarrow> Observability \<Rightarrow> 'w \<Rightarrow> 'w outcome" where
  "reconcileGrafanaDatasource E cr =
     apply_then E (GetGrafanaDatasource cr)
       (set_body (BGrafanaDataSource ''obs-prometheus.yaml''
          [\<lparr>df_name = ''Prometheus'', df_type = ''prometheus'', df_access = ''proxy'',
            df_url = ''http://prometheus-operated.'' @ o_namespace cr @ '':9090'', df_isDefault = True,
            df_version = 1, df_editable = True, df_tlsSkipVerify = True, df_timeInterval = ''10s''\<rparr>])) success"

definition grafana_configuration_steps :: "'w env \<Rightarrow> Observability \<Rightarrow> 'w \<Rightarrow> 'w outcome" where
  "grafana_configuration_steps E cr w =
     (if DescopedModeEnabled cr then success w
      else and_then (reconileProxySecret E cr w) (\<lambda>w.
           and_then (grafana_reconcileClusterRole E cr w) (\<lambda>w.
           and_then (grafana_reconcileClusterRoleBinding E cr w) (\<lambda>w.
           and_then (reconcileGrafanaDatasource E cr w) success))))"

definition grafana_configuration_Reconcile ::
  "'w env \<Rightarrow> Observability \<Rightarrow> ObservabilityStatus \<Rightarrow> 'w
    \<Rightarrow> ((ObservabilityStageStatus \<times> goerr option) \<times> Observability \<times> ObservabilityStatus \<times> 'w) option" where
  "grafana_configuration_Reconcile E cr s w = leave cr s (grafana_configuration_steps E cr w)"

definition grafana_configuration_reconciler :: "'w reconciler" where
  "grafana_configuration_reconciler =
     \<lparr>rec_Reconcile = grafana_configuration_Reconcile, rec_Cleanup = grafana_configuration_Cleanup\<rparr>"

definition grafana_configuration_owned :: "Observability \<Rightarrow> okey set" where
  "grafana_configuration_owned cr =
     (if DescopedModeEnabled cr then {}
      else key_of ` set [GetGrafanaCr cr, GetGrafanaDatasource cr, GetGrafanaProxySecret cr,
             GetGrafanaClusterRoleBinding cr, GetGrafanaClusterRole cr])"

definition getFileType :: "string \<Rightarrow> SourceType" where
  "getFileType path =
     (let fragments = Split CHR ''.'' path
      in if length fragments = 0 then SourceTypeUnknown
         else let extension = ToLower (TrimSpace (last fragments))
              in if extension = ''json'' then SourceTypeJson
                 else if extension = ''grafonnet'' then SourceTypeJsonnet
                 else if extension = ''jsonnet'' then SourceTypeJsonnet
                 else if extension = ''yaml'' then SourceTypeYaml
                 else SourceTypeUnknown)"

definition parseDashboardFromYaml :: "'w env \<Rightarrow> Observability \<Rightarrow> string \<Rightarrow> string \<Rightarrow> goerr + kobj" where
  "parseDashboardFromYaml E cr name source =
     (case e_decode_object E KGrafanaDashboard source of
        Inl err \<Rightarrow> Inl err
      | Inr dashboard \<Rightarrow>
          Inr (set_name name (set_namespace (o_namespace cr) (dashboard\<lparr>k_kind := KGrafanaDashboard\<rparr>))))"

definition createDashbaordFromSource :: "Observability \<Rightarrow> string \<Rightarrow> SourceType \<Rightarrow> string \<Rightarrow> goerr + kobj" where
  "createDashbaordFromSource cr name t source =
     (let dashboard = named_obj KGrafanaDashboard (o_namespace cr) name
      in case t of
           SourceTypeJson \<Rightarrow> Inr (set_body (BGrafanaDashboard (zero_dashboard\<lparr>gd_json := source\<rparr>)) dashboard)
         | SourceTypeJsonnet \<Rightarrow> Inr (set_body (BGrafanaDashboard (zero_dashboard\<lparr>gd_jsonnet := source\<rparr>)) dashboard)
         | _ \<Rightarrow> Inl (New (''unknown dashboard type: '' @ name)))"

section \<open>The stages keep the contract\<close>

context kube_client begin

lemma grafana_installation_Cleanup_cleans:
  "cleans look (grafana_installation_owned cr) (grafana_installation_owned cr) (grafana_installation_Cleanup E cr)"
proof (cases "DescopedModeEnabled cr")
  case True
  then have "grafana_installation_Cleanup E cr = success"
    by (simp add: grafana_installation_Cleanup_def fun_eq_iff)
  with True show ?thesis by (simp add: grafana_installation_owned_def cleans_leaf)
next
  case False
  have K: "key_of ob \<in> grafana_installation_owned cr"
    if "list_matches KDeployment (in_namespace (o_namespace cr)) ob" "ob_name ob = ''grafana-operator''" for ob
    using that False
    by (auto simp: grafana_installation_owned_def grafana_operator_deployments_def list_matches_def key_of_def)
  have D: "list_matches KDeployment (in_namespace (o_namespace cr)) ob \<and> ob_name ob = ''grafana-operator''"
    if "key_of ob \<in> grafana_operator_deployments cr" for ob
    using that by (auto simp: grafana_operator_deployments_def list_matches_def key_of_def)
  have "cleans look (grafana_installation_owned cr) (grafana_operator_deployments cr \<union> {})
      (delete_listed E KDeployment (in_namespace (o_namespace cr))
         (\<lambda>deployment. ob_name deployment = ''grafana-operator'') success)"
    by (rule cleans_delete_listed [OF K D cleans_leaf(1)])
  from cleans_delete_each [OF _ this,
      of "[GetGrafanaCatalogSource cr, GetGrafanaSubscription cr, GetGrafanaOperatorGroup cr]"] False
  show ?thesis
    by (simp add: grafana_installation_Cleanup_def [abs_def] grafana_installation_owned_def)
qed

lemma delete_old_subscriptions_only:
  "delete_old_subscriptions E name found subs w = Some (r, w') \<Longrightarrow>
     (\<forall>ob \<in> set subs. key_of ob \<in> K) \<Longrightarrow> only look K w w'"
proof (induction subs arbitrary: found w)
  case Nil
  then show ?case by simp
next
  case (Cons sub subs)
  from Cons.prems consider
      found' where "delete_old_subscriptions E name found' subs w = Some (r, w')"
    | er w1 where "e_delete E sub w = (er, w1)"
        "w' = w1 \<or> (\<exists>found'. delete_old_subscriptions E name found' subs w1 = Some (r, w'))"
    by (auto split: if_splits option.splits prod.splits)
  then show ?case
  proof cases
    case 1
    with Cons show ?thesis by simp
  next
    case (2 er w1)
    have "only look K w w1"
      by (rule write_only(1) [OF 2(1)]) (use Cons.prems(2) in simp)
    with 2 Cons show ?thesis by (auto intro: only_trans)
  qed
qed

lemma delete_old_csv_steps:
  assumes "\<forall>csv \<in> set csvs. key_of csv \<in> K"
  shows "steps look K (delete_old_csv E cr csvs)"
  unfolding delete_old_csv_def [abs_def]
  by (rule steps_intros | use assms in \<open>auto simp: find_Some_iff\<close>)+

lemma deleteUnrequestedSubscriptions_steps: "steps look foreign (deleteUnrequestedSubscriptions E cr)"
proof (rule stepsI)
  fix w s e w'
  assume eq: "deleteUnrequestedSubscriptions E cr w = Some ((s, e), w')"
  obtain r w1 where l: "e_list E KSubscription (in_namespace (o_namespace cr)) w = (r, w1)" by fastforce
  note f1 = same_look(1) [OF list_frame [OF l], of foreign]
  show "(e \<noteq> None \<longrightarrow> s = ResultFailed) \<and> only look foreign w w'"
  proof (cases r)
    case (Inl err)
    with eq l f1 show ?thesis by (simp add: deleteUnrequestedSubscriptions_def failed_def)
  next
    case (Inr subs)
    have "\<forall>ob \<in> set subs. key_of ob \<in> foreign"
      using list_items [OF l [unfolded Inr]] by (auto simp: list_matches_def foreign_def key_of_def)
    note del = delete_old_subscriptions_only [OF _ this]
    obtain r2 w2 where d: "delete_old_subscriptions E (ob_name (GetGrafanaSubscription cr)) False subs w1 = Some (r2, w2)"
      using eq l Inr by (auto simp: deleteUnrequestedSubscriptions_def split: option.splits)
    have f2: "only look foreign w w2" using f1 del [OF d] by (rule only_trans)
    obtain r3 w3 where l3: "e_list E KClusterServiceVersion (in_namespace (o_namespace cr)) w2 = (r3, w3)"
      by fastforce
    have f3: "only look foreign w w3" using f2 same_look(1) [OF list_frame [OF l3]] by (metis only_trans)
    have csvs: "\<forall>csv \<in> set csvs. key_of csv \<in> foreign" if "r3 = Inr csvs" for csvs
      using list_items [OF l3 [unfolded that]] by (auto simp: list_matches_def foreign_def key_of_def)
    from eq l Inr d l3 f2 f3 show ?thesis
      by (auto simp: deleteUnrequestedSubscriptions_def idiom_defs split: sum.splits if_splits
          dest!: stepsD [OF delete_old_csv_steps [OF csvs]] intro: only_trans)
  qed
qed

lemma grafana_installation_steps_steps: "steps look foreign (grafana_installation_steps E cr)"
proof -
  have og: "steps look foreign (grafana_reconcileOperatorgroup E cr)"
    unfolding grafana_reconcileOperatorgroup_def [abs_def]
    by (rule steps_frame [OF HasOperatorGroupForNamespace_frame] steps_intros
        | simp add: foreign_def model_obj_defs)+
  have wt: "steps look foreign (waitForGrafanaOperator E cr)"
    unfolding waitForGrafanaOperator_def [abs_def] by (rule steps_intros)+
  show ?thesis
    unfolding grafana_installation_steps_def [abs_def] grafana_reconcileCatalogSource_def
      grafana_reconcileSubscription_def
    by (rule deleteUnrequestedSubscriptions_steps og wt steps_intros | simp add: foreign_def model_obj_defs)+
qed

lemma grafana_installation_stage_laws:
  "stage_reconciler E look grafana_installation_reconciler grafana_installation_owned grafana_installation_owned"
  by (rule stage_reconciler_leaveI [OF _ grafana_installation_steps_steps])
    (simp_all add: grafana_installation_reconciler_def grafana_installation_Reconcile_def
      grafana_installation_Cleanup_cleans,
      auto simp: grafana_installation_owned_def grafana_operator_deployments_def foreign_def model_obj_defs)

lemma grafana_configuration_Cleanup_cleans:
  "cleans look (grafana_configuration_owned cr) (grafana_configuration_owned cr) (grafana_configuration_Cleanup E cr)"
proof (cases "DescopedModeEnabled cr")
  case True
  then have "grafana_configuration_Cleanup E cr = success"
    by (simp add: grafana_configuration_Cleanup_def fun_eq_iff)
  with True show ?thesis by (simp add: grafana_configuration_owned_def cleans_leaf)
next
  case False
  then show ?thesis
    unfolding grafana_configuration_Cleanup_def [abs_def] WaitForGrafanaToBeRemoved_def
    by simp (rule cleans_sub, (rule cleans_intros | simp add: grafana_configuration_owned_def)+)
qed

lemma grafana_configuration_steps_steps: "steps look foreign (grafana_configuration_steps E cr)"
  unfolding grafana_configuration_steps_def [abs_def] reconileProxySecret_def grafana_reconcileClusterRole_def
    grafana_reconcileClusterRoleBinding_def reconcileGrafanaDatasource_def
  by (rule steps_intros | simp add: foreign_def model_obj_defs)+

lemma grafana_configuration_stage_laws:
  "stage_reconciler E look grafana_configuration_reconciler grafana_configuration_owned grafana_configuration_owned"
  by (rule stage_reconciler_leaveI [OF _ grafana_configuration_steps_steps])
    (simp_all add: grafana_configuration_reconciler_def grafana_configuration_Reconcile_def
      grafana_configuration_Cleanup_cleans,
      auto simp: grafana_configuration_owned_def foreign_def model_obj_defs)

end

sublocale kube_client \<subseteq> grafana_installation: stage_reconciler E look grafana_installation_reconciler
    grafana_installation_owned grafana_installation_owned
  by (rule grafana_installation_stage_laws)

sublocale kube_client \<subseteq> grafana_configuration: stage_reconciler E look grafana_configuration_reconciler
    grafana_configuration_owned grafana_configuration_owned
  by (rule grafana_configuration_stage_laws)

end
