(* ===== verification/Logging_Stage.thy ===== *)
theory Logging_Stage
  imports Obs_Stage
begin

text \<open>
  \<^verbatim>\<open>controllers/reconcilers/logging_installation\<close>: installs the cluster logging operator when
  there is none, and configures the log collection and forwarding it manages.
\<close>

abbreviation logging_managed :: ListOptions where
  "logging_managed \<equiv> \<lparr>lo_namespace = ''openshift-logging'', lo_labels = logging_label\<rparr>"

definition checkLoggingSubscriptionForLabel :: "'w env \<Rightarrow> 'w \<Rightarrow> (goerr + bool) \<times> 'w" where
  "checkLoggingSubscriptionForLabel E w =
     (case e_list E KSubscription logging_managed w of
        (Inl err, w1) \<Rightarrow> (Inl err, w1)
      | (Inr items, w1) \<Rightarrow> (Inr (length items > 0), w1))"

text \<open>\<open>None\<close>: the index out of range of \<^verbatim>\<open>Items[0]\<close> when nothing is listed.\<close>

definition getInstalledLoggingCSVName :: "'w env \<Rightarrow> 'w \<Rightarrow> ((goerr + string) \<times> 'w) option" where
  "getInstalledLoggingCSVName E w =
     (case e_list E KSubscription logging_managed w of
        (Inl err, w1) \<Rightarrow> Some (Inl err, w1)
      | (Inr [], w1) \<Rightarrow> None
      | (Inr (item # _), w1) \<Rightarrow> Some (Inr (sub_installedCSV (subscription_of (k_body item))), w1))"

definition logging_installation_Cleanup :: "'w env \<Rightarrow> Observability \<Rightarrow> 'w \<Rightarrow> 'w outcome" where
  "logging_installation_Cleanup E cr w =
     (if DescopedModeEnabled cr then success w
      else case checkLoggingSubscriptionForLabel E w of
             (Inl err, w1) \<Rightarrow> failed err w1
           | (Inr managed, w1) \<Rightarrow>
               if \<not> managed then success w1
               else (case getInstalledLoggingCSVName E w1 of
                       None \<Rightarrow> None
                     | Some (Inl err, w2) \<Rightarrow> failed err w2
                     | Some (Inr installedCsv, w2) \<Rightarrow>
                         if installedCsv = [] then Some ((ResultFailed, None), w2)
                         else delete_each E
                                [GetLoggingSubscription cr,
                                 named_obj KClusterServiceVersion ''openshift-logging'' installedCsv,
                                 GetClusterLoggingCR, GetClusterLogForwarderCR] success w2))"

definition logging_reconcileSubscription :: "'w env \<Rightarrow> Observability \<Rightarrow> 'w \<Rightarrow> 'w outcome" where
  "logging_reconcileSubscription E cr =
     apply_then E (GetLoggingSubscription cr) (subscribe
       \<lparr>sb_catalogSource = ''redhat-operators'', sb_catalogSourceNamespace = ''openshift-marketplace'',
        sb_package = ''cluster-logging'', sb_channel = ''stable'', sb_startingCSV = [],
        sb_installPlanApproval = ''Automatic'', sb_resources = None\<rparr>) success"

definition waitForLoggingOperator :: "'w env \<Rightarrow> Observability \<Rightarrow> 'w \<Rightarrow> 'w outcome" where
  "waitForLoggingOperator E cr w =
     (case e_list E KDeployment (in_namespace ''openshift-logging'') w of
        (Inl err, w1) \<Rightarrow> failed err w1
      | (Inr deployments, w1) \<Rightarrow>
          if list_ex (\<lambda>d. HasPrefix (ob_name d) ''cluster-logging-operator''
               \<and> wl_readyReplicas (workload_of (k_body d)) > 0) deployments
          then success w1 else in_progress w1)"

definition createClusterLoggingCr :: "'w env \<Rightarrow> Observability \<Rightarrow> 'w \<Rightarrow> 'w outcome" where
  "createClusterLoggingCr E cr w =
     (case e_list E KClusterLogging (in_namespace ''openshift-logging'') w of
        (Inl err, w1) \<Rightarrow> failed err w1
      | (Inr items, w1) \<Rightarrow>
          (case e_list E KClusterLogging logging_managed w1 of
             (Inl err, w2) \<Rightarrow> failed err w2
           | (Inr labelled, w2) \<Rightarrow>
               if length items = 0 \<or> length labelled > 0
               then apply_then E GetClusterLoggingCR (\<lambda>ob. ob) success w2
               else success w2))"

definition operator_input :: InputSpec where
  "operator_input =
     \<lparr>in_name = ''kafka-operator-application-logs'',
      in_namespaces = [''redhat-kas-fleetshard-operator'', ''redhat-managed-kafka-operator'',
        ''redhat-kas-fleetshard-operator-qe'', ''redhat-managed-kafka-operator-qe'',
        ''openshift-logging'', ''managed-application-services-observability'']\<rparr>"

definition cloudwatch_output :: OutputSpec where
  "cloudwatch_output =
     \<lparr>out_name = ''cloudwatch'', out_type = ''cloudwatch'', out_region = ''eu-west-1'',
      out_groupBy = ''logType'', out_secret = ''clo-cloudwatchlogs-creds''\<rparr>"

definition app_logs_pipeline :: PipelineSpec where
  "app_logs_pipeline =
     \<lparr>pl_outputRefs = [''cloudwatch''],
      pl_inputRefs = [''kafka-operator-application-logs'', ''kafka-log-resources''],
      pl_name = ''observability-app-logs''\<rparr>"

text \<open>The closure \<^verbatim>\<open>findKafkaLogResourcesInput\<close>, and the assignment through its result.\<close>

fun set_input_namespaces :: "string list \<Rightarrow> InputSpec list \<Rightarrow> InputSpec list" where
  "set_input_namespaces namespaces [] = []"
| "set_input_namespaces namespaces (input # inputs) =
     (if in_name input = ''kafka-log-resources'' then input\<lparr>in_namespaces := namespaces\<rparr> # inputs
      else input # set_input_namespaces namespaces inputs)"

definition forwarder_mutate :: "kobj list \<Rightarrow> kobj \<Rightarrow> kobj" where
  "forwarder_mutate namespaceItems ob =
     (let inputs = [operator_input];
          namespaces = sort (map (\<lambda>n. ob_name n) namespaceItems);
          inputs1 = (if find (\<lambda>input. in_name input = ''kafka-log-resources'') inputs = None
                     then inputs @ [\<lparr>in_name = ''kafka-log-resources'', in_namespaces = namespaces\<rparr>]
                     else set_input_namespaces namespaces inputs)
      in set_body (BClusterLogForwarder
           \<lparr>lf_inputs = inputs1, lf_outputs = [cloudwatch_output], lf_pipelines = [app_logs_pipeline]\<rparr>) ob)"

definition createClusterLogForwarderCr :: "'w env \<Rightarrow> Observability \<Rightarrow> 'w \<Rightarrow> 'w outcome" where
  "createClusterLogForwarderCr E cr w =
     (case e_list E KClusterLogForwarder (in_namespace ''openshift-logging'') w of
        (Inl err, w1) \<Rightarrow> failed err w1
      | (Inr items, w1) \<Rightarrow>
          (case e_list E KClusterLogForwarder logging_managed w1 of
             (Inl err, w2) \<Rightarrow> failed err w2
           | (Inr labelled, w2) \<Rightarrow>
               if length items = 0 \<or> length labelled > 0 then
                 (case e_list E KNamespace \<lparr>lo_namespace = [],
                        lo_labels = [(''app.kubernetes.io/managed-by'', ''kas-fleetshard-operator'')]\<rparr> w2 of
                    (Inl err, w3) \<Rightarrow> failed err w3
                  | (Inr namespaceItems, w3) \<Rightarrow>
                      apply_then E GetClusterLogForwarderCR (forwarder_mutate namespaceItems) success w3)
               else success w2))"

text \<open>From the check of the namespace on.\<close>

definition logging_operands :: "'w env \<Rightarrow> Observability \<Rightarrow> 'w \<Rightarrow> 'w outcome" where
  "logging_operands E cr w =
     (case checkLoggingSubscriptionForLabel E w of
        (Inl err, w1) \<Rightarrow> failed err w1
      | (Inr managed, w1) \<Rightarrow>
          if managed then
            and_then (createClusterLoggingCr E cr w1) (\<lambda>w.
            and_then (createClusterLogForwarderCr E cr w) success)
          else success w1)"

definition logging_install :: "'w env \<Rightarrow> Observability \<Rightarrow> 'w \<Rightarrow> 'w outcome" where
  "logging_install E cr w =
     (case e_list E KDeployment (in_namespace ''openshift-logging'') w of
        (Inl err, w1) \<Rightarrow> failed err w1
      | (Inr deployments, w1) \<Rightarrow>
          if list_ex (\<lambda>d. HasPrefix (ob_name d) ''cluster-logging-operator'') deployments
          then logging_operands E cr w1
          else and_then (logging_reconcileSubscription E cr w1) (\<lambda>w.
               and_then (waitForLoggingOperator E cr w) (logging_operands E cr)))"

definition logging_namespace :: "'w env \<Rightarrow> Observability \<Rightarrow> 'w \<Rightarrow> 'w outcome" where
  "logging_namespace E cr w =
     (case e_get E KNamespace [] ''openshift-logging'' w of
        (Inl err, w1) \<Rightarrow> if \<not> IsNotFound err then failed err w1 else success w1
      | (Inr _, w1) \<Rightarrow> logging_install E cr w1)"

text \<open>
  \<open>None\<close> in the last case: \<^verbatim>\<open>cr.Spec.SelfContained.DisableLogging\<close> with a nil \<^verbatim>\<open>SelfContained\<close>.
\<close>

definition logging_installation_steps :: "'w env \<Rightarrow> Observability \<Rightarrow> 'w \<Rightarrow> 'w outcome" where
  "logging_installation_steps E cr w =
     (if DescopedModeEnabled cr then success w
      else case e_get E KConfigMap (o_namespace cr) ''observability-operator-no-init'' w of
             (r, w1) \<Rightarrow>
               let proceed = (\<lambda>selfContainedMode.
                     case sp_SelfContained (o_spec cr) of
                       None \<Rightarrow> None
                     | Some sc \<Rightarrow>
                         if selfContainedMode \<and> sc_DisableLogging sc = None then success w1
                         else if deref_true (sc_DisableLogging sc) then success w1
                         else logging_namespace E cr w1)
               in case r of
                    Inl err \<Rightarrow> if \<not> IsNotFound err then failed err w1 else proceed False
                  | Inr _ \<Rightarrow> proceed True)"

definition logging_installation_Reconcile ::
  "'w env \<Rightarrow> Observability \<Rightarrow> ObservabilityStatus \<Rightarrow> 'w
    \<Rightarrow> ((ObservabilityStageStatus \<times> goerr option) \<times> Observability \<times> ObservabilityStatus \<times> 'w) option" where
  "logging_installation_Reconcile E cr s w = leave cr s (logging_installation_steps E cr w)"

definition logging_reconciler :: "'w reconciler" where
  "logging_reconciler =
     \<lparr>rec_Reconcile = logging_installation_Reconcile, rec_Cleanup = logging_installation_Cleanup\<rparr>"

definition logging_owned :: "Observability \<Rightarrow> okey set" where
  "logging_owned cr =
     (if DescopedModeEnabled cr then {}
      else key_of ` set [GetLoggingSubscription cr, GetClusterLoggingCR, GetClusterLogForwarderCR]
        \<union> {(KClusterServiceVersion, ''openshift-logging'', name) | name. True})"

section \<open>The stage keeps the contract\<close>

context kube_client begin

lemma checkLoggingSubscriptionForLabel_frame: "checkLoggingSubscriptionForLabel E w = (r, w') \<Longrightarrow> look w' = look w"
  by (auto simp: checkLoggingSubscriptionForLabel_def dest: list_frame split: prod.splits sum.splits)

lemma getInstalledLoggingCSVName_frame: "getInstalledLoggingCSVName E w = Some (r, w') \<Longrightarrow> look w' = look w"
  by (auto simp: getInstalledLoggingCSVName_def dest: list_frame split: prod.splits sum.splits list.splits)

lemma logging_deletes_cleans:
  assumes "\<not> DescopedModeEnabled cr"
  shows "cleans look (logging_owned cr)
    (key_of ` set [GetLoggingSubscription cr, GetClusterLoggingCR, GetClusterLogForwarderCR])
    (delete_each E [GetLoggingSubscription cr, named_obj KClusterServiceVersion ''openshift-logging'' installedCsv,
       GetClusterLoggingCR, GetClusterLogForwarderCR] success)"
  by (rule cleans_sub [OF cleans_delete_each [OF _ cleans_leaf(1)]])
    (use assms in \<open>auto simp: logging_owned_def\<close>)

text \<open>
  The step before the deletions: not managed, an error, no installed CSV, or the deletions.
\<close>

lemma logging_Cleanup_cases:
  assumes "logging_installation_Cleanup E cr w = Some ((s, e), w')" and "\<not> DescopedModeEnabled cr"
  obtains (unmanaged) w1 where "checkLoggingSubscriptionForLabel E w = (Inr False, w1)"
      "s = ResultSuccess" "e = None" "look w' = look w"
  | (stopped) "s = ResultFailed" "look w' = look w"
  | (deletes) installedCsv w2 where "look w2 = look w"
      "delete_each E [GetLoggingSubscription cr, named_obj KClusterServiceVersion ''openshift-logging'' installedCsv,
         GetClusterLoggingCR, GetClusterLogForwarderCR] success w2 = Some ((s, e), w')"
proof -
  obtain r w1 where c: "checkLoggingSubscriptionForLabel E w = (r, w1)" by fastforce
  note f1 = checkLoggingSubscriptionForLabel_frame [OF c]
  show thesis
  proof (cases r)
    case (Inl err)
    with assms c f1 show thesis by (intro stopped) (auto simp: logging_installation_Cleanup_def failed_def)
  next
    case (Inr managed)
    show thesis
    proof (cases managed)
      case False
      with assms c f1 Inr show thesis
        by (intro unmanaged [of w1]) (auto simp: logging_installation_Cleanup_def success_def)
    next
      case True
      with assms c Inr obtain r2 w2 where g: "getInstalledLoggingCSVName E w1 = Some (r2, w2)"
        by (auto simp: logging_installation_Cleanup_def split: option.splits)
      note f2 = getInstalledLoggingCSVName_frame [OF g]
      show thesis
      proof (cases "\<exists>installedCsv. r2 = Inr installedCsv \<and> installedCsv \<noteq> []")
        case False
        with assms c g f1 f2 Inr True show thesis
          by (intro stopped; cases r2) (auto simp: logging_installation_Cleanup_def failed_def)
      next
        case csv: True
        then obtain installedCsv where "r2 = Inr installedCsv" "installedCsv \<noteq> []" by blast
        with assms c g f1 f2 Inr True show thesis
          by (intro deletes [of w2 installedCsv]) (simp_all add: logging_installation_Cleanup_def)
      qed
    qed
  qed
qed

lemma logging_Cleanup_cleans: "cleans look (logging_owned cr) {} (logging_installation_Cleanup E cr)"
proof (cases "DescopedModeEnabled cr")
  case True
  then have "logging_installation_Cleanup E cr = success"
    by (simp add: logging_installation_Cleanup_def fun_eq_iff)
  then show ?thesis by (simp add: cleans_leaf)
next
  case False
  show ?thesis
  proof (rule cleansI)
    fix w s e w'
    assume "logging_installation_Cleanup E cr w = Some ((s, e), w')"
    then show "(e \<noteq> None \<longrightarrow> s = ResultFailed) \<and> only look (logging_owned cr) w w' \<and> decays look w w'
      \<and> (s = ResultSuccess \<longrightarrow> all_gone look {} w')"
      using False
    proof (cases rule: logging_Cleanup_cases)
      case unmanaged
      then show ?thesis by (simp add: same_look)
    next
      case stopped
      then show ?thesis by (simp add: same_look)
    next
      case (deletes installedCsv w2)
      from cleansD [OF logging_deletes_cleans [OF False] deletes(2)] same_look [OF deletes(1)]
      show ?thesis by (auto intro: only_trans decays_trans)
    qed
  qed
qed

lemma createClusterLoggingCr_steps: "steps look foreign (createClusterLoggingCr E cr)"
  unfolding createClusterLoggingCr_def [abs_def]
  by (rule steps_intros | simp add: foreign_def model_obj_defs)+

lemma createClusterLogForwarderCr_steps: "steps look foreign (createClusterLogForwarderCr E cr)"
  unfolding createClusterLogForwarderCr_def [abs_def]
  by (rule steps_intros | simp add: foreign_def model_obj_defs)+

lemma logging_operands_steps: "steps look foreign (logging_operands E cr)"
  unfolding logging_operands_def [abs_def]
  by (rule steps_frame [OF checkLoggingSubscriptionForLabel_frame] createClusterLoggingCr_steps
      createClusterLogForwarderCr_steps steps_intros | assumption)+

lemma logging_install_steps: "steps look foreign (logging_install E cr)"
proof -
  have wt: "steps look foreign (waitForLoggingOperator E cr)"
    unfolding waitForLoggingOperator_def [abs_def] by (rule steps_intros)+
  show ?thesis
    unfolding logging_install_def [abs_def] logging_reconcileSubscription_def
    by (rule logging_operands_steps wt steps_intros | simp add: foreign_def model_obj_defs)+
qed

lemma logging_namespace_steps: "steps look foreign (logging_namespace E cr)"
  unfolding logging_namespace_def [abs_def] by (rule logging_install_steps steps_intros)+

lemma logging_installation_steps_steps: "steps look foreign (logging_installation_steps E cr)"
  unfolding logging_installation_steps_def [abs_def] Let_def
  by (rule logging_namespace_steps steps_intros)+

lemma logging_owned_foreign: "logging_owned cr \<subseteq> foreign"
  by (auto simp: logging_owned_def foreign_def model_obj_defs)

lemma logging_stage_laws: "stage_reconciler E look logging_reconciler logging_owned (\<lambda>_. {})"
  by (rule stage_reconciler_leaveI [OF _ logging_installation_steps_steps])
    (simp_all add: logging_reconciler_def logging_installation_Reconcile_def logging_Cleanup_cleans
      logging_owned_foreign)

end

sublocale kube_client \<subseteq> logging_stage: stage_reconciler E look logging_reconciler logging_owned "\<lambda>_. {}"
  by (rule logging_stage_laws)

section \<open>Properties\<close>

text \<open>
  C27: where no subscription to the logging operator carries the operator's label, the cleanup of
  the stage leaves the cluster's logging installation alone.
\<close>

theorem foreign_logging_untouched:
  assumes "kube_client E look" and "logging_installation_Cleanup E cr w = Some ((s, er), w')"
    and "\<And>nm ob. look w (KSubscription, ''openshift-logging'', nm) = Some ob \<Longrightarrow> \<not> list_matches KSubscription logging_managed ob"
  shows "look w' = look w"
proof (cases "DescopedModeEnabled cr")
  case True
  with assms(2) show ?thesis by (simp add: logging_installation_Cleanup_def success_def)
next
  case False
  obtain r w1 where l: "e_list E KSubscription logging_managed w = (r, w1)" by fastforce
  note fr = kube_client.list_frame [OF assms(1) l]
  show ?thesis
  proof (cases r)
    case (Inl e)
    with assms(2) False l fr show ?thesis
      by (simp add: logging_installation_Cleanup_def checkLoggingSubscriptionForLabel_def failed_def)
  next
    case (Inr items)
    have "ob \<notin> set items" for ob
    proof
      assume "ob \<in> set items"
      with kube_client.list_items [OF assms(1) l [unfolded Inr]]
      have m: "look w (key_of ob) = Some ob" "list_matches KSubscription logging_managed ob" by auto
      then have "key_of ob = (KSubscription, ''openshift-logging'', ob_name ob)"
        by (simp add: list_matches_def key_of_def)
      with m assms(3) show False by metis
    qed
    then have "items = []" by (cases items) auto
    with assms(2) False l Inr fr show ?thesis
      by (simp add: logging_installation_Cleanup_def checkLoggingSubscriptionForLabel_def success_def)
  qed
qed

theorem foreign_logging_untouched_witness:
  "\<exists>s er w'. logging_installation_Cleanup sample_env sample_cr
         (sample_world [named_obj KSubscription ''openshift-logging'' ''cluster-logging'']) = Some ((s, er), w')
     \<and> mem_look w' = mem_look (sample_world [named_obj KSubscription ''openshift-logging'' ''cluster-logging''])"
proof -
  let ?w = "sample_world [named_obj KSubscription ''openshift-logging'' ''cluster-logging'']"
  have "returned (logging_installation_Cleanup sample_env sample_cr ?w) (\<lambda>_. True)" by code_simp
  then obtain s er w' where run: "logging_installation_Cleanup sample_env sample_cr ?w = Some ((s, er), w')"
    unfolding returned_iff by auto
  have "mw_store ?w = [named_obj KSubscription ''openshift-logging'' ''cluster-logging'']" by (simp add: sample_world_def)
  then have "ob = named_obj KSubscription ''openshift-logging'' ''cluster-logging''" if "mem_look ?w k = Some ob" for k ob
    using that by (auto simp: mem_look_def find_Some_iff split: if_splits)
  moreover have "\<not> list_matches KSubscription logging_managed (named_obj KSubscription ''openshift-logging'' ''cluster-logging'')"
    by code_simp
  ultimately have "mem_look w' = mem_look ?w"
    by (intro foreign_logging_untouched [OF sample_env_client, OF run]) metis
  with run show ?thesis by blast
qed

text \<open>
  C39: outside the descoped mode, a resource without a \<^verbatim>\<open>SelfContained\<close> section makes the stage
  panic as soon as the server answered.
\<close>

theorem logging_needs_self_contained:
  assumes "\<not> DescopedModeEnabled cr" and "sp_SelfContained (o_spec cr) = None"
    and "e_get E KConfigMap (o_namespace cr) ''observability-operator-no-init'' w = (r, w1)"
    and "\<forall>err. r = Inl err \<longrightarrow> IsNotFound err"
  shows "logging_installation_Reconcile E cr s w = None"
  using assms
  by (cases r) (simp_all add: logging_installation_Reconcile_def logging_installation_steps_def Let_def leave_def)

theorem logging_needs_self_contained_witness:
  "logging_installation_Reconcile sample_env (sample_cr\<lparr>o_spec := zero_spec\<rparr>) zero_status (sample_world []) = None"
proof (rule logging_needs_self_contained)
  let ?cr = "sample_cr\<lparr>o_spec := zero_spec\<rparr>"
  show "\<not> DescopedModeEnabled ?cr" "sp_SelfContained (o_spec ?cr) = None" by code_simp+
  show "e_get sample_env KConfigMap (o_namespace ?cr) ''observability-operator-no-init'' (sample_world [])
      = (Inl not_found, sample_world [])" by code_simp
  show "\<forall>err. Inl not_found = Inl err \<longrightarrow> IsNotFound err"
    by (simp add: not_found_def IsNotFound_def)
qed

end
