(* ===== verification/Token_Stage.thy ===== *)
theory Token_Stage
  imports Obs_Stage
begin

text \<open>
  Observatorium tokens: \<^verbatim>\<open>controllers/token/token_fetcher.go\<close> (expiry and the two fetchers) and
  \<^verbatim>\<open>controllers/reconcilers/token\<close> (the token secrets, the credentials of each observatorium,
  and the token stage itself).  Times are nanoseconds since the Unix epoch; token expiries are
  64-bit Unix seconds.
\<close>

section \<open>token_fetcher.go\<close>

text \<open>
  \<^verbatim>\<open>time.Unix(expires, 0)\<close> keeps its seconds since the year 1 in an int64, so the addition of
  the offset of the epoch wraps.
\<close>

definition unixToInternal :: int where
  "unixToInternal = 62135596800"

definition AuthTokenExpires :: "'w env \<Rightarrow> int \<Rightarrow> 'w \<Rightarrow> bool" where
  "AuthTokenExpires E expires w =
     (if expires > 0 then
        let now = e_now E w + 3600 * 10 ^ 9;
            expiry = wrap64 (expires + unixToInternal) - unixToInternal
        in now > expiry * 10 ^ 9
      else False)"

datatype AuthTokenFetcher = NilTokenFetcher | DexTokenFetcher

definition GetTokenFetcher :: "ObservatoriumIndex option \<Rightarrow> AuthTokenFetcher" where
  "GetTokenFetcher config =
     (case config of
        None \<Rightarrow> NilTokenFetcher
      | Some c \<Rightarrow> if oi_AuthType c = AuthTypeDex then DexTokenFetcher else NilTokenFetcher)"

definition dex_form :: "ObservatoriumIndex \<Rightarrow> DexConfig \<Rightarrow> smap" where
  "dex_form config dex =
     [(''grant_type'', ''password''), (''username'', dx_Username dex), (''password'', dx_Password dex),
      (''client_id'', oi_Tenant config), (''client_secret'', dx_Secret dex), (''scope'', ''openid email'')]"

text \<open>The three results of \<^verbatim>\<open>Fetch\<close>: the token, its expiry, and the error.\<close>

definition dex_Fetch ::
  "'w env \<Rightarrow> Observability \<Rightarrow> ObservatoriumIndex \<Rightarrow> string \<Rightarrow> 'w \<Rightarrow> (string \<times> int \<times> goerr option) \<times> 'w" where
  "dex_Fetch E cr config oldToken w =
     (case oi_DexConfig config of
        None \<Rightarrow> ((oldToken, 0, None), w)
      | Some dex \<Rightarrow>
          (case e_http_post E (dx_Url dex @ ''/dex/token'') (dex_form config dex) w of
             (Inl err, w1) \<Rightarrow> ((oldToken, st_TokenExpires (o_status cr), Some err), w1)
           | (Inr resp, w1) \<Rightarrow>
               (case hp_body resp of
                  Inl err \<Rightarrow> ((oldToken, st_TokenExpires (o_status cr), Some err), w1)
                | Inr body \<Rightarrow>
                    if hp_status resp \<noteq> 200 then
                      ((oldToken, st_TokenExpires (o_status cr),
                        Some (New (''unexpected response from token endpoint: '' @ hp_statusLine resp))), w1)
                    else (case e_decode_dex E body of
                            Inl err \<Rightarrow> ((oldToken, st_TokenExpires (o_status cr), Some err), w1)
                          | Inr (accessToken, expiresIn) \<Rightarrow>
                              ((accessToken, (e_now E w1 + wrap64 (10 ^ 9 * expiresIn)) div 10 ^ 9, None), w1)))))"

definition Fetch ::
  "'w env \<Rightarrow> AuthTokenFetcher \<Rightarrow> Observability \<Rightarrow> ObservatoriumIndex \<Rightarrow> string \<Rightarrow> 'w
    \<Rightarrow> (string \<times> int \<times> goerr option) \<times> 'w" where
  "Fetch E fetcher cr config oldToken w =
     (case fetcher of
        NilTokenFetcher \<Rightarrow> (([], 0, None), w)
      | DexTokenFetcher \<Rightarrow> dex_Fetch E cr config oldToken w)"

section \<open>token_manager.go\<close>

definition GetObservatoriumTokenSecretName :: "ObservatoriumIndex \<Rightarrow> string" where
  "GetObservatoriumTokenSecretName config = ''obs-token-'' @ oi_Id config"

definition GetObservatoriumConfig :: "RepositoryIndex option \<Rightarrow> string \<Rightarrow> ObservatoriumIndex option" where
  "GetObservatoriumConfig index ident =
     (case Option.bind (Option.bind index ix_Config) rc_Observatoria of
        None \<Rightarrow> None
      | Some observatoria \<Rightarrow> find (\<lambda>observatorium. oi_Id observatorium = ident) observatoria)"

text \<open>
  \<open>None\<close>: a nil dereference, of the section the index does not have or of the observatorium
  it names and does not define.
\<close>

definition GetObservatoriumPrometheusSecretName :: "RepositoryIndex \<Rightarrow> string option" where
  "GetObservatoriumPrometheusSecretName index =
     do {
       config \<leftarrow> ix_Config index;
       prometheus \<leftarrow> rc_Prometheus config;
       observatorium \<leftarrow> GetObservatoriumConfig (Some index) (pi_Observatorium prometheus);
       Some (GetObservatoriumTokenSecretName observatorium)
     }"

definition GetObservatoriumPromtailSecretName :: "RepositoryIndex \<Rightarrow> string option" where
  "GetObservatoriumPromtailSecretName index =
     do {
       config \<leftarrow> ix_Config index;
       promtail \<leftarrow> rc_Promtail config;
       observatorium \<leftarrow> GetObservatoriumConfig (Some index) (pt_Observatorium promtail);
       Some (GetObservatoriumTokenSecretName observatorium)
     }"

definition findToken ::
  "'w env \<Rightarrow> Observability \<Rightarrow> ObservatoriumIndex \<Rightarrow> 'w \<Rightarrow> (goerr + (string \<times> int)) \<times> 'w" where
  "findToken E cr config w =
     (let secretName = GetObservatoriumTokenSecretName config
      in case e_get E KSecret (o_namespace cr) secretName w of
           (Inl err, w1) \<Rightarrow> (if IsNotFound err then (Inr ([], 0), w1) else (Inl err, w1))
         | (Inr secret, w1) \<Rightarrow>
             (case mlookup (sec_data (secret_of (k_body secret))) ''token'' of
                None \<Rightarrow> (Inl (New (''no token found in '' @ secretName)), w1)
              | Some token \<Rightarrow>
                  let lifetime = (case mlookup (sec_data (secret_of (k_body secret))) ''lifetime'' of
                                    None \<Rightarrow> ''0'' | Some l \<Rightarrow> l)
                  in (case ParseInt lifetime of
                        Inl err \<Rightarrow> (Inl err, w1)
                      | Inr lifetimeLeft \<Rightarrow> (Inr (token, lifetimeLeft), w1))))"

definition refreshToken ::
  "'w env \<Rightarrow> ObservatoriumIndex \<Rightarrow> Observability \<Rightarrow> string \<Rightarrow> 'w \<Rightarrow> (goerr + (string \<times> int)) \<times> 'w" where
  "refreshToken E config cr oldToken w =
     (case Fetch E (GetTokenFetcher (Some config)) cr config oldToken w of
        ((newToken, expires, Some err), w1) \<Rightarrow>
          (Inl (Wrap err (''error fetching token for '' @ oi_Id config)), w1)
      | ((newToken, expires, None), w1) \<Rightarrow> (Inr (newToken, expires), w1))"

definition token_secret_mutate :: "string \<Rightarrow> int \<Rightarrow> kobj \<Rightarrow> kobj" where
  "token_secret_mutate token lifetime secret =
     set_body (BSecret ((secret_of (k_body secret))\<lparr>
                 sec_stringData := Some [(''token'', token), (''lifetime'', FormatInt lifetime)]\<rparr>))
       (set_labels (Some token_secret_labels) secret)"

definition saveToken ::
  "'w env \<Rightarrow> ObservatoriumIndex \<Rightarrow> Observability \<Rightarrow> string \<Rightarrow> int \<Rightarrow> 'w \<Rightarrow> (goerr option \<times> 'w) option" where
  "saveToken E config cr token lifetime w =
     (case CreateOrUpdate E (named_obj KSecret (o_namespace cr) (GetObservatoriumTokenSecretName config))
             (token_secret_mutate token lifetime) w of
        None \<Rightarrow> None
      | Some (Some err, w1) \<Rightarrow> Some (Some (Wrap err (''error creating token secret for '' @ oi_Id config)), w1)
      | Some (None, w1) \<Rightarrow> Some (None, w1))"

fun tokens_expired_in :: "'w env \<Rightarrow> kobj list \<Rightarrow> 'w \<Rightarrow> goerr + bool" where
  "tokens_expired_in E [] w = Inr False"
| "tokens_expired_in E (secret # secrets) w =
     (case mlookup (sec_data (secret_of (k_body secret))) ''lifetime'' of
        None \<Rightarrow> Inr True
      | Some lifetime \<Rightarrow>
          (case ParseInt lifetime of
             Inl err \<Rightarrow> Inl (Wrap err (''error parsing token lifetime for secret '' @ ob_name secret))
           | Inr expires \<Rightarrow>
               if AuthTokenExpires E expires w then Inr True else tokens_expired_in E secrets w))"

definition TokensExpired :: "'w env \<Rightarrow> Observability \<Rightarrow> 'w \<Rightarrow> (goerr + bool) \<times> 'w" where
  "TokensExpired E cr w =
     (case e_list E KSecret \<lparr>lo_namespace = o_namespace cr, lo_labels = token_secret_labels\<rparr> w of
        (Inl err, w1) \<Rightarrow> (Inl (Wrap err ''error checking token secrets for expiration''), w1)
      | (Inr items, w1) \<Rightarrow> (tokens_expired_in E items w1, w1))"

text \<open>
  The recursive call of the Dex case is on the same index, whose \<^verbatim>\<open>DexConfig\<close> is still not nil:
  it ends only when reading the secret fails.  \<open>None\<close> is not returning (in Go, the exhausted
  stack).
\<close>

definition fill_from_secret :: "gomap \<Rightarrow> ObservatoriumIndex \<Rightarrow> ObservatoriumIndex" where
  "fill_from_secret dat index =
     index\<lparr>
       oi_AuthType := (if oi_AuthType index = AuthType [] then ToAuthType (mget dat ''authType'') else oi_AuthType index),
       oi_Gateway := (if oi_Gateway index = [] then mget dat ''gateway'' else oi_Gateway index),
       oi_Tenant := (if oi_Tenant index = [] then mget dat ''tenant'' else oi_Tenant index)\<rparr>"

definition dex_from_secret :: "gomap \<Rightarrow> DexConfig" where
  "dex_from_secret dat = zero_dex\<lparr>
     dx_Url := mget dat ''dexUrl'', dx_Secret := mget dat ''dexSecret'',
     dx_Password := mget dat ''dexPassword'', dx_Username := mget dat ''dexUsername''\<rparr>"

definition sso_from_secret :: "gomap \<Rightarrow> RedhatSsoConfig" where
  "sso_from_secret dat = \<lparr>
     rh_Url = mget dat ''redHatSsoAuthServerUrl'', rh_Realm = mget dat ''redHatSsoRealm'',
     rh_MetricsClient = mget dat ''metricsClientId'', rh_MetricsSecret = mget dat ''metricsSecret'',
     rh_LogsClient = mget dat ''logsClientId'', rh_LogsSecret = mget dat ''logsSecret''\<rparr>"

fun auth_type_string :: "ObservabilityAuthType \<Rightarrow> string" where
  "auth_type_string AuthTypeDex = ''dex''"
| "auth_type_string AuthTypeRedhat = ''redhat''"
| "auth_type_string (AuthType s) = s"

partial_function (option) assignFromSecret ::
  "'w env \<Rightarrow> Observability \<Rightarrow> ObservatoriumIndex \<Rightarrow> 'w \<Rightarrow> ((goerr + ObservatoriumIndex) \<times> 'w) option" where
  "assignFromSecret E cr index w =
     (case e_get E KSecret (o_namespace cr) (oi_SecretName index) w of
        (r, w1) \<Rightarrow>
          (case r of
             Inl err \<Rightarrow> Some (Inl err, w1)
           | Inr targetSecret \<Rightarrow>
               (let dat = sec_data (secret_of (k_body targetSecret));
                    index1 = fill_from_secret dat index
                in if oi_AuthType index1 = AuthTypeDex then
                     (if oi_DexConfig index1 \<noteq> None then assignFromSecret E cr index1 w1
                      else Some (Inr (index1\<lparr>oi_DexConfig := Some (dex_from_secret dat)\<rparr>), w1))
                   else if oi_AuthType index1 = AuthTypeRedhat then
                     Some (Inr (index1\<lparr>oi_RedhatSsoConfig := Some (sso_from_secret dat)\<rparr>), w1)
                   else Some (Inl (New (''unknown auth type '' @ auth_type_string (oi_AuthType index1))), w1))))"

declare assignFromSecret.simps [code]

text \<open>The credential secret of a Dex configuration given in the repository.\<close>

definition dex_credentials :: "gomap \<Rightarrow> DexConfig \<Rightarrow> DexConfig" where
  "dex_credentials dat dex =
     (let pick = (\<lambda>k k'. case mlookup dat k of Some v \<Rightarrow> v | None \<Rightarrow> mget dat k')
      in dex\<lparr>dx_Username := pick ''username'' ''dexUsername'',
             dx_Password := pick ''password'' ''dexPassword'',
             dx_Secret := pick ''secret'' ''dexSecret''\<rparr>)"

definition resolve_credentials ::
  "'w env \<Rightarrow> Observability \<Rightarrow> ObservatoriumIndex \<Rightarrow> 'w \<Rightarrow> (goerr + ObservatoriumIndex) \<times> 'w" where
  "resolve_credentials E cr observatorium w =
     (case oi_DexConfig observatorium of
        Some dex \<Rightarrow>
          if oi_AuthType observatorium = AuthTypeDex \<and> dx_CredentialSecretName dex \<noteq> [] then
            (let namespace = (if dx_CredentialSecretNamespace dex \<noteq> [] then dx_CredentialSecretNamespace dex
                              else o_namespace cr)
             in case e_get E KSecret namespace (dx_CredentialSecretName dex) w of
                  (Inl err, w1) \<Rightarrow> (Inl err, w1)
                | (Inr secret, w1) \<Rightarrow>
                    (Inr (observatorium\<lparr>oi_DexConfig :=
                            Some (dex_credentials (sec_data (secret_of (k_body secret))) dex)\<rparr>), w1))
          else (Inr observatorium, w)
      | None \<Rightarrow> (Inr observatorium, w))"

text \<open>Find the stored token, fetch and save a new one if there is none or it expires soon.\<close>

definition ensure_token ::
  "'w env \<Rightarrow> Observability \<Rightarrow> ObservatoriumIndex \<Rightarrow> 'w \<Rightarrow> (goerr option \<times> 'w) option" where
  "ensure_token E cr observatorium w =
     (case findToken E cr observatorium w of
        (Inl err, w1) \<Rightarrow>
          Some (Some (Wrap err (''error checking existing observatorium token for '' @ oi_Id observatorium)), w1)
      | (Inr (t, lifetime), w1) \<Rightarrow>
          if t = [] \<or> AuthTokenExpires E lifetime w1 then
            (case refreshToken E observatorium cr t w1 of
               (Inl err, w2) \<Rightarrow> Some (None, w2)
             | (Inr (t', lifetime'), w2) \<Rightarrow>
                 (case saveToken E observatorium cr t' lifetime' w2 of
                    None \<Rightarrow> None
                  | Some (_, w3) \<Rightarrow> Some (None, w3)))
          else Some (None, w1))"

definition assign_if_secret ::
  "'w env \<Rightarrow> Observability \<Rightarrow> ObservatoriumIndex \<Rightarrow> 'w \<Rightarrow> ((goerr + ObservatoriumIndex) \<times> 'w) option" where
  "assign_if_secret E cr observatorium w =
     (if oi_SecretName observatorium \<noteq> [] then assignFromSecret E cr observatorium w
      else Some (Inr observatorium, w))"

fun reconcile_observatoria_in ::
  "'w env \<Rightarrow> Observability \<Rightarrow> ObservatoriumIndex list \<Rightarrow> ObservatoriumIndex list \<Rightarrow> 'w
    \<Rightarrow> ((goerr + ObservatoriumIndex list) \<times> 'w) option" where
  "reconcile_observatoria_in E cr [] transformed w = Some (Inr transformed, w)"
| "reconcile_observatoria_in E cr (observatorium # rest) transformed w =
     (case assign_if_secret E cr observatorium w of
        None \<Rightarrow> None
      | Some (Inl err, w1) \<Rightarrow> Some (Inl err, w1)
      | Some (Inr ob1, w1) \<Rightarrow>
          (case resolve_credentials E cr ob1 w1 of
             (Inl err, w2) \<Rightarrow> Some (Inl err, w2)
           | (Inr ob2, w2) \<Rightarrow>
               if oi_AuthType ob2 = AuthTypeRedhat
               then reconcile_observatoria_in E cr rest (transformed @ [ob2]) w2
               else (case ensure_token E cr ob2 w2 of
                       None \<Rightarrow> None
                     | Some (Some err, w3) \<Rightarrow> Some (Inl err, w3)
                     | Some (None, w3) \<Rightarrow> reconcile_observatoria_in E cr rest (transformed @ [ob2]) w3)))"

definition ReconcileObservatoria ::
  "'w env \<Rightarrow> Observability \<Rightarrow> RepositoryIndex option \<Rightarrow> 'w
    \<Rightarrow> ((goerr + RepositoryIndex option) \<times> 'w) option" where
  "ReconcileObservatoria E cr index w =
     (case index of
        None \<Rightarrow> Some (Inr None, w)
      | Some ix \<Rightarrow>
          (case ix_Config ix of
             None \<Rightarrow> Some (Inr (Some ix), w)
           | Some config \<Rightarrow>
               (case rc_Observatoria config of
                  None \<Rightarrow> Some (Inr (Some ix), w)
                | Some observatoria \<Rightarrow>
                    if ObservatoriumDisabled cr then Some (Inr (Some ix), w)
                    else (case reconcile_observatoria_in E cr observatoria [] w of
                            None \<Rightarrow> None
                          | Some (Inl err, w1) \<Rightarrow> Some (Inl err, w1)
                          | Some (Inr transformed, w1) \<Rightarrow>
                              Some (Inr (Some (ix\<lparr>ix_Config := Some (config\<lparr>rc_Observatoria :=
                                (if transformed = [] then None else Some transformed)\<rparr>)\<rparr>)), w1)))))"

section \<open>token_reconciler.go\<close>

definition token_Cleanup :: "'w env \<Rightarrow> Observability \<Rightarrow> 'w \<Rightarrow> 'w outcome" where
  "token_Cleanup E cr = delete_then E (GetTokenSecret cr ''observatorium-credentials'') success"

definition token_Reconcile ::
  "'w env \<Rightarrow> Observability \<Rightarrow> ObservabilityStatus \<Rightarrow> 'w
    \<Rightarrow> ((ObservabilityStageStatus \<times> goerr option) \<times> Observability \<times> ObservabilityStatus \<times> 'w) option" where
  "token_Reconcile E cr s w = leave cr s (success w)"

definition token_reconciler :: "'w reconciler" where
  "token_reconciler = \<lparr>rec_Reconcile = token_Reconcile, rec_Cleanup = token_Cleanup\<rparr>"

text \<open>The objects the stage deletes.\<close>

definition token_owned :: "Observability \<Rightarrow> okey set" where
  "token_owned cr = {key_of (GetTokenSecret cr ''observatorium-credentials'')}"

text \<open>The token secrets of the observatoria, the only objects their handling changes.\<close>

definition token_secrets :: "Observability \<Rightarrow> okey set" where
  "token_secrets cr = {(KSecret, o_namespace cr, ''obs-token-'' @ ident) | ident. True}"

section \<open>Lemmas\<close>

lemma fill_from_secret_sel [simp]:
  "oi_Id (fill_from_secret dat index) = oi_Id index"
  "oi_SecretName (fill_from_secret dat index) = oi_SecretName index"
  "oi_DexConfig (fill_from_secret dat index) = oi_DexConfig index"
  "oi_AuthType index = AuthTypeDex \<Longrightarrow> oi_AuthType (fill_from_secret dat index) = AuthTypeDex"
  by (simp_all add: fill_from_secret_def)

text \<open>
  An invariant of the worlds that reading the secret keeps holds when \<^verbatim>\<open>assignFromSecret\<close>
  returns; the observatorium keeps its identifier, and has an SSO configuration when it
  authenticates against one.
\<close>

definition returned_ok :: "ObservatoriumIndex \<Rightarrow> goerr + ObservatoriumIndex \<Rightarrow> bool" where
  "returned_ok index r = (case r of Inl e \<Rightarrow> True
     | Inr index' \<Rightarrow> oi_Id index' = oi_Id index
         \<and> (oi_AuthType index' = AuthTypeRedhat \<longrightarrow> oi_RedhatSsoConfig index' \<noteq> None))"

lemma assignFromSecret_inv:
  assumes "assignFromSecret E cr index w = Some (r, w')"
    and "\<And>kd ns nm v rv v'. e_get E kd ns nm v = (rv, v') \<Longrightarrow> J v \<Longrightarrow> J v'" and "J w"
  shows "J w' \<and> returned_ok index r"
proof -
  let ?reads = "\<lambda>E. \<forall>kd ns nm v rv v'. e_get E kd ns nm v = (rv, v') \<longrightarrow> J v \<longrightarrow> J v'"
  have "?reads E \<longrightarrow> J w \<longrightarrow> J (snd (r, w')) \<and> returned_ok index (fst (r, w'))"
  proof (rule assignFromSecret.raw_induct [OF _ assms(1), where P = "\<lambda>E cr index w y.
          ?reads E \<longrightarrow> J w \<longrightarrow> J (snd y) \<and> returned_ok index (fst y)"], intro impI)
    fix self :: "'a env \<Rightarrow> Observability \<Rightarrow> ObservatoriumIndex \<Rightarrow> 'a \<Rightarrow> ((goerr + ObservatoriumIndex) \<times> 'a) option"
    fix E :: "'a env" and cr index w y
    assume IH: "\<And>E cr index w y. self E cr index w = Some y \<Longrightarrow>
        ?reads E \<longrightarrow> J w \<longrightarrow> J (snd y) \<and> returned_ok index (fst y)"
      and eq: "(case e_get E KSecret (o_namespace cr) (oi_SecretName index) w of (r, w1) \<Rightarrow>
          (case r of
             Inl err \<Rightarrow> Some (Inl err, w1)
           | Inr targetSecret \<Rightarrow>
               (let dat = sec_data (secret_of (k_body targetSecret));
                    index1 = fill_from_secret dat index
                in if oi_AuthType index1 = AuthTypeDex then
                     (if oi_DexConfig index1 \<noteq> None then self E cr index1 w1
                      else Some (Inr (index1\<lparr>oi_DexConfig := Some (dex_from_secret dat)\<rparr>), w1))
                   else if oi_AuthType index1 = AuthTypeRedhat then
                     Some (Inr (index1\<lparr>oi_RedhatSsoConfig := Some (sso_from_secret dat)\<rparr>), w1)
                   else Some (Inl (New (''unknown auth type '' @ auth_type_string (oi_AuthType index1))), w1)))) = Some y"
      and reads: "?reads E" and J: "J w"
    obtain rv w1 where g: "e_get E KSecret (o_namespace cr) (oi_SecretName index) w = (rv, w1)" by fastforce
    with reads J have J1: "J w1" by blast
    show "J (snd y) \<and> returned_ok index (fst y)"
    proof (cases rv)
      case (Inl e)
      with eq g J1 show ?thesis by (auto simp: returned_ok_def)
    next
      case (Inr s)
      define index1 where "index1 = fill_from_secret (sec_data (secret_of (k_body s))) index"
      have "oi_Id index1 = oi_Id index" by (simp add: index1_def)
      with eq g Inr J1 IH [of E cr index1 w1 y] reads show ?thesis
        by (auto simp: Let_def returned_ok_def index1_def [symmetric] split: if_splits sum.splits)
    qed
  qed
  with assms(2,3) show ?thesis by auto
qed

lemma assignFromSecret_loops:
  assumes "\<And>v. J v \<Longrightarrow> \<exists>secret v'. e_get E KSecret (o_namespace cr) (oi_SecretName index) v = (Inr secret, v') \<and> J v'"
    and "J w" and "oi_AuthType index = AuthTypeDex" and "oi_DexConfig index \<noteq> None"
  shows "assignFromSecret E cr index w = None"
proof (rule ccontr)
  let ?stuck = "\<lambda>E cr index w. (\<forall>v. J v \<longrightarrow> (\<exists>secret v'.
        e_get E KSecret (o_namespace cr) (oi_SecretName index) v = (Inr secret, v') \<and> J v'))
      \<and> J w \<and> oi_AuthType index = AuthTypeDex \<and> oi_DexConfig index \<noteq> None"
  assume "assignFromSecret E cr index w \<noteq> None"
  then obtain y where "assignFromSecret E cr index w = Some y" by auto
  then have "\<not> ?stuck E cr index w"
  proof (rule assignFromSecret.raw_induct [rotated 1, where P = "\<lambda>E cr index w y. \<not> ?stuck E cr index w"], intro notI)
    fix self :: "'a env \<Rightarrow> Observability \<Rightarrow> ObservatoriumIndex \<Rightarrow> 'a \<Rightarrow> ((goerr + ObservatoriumIndex) \<times> 'a) option"
    fix E :: "'a env" and cr index w y
    assume IH: "\<And>E cr index w y. self E cr index w = Some y \<Longrightarrow> \<not> ?stuck E cr index w"
      and eq: "(case e_get E KSecret (o_namespace cr) (oi_SecretName index) w of (r, w1) \<Rightarrow>
          (case r of
             Inl err \<Rightarrow> Some (Inl err, w1)
           | Inr targetSecret \<Rightarrow>
               (let dat = sec_data (secret_of (k_body targetSecret));
                    index1 = fill_from_secret dat index
                in if oi_AuthType index1 = AuthTypeDex then
                     (if oi_DexConfig index1 \<noteq> None then self E cr index1 w1
                      else Some (Inr (index1\<lparr>oi_DexConfig := Some (dex_from_secret dat)\<rparr>), w1))
                   else if oi_AuthType index1 = AuthTypeRedhat then
                     Some (Inr (index1\<lparr>oi_RedhatSsoConfig := Some (sso_from_secret dat)\<rparr>), w1)
                   else Some (Inl (New (''unknown auth type '' @ auth_type_string (oi_AuthType index1))), w1)))) = Some y"
      and stuck: "?stuck E cr index w"
    then obtain s w1 where g: "e_get E KSecret (o_namespace cr) (oi_SecretName index) w = (Inr s, w1)" and "J w1"
      by blast
    define index1 where "index1 = fill_from_secret (sec_data (secret_of (k_body s))) index"
    have "?stuck E cr index1 w1" using stuck \<open>J w1\<close> by (simp add: index1_def)
    moreover have "self E cr index1 w1 = Some y"
      using eq g stuck by (simp add: Let_def index1_def)
    ultimately show False using IH by blast
  qed
  with assms show False by blast
qed

lemma tokens_expired_in_False_iff:
  "tokens_expired_in E secrets w = Inr False \<longleftrightarrow>
     (\<forall>secret \<in> set secrets. \<exists>l expires. mlookup (sec_data (secret_of (k_body secret))) ''lifetime'' = Some l
        \<and> ParseInt l = Inr expires \<and> \<not> AuthTokenExpires E expires w)"
  by (induction secrets) (auto split: option.splits sum.splits)

lemma assign_if_secret_ok:
  assumes "assign_if_secret E cr observatorium w = Some (Inr ob1, w1)"
  shows "oi_Id ob1 = oi_Id observatorium"
  using assms assignFromSecret_inv [of E cr observatorium w "Inr ob1" w1 "\<lambda>_. True"]
  by (auto simp: assign_if_secret_def returned_ok_def split: if_splits)

lemma resolve_credentials_ok:
  assumes "resolve_credentials E cr ob1 w1 = (Inr ob2, w2)"
  shows "oi_Id ob2 = oi_Id ob1 \<and> oi_AuthType ob2 = oi_AuthType ob1 \<and> oi_RedhatSsoConfig ob2 = oi_RedhatSsoConfig ob1"
  using assms
  by (auto simp: resolve_credentials_def Let_def split: option.splits if_splits prod.splits sum.splits)

text \<open>One round of the loop.\<close>

lemma reconcile_observatoria_in_Cons:
  assumes "reconcile_observatoria_in E cr (observatorium # rest) acc w = Some (Inr transformed, w')"
  obtains ob1 w1 ob2 w2 w3 where
    "assign_if_secret E cr observatorium w = Some (Inr ob1, w1)"
    "resolve_credentials E cr ob1 w1 = (Inr ob2, w2)"
    "oi_AuthType ob2 = AuthTypeRedhat \<and> w3 = w2 \<or> ensure_token E cr ob2 w2 = Some (None, w3)"
    "reconcile_observatoria_in E cr rest (acc @ [ob2]) w3 = Some (Inr transformed, w')"
proof -
  from assms obtain ob1 w1 where s1: "assign_if_secret E cr observatorium w = Some (Inr ob1, w1)"
    by (auto split: option.splits sum.splits)
  with assms obtain ob2 w2 where s2: "resolve_credentials E cr ob1 w1 = (Inr ob2, w2)"
    by (auto split: prod.splits sum.splits)
  show thesis
  proof (cases "oi_AuthType ob2 = AuthTypeRedhat")
    case True
    with assms s1 s2 show thesis by (intro that) auto
  next
    case False
    with assms s1 s2 show thesis by (auto split: option.splits intro: that)
  qed
qed

lemma reconcile_observatoria_in_ids:
  assumes "reconcile_observatoria_in E cr obs acc w = Some (Inr transformed, w')"
  shows "map oi_Id transformed = map oi_Id acc @ map oi_Id obs"
  using assms
proof (induction obs arbitrary: acc w)
  case Nil
  then show ?case by simp
next
  case (Cons observatorium rest)
  from Cons.prems obtain ob1 w1 ob2 w2 w3 where
    s1: "assign_if_secret E cr observatorium w = Some (Inr ob1, w1)" and
    s2: "resolve_credentials E cr ob1 w1 = (Inr ob2, w2)" and
    s3: "reconcile_observatoria_in E cr rest (acc @ [ob2]) w3 = Some (Inr transformed, w')"
    by (rule reconcile_observatoria_in_Cons)
  from Cons.IH [OF s3] assign_if_secret_ok [OF s1] resolve_credentials_ok [OF s2] show ?case by simp
qed

context kube_client begin

lemma token_Cleanup_cleans: "cleans look (token_owned cr) (token_owned cr) (token_Cleanup E cr)"
  unfolding token_Cleanup_def token_owned_def
  by (rule cleans_sub, (rule cleans_intros | simp)+)

lemma Fetch_frame: "Fetch E f cr config oldToken w = (r, w') \<Longrightarrow> look w' = look w"
  by (auto simp: Fetch_def dex_Fetch_def dest: http_post_frame
      split: AuthTokenFetcher.splits option.splits prod.splits sum.splits if_splits)

lemma saveToken_frame:
  "saveToken E config cr token lifetime w = Some (r, w') \<Longrightarrow>
     only look {(KSecret, o_namespace cr, GetObservatoriumTokenSecretName config)} w w'"
  by (auto simp: saveToken_def only_def obj_upd_defs split: option.splits
      dest!: CreateOrUpdate_frame)

lemma findToken_frame: "findToken E cr config w = (r, w') \<Longrightarrow> look w' = look w"
  by (auto simp: findToken_def Let_def dest: get_frame
      split: prod.splits sum.splits option.splits if_splits)

lemma saved_token_found:
  assumes "saveToken E config cr token lifetime w = Some (None, w1)"
    and "\<And>ob. look w (KSecret, o_namespace cr, GetObservatoriumTokenSecretName config) = Some ob \<Longrightarrow>
           m_deletionTimestamp (k_meta ob) = None"
    and "- (2 ^ 63) \<le> lifetime" and "lifetime < 2 ^ 63"
    and "findToken E cr config w1 = (Inr (token', lifetime'), w2)"
  shows "token' = token \<and> lifetime' = lifetime"
proof -
  let ?key = "(KSecret, o_namespace cr, GetObservatoriumTokenSecretName config)"
  let ?ob = "named_obj KSecret (o_namespace cr) (GetObservatoriumTokenSecretName config)"
  let ?g = "token_secret_mutate token lifetime"
  have key: "key_of ?ob = ?key" by (simp add: obj_upd_defs)
  have "CreateOrUpdate E ?ob ?g w = Some (None, w1)"
    using assms(1) by (auto simp: saveToken_def split: option.splits)
  moreover have "m_deletionTimestamp (k_meta (?g (existing_or (look w) ?ob))) = None"
    using assms(2) by (auto simp: existing_or_def key token_secret_mutate_def obj_upd_defs split: option.splits)
  ultimately obtain o' where o': "look w1 ?key = Some o'"
      "k_body o' = admit (k_body (?g (existing_or (look w) ?ob)))"
    using CreateOrUpdate_stored [of ?ob ?g w w1] key by auto
  have dat: "mlookup (sec_data (secret_of (k_body o'))) ''token'' = Some token"
    "mlookup (sec_data (secret_of (k_body o'))) ''lifetime'' = Some (FormatInt lifetime)"
    by (simp_all add: o'(2) token_secret_mutate_def set_body_def mlookup_def entries_def map_of_mput_all)
  obtain r w3 where g: "e_get E KSecret (o_namespace cr) (GetObservatoriumTokenSecretName config) w1 = (r, w3)"
    by fastforce
  show ?thesis
  proof (cases r)
    case (Inl err)
    with get_notfound [of _ _ _ w1 err w3] g o'(1) have "\<not> IsNotFound err" by auto
    with assms(5) g Inl show ?thesis by (simp add: findToken_def)
  next
    case (Inr ob)
    with get_found [of _ _ _ w1 ob w3] g o'(1) have "ob = o'" by simp
    with assms(3-5) g Inr dat show ?thesis
      by (simp add: findToken_def ParseInt_FormatInt)
  qed
qed

lemma assign_if_secret_frame: "assign_if_secret E cr ob w = Some (r, w') \<Longrightarrow> look w' = look w"
  using assignFromSecret_inv [of E cr ob w r w' "\<lambda>v. look v = look w"] get_frame
  by (auto simp: assign_if_secret_def split: if_splits)

lemma resolve_credentials_frame: "resolve_credentials E cr ob w = (r, w') \<Longrightarrow> look w' = look w"
  by (auto simp: resolve_credentials_def Let_def dest: get_frame
      split: option.splits if_splits prod.splits sum.splits)

lemma refreshToken_frame: "refreshToken E config cr old w = (r, w') \<Longrightarrow> look w' = look w"
  by (auto simp: refreshToken_def dest: Fetch_frame split: prod.splits option.splits)

lemma ensure_token_only:
  assumes "ensure_token E cr ob w = Some (r, w')"
  shows "only look (token_secrets cr) w w'"
proof -
  obtain rf w1 where f: "findToken E cr ob w = (rf, w1)" by fastforce
  have f1: "only look (token_secrets cr) w w1" by (rule same_look [OF findToken_frame [OF f]])
  have stop: "only look (token_secrets cr) w w'" if "w' = w1" using that f1 by simp
  show ?thesis
  proof (cases rf)
    case (Inl e)
    with assms f stop show ?thesis by (simp add: ensure_token_def)
  next
    case (Inr tl)
    obtain t l where tl: "tl = (t, l)" by fastforce
    show ?thesis
    proof (cases "t = [] \<or> AuthTokenExpires E l w1")
      case False
      with assms f stop Inr tl show ?thesis by (simp add: ensure_token_def)
    next
      case True
      obtain rr w2 where r: "refreshToken E ob cr t w1 = (rr, w2)" by fastforce
      have f2: "only look (token_secrets cr) w w2"
        using f1 same_look(1) [OF refreshToken_frame [OF r]] by (metis only_trans)
      show ?thesis
      proof (cases rr)
        case (Inl e)
        with assms f r True f2 Inr tl show ?thesis by (simp add: ensure_token_def)
      next
        case (Inr tl2)
        with assms f r True \<open>rf = Inr tl\<close> tl obtain t2 l2 rs where
          s: "saveToken E ob cr t2 l2 w2 = Some (rs, w')"
          by (cases tl2) (auto simp: ensure_token_def split: option.splits)
        have "only look (token_secrets cr) w2 w'"
          by (rule only_mono [OF saveToken_frame [OF s]])
            (auto simp: token_secrets_def GetObservatoriumTokenSecretName_def)
        with f2 show ?thesis by (rule only_trans)
      qed
    qed
  qed
qed

lemma reconcile_observatoria_in_only:
  "reconcile_observatoria_in E cr obs acc w = Some (r, w') \<Longrightarrow> only look (token_secrets cr) w w'"
proof (induction obs arbitrary: acc w)
  case Nil
  then show ?case by simp
next
  case (Cons ob rest)
  from Cons.prems obtain r1 w1 where s1: "assign_if_secret E cr ob w = Some (r1, w1)"
    by (auto split: option.splits)
  note f1 = same_look(1) [OF assign_if_secret_frame [OF s1], of "token_secrets cr"]
  show ?case
  proof (cases r1)
    case (Inl e)
    with Cons.prems s1 f1 show ?thesis by simp
  next
    case (Inr ob1)
    obtain r2 w2 where s2: "resolve_credentials E cr ob1 w1 = (r2, w2)" by fastforce
    have f2: "only look (token_secrets cr) w w2"
      using f1 same_look(1) [OF resolve_credentials_frame [OF s2]] by (metis only_trans)
    show ?thesis
    proof (cases r2)
      case (Inl e)
      with Cons.prems s1 s2 f2 Inr show ?thesis by simp
    next
      case (Inr ob2)
      with Cons.prems s1 s2 \<open>r1 = Inr ob1\<close> consider
          "reconcile_observatoria_in E cr rest (acc @ [ob2]) w2 = Some (r, w')"
        | e w3 where "ensure_token E cr ob2 w2 = Some (e, w3)"
            "w' = w3 \<or> reconcile_observatoria_in E cr rest (acc @ [ob2]) w3 = Some (r, w')"
        by (auto split: if_splits option.splits)
      then show ?thesis
        using f2 Cons.IH ensure_token_only by cases (metis only_trans)+
    qed
  qed
qed

lemma ReconcileObservatoria_only:
  "ReconcileObservatoria E cr index w = Some (r, w') \<Longrightarrow> only look (token_secrets cr) w w'"
  by (auto simp: ReconcileObservatoria_def split: option.splits if_splits sum.splits
      dest: reconcile_observatoria_in_only)

lemma token_stage_laws: "stage_reconciler E look token_reconciler token_owned token_owned"
  by (rule stage_reconciler_leaveI [where f = "\<lambda>_ _. success"])
    (simp_all add: token_reconciler_def token_Reconcile_def token_Cleanup_cleans steps_leaf,
      simp add: token_owned_def foreign_def model_obj_defs obj_upd_defs)

end

sublocale kube_client \<subseteq> token_stage: stage_reconciler E look token_reconciler token_owned token_owned
  by (rule token_stage_laws)

section \<open>Properties\<close>

text \<open>
  C6: a token saved for an observatorium is the one found for it afterwards, with the expiry
  it was saved with, unless the secret was being deleted.
\<close>

theorem token_round_trip:
  assumes "kube_client E look"
    and "saveToken E config cr token lifetime w = Some (None, w1)"
    and "\<not> gone (look w) (KSecret, o_namespace cr, GetObservatoriumTokenSecretName config)
      \<or> look w (KSecret, o_namespace cr, GetObservatoriumTokenSecretName config) = None"
    and "- (2 ^ 63) \<le> lifetime" and "lifetime < 2 ^ 63"
    and "findToken E cr config w1 = (Inr (token', lifetime'), w2)"
  shows "token' = token \<and> lifetime' = lifetime"
  by (rule kube_client.saved_token_found [OF assms(1,2) _ assms(4-6)]) (use assms(3) in \<open>auto simp: gone_def\<close>)

theorem token_round_trip_witness:
  "\<exists>w1 w2. saveToken sample_env sample_observatorium sample_cr ''tok'' 99 (sample_world []) = Some (None, w1)
     \<and> findToken sample_env sample_cr sample_observatorium w1 = (Inr (''tok'', 99), w2)"
proof -
  let ?save = "saveToken sample_env sample_observatorium sample_cr ''tok'' 99 (sample_world [])"
  have "case ?save of Some (None, w1) \<Rightarrow> \<not> isl (fst (findToken sample_env sample_cr sample_observatorium w1)) | _ \<Rightarrow> False"
    by code_simp
  then obtain w1 where s: "?save = Some (None, w1)"
    and f: "\<not> isl (fst (findToken sample_env sample_cr sample_observatorium w1))"
    by (auto split: option.splits)
  from f obtain t l w2 where found: "findToken sample_env sample_cr sample_observatorium w1 = (Inr (t, l), w2)"
    by (cases "findToken sample_env sample_cr sample_observatorium w1"; cases "fst (findToken sample_env sample_cr sample_observatorium w1)")
      auto
  have "mem_look (sample_world []) (KSecret, o_namespace sample_cr, GetObservatoriumTokenSecretName sample_observatorium) = None"
    by code_simp
  with token_round_trip [OF sample_env_client, OF s _ _ _ found] s found show ?thesis by auto
qed



text \<open>
  C26: a positive expiry counts as expired an hour ahead of time; expiries so large that the
  conversion from Unix seconds wraps around count as expired at any time after the epoch.
\<close>

theorem token_expiry_bounds:
  assumes "0 < expires" and "expires < 2 ^ 63" and "0 \<le> e_now E w"
  shows "AuthTokenExpires E expires w \<longleftrightarrow>
    expires * 10 ^ 9 < e_now E w + 3600 * 10 ^ 9 \<or> 2 ^ 63 - unixToInternal \<le> expires"
proof (cases "expires < 2 ^ 63 - unixToInternal")
  case True
  with assms have "wrap64 (expires + unixToInternal) = expires + unixToInternal"
    by (intro wrap64_id) (simp_all add: unixToInternal_def)
  with True assms show ?thesis by (auto simp: AuthTokenExpires_def Let_def)
next
  case False
  with assms have wrapped: "(expires + unixToInternal + 2 ^ 63) mod 2 ^ 64 = expires + unixToInternal - 2 ^ 63"
    by (subst minus_mod_self2 [symmetric], subst mod_pos_pos_trivial) (simp_all add: unixToInternal_def)
  have "wrap64 (expires + unixToInternal) = expires + unixToInternal - 2 ^ 64"
    using wrapped by (simp add: wrap64_def)
  with False assms show ?thesis by (auto simp: AuthTokenExpires_def Let_def unixToInternal_def)
qed

theorem token_expiry_bounds_witness:
  "AuthTokenExpires sample_env (2 ^ 63 - 1) (sample_world []) \<and> \<not> AuthTokenExpires sample_env (2 ^ 62) (sample_world [])"
proof -
  have "e_now sample_env (sample_world []) = 10 ^ 18" by (simp add: sample_env_def sample_world_def)
  then show ?thesis
    using token_expiry_bounds [of "2 ^ 63 - 1" sample_env "sample_world []"]
      token_expiry_bounds [of "2 ^ 62" sample_env "sample_world []"]
    by (simp add: unixToInternal_def)
qed

text \<open>
  C25: reading an observatorium's settings from its secret does not return exactly when the
  settings use Dex and a Dex configuration is already present: the call then repeats itself.
\<close>

theorem assign_returns:
  assumes "e_get E KSecret (o_namespace cr) (oi_SecretName index) w = (Inr secret, w)"
  shows "assignFromSecret E cr index w = None \<longleftrightarrow>
    oi_AuthType (fill_from_secret (sec_data (secret_of (k_body secret))) index) = AuthTypeDex \<and> oi_DexConfig index \<noteq> None"
    (is "_ \<longleftrightarrow> oi_AuthType ?index = AuthTypeDex \<and> _")
proof (cases "oi_AuthType ?index = AuthTypeDex \<and> oi_DexConfig index \<noteq> None")
  case True
  have "assignFromSecret E cr ?index w = None"
    by (rule assignFromSecret_loops [where J = "\<lambda>v. v = w"]) (use True assms in simp_all)
  with True assms show ?thesis by (subst assignFromSecret.simps) (simp add: Let_def)
next
  case False
  with assms show ?thesis by (subst assignFromSecret.simps) (auto simp: Let_def)
qed

definition secret_observatorium :: ObservatoriumIndex where
  "secret_observatorium = sample_observatorium\<lparr>oi_SecretName := ''creds''\<rparr>"

theorem assign_returns_witness:
  "assignFromSecret sample_env sample_cr (secret_observatorium\<lparr>oi_DexConfig := Some zero_dex\<rparr>)
     (sample_world [sample_secret ''creds'' []]) = None
   \<and> assignFromSecret sample_env sample_cr secret_observatorium (sample_world [sample_secret ''creds'' []]) \<noteq> None"
proof -
  have g: "e_get sample_env KSecret (o_namespace sample_cr) ''creds'' (sample_world [sample_secret ''creds'' []])
    = (Inr (sample_secret ''creds'' []), sample_world [sample_secret ''creds'' []])" by code_simp
  show ?thesis
    using assign_returns [of sample_env sample_cr "secret_observatorium\<lparr>oi_DexConfig := Some zero_dex\<rparr>"] g
      assign_returns [of sample_env sample_cr secret_observatorium] g
    by (simp add: secret_observatorium_def sample_observatorium_def)
qed

lemma find_id: "find (\<lambda>ob. oi_Id ob = i) obs \<noteq> None \<longleftrightarrow> i \<in> set (map oi_Id obs)"
  by (induction obs) auto

text \<open>
  C24: reconciling the observatoria of an index changes nothing on the server but token secrets,
  and every reference of the index to one of its observatoria resolves as it did before.
\<close>

theorem observatoria_kept:
  assumes "kube_client E look" and "ReconcileObservatoria E cr (Some index) w = Some (Inr index', w')"
  shows "only look (token_secrets cr) w w'
    \<and> (GetObservatoriumConfig index' i \<noteq> None \<longleftrightarrow> GetObservatoriumConfig (Some index) i \<noteq> None)"
proof
  show "only look (token_secrets cr) w w'" by (rule kube_client.ReconcileObservatoria_only [OF assms])
  consider "index' = Some index"
    | config obs transformed where "ix_Config index = Some config" "rc_Observatoria config = Some obs"
        "reconcile_observatoria_in E cr obs [] w = Some (Inr transformed, w')"
        "index' = Some (index\<lparr>ix_Config := Some (config\<lparr>rc_Observatoria :=
           (if transformed = [] then None else Some transformed)\<rparr>)\<rparr>)"
    using assms(2) by (auto simp: ReconcileObservatoria_def split: option.splits if_splits sum.splits)
  then show "GetObservatoriumConfig index' i \<noteq> None \<longleftrightarrow> GetObservatoriumConfig (Some index) i \<noteq> None"
  proof cases
    case 1
    then show ?thesis by simp
  next
    case (2 config obs transformed)
    from reconcile_observatoria_in_ids [OF 2(3)] have "map oi_Id transformed = map oi_Id obs" by simp
    then have "find (\<lambda>ob. oi_Id ob = i) transformed \<noteq> None \<longleftrightarrow> find (\<lambda>ob. oi_Id ob = i) obs \<noteq> None"
      unfolding find_id by simp
    with 2 show ?thesis by (auto simp: GetObservatoriumConfig_def)
  qed
qed

theorem observatoria_kept_witness:
  "\<exists>index' w'. ReconcileObservatoria sample_env sample_cr (Some (sample_index ''ix'' sample_config)) (sample_world []) = Some (Inr index', w')
     \<and> only mem_look (token_secrets sample_cr) (sample_world []) w' \<and> GetObservatoriumConfig index' ''a'' \<noteq> None"
proof -
  let ?run = "ReconcileObservatoria sample_env sample_cr (Some (sample_index ''ix'' sample_config)) (sample_world [])"
  have "case ?run of Some (Inr _, _) \<Rightarrow> True | _ \<Rightarrow> False" by code_simp
  then obtain index' w' where run: "?run = Some (Inr index', w')" by (auto split: option.splits sum.splits)
  have "GetObservatoriumConfig (Some (sample_index ''ix'' sample_config)) ''a'' \<noteq> None" by code_simp
  with observatoria_kept [OF sample_env_client, OF run, of "''a''"] run show ?thesis by blast
qed

end
