(* ===== verification/Cfg_Tokens.thy ===== *)
theory Cfg_Tokens
  imports Go_Effects Token_Stage
begin

text \<open>
  The token refreshers of \<^verbatim>\<open>controllers/reconcilers/configuration/token_refresher.go\<close>, the OAuth2
  secret that replaces them, and the deletion of token secrets no index asks for
  (\<^verbatim>\<open>configuration_reconciler.go\<close>).
\<close>

section \<open>The OAuth2 secret\<close>

definition RemoteWriteOIDCSecretName :: string where
  "RemoteWriteOIDCSecretName = ''observability-proxy-credentials''"

definition GetOauth2ConfigSecret :: "'w env \<Rightarrow> Observability \<Rightarrow> ('w, kobj option) go" where
  "GetOauth2ConfigSecret E cr w =
     (case e_get E KSecret (o_namespace cr) RemoteWriteOIDCSecretName w of
        (Inl err, w1) \<Rightarrow> if IsNotFound err then Some (Inr None, w1) else Some (Inl err, w1)
      | (Inr secret, w1) \<Rightarrow> Some (Inr (Some secret), w1))"

text \<open>The client identifier's secret and key, the client secret's, and the token address.\<close>

definition GetRemoteWriteOauth2Config ::
  "'w env \<Rightarrow> Observability \<Rightarrow> ('w, (string \<times> string \<times> string \<times> string \<times> string) option) go" where
  "GetRemoteWriteOauth2Config E cr =
     attempt (GetOauth2ConfigSecret E cr) (\<lambda>secret.
       case secret of
         None \<Rightarrow> ret None
       | Some s \<Rightarrow>
           attempt (value_of (e_url_join E (mget (sec_data (secret_of (k_body s))) ''issuer_url'')
                                ''/protocol/openid-connect/token'')) (\<lambda>tokenUrl.
           ret (Some (RemoteWriteOIDCSecretName, ''client_id'', RemoteWriteOIDCSecretName, ''client_secret'', tokenUrl))))"

section \<open>token_refresher.go\<close>

definition TokenRefresherImageTag :: string where
  "TokenRefresherImageTag = ''e96a181''"

definition getTokenRefresherConfigSetFor ::
  "'w env \<Rightarrow> TokenRefresherType \<Rightarrow> ObservatoriumIndex \<Rightarrow> goerr + TokenRefresherConfigSet option" where
  "getTokenRefresherConfigSetFor E t observatorium =
     (case oi_RedhatSsoConfig observatorium of
        None \<Rightarrow> Inr None
      | Some sso \<Rightarrow>
          (case e_parse_url E (rh_Url sso) of
             Inl err \<Rightarrow> Inl err
           | Inr authEndpoint \<Rightarrow>
               (let result = \<lparr>tr_ObservatoriumUrl = [],
                      tr_AuthUrl = e_uri_string E (authEndpoint\<lparr>u_path :=
                                     e_path_join E [u_path authEndpoint, ''realms'', rh_Realm sso]\<rparr>),
                      tr_Name = GetTokenRefresherName (oi_Id observatorium) t,
                      tr_Realm = rh_Realm sso, tr_Client = [], tr_Tenant = oi_Tenant observatorium,
                      tr_Secret = [], tr_Type = t\<rparr>
                in case t of
                     MetricsTokenRefresher \<Rightarrow>
                       if \<not> HasMetrics sso then Inr None
                       else Inr (Some (result\<lparr>
                              tr_ObservatoriumUrl := oi_Gateway observatorium @ ''/api/metrics/v1/''
                                @ oi_Tenant observatorium @ ''/api/v1/receive'',
                              tr_Secret := rh_MetricsSecret sso, tr_Client := rh_MetricsClient sso\<rparr>))
                   | LogsTokenRefresher \<Rightarrow>
                       if \<not> HasLogs sso then Inr None
                       else Inr (Some (result\<lparr>
                              tr_ObservatoriumUrl := oi_Gateway observatorium @ ''/api/logs/v1/''
                                @ oi_Tenant observatorium @ ''/loki/api/v1/push'',
                              tr_Secret := rh_LogsSecret sso, tr_Client := rh_LogsClient sso\<rparr>)))))"

abbreviation auth_proxy_label :: smap where
  "auth_proxy_label \<equiv> [(''app.kubernetes.io/component'', ''authentication-proxy'')]"

definition refresher_labels :: "TokenRefresherConfigSet \<Rightarrow> smap" where
  "refresher_labels config = auth_proxy_label @ [(''app.kubernetes.io/name'', tr_Name config)]"

definition service_for :: "TokenRefresherConfigSet \<Rightarrow> kobj \<Rightarrow> kobj" where
  "service_for config service =
     set_body (BService ((service_of (k_body service))\<lparr>
       svc_ports := [\<lparr>sp_name = ''http'', sp_protocol = [], sp_port = 80, sp_targetPort = FromInt 8080\<rparr>],
       svc_selector := Some (refresher_labels config)\<rparr>)) service"

definition createServiceFor :: "'w env \<Rightarrow> Observability \<Rightarrow> TokenRefresherConfigSet \<Rightarrow> ('w, unit) go" where
  "createServiceFor E cr config = apply_pure E (GetTokenRefresherService cr (tr_Name config)) (service_for config)"

definition refresher_clients :: "TokenRefresherType \<Rightarrow> smap" where
  "refresher_clients t =
     (case t of LogsTokenRefresher \<Rightarrow> [(''app'', ''promtail'')]
      | MetricsTokenRefresher \<Rightarrow> [(''app.kubernetes.io/name'', ''prometheus'')])"

definition policy_for :: "TokenRefresherConfigSet \<Rightarrow> kobj \<Rightarrow> kobj" where
  "policy_for config policy =
     set_body (BNetworkPolicy
       \<lparr>np_podSelector = match_labels (refresher_labels config),
        np_ingressFrom = [match_labels (refresher_clients (tr_Type config))],
        np_policyTypes = [''Ingress'']\<rparr>)
       (set_labels (Some auth_proxy_label) policy)"

definition createNetworkPolicyFor :: "'w env \<Rightarrow> Observability \<Rightarrow> TokenRefresherConfigSet \<Rightarrow> ('w, unit) go" where
  "createNetworkPolicyFor E cr config =
     apply_pure E (GetTokenRefresherNetworkPolicy cr (tr_Name config)) (policy_for config)"

definition refresher_container :: "TokenRefresherConfigSet \<Rightarrow> Container" where
  "refresher_container config = zero_container\<lparr>
     ct_name := tr_Name config,
     ct_image := ''quay.io/rhoas/mk-token-refresher:'' @ TokenRefresherImageTag,
     ct_pullPolicy := ''Always'',
     ct_args := [''--oidc.audience=observatorium-telemeter'',
                 ''--oidc.client-id='' @ tr_Client config,
                 ''--oidc.client-secret='' @ tr_Secret config,
                 ''--oidc.issuer-url='' @ tr_AuthUrl config,
                 ''--url='' @ tr_ObservatoriumUrl config],
     ct_ports := [\<lparr>cp_name = ''http'', cp_port = 8080, cp_protocol = []\<rparr>]\<rparr>"

definition deployment_for :: "TokenRefresherConfigSet \<Rightarrow> kobj \<Rightarrow> kobj" where
  "deployment_for config deployment =
     set_body (BWorkload ((workload_of (k_body deployment))\<lparr>
       wl_selector := Some (match_labels (refresher_labels config)),
       wl_template :=
         \<lparr>pt_labels = Some (refresher_labels config @ [(''app.kubernetes.io/version'', TokenRefresherImageTag)]),
          pt_spec = zero_podspec\<lparr>ps_priorityClass := ObservabilityPriorityClassName,
                                 ps_containers := [refresher_container config]\<rparr>\<rparr>\<rparr>))
       (set_labels (Some (refresher_labels config)) deployment)"

definition createDeploymentFor :: "'w env \<Rightarrow> Observability \<Rightarrow> TokenRefresherConfigSet \<Rightarrow> ('w, unit) go" where
  "createDeploymentFor E cr config =
     attempt (createNetworkPolicyFor E cr config) (\<lambda>_.
       apply_pure E (GetTokenRefresherDeployment cr (tr_Name config)) (deployment_for config))"

definition refresher_types :: "TokenRefresherType list" where
  "refresher_types = [MetricsTokenRefresher, LogsTokenRefresher]"

definition reconcileTokenRefresherFor ::
  "'w env \<Rightarrow> Observability \<Rightarrow> ObservatoriumIndex \<Rightarrow> bool \<Rightarrow> ('w, unit) go" where
  "reconcileTokenRefresherFor E cr observatorium logsDisabled =
     (if \<not> IsValid observatorium
      then throw (New (''incomplete observatorium config, tenant or gateway missing for '' @ oi_Id observatorium))
      else attempt (GetOauth2ConfigSecret E cr) (\<lambda>s.
        if s \<noteq> None then ret ()
        else each (\<lambda>t.
          if t = LogsTokenRefresher \<and> logsDisabled then ret ()
          else attempt (value_of (getTokenRefresherConfigSetFor E t observatorium)) (\<lambda>configSet.
               case configSet of
                 None \<Rightarrow> ret ()
               | Some cs \<Rightarrow> attempt (createServiceFor E cr cs) (\<lambda>_. createDeploymentFor E cr cs)))
          refresher_types))"

definition promtail_off :: "RepositoryConfig \<Rightarrow> bool" where
  "promtail_off config = (case rc_Promtail config of None \<Rightarrow> True | Some p \<Rightarrow> \<not> pt_Enabled p)"

abbreviation observatoria_of :: "RepositoryConfig \<Rightarrow> ObservatoriumIndex list" where
  "observatoria_of config \<equiv> (case rc_Observatoria config of None \<Rightarrow> [] | Some obs \<Rightarrow> obs)"

definition reconcileTokenRefresher :: "'w env \<Rightarrow> Observability \<Rightarrow> RepositoryIndex list \<Rightarrow> ('w, unit) go" where
  "reconcileTokenRefresher E cr =
     each (\<lambda>index.
       case ix_Config index of
         None \<Rightarrow> ret ()
       | Some config \<Rightarrow>
           each (\<lambda>observatorium.
             if oi_AuthType observatorium = AuthTypeRedhat
             then reconcileTokenRefresherFor E cr observatorium (promtail_off config)
             else ret ()) (observatoria_of config))"

text \<open>
  The closure \<^verbatim>\<open>shouldExist\<close> of both deletions: a loop body returns a verdict, goes on, or
  panics on the nil configuration set of an observatorium without credentials for that type.
\<close>

datatype verdict = Return bool | Continue | Panic

definition or_continue :: "verdict \<Rightarrow> verdict \<Rightarrow> verdict" where
  "or_continue v rest = (case v of Continue \<Rightarrow> rest | _ \<Rightarrow> v)"

fun types_verdict ::
  "'w env \<Rightarrow> string \<Rightarrow> string \<Rightarrow> bool \<Rightarrow> ObservatoriumIndex \<Rightarrow> TokenRefresherType list \<Rightarrow> verdict" where
  "types_verdict E suffix name promtailOff observatorium [] = Continue"
| "types_verdict E suffix name promtailOff observatorium (t # ts) =
     (if t = LogsTokenRefresher \<and> promtailOff then Return False
      else case getTokenRefresherConfigSetFor E t observatorium of
             Inl err \<Rightarrow> Return False
           | Inr None \<Rightarrow> Panic
           | Inr (Some configSet) \<Rightarrow>
               if name = tr_Name configSet @ suffix then Return True
               else types_verdict E suffix name promtailOff observatorium ts)"

fun observatoria_verdict ::
  "'w env \<Rightarrow> string \<Rightarrow> string \<Rightarrow> bool \<Rightarrow> ObservatoriumIndex list \<Rightarrow> verdict" where
  "observatoria_verdict E suffix name promtailOff [] = Continue"
| "observatoria_verdict E suffix name promtailOff (observatorium # observatoria) =
     (if \<not> IsValid observatorium \<or> oi_RedhatSsoConfig observatorium = None then Return False
      else or_continue (types_verdict E suffix name promtailOff observatorium refresher_types)
             (observatoria_verdict E suffix name promtailOff observatoria))"

fun indexes_verdict :: "'w env \<Rightarrow> string \<Rightarrow> string \<Rightarrow> RepositoryIndex list \<Rightarrow> verdict" where
  "indexes_verdict E suffix name [] = Return False"
| "indexes_verdict E suffix name (index # indexes) =
     (case ix_Config index of
        None \<Rightarrow> Return False
      | Some config \<Rightarrow>
          or_continue (observatoria_verdict E suffix name (promtail_off config) (observatoria_of config))
            (indexes_verdict E suffix name indexes))"

definition refresher_should_exist ::
  "'w env \<Rightarrow> Observability \<Rightarrow> kobj option \<Rightarrow> string \<Rightarrow> RepositoryIndex list \<Rightarrow> string \<Rightarrow> verdict" where
  "refresher_should_exist E cr oauth2Secret suffix indexes name =
     (if ExternalSyncDisabled cr \<or> ObservatoriumDisabled cr then Return False
      else if oauth2Secret \<noteq> None then Return False
      else indexes_verdict E suffix name indexes)"

definition delete_refused :: "'w env \<Rightarrow> (string \<Rightarrow> verdict) \<Rightarrow> kobj list \<Rightarrow> ('w, unit) go" where
  "delete_refused E shouldExist =
     each (\<lambda>ob. case shouldExist (ob_name ob) of
                  Return True \<Rightarrow> ret ()
                | Return False \<Rightarrow> act (e_delete E ob)
                | _ \<Rightarrow> panic)"

definition deleteUnrequestedNetworkPolicies ::
  "'w env \<Rightarrow> Observability \<Rightarrow> RepositoryIndex list \<Rightarrow> ('w, unit) go" where
  "deleteUnrequestedNetworkPolicies E cr indexes =
     listing E KNetworkPolicy \<lparr>lo_namespace = GetPrometheusOperatorNamespace cr, lo_labels = auth_proxy_label\<rparr> (\<lambda>items.
     attempt (GetOauth2ConfigSecret E cr) (\<lambda>oauth2Secret.
     delete_refused E (refresher_should_exist E cr oauth2Secret ''-network-policy'' indexes) items))"

definition deleteUnrequestedTokenRefreshers ::
  "'w env \<Rightarrow> Observability \<Rightarrow> RepositoryIndex list \<Rightarrow> ('w, unit) go" where
  "deleteUnrequestedTokenRefreshers E cr indexes =
     listing E KDeployment \<lparr>lo_namespace = GetPrometheusOperatorNamespace cr, lo_labels = auth_proxy_label\<rparr> (\<lambda>items.
     attempt (GetOauth2ConfigSecret E cr) (\<lambda>oauth2Secret.
     delete_refused E (refresher_should_exist E cr oauth2Secret [] indexes) items))"

section \<open>Token secrets no index asks for\<close>

definition expected_token_secrets :: "RepositoryIndex list \<Rightarrow> string list" where
  "expected_token_secrets indexes =
     concat (map (\<lambda>index. case Option.bind (ix_Config index) rc_Observatoria of
                            None \<Rightarrow> []
                          | Some observatoria \<Rightarrow> map GetObservatoriumTokenSecretName observatoria) indexes)"

text \<open>The error of the list is dropped: nothing is listed then.\<close>

definition deleteUnrequestedCredentialSecrets ::
  "'w env \<Rightarrow> Observability \<Rightarrow> RepositoryIndex list \<Rightarrow> ('w, unit) go" where
  "deleteUnrequestedCredentialSecrets E cr indexes w =
     (case e_list E KSecret \<lparr>lo_namespace = o_namespace cr, lo_labels = token_secret_labels\<rparr> w of
        (r, w1) \<Rightarrow>
          each (\<lambda>secret. wrapped (''error deleting unrequested token secret '' @ ob_name secret) (act (e_delete E secret)))
            (filter (\<lambda>secret. \<not> list_ex (\<lambda>secretName. ob_name secret = secretName) (expected_token_secrets indexes))
               (case r of Inl err \<Rightarrow> [] | Inr items \<Rightarrow> items)) w1)"

section \<open>Lemmas\<close>

text \<open>The refreshers \<open>reconcileTokenRefresher\<close> sets out to create.\<close>

definition requested_refreshers :: "RepositoryIndex list \<Rightarrow> string list" where
  "requested_refreshers indexes =
     concat (map (\<lambda>index. case ix_Config index of
        None \<Rightarrow> []
      | Some config \<Rightarrow> concat (map (\<lambda>ob. map (GetTokenRefresherName (oi_Id ob)) refresher_types)
                                (observatoria_of config))) indexes)"

definition complete_sso :: "'w env \<Rightarrow> ObservatoriumIndex \<Rightarrow> bool" where
  "complete_sso E observatorium \<longleftrightarrow>
     IsValid observatorium
     \<and> (case oi_RedhatSsoConfig observatorium of
          None \<Rightarrow> False
        | Some sso \<Rightarrow> HasMetrics sso \<and> HasLogs sso
            \<and> (case e_parse_url E (rh_Url sso) of Inl err \<Rightarrow> False | Inr u \<Rightarrow> True))"

definition complete_index :: "'w env \<Rightarrow> RepositoryIndex \<Rightarrow> bool" where
  "complete_index E index \<longleftrightarrow>
     (case ix_Config index of
        None \<Rightarrow> False
      | Some config \<Rightarrow> \<not> promtail_off config \<and> list_all (complete_sso E) (observatoria_of config))"

lemma config_set_name:
  "getTokenRefresherConfigSetFor E t ob = Inr (Some cs) \<Longrightarrow>
     tr_Name cs = GetTokenRefresherName (oi_Id ob) t \<and> tr_Type cs = t"
  by (cases t) (auto simp: getTokenRefresherConfigSetFor_def Let_def split: option.splits sum.splits if_splits)

lemma config_set_complete:
  "complete_sso E ob \<Longrightarrow> \<exists>cs. getTokenRefresherConfigSetFor E t ob = Inr (Some cs)"
  by (cases t) (auto simp: complete_sso_def getTokenRefresherConfigSetFor_def Let_def split: option.splits sum.splits)

lemma types_verdict_complete:
  assumes "complete_sso E ob"
  shows "types_verdict E suffix name False ob ts =
    (if name \<in> (\<lambda>t. GetTokenRefresherName (oi_Id ob) t @ suffix) ` set ts then Return True else Continue)"
proof (induction ts)
  case Nil
  show ?case by simp
next
  case (Cons t ts)
  from config_set_complete [OF assms, of t] obtain cs where cs: "getTokenRefresherConfigSetFor E t ob = Inr (Some cs)" ..
  with config_set_name [OF cs] Cons show ?case by auto
qed

lemma observatoria_verdict_complete:
  assumes "list_all (complete_sso E) obs"
  shows "observatoria_verdict E suffix name False obs =
    (if name \<in> (\<lambda>n. n @ suffix) ` set (concat (map (\<lambda>ob. map (GetTokenRefresherName (oi_Id ob)) refresher_types) obs))
     then Return True else Continue)"
  using assms
proof (induction obs)
  case Nil
  show ?case by simp
next
  case (Cons ob obs)
  then have "IsValid ob" "oi_RedhatSsoConfig ob \<noteq> None" "complete_sso E ob"
    by (auto simp: complete_sso_def split: option.splits)
  with Cons show ?case
    by (auto simp: types_verdict_complete or_continue_def image_iff)
qed

lemma indexes_verdict_complete:
  "list_all (complete_index E) indexes \<Longrightarrow>
     indexes_verdict E suffix name indexes =
       Return (name \<in> (\<lambda>n. n @ suffix) ` set (requested_refreshers indexes))"
proof (induction indexes)
  case Nil
  show ?case by (simp add: requested_refreshers_def)
next
  case (Cons index indexes)
  then obtain config where c: "ix_Config index = Some config" "\<not> promtail_off config"
    "list_all (complete_sso E) (observatoria_of config)"
    by (auto simp: complete_index_def split: option.splits)
  have "requested_refreshers (index # indexes) =
      concat (map (\<lambda>ob. map (GetTokenRefresherName (oi_Id ob)) refresher_types) (observatoria_of config))
      @ requested_refreshers indexes"
    using c(1) by (simp add: requested_refreshers_def)
  with Cons c observatoria_verdict_complete [OF c(3), of suffix name] show ?case
    by (auto simp: or_continue_def image_iff)
qed

context kube_client begin

lemma GetOauth2ConfigSecret_touches [touches_intros]: "touches look K (GetOauth2ConfigSecret E cr)"
  by (rule touchesI)
    (auto simp: GetOauth2ConfigSecret_def split: prod.splits sum.splits if_splits dest: read_only(1))

lemma GetRemoteWriteOauth2Config_touches [touches_intros]: "touches look K (GetRemoteWriteOauth2Config E cr)"
  unfolding GetRemoteWriteOauth2Config_def by (rule touches_intros)+

lemma delete_refused_touches:
  "(\<And>ob. ob \<in> set items \<Longrightarrow> key_of ob \<in> K) \<Longrightarrow> touches look K (delete_refused E f items)"
  unfolding delete_refused_def
  by (rule touches_each) (auto intro: touches_act touches_leaf split: verdict.splits bool.splits)

lemma deleteUnrequestedRefreshers_touches [touches_intros]:
  "touches look foreign (deleteUnrequestedNetworkPolicies E cr indexes)"
  "touches look foreign (deleteUnrequestedTokenRefreshers E cr indexes)"
  unfolding deleteUnrequestedNetworkPolicies_def deleteUnrequestedTokenRefreshers_def
  by (rule touches_listing, rule touches_attempt [OF GetOauth2ConfigSecret_touches], rule delete_refused_touches,
      force simp: list_matches_def foreign_def key_of_def)+

lemma reconcileTokenRefresherFor_touches:
  "touches look foreign (reconcileTokenRefresherFor E cr ob b)"
  unfolding reconcileTokenRefresherFor_def createServiceFor_def createDeploymentFor_def createNetworkPolicyFor_def Let_def
  by (rule touches_intros | simp add: foreign_def model_obj_defs)+

lemma reconcileTokenRefresher_touches [touches_intros]:
  "touches look foreign (reconcileTokenRefresher E cr indexes)"
  unfolding reconcileTokenRefresher_def
  by (rule reconcileTokenRefresherFor_touches touches_intros)+

lemma deleteUnrequestedCredentialSecrets_touches [touches_intros]:
  "touches look foreign (deleteUnrequestedCredentialSecrets E cr indexes)"
proof (rule touchesI)
  fix w r w'
  assume eq: "deleteUnrequestedCredentialSecrets E cr indexes w = Some (r, w')"
  obtain rl w1 where l: "e_list E KSecret \<lparr>lo_namespace = o_namespace cr, lo_labels = token_secret_labels\<rparr> w = (rl, w1)"
    by fastforce
  let ?del = "\<lambda>secret. wrapped (''error deleting unrequested token secret '' @ ob_name secret) (act (e_delete E secret))"
  let ?items = "case rl of Inl err \<Rightarrow> [] | Inr items \<Rightarrow> items"
  let ?obs = "filter (\<lambda>secret. \<not> list_ex (\<lambda>secretName. ob_name secret = secretName) (expected_token_secrets indexes)) ?items"
  have kind: "k_kind ob = KSecret" if "ob \<in> set ?items" for ob
    using that l list_items [of KSecret _ w _ w1] by (cases rl) (auto simp: list_matches_def)
  have "touches look foreign (each ?del ?obs)"
    by (rule touches_each, rule touches_wrapped, rule touches_act) (simp add: kind foreign_def key_of_def)
  moreover from eq l have "each ?del ?obs w1 = Some (r, w')"
    unfolding deleteUnrequestedCredentialSecrets_def by (simp only: prod.case)
  ultimately have "only look foreign w1 w'" by (rule touchesD)
  with read_only(2) [OF l] show "only look foreign w w'" by (rule only_trans)
qed

end

section \<open>Properties\<close>


definition sample_sso :: ObservatoriumIndex where
  "sample_sso = sample_observatorium\<lparr>oi_AuthType := AuthTypeRedhat, oi_RedhatSsoConfig :=
     Some \<lparr>rh_Url = ''u'', rh_Realm = ''r'', rh_MetricsClient = ''m'', rh_MetricsSecret = ''s'',
           rh_LogsClient = ''l'', rh_LogsSecret = ''s''\<rparr>\<rparr>"


definition metrics_credentials :: RedhatSsoConfig where
  "metrics_credentials = \<lparr>rh_Url = ''u'', rh_Realm = ''r'', rh_MetricsClient = ''m'', rh_MetricsSecret = ''s'',
     rh_LogsClient = [], rh_LogsSecret = []\<rparr>"

definition metrics_only :: ObservatoriumIndex where
  "metrics_only = sample_sso\<lparr>oi_RedhatSsoConfig := Some metrics_credentials\<rparr>"

definition panicking_index :: RepositoryIndex where
  "panicking_index = sample_index ''ix'' (sample_config\<lparr>rc_Observatoria := Some [metrics_only]\<rparr>)"



lemma refresher_labels_selected:
  "list_all (\<lambda>(k, v). mlookup (Some (refresher_labels config @ ls)) k = Some v) (refresher_labels config)"
  by (simp add: refresher_labels_def gomap_defs)

lemma refresher_listens: "\<exists>q \<in> set (ct_ports (refresher_container config)). cp_port q = 8080"
  by (simp add: refresher_container_def)

lemma mutators_keep_deletion [simp]:
  "m_deletionTimestamp (k_meta (service_for config ob)) = m_deletionTimestamp (k_meta ob)"
  "m_deletionTimestamp (k_meta (policy_for config ob)) = m_deletionTimestamp (k_meta ob)"
  "m_deletionTimestamp (k_meta (deployment_for config ob)) = m_deletionTimestamp (k_meta ob)"
  by (simp_all add: service_for_def policy_for_def deployment_for_def set_body_def set_labels_def)

text \<open>What the pods of a token refresher have to do with its service and its network policy.\<close>

definition wired :: "TokenRefresherType \<Rightarrow> body \<Rightarrow> body \<Rightarrow> body \<Rightarrow> bool" where
  "wired t service policy deployment \<longleftrightarrow>
     (let template = wl_template (workload_of deployment); labels = entries (svc_selector (service_of service))
      in labels \<noteq> []
         \<and> list_all (\<lambda>(k, v). mlookup (pt_labels template) k = Some v) labels
         \<and> list_all (\<lambda>p. \<exists>c \<in> set (ps_containers (pt_spec template)). \<exists>q \<in> set (ct_ports c).
               sp_targetPort p = FromInt (cp_port q)) (svc_ports (service_of service))
         \<and> policy = BNetworkPolicy \<lparr>np_podSelector = match_labels labels,
               np_ingressFrom = [match_labels (refresher_clients t)], np_policyTypes = [''Ingress'']\<rparr>)"

lemma mutators_wired:
  "wired (tr_Type config) (admit (k_body (service_for config s))) (admit (k_body (policy_for config n)))
     (admit (k_body (deployment_for config d)))"
  using refresher_labels_selected [of config] refresher_listens [of config]
  by (simp add: wired_def service_for_def policy_for_def deployment_for_def set_body_def entries_def)
    (simp add: refresher_labels_def)


definition sample_set :: TokenRefresherConfigSet where
  "sample_set = \<lparr>tr_ObservatoriumUrl = ''o'', tr_AuthUrl = ''a'', tr_Name = ''token-refresher-logs-a'', tr_Realm = ''r'',
     tr_Client = ''c'', tr_Tenant = ''t'', tr_Secret = ''s'', tr_Type = LogsTokenRefresher\<rparr>"


end
