(* ===== verification/Cfg_Workloads.thy ===== *)
theory Cfg_Workloads
  imports Go_Effects Token_Stage
begin

text \<open>
  Workloads the configuration stage runs: Promtail (\<^verbatim>\<open>promtail.go\<close>), the container that serves
  configuration resources (\<^verbatim>\<open>observability_resources.go\<close>), the Grafana instance
  (\<^verbatim>\<open>grafana.go\<close>) and the image of the OAuth proxies (\<^verbatim>\<open>origin_proxy.go\<close>).
\<close>

section \<open>promtail.go\<close>

definition getScrapeNamespacesFor :: "'w env \<Rightarrow> Observability \<Rightarrow> RepositoryIndex \<Rightarrow> ('w, string list) go" where
  "getScrapeNamespacesFor E cr index =
     (case Option.bind (ix_Config index) rc_Promtail of
        None \<Rightarrow> ret []
      | Some promtail \<Rightarrow>
          if \<not> pt_Enabled promtail then ret []
          else attempt (call (e_list E KNamespace
                  \<lparr>lo_namespace = [], lo_labels = entries (pt_NamespaceLabelSelector promtail)\<rparr>)) (\<lambda>items.
               ret (map (\<lambda>ns. ob_name ns) items)))"

text \<open>
  The error of \<^verbatim>\<open>GetPromtailConfig\<close> is overwritten: an unusable observatorium gives an empty
  configuration.  The digest is kept in the hexadecimal form in which it is used.
\<close>

definition createPromtailConfigFor ::
  "'w env \<Rightarrow> Observability \<Rightarrow> RepositoryIndex \<Rightarrow> ObservatoriumIndex \<Rightarrow> ('w, kobj \<times> string) go" where
  "createPromtailConfigFor E cr index observatorium =
     attempt (getScrapeNamespacesFor E cr index) (\<lambda>namespaces.
       let configMap = GetPromtailConfigmap cr (ix_Id index);
           config = (case GetPromtailConfig cr (Some observatorium) (ix_Id index) namespaces of
                       Inl err \<Rightarrow> [] | Inr c \<Rightarrow> c)
       in attempt (apply_pure E configMap (\<lambda>ob.
            set_body (BConfigMap (Some (AList.update ''promtail.yaml'' config (entries (configmap_of (k_body ob))))))
              (set_labels (Some managed_label) ob))) (\<lambda>_.
          ret (configMap, e_sha256 E config)))"

definition promtail_should_exist :: "Observability \<Rightarrow> RepositoryIndex list \<Rightarrow> string \<Rightarrow> bool" where
  "promtail_should_exist cr indexes name =
     (if ExternalSyncDisabled cr \<or> ObservatoriumDisabled cr then False
      else case find (\<lambda>index. name = ''promtail-'' @ ix_Id index) indexes of
             None \<Rightarrow> False
           | Some index \<Rightarrow>
               (case Option.bind (ix_Config index) rc_Promtail of
                  None \<Rightarrow> False
                | Some promtail \<Rightarrow> pt_Enabled promtail \<and> pt_Observatorium promtail \<noteq> []))"

definition deleteUnrequestedDaemonsets :: "'w env \<Rightarrow> Observability \<Rightarrow> RepositoryIndex list \<Rightarrow> ('w, unit) go" where
  "deleteUnrequestedDaemonsets E cr indexes =
     listing E KDaemonSet (in_namespace (o_namespace cr)) (\<lambda>items.
       delete_unless E (\<lambda>ob. promtail_should_exist cr indexes (ob_name ob)) items)"

definition promtail_container :: "string \<Rightarrow> bool \<Rightarrow> Container" where
  "promtail_container hash dex = zero_container\<lparr>
     ct_name := ''promtail'',
     ct_image := ''quay.io/integreatly/promtail:latest'',
     ct_privileged := Some True,
     ct_env := [\<lparr>ev_name = ''HOSTNAME'', ev_value = [], ev_fieldPath = Some ''spec.nodeName''\<rparr>,
                \<lparr>ev_name = ''CONFIG_HASH'', ev_value = hash, ev_fieldPath = None\<rparr>],
     ct_args := [''-config.file=/opt/config/promtail.yaml''],
     ct_mounts := [\<lparr>vm_name = ''config'', vm_path = ''/opt/config''\<rparr>,
                   \<lparr>vm_name = ''logs'', vm_path = ''/var/log/pods''\<rparr>]
                  @ (if dex then [\<lparr>vm_name = ''token'', vm_path = ''/opt/secrets''\<rparr>] else []),
     ct_ports := [\<lparr>cp_name = [], cp_port = 3100, cp_protocol = ''TCP''\<rparr>],
     ct_terminationPath := ''/dev/termination-log'',
     ct_terminationPolicy := ''File'',
     ct_pullPolicy := ''Always''\<rparr>"

definition promtail_template ::
  "Observability \<Rightarrow> RepositoryIndex \<Rightarrow> string \<Rightarrow> string \<Rightarrow> string option \<Rightarrow> PodTemplate" where
  "promtail_template cr index config hash tokenSecret =
     \<lparr>pt_labels = matchLabels (GetPromtailDaemonSetLabels index),
      pt_spec =
        \<lparr>ps_serviceAccount = ob_name (GetPromtailServiceAccount cr),
         ps_priorityClass = ObservabilityPriorityClassName,
         ps_containers = [promtail_container hash (tokenSecret \<noteq> None)],
         ps_volumes = [\<lparr>vol_name = ''config'', vol_source = VConfigMap config\<rparr>,
                       \<lparr>vol_name = ''logs'', vol_source = VHostPath ''/var/log/pods''\<rparr>]
                      @ (case tokenSecret of None \<Rightarrow> []
                         | Some s \<Rightarrow> [\<lparr>vol_name = ''token'', vol_source = VSecret s\<rparr>]),
         ps_pullSecrets = [],
         ps_nodeRequirements = [(''node-role.kubernetes.io/infra'', ''DoesNotExist'')]\<rparr>\<rparr>"

text \<open>The mutate function looks up the token secret's name first, which may panic.\<close>

definition daemonset_mutate ::
  "Observability \<Rightarrow> RepositoryIndex \<Rightarrow> ObservatoriumIndex \<Rightarrow> string \<Rightarrow> string \<Rightarrow> 'w mutator" where
  "daemonset_mutate cr index observatorium config hash daemonset w =
     (case GetObservatoriumPromtailSecretName index of
        None \<Rightarrow> None
      | Some secretName \<Rightarrow>
          Some ((None,
            set_body (BWorkload ((workload_of (k_body daemonset))\<lparr>
                wl_selector := Some (GetPromtailDaemonSetLabels index),
                wl_template := promtail_template cr index config hash
                  (if oi_AuthType observatorium = AuthTypeDex then Some secretName else None)\<rparr>))
              (set_labels (Some managed_label) daemonset)), w))"

definition createPromtailDaemonsetFor :: "'w env \<Rightarrow> Observability \<Rightarrow> RepositoryIndex \<Rightarrow> ('w, unit) go" where
  "createPromtailDaemonsetFor E cr index =
     (case Option.bind (ix_Config index) rc_Promtail of
        None \<Rightarrow> ret ()
      | Some promtail \<Rightarrow>
          if \<not> pt_Enabled promtail then ret ()
          else if ObservatoriumDisabled cr \<or> ExternalSyncDisabled cr then ret ()
          else if pt_Observatorium promtail = [] then ret ()
          else (case GetObservatoriumConfig (Some index) (pt_Observatorium promtail) of
                  None \<Rightarrow> ret ()
                | Some observatoriumConfig \<Rightarrow>
                    attempt (createPromtailConfigFor E cr index observatoriumConfig) (\<lambda>(config, hash).
                    attempt (mutate E (GetPromtailDaemonSet cr (ix_Id index))
                               (daemonset_mutate cr index observatoriumConfig (ob_name config) hash)) (\<lambda>_.
                    ret ()))))"

section \<open>origin_proxy.go, grafana.go\<close>

definition DefaultOriginOauthProxyImage :: string where
  "DefaultOriginOauthProxyImage = ''registry.redhat.io/openshift4/ose-oauth-proxy:v4.12''"

definition GetOriginOauthProxyImage :: "Observability \<Rightarrow> string" where
  "GetOriginOauthProxyImage cr =
     (case sp_SelfContained (o_spec cr) of
        Some sc \<Rightarrow> if sc_OriginOauthProxyImage sc \<noteq> [] then sc_OriginOauthProxyImage sc
                   else DefaultOriginOauthProxyImage
      | None \<Rightarrow> DefaultOriginOauthProxyImage)"

text \<open>
  The host of a route that may not exist yet: the route variable is untouched then, and a
  route without conditions counts as ready.
\<close>

definition ready_host :: "'w env \<Rightarrow> kobj \<Rightarrow> ('w, string) go" where
  "ready_host E route w =
     (case e_get E KRoute (ob_namespace route) (ob_name route) w of
        (Inl err, w1) \<Rightarrow>
          if IsNotFound err
          then Some (Inr (if IsRouteReady (Some (route_of (k_body route))) then rt_host (route_of (k_body route)) else []), w1)
          else Some (Inl err, w1)
      | (Inr found, w1) \<Rightarrow>
          Some (Inr (if IsRouteReady (Some (route_of (k_body found))) then rt_host (route_of (k_body found)) else []), w1))"

abbreviation sar_arg :: string where
  "sar_arg \<equiv> ''-openshift-sar={\"resource\": \"namespaces\", \"verb\": \"get\"}''"

abbreviation delegate_arg :: string where
  "delegate_arg \<equiv> ''-openshift-delegate-urls={\"/\": {\"resource\": \"namespaces\", \"verb\": \"get\"}}''"

definition GrafanaBaseImage :: string where
  "GrafanaBaseImage = ''docker.io/grafana/grafana:''"

definition grafana_proxy :: "Observability \<Rightarrow> Container" where
  "grafana_proxy cr = zero_container\<lparr>
     ct_name := ''grafana-proxy'',
     ct_image := GetOriginOauthProxyImage cr,
     ct_args := [''-provider=openshift'', ''-pass-basic-auth=false'', ''-https-address=:9091'', ''-http-address='',
       ''-email-domain=*'', ''-upstream=http://localhost:3000'', sar_arg, delegate_arg,
       ''-tls-cert=/etc/tls/private/tls.crt'', ''-tls-key=/etc/tls/private/tls.key'',
       ''-client-secret-file=/var/run/secrets/kubernetes.io/serviceaccount/token'',
       ''-cookie-secret-file=/etc/proxy/secrets/session_secret'',
       ''-openshift-service-account=grafana-serviceaccount'',
       ''-openshift-ca=/etc/pki/tls/cert.pem'',
       ''-openshift-ca=/var/run/secrets/kubernetes.io/serviceaccount/ca.crt'',
       ''-skip-auth-regex=^/metrics''],
     ct_ports := [\<lparr>cp_name = ''grafana-proxy'', cp_port = 9091, cp_protocol = []\<rparr>],
     ct_mounts := [\<lparr>vm_name = ''secret-grafana-k8s-tls'', vm_path = ''/etc/tls/private''\<rparr>,
                   \<lparr>vm_name = ''secret-grafana-k8s-proxy'', vm_path = ''/etc/proxy/secrets''\<rparr>]\<rparr>"

definition grafana_spec :: "Observability \<Rightarrow> RepositoryIndex list \<Rightarrow> string \<Rightarrow> GrafanaSpec" where
  "grafana_spec cr indexes grafanaImage =
     \<lparr>gs_logMode = ''console'', gs_logLevel = ''warn'',
      gs_disableLoginForm = False, gs_disableSignoutMenu = True, gs_basicAuth = True, gs_anonymousAuth = True,
      gs_containers = [grafana_proxy cr],
      gs_baseImage = grafanaImage,
      gs_dashboardLabelSelector = [GetGrafanaDashboardLabelSelectors cr indexes],
      gs_ingress = (True, ''grafana-proxy'', ''reencrypt''),
      gs_initImage = GetGrafanaInitImage cr,
      gs_secrets = [''grafana-k8s-tls'', ''grafana-k8s-proxy''],
      gs_serviceAnnotations = Some [(''service.alpha.openshift.io/serving-cert-secret-name'', ''grafana-k8s-tls'')],
      gs_servicePorts = [\<lparr>sp_name = ''grafana-proxy'', sp_protocol = ''TCP'', sp_port = 9091,
                          sp_targetPort = FromString ''grafana-proxy''\<rparr>],
      gs_serviceAccountAnnotations = Some [(redirect_annotation, oauth_redirect ''grafana-route'')],
      gs_preferService = True,
      gs_replicas = 1,
      gs_priorityClass = ObservabilityPriorityClassName,
      gs_deploymentAnnotations = Some [(''cluster-autoscaler.kubernetes.io/safe-to-evict'', ''true'')],
      gs_resources = GetGrafanaResourceRequirement cr,
      gs_tolerations = sp_Tolerations (o_spec cr),
      gs_affinity = sp_Affinity (o_spec cr)\<rparr>"

text \<open>A version that does not parse, or parses to 0.0.0, leaves the image to the operator.\<close>

definition grafana_image :: "'w env \<Rightarrow> string \<Rightarrow> string" where
  "grafana_image E version =
     (case e_parse_semver E version of
        Inl err \<Rightarrow> []
      | Inr v \<Rightarrow> if v \<noteq> ''0.0.0'' then GrafanaBaseImage @ v else [])"

definition reconcileGrafanaCr :: "'w env \<Rightarrow> Observability \<Rightarrow> RepositoryIndex list \<Rightarrow> ('w, unit) go" where
  "reconcileGrafanaCr E cr indexes =
     attempt (need (GetGrafanaVersion indexes cr)) (\<lambda>version.
       apply_pure E (GetGrafanaCr cr)
         (set_body (BGrafana (grafana_spec cr indexes (grafana_image E version)))))"

section \<open>observability_resources.go\<close>

definition ReconcileResourcesDeployment :: "'w env \<Rightarrow> Observability \<Rightarrow> string \<Rightarrow> ('w, unit) go" where
  "ReconcileResourcesDeployment E cr img =
     apply_pure E (GetResourcesDeployment cr) (\<lambda>deployment.
       set_body (BWorkload ((workload_of (k_body deployment))\<lparr>
           wl_selector := Some (match_labels managed_label),
           wl_template :=
             \<lparr>pt_labels = Some managed_label,
              pt_spec = zero_podspec\<lparr>
                ps_priorityClass := ObservabilityPriorityClassName,
                ps_containers := [zero_container\<lparr>
                  ct_name := GetResourcesDefaultName cr, ct_image := img, ct_pullPolicy := ''Always'',
                  ct_ports := [\<lparr>cp_name = ''http'', cp_port = 8080, cp_protocol = []\<rparr>],
                  ct_command := [''python3'', ''server.py'']\<rparr>],
                ps_pullSecrets := [''rhoas-image-pull-secret'']\<rparr>\<rparr>\<rparr>))
         (set_labels (Some managed_label) deployment))"

definition ReconcileResourcesService :: "'w env \<Rightarrow> Observability \<Rightarrow> ('w, unit) go" where
  "ReconcileResourcesService E cr =
     apply_pure E (GetResourcesService cr) (\<lambda>service.
       set_body (BService ((service_of (k_body service))\<lparr>
           svc_ports := [\<lparr>sp_name = ''web'', sp_protocol = ''TCP'', sp_port = 8080, sp_targetPort = FromInt 8080\<rparr>],
           svc_selector := Some managed_label\<rparr>))
         (set_name (GetResourcesDefaultName cr) service))"

text \<open>
  The route variable after the call: untouched when the mutate function was not reached,
  otherwise the object as the call left it.
\<close>

definition route_status :: "kobj option \<Rightarrow> ObservabilityStatus \<Rightarrow> ObservabilityStatus" where
  "route_status rs nextStatus =
     (let route = (case rs of None \<Rightarrow> zero_route | Some ob \<Rightarrow> route_of (k_body ob))
      in if IsRouteReady (Some route) then nextStatus\<lparr>st_ResourcesRoute := rt_host route\<rparr> else nextStatus)"

definition ReconcileResourcesRoute ::
  "'w env \<Rightarrow> Observability \<Rightarrow> ObservabilityStatus \<Rightarrow> ('w, ObservabilityStatus) go" where
  "ReconcileResourcesRoute E cr nextStatus w =
     (case e_create_or_update E (GetResourcesRoute cr) (pure_mutate (\<lambda>route.
              set_body (BRoute (zero_route\<lparr>
                rt_to := (''Service'', ob_name (GetResourcesService cr)),
                rt_port := Some (FromString ''web''),
                rt_ingress := rt_ingress (route_of (k_body route))\<rparr>)) route)) w of
        None \<Rightarrow> None
      | Some ((Some err, rs), w1) \<Rightarrow>
          if \<not> IsAlreadyExists err then Some (Inl err, w1) else Some (Inr (route_status rs nextStatus), w1)
      | Some ((None, rs), w1) \<Rightarrow> Some (Inr (route_status rs nextStatus), w1))"

section \<open>Lemmas\<close>

text \<open>Where a daemon set is made, its observatorium is found, so the mutate function does not panic.\<close>

lemma promtail_secret_found:
  assumes "Option.bind (ix_Config index) rc_Promtail = Some promtail"
    and "GetObservatoriumConfig (Some index) (pt_Observatorium promtail) = Some c"
  shows "GetObservatoriumPromtailSecretName index = Some (GetObservatoriumTokenSecretName c)"
  using assms by (auto simp: GetObservatoriumPromtailSecretName_def bind_Some_iff)

lemma quiet_daemonset: "quiet look (daemonset_mutate cr index c config hash)"
  by (auto simp: quiet_def daemonset_mutate_def split: option.splits)

text \<open>A wanted daemon set is kept: creation and deletion of Promtail agree.\<close>

lemma promtail_kept:
  assumes "distinct (map ix_Id indexes)" and "index \<in> set indexes"
    and "\<not> ExternalSyncDisabled cr" and "\<not> ObservatoriumDisabled cr"
  shows "promtail_should_exist cr indexes (''promtail-'' @ ix_Id index) \<longleftrightarrow>
    (\<exists>p. Option.bind (ix_Config index) rc_Promtail = Some p \<and> pt_Enabled p \<and> pt_Observatorium p \<noteq> [])"
proof -
  have "find (\<lambda>x. ''promtail-'' @ ix_Id index = ''promtail-'' @ ix_Id x) indexes = Some index"
    using assms(1,2)
  proof (induction indexes)
    case (Cons x xs)
    then show ?case by (auto simp: image_iff)
  qed simp
  with assms(3,4) show ?thesis
    by (auto simp: promtail_should_exist_def split: option.splits)
qed

context kube_client begin

lemma ready_host_touches [touches_intros]: "touches look K (ready_host E route)"
  by (rule touchesI) (auto simp: ready_host_def split: prod.splits sum.splits if_splits dest: read_only(1))

lemma getScrapeNamespacesFor_touches [touches_intros]: "touches look K (getScrapeNamespacesFor E cr index)"
  unfolding getScrapeNamespacesFor_def by (rule touches_intros)+

lemma createPromtailConfigFor_touches: "touches look foreign (createPromtailConfigFor E cr index c)"
  unfolding createPromtailConfigFor_def Let_def
  by (rule touches_intros | simp add: foreign_def model_obj_defs)+

lemma createPromtailDaemonsetFor_touches [touches_intros]:
  "touches look foreign (createPromtailDaemonsetFor E cr index)"
  unfolding createPromtailDaemonsetFor_def
  by (rule createPromtailConfigFor_touches quiet_daemonset touches_intros
      | simp add: foreign_def model_obj_defs)+

lemma deleteUnrequestedDaemonsets_touches [touches_intros]:
  "touches look foreign (deleteUnrequestedDaemonsets E cr indexes)"
  unfolding deleteUnrequestedDaemonsets_def
  by (rule touches_listing, rule touches_delete_unless) (force simp: list_matches_def foreign_def key_of_def)

lemma reconcileGrafanaCr_touches [touches_intros]: "touches look foreign (reconcileGrafanaCr E cr indexes)"
  unfolding reconcileGrafanaCr_def by (rule touches_intros | simp add: foreign_def model_obj_defs)+

lemma ReconcileResources_touches [touches_intros]:
  "touches look foreign (ReconcileResourcesDeployment E cr img)"
  "touches look foreign (ReconcileResourcesService E cr)"
  unfolding ReconcileResourcesDeployment_def ReconcileResourcesService_def
  by (rule touches_intros, simp add: foreign_def model_obj_defs)+

lemma ReconcileResourcesRoute_touches [touches_intros]:
  "touches look foreign (ReconcileResourcesRoute E cr st)"
proof (rule touchesI)
  fix w r w'
  assume "ReconcileResourcesRoute E cr st w = Some (r, w')"
  then obtain f er rs where "e_create_or_update E (GetResourcesRoute cr) (pure_mutate f) w = Some ((er, rs), w')"
    unfolding ReconcileResourcesRoute_def by (fastforce split: option.splits if_splits)
  from write_only(4) [OF this quiet_pure] show "only look foreign w w'"
    by (simp add: foreign_def model_obj_defs)
qed

end

section \<open>Properties\<close>



definition logs_sso :: RedhatSsoConfig where
  "logs_sso = \<lparr>rh_Url = ''u'', rh_Realm = ''r'', rh_MetricsClient = [], rh_MetricsSecret = [],
     rh_LogsClient = ''l'', rh_LogsSecret = ''s''\<rparr>"

text \<open>
  C36: behind single sign-on, Promtail pushes its logs to the service of the logs token refresher
  exactly when that service lives in the namespace of the custom resource, as it does unless the
  descoped mode names another one.
\<close>

theorem promtail_pushes_to_refresher:
  assumes "IsValid observatorium" and "oi_AuthType observatorium = AuthTypeRedhat"
    and "oi_RedhatSsoConfig observatorium = Some sso" and "HasLogs sso"
    and "service = GetTokenRefresherService cr (GetTokenRefresherName (oi_Id observatorium) LogsTokenRefresher)"
  shows "promtail_target cr (Some observatorium)
      = Inr (''http://'' @ ob_name service @ ''.'' @ ob_namespace service @ ''.svc.cluster.local'', False)
    \<longleftrightarrow> GetPrometheusOperatorNamespace cr = o_namespace cr"
  using assms by (auto simp: promtail_target_def GetTokenRefresherService_def named_obj_def)

theorem promtail_pushes_to_refresher_witness:
  "promtail_target sample_cr (Some (sample_observatorium\<lparr>oi_AuthType := AuthTypeRedhat, oi_RedhatSsoConfig := Some logs_sso\<rparr>))
     = Inr (''http://token-refresher-logs-a.ops.svc.cluster.local'', False)"
proof -
  let ?ob = "sample_observatorium\<lparr>oi_AuthType := AuthTypeRedhat, oi_RedhatSsoConfig := Some logs_sso\<rparr>"
  have h: "IsValid ?ob" "oi_AuthType ?ob = AuthTypeRedhat" "oi_RedhatSsoConfig ?ob = Some logs_sso" "HasLogs logs_sso"
    by code_simp+
  have "GetPrometheusOperatorNamespace sample_cr = o_namespace sample_cr" by code_simp
  with promtail_pushes_to_refresher [OF h refl, of sample_cr]
  have "promtail_target sample_cr (Some ?ob) = Inr (''http://''
     @ ob_name (GetTokenRefresherService sample_cr (GetTokenRefresherName (oi_Id ?ob) LogsTokenRefresher)) @ ''.''
     @ ob_namespace (GetTokenRefresherService sample_cr (GetTokenRefresherName (oi_Id ?ob) LogsTokenRefresher))
     @ ''.svc.cluster.local'', False)" by blast
  moreover have "ob_name (GetTokenRefresherService sample_cr (GetTokenRefresherName (oi_Id ?ob) LogsTokenRefresher))
      = ''token-refresher-logs-a''"
    "ob_namespace (GetTokenRefresherService sample_cr (GetTokenRefresherName (oi_Id ?ob) LogsTokenRefresher)) = ''ops''"
    by code_simp+
  ultimately show ?thesis by simp
qed

end
