(* ===== verification/Cfg_Resources.thy ===== *)
theory Cfg_Resources
  imports Go_Effects Grafana_Stages
begin

text \<open>
  The monitoring resources a repository index requests: Grafana dashboards
  (\<^verbatim>\<open>grafana_dashboards.go\<close>), Prometheus rules (\<^verbatim>\<open>prometheus_rules.go\<close>) and pod monitors
  (\<^verbatim>\<open>pod_monitors.go\<close>) of \<^verbatim>\<open>controllers/reconcilers/configuration\<close>, with the fetch of a file of
  a repository.
\<close>

section \<open>Fetching a file\<close>

text \<open>
  The request for a file: \<open>auth\<close> says whether the GitHub headers and the \<^verbatim>\<open>ref\<close> query are set.
  (\<^verbatim>\<open>http.NewRequest\<close> parses a printed URL again, which cannot fail.)
\<close>

definition file_request :: "string \<Rightarrow> bool \<Rightarrow> string \<Rightarrow> string \<Rightarrow> http_request" where
  "file_request url auth tag token =
     \<lparr>hr_url = url,
      hr_headers = (if auth then [(''Authorization'', ''token '' @ token), (''Accept'', ''application/vnd.github.v3.raw'')]
                    else []),
      hr_ref = (if auth \<and> tag \<noteq> [] then Some tag else None)\<rparr>"

definition fetchResource :: "'w env \<Rightarrow> string \<Rightarrow> string \<Rightarrow> string \<Rightarrow> ('w, string) go" where
  "fetchResource E path tag token =
     attempt (wrapped (''error parsing resource url: '' @ path) (value_of (e_parse_uri E path))) (\<lambda>resourceUrl.
     let req = file_request (e_uri_string E resourceUrl) (token \<noteq> [] \<and> Contains path ''github.com'') tag token in
     attempt (wrapped (''error fetching resource from '' @ path) (call (e_http_get E req))) (\<lambda>resp.
     if hp_status resp \<noteq> 200
     then throw (New (''unexpected status code when resource from '' @ e_request_url E req @ '': '' @ FormatInt (hp_status resp)))
     else wrapped ''error reading response'' (value_of (hp_body resp))))"

section \<open>grafana_dashboards.go\<close>

record DashboardInfo =
  di_Name :: string
  di_Url :: string
  di_AccessToken :: string
  di_Tag :: string

definition getNameFromUrl :: "string \<Rightarrow> string" where
  "getNameFromUrl path =
     (let part = last (Split CHR ''/'' path)
      in hd (Split CHR ''.'' part))"

text \<open>The label \<^verbatim>\<open>seek\<close> stands on the outer loop: a name that is taken ends the whole index.\<close>

fun add_dashboards :: "RepositoryIndex \<Rightarrow> string list \<Rightarrow> DashboardInfo list \<Rightarrow> DashboardInfo list" where
  "add_dashboards index [] result = result"
| "add_dashboards index (dashboard # dashboards) result =
     (let name = getNameFromUrl dashboard
      in if list_ex (\<lambda>existing. di_Name existing = name) result then result
         else add_dashboards index dashboards
                (result @ [\<lparr>di_Name = name, di_Url = ix_BaseUrl index @ ''/'' @ dashboard,
                            di_AccessToken = ix_AccessToken index, di_Tag = ix_Tag index\<rparr>]))"

fun unique_dashboards_from :: "RepositoryIndex list \<Rightarrow> DashboardInfo list \<Rightarrow> DashboardInfo list" where
  "unique_dashboards_from [] result = result"
| "unique_dashboards_from (index # indexes) result =
     (case Option.bind (ix_Config index) rc_Grafana of
        None \<Rightarrow> unique_dashboards_from indexes result
      | Some grafana \<Rightarrow> unique_dashboards_from indexes (add_dashboards index (gi_Dashboards grafana) result))"

definition getUniqueDashboards :: "RepositoryIndex list \<Rightarrow> DashboardInfo list" where
  "getUniqueDashboards indexes = unique_dashboards_from indexes []"

definition deleteUnrequestedDashboards :: "'w env \<Rightarrow> Observability \<Rightarrow> DashboardInfo list \<Rightarrow> ('w, unit) go" where
  "deleteUnrequestedDashboards E cr dashboards =
     listing E KGrafanaDashboard (in_namespace (o_namespace cr)) (\<lambda>items.
       delete_unless E (\<lambda>ob. list_ex (\<lambda>dashboard. ob_name ob = di_Name dashboard) dashboards) items)"

definition configuration_getFileType :: "string \<Rightarrow> SourceType" where
  "configuration_getFileType path =
     (let fragments = Split CHR ''.'' path
      in if length fragments = 0 then SourceTypeUnknown
         else let extension = ToLower (TrimSpace (last fragments))
              in if extension = ''json'' then SourceTypeJson
                 else if extension = ''grafonnet'' then SourceTypeJsonnet
                 else if extension = ''jsonnet'' then SourceTypeJsonnet
                 else if extension = ''yaml'' then SourceTypeYaml
                 else SourceTypeUnknown)"

definition fetchDashboard :: "'w env \<Rightarrow> string \<Rightarrow> string \<Rightarrow> string \<Rightarrow> ('w, SourceType \<times> string) go" where
  "fetchDashboard E path tag token =
     attempt (value_of (e_parse_uri E path)) (\<lambda>url.
     attempt (call (e_http_get E (file_request (e_uri_string E url) (token \<noteq> []) tag token))) (\<lambda>resp.
     if hp_status resp \<noteq> 200
     then throw (New (''unexpected status code: '' @ FormatInt (hp_status resp)))
     else attempt (value_of (hp_body resp)) (\<lambda>body.
          ret (configuration_getFileType (u_path url), body))))"

definition configuration_parseDashboardFromYaml ::
  "'w env \<Rightarrow> Observability \<Rightarrow> string \<Rightarrow> string \<Rightarrow> goerr + kobj" where
  "configuration_parseDashboardFromYaml E cr name source =
     (case e_decode_object E KGrafanaDashboard source of
        Inl err \<Rightarrow> Inl err
      | Inr dashboard \<Rightarrow>
          Inr (set_name name (set_namespace (o_namespace cr) (dashboard\<lparr>k_kind := KGrafanaDashboard\<rparr>))))"

definition createDashboardFromSource :: "Observability \<Rightarrow> string \<Rightarrow> SourceType \<Rightarrow> string \<Rightarrow> goerr + kobj" where
  "createDashboardFromSource cr name t source =
     (let dashboard = named_obj KGrafanaDashboard (o_namespace cr) name
      in case t of
           SourceTypeJson \<Rightarrow> Inr (set_body (BGrafanaDashboard (zero_dashboard\<lparr>gd_json := source\<rparr>)) dashboard)
         | SourceTypeJsonnet \<Rightarrow> Inr (set_body (BGrafanaDashboard (zero_dashboard\<lparr>gd_jsonnet := source\<rparr>)) dashboard)
         | _ \<Rightarrow> Inl (New (''unknown dashboard type: '' @ name)))"

text \<open>The empty case of the switch for jsonnet sources does nothing: such a dashboard is dropped.\<close>

fun requested_dashboards :: "'w env \<Rightarrow> Observability \<Rightarrow> DashboardInfo list \<Rightarrow> ('w, kobj list) go" where
  "requested_dashboards E cr [] = ret []"
| "requested_dashboards E cr (d # ds) =
     attempt (fetchDashboard E (di_Url d) (di_Tag d) (di_AccessToken d)) (\<lambda>(sourceType, source).
       case sourceType of
         SourceTypeYaml \<Rightarrow>
           attempt (value_of (configuration_parseDashboardFromYaml E cr (di_Name d) source)) (\<lambda>dashboard.
           attempt (requested_dashboards E cr ds) (\<lambda>rest. ret (dashboard # rest)))
       | SourceTypeJson \<Rightarrow>
           attempt (value_of (createDashboardFromSource cr (di_Name d) sourceType source)) (\<lambda>dashboard.
           attempt (requested_dashboards E cr ds) (\<lambda>rest. ret (dashboard # rest)))
       | SourceTypeJsonnet \<Rightarrow> requested_dashboards E cr ds
       | SourceTypeUnknown \<Rightarrow> requested_dashboards E cr ds)"

section \<open>pod_monitors.go, prometheus_rules.go\<close>

definition MergeLabels :: "gomap \<Rightarrow> gomap \<Rightarrow> gomap" where
  "MergeLabels requested existing =
     (case existing of
        None \<Rightarrow> requested
      | Some ex \<Rightarrow> Some (mput_all (entries requested) ex))"

text \<open>Give a found object the requested spec and labels, and mark it as managed.\<close>

definition install_requested :: "kobj \<Rightarrow> kobj \<Rightarrow> kobj" where
  "install_requested requested ob =
     set_labels (MergeLabels (Some managed_label) (ob_labels requested)) (set_body (k_body requested) ob)"

definition createRequestedDashboards :: "'w env \<Rightarrow> Observability \<Rightarrow> DashboardInfo list \<Rightarrow> ('w, unit) go" where
  "createRequestedDashboards E cr dashboards =
     attempt (requested_dashboards E cr dashboards) (\<lambda>requested.
       each (\<lambda>dashboard. apply_pure E dashboard (install_requested dashboard)) requested)"

record ResourceInfo =
  rs_Id :: string
  rs_Name :: string
  rs_Url :: string
  rs_AccessToken :: string
  rs_Tag :: string

definition resource_info :: "RepositoryIndex \<Rightarrow> string \<Rightarrow> ResourceInfo" where
  "resource_info index path =
     \<lparr>rs_Id = ix_Id index, rs_Name = getNameFromUrl path, rs_Url = ix_BaseUrl index @ ''/'' @ path,
      rs_AccessToken = ix_AccessToken index, rs_Tag = ix_Tag index\<rparr>"

fun add_rules :: "RepositoryIndex \<Rightarrow> string list \<Rightarrow> ResourceInfo list \<Rightarrow> ResourceInfo list" where
  "add_rules index [] result = result"
| "add_rules index (rule # rules) result =
     (if list_ex (\<lambda>existing. rs_Name existing = getNameFromUrl rule) result then result
      else add_rules index rules (result @ [resource_info index rule]))"

fun unique_rules_from :: "RepositoryIndex list \<Rightarrow> ResourceInfo list \<Rightarrow> ResourceInfo list" where
  "unique_rules_from [] result = result"
| "unique_rules_from (index # indexes) result =
     (case Option.bind (ix_Config index) rc_Prometheus of
        None \<Rightarrow> unique_rules_from indexes result
      | Some prometheus \<Rightarrow> unique_rules_from indexes (add_rules index (pi_Rules prometheus) result))"

definition getUniqueRules :: "RepositoryIndex list \<Rightarrow> ResourceInfo list" where
  "getUniqueRules indexes = unique_rules_from indexes []"

text \<open>Here the label stands on the inner loop: only the entry with the taken name is skipped.\<close>

fun add_pod_monitors :: "RepositoryIndex \<Rightarrow> string list \<Rightarrow> ResourceInfo list \<Rightarrow> ResourceInfo list" where
  "add_pod_monitors index [] result = result"
| "add_pod_monitors index (monitor # monitors) result =
     (if list_ex (\<lambda>existing. rs_Name existing = getNameFromUrl monitor) result
      then add_pod_monitors index monitors result
      else add_pod_monitors index monitors (result @ [resource_info index monitor]))"

fun unique_pod_monitors_from :: "RepositoryIndex list \<Rightarrow> ResourceInfo list \<Rightarrow> ResourceInfo list" where
  "unique_pod_monitors_from [] result = result"
| "unique_pod_monitors_from (index # indexes) result =
     (case Option.bind (ix_Config index) rc_Prometheus of
        None \<Rightarrow> unique_pod_monitors_from indexes result
      | Some prometheus \<Rightarrow>
          unique_pod_monitors_from indexes (add_pod_monitors index (pi_PodMonitors prometheus) result))"

definition getUniquePodMonitors :: "RepositoryIndex list \<Rightarrow> ResourceInfo list" where
  "getUniquePodMonitors indexes = unique_pod_monitors_from indexes []"

definition deleteUnrequestedRules :: "'w env \<Rightarrow> Observability \<Rightarrow> ResourceInfo list \<Rightarrow> ('w, unit) go" where
  "deleteUnrequestedRules E cr rules =
     listing E KPrometheusRule (in_namespace (GetPrometheusOperatorNamespace cr)) (\<lambda>items.
       delete_unless E (\<lambda>ob. list_ex (\<lambda>rule. ob_name ob = rs_Name rule) rules) items)"

definition deleteUnrequestedPodMonitors :: "'w env \<Rightarrow> Observability \<Rightarrow> ResourceInfo list \<Rightarrow> ('w, unit) go" where
  "deleteUnrequestedPodMonitors E cr monitors =
     listing E KPodMonitor (in_namespace (GetPrometheusOperatorNamespace cr)) (\<lambda>items.
       delete_unless E (\<lambda>ob. list_ex (\<lambda>monitor. ob_name ob = rs_Name monitor) monitors) items)"

definition parseRuleFromYaml :: "'w env \<Rightarrow> Observability \<Rightarrow> string \<Rightarrow> string \<Rightarrow> goerr + kobj" where
  "parseRuleFromYaml E cr name source =
     (case e_decode_object E KPrometheusRule source of
        Inl err \<Rightarrow> Inl err
      | Inr rule \<Rightarrow>
          Inr (set_name name (set_namespace (GetPrometheusOperatorNamespace cr) (rule\<lparr>k_kind := KPrometheusRule\<rparr>))))"

definition parsePodMonitorFromYaml :: "'w env \<Rightarrow> Observability \<Rightarrow> string \<Rightarrow> string \<Rightarrow> goerr + kobj" where
  "parsePodMonitorFromYaml E cr name source =
     (case e_decode_object E KPodMonitor source of
        Inl err \<Rightarrow> Inl err
      | Inr monitor \<Rightarrow>
          Inr (set_name name (set_namespace (GetPrometheusOperatorNamespace cr) (monitor\<lparr>k_kind := KPodMonitor\<rparr>))))"

definition PrometheusRuleIdentifierKey :: string where
  "PrometheusRuleIdentifierKey = ''observability''"

definition inject_rule :: "string \<Rightarrow> AlertRule \<Rightarrow> AlertRule" where
  "inject_rule ident r =
     r\<lparr>ar_labels := Some (AList.update PrometheusRuleIdentifierKey ident (entries (ar_labels r)))\<rparr>"

definition injectIdLabel :: "string \<Rightarrow> kobj \<Rightarrow> kobj" where
  "injectIdLabel ident rule =
     set_body (BPrometheusRule (map (\<lambda>g. g\<lparr>rg_rules := map (inject_rule ident) (rg_rules g)\<rparr>)
                 (rules_of (k_body rule)))) rule"

definition createRequestedRules :: "'w env \<Rightarrow> Observability \<Rightarrow> ResourceInfo list \<Rightarrow> ('w, unit) go" where
  "createRequestedRules E cr =
     each (\<lambda>rule.
       attempt (fetchResource E (rs_Url rule) (rs_Tag rule) (rs_AccessToken rule)) (\<lambda>bytes.
       attempt (value_of (parseRuleFromYaml E cr (rs_Name rule) bytes)) (\<lambda>parsedRule.
       apply_pure E parsedRule (\<lambda>ob. injectIdLabel (rs_Id rule) (install_requested parsedRule ob)))))"

definition createRequestedPodMonitors :: "'w env \<Rightarrow> Observability \<Rightarrow> ResourceInfo list \<Rightarrow> ('w, unit) go" where
  "createRequestedPodMonitors E cr =
     each (\<lambda>resource.
       attempt (fetchResource E (rs_Url resource) (rs_Tag resource) (rs_AccessToken resource)) (\<lambda>bytes.
       attempt (value_of (parsePodMonitorFromYaml E cr (rs_Name resource) bytes)) (\<lambda>monitor.
       apply_pure E monitor (install_requested monitor))))"

definition dms_groups :: "RuleGroup list" where
  "dms_groups =
     [\<lparr>rg_name = ''deadmansswitch'',
       rg_rules = [\<lparr>ar_alert = ''DeadMansSwitch'', ar_expr = ''vector(1)'',
                    ar_labels = Some [(''name'', ''DeadMansSwitchAlert'')]\<rparr>]\<rparr>]"

text \<open>The first panic is the nil dereference of \<^verbatim>\<open>SelfContained\<close>.\<close>

definition createDMSAlert :: "'w env \<Rightarrow> Observability \<Rightarrow> ('w, unit) go" where
  "createDMSAlert E cr =
     (case sp_SelfContained (o_spec cr) of
        None \<Rightarrow> panic
      | Some sc \<Rightarrow>
          if \<not> deref_true (sc_DisableRepoSync sc) then ret ()
          else apply_pure E (GetDeadmansSwitch cr) (\<lambda>dms.
                 set_body (BPrometheusRule dms_groups)
                   (case sc_RuleLabelSelector sc of
                      None \<Rightarrow> dms
                    | Some sel \<Rightarrow>
                        set_labels (Some (mput_all (entries (matchLabels sel)) (entries (ob_labels dms)))) dms)))"

section \<open>Lemmas\<close>

lemma key_of_placed [simp]: "key_of (set_name nm (set_namespace ns (ob\<lparr>k_kind := kd\<rparr>))) = (kd, ns, nm)"
  by (simp add: key_of_def set_name_def set_namespace_def)

lemma parse_keys:
  "configuration_parseDashboardFromYaml E cr nm src = Inr ob \<Longrightarrow> key_of ob = (KGrafanaDashboard, o_namespace cr, nm)"
  "createDashboardFromSource cr nm t src = Inr ob \<Longrightarrow> key_of ob = (KGrafanaDashboard, o_namespace cr, nm)"
  "parseRuleFromYaml E cr nm src = Inr ob \<Longrightarrow> key_of ob = (KPrometheusRule, GetPrometheusOperatorNamespace cr, nm)"
  "parsePodMonitorFromYaml E cr nm src = Inr ob \<Longrightarrow> key_of ob = (KPodMonitor, GetPrometheusOperatorNamespace cr, nm)"
  by (auto simp: configuration_parseDashboardFromYaml_def createDashboardFromSource_def parseRuleFromYaml_def
      parsePodMonitorFromYaml_def set_namespace_def Let_def split: sum.splits SourceType.splits)

lemma install_requested_sel [simp]:
  "k_body (install_requested requested ob) = k_body requested"
  "ob_labels (install_requested requested ob) = MergeLabels (Some managed_label) (ob_labels requested)"
  "m_deletionTimestamp (k_meta (install_requested requested ob)) = m_deletionTimestamp (k_meta ob)"
  by (simp_all add: install_requested_def set_labels_def set_body_def)

lemma MergeLabels_managed: "mlookup (MergeLabels (Some managed_label) ls) ''managed-by'' = Some ''observability-operator''"
  by (cases ls) (simp_all add: MergeLabels_def gomap_defs update_conv')

lemma MergeLabels_lookup:
  assumes "distinct (map fst (entries requested))"
  shows "mlookup (MergeLabels requested existing) k =
    (case mlookup requested k of Some v \<Rightarrow> Some v | None \<Rightarrow> mlookup existing k)"
  using map_of_mput_all [OF assms, of "entries existing" k]
  by (cases existing) (auto simp: MergeLabels_def gomap_defs map_add_def split: option.splits)

text \<open>The names of the collected resources are distinct and come from the indexes.\<close>

lemma add_dashboards_distinct:
  "distinct (map di_Name result) \<Longrightarrow> distinct (map di_Name (add_dashboards index ds result))"
proof (induction ds arbitrary: result)
  case (Cons d ds)
  have "getNameFromUrl d \<notin> di_Name ` set result"
    if "\<not> list_ex (\<lambda>existing. di_Name existing = getNameFromUrl d) result"
    using that by (auto simp: list_ex_iff)
  with Cons show ?case by (simp add: Let_def)
qed simp

lemma unique_dashboards_from_distinct:
  "distinct (map di_Name result) \<Longrightarrow> distinct (map di_Name (unique_dashboards_from indexes result))"
  by (induction indexes arbitrary: result) (auto simp: add_dashboards_distinct split: option.splits)

lemma add_rules_distinct:
  "distinct (map rs_Name result) \<Longrightarrow> distinct (map rs_Name (add_rules index rs result))"
proof (induction rs arbitrary: result)
  case (Cons r rs)
  have "getNameFromUrl r \<notin> rs_Name ` set result"
    if "\<not> list_ex (\<lambda>existing. rs_Name existing = getNameFromUrl r) result"
    using that by (auto simp: list_ex_iff)
  with Cons show ?case by (simp add: resource_info_def)
qed simp

lemma unique_rules_from_distinct:
  "distinct (map rs_Name result) \<Longrightarrow> distinct (map rs_Name (unique_rules_from indexes result))"
  by (induction indexes arbitrary: result) (auto simp: add_rules_distinct split: option.splits)

text \<open>All pod monitors of an index list in order, and the first entry of every name.\<close>

definition all_pod_monitors :: "RepositoryIndex list \<Rightarrow> ResourceInfo list" where
  "all_pod_monitors indexes =
     concat (map (\<lambda>index. case Option.bind (ix_Config index) rc_Prometheus of
                            None \<Rightarrow> []
                          | Some p \<Rightarrow> map (resource_info index) (pi_PodMonitors p)) indexes)"

fun first_named :: "ResourceInfo list \<Rightarrow> ResourceInfo list" where
  "first_named [] = []"
| "first_named (r # rs) = r # first_named (filter (\<lambda>x. rs_Name x \<noteq> rs_Name r) rs)"

text \<open>\<open>take_new seen rs\<close> keeps the first entry of every name that is not seen yet.\<close>

fun take_new :: "string set \<Rightarrow> ResourceInfo list \<Rightarrow> ResourceInfo list" where
  "take_new seen [] = []"
| "take_new seen (r # rs) =
     (if rs_Name r \<in> seen then take_new seen rs else r # take_new (insert (rs_Name r) seen) rs)"

lemma take_new_append:
  "take_new seen (rs @ qs) = take_new seen rs @ take_new (seen \<union> rs_Name ` set (take_new seen rs)) qs"
  by (induction rs arbitrary: seen) simp_all

lemma take_new_filter: "take_new (insert n seen) rs = take_new (insert n seen) (filter (\<lambda>x. rs_Name x \<noteq> n) rs)"
  by (induction rs arbitrary: seen) (auto simp: insert_commute)

lemma take_new_drop: "n \<notin> rs_Name ` set rs \<Longrightarrow> take_new (insert n seen) rs = take_new seen rs"
proof (induction rs arbitrary: seen)
  case (Cons r rs)
  then show ?case by (auto simp: insert_commute [of _ n])
qed simp

lemma take_new_first_named: "take_new {} rs = first_named rs"
proof (induction rs rule: first_named.induct)
  case (2 r rs)
  have "take_new {rs_Name r} rs = take_new {rs_Name r} (filter (\<lambda>x. rs_Name x \<noteq> rs_Name r) rs)"
    by (rule take_new_filter)
  also have "\<dots> = take_new {} (filter (\<lambda>x. rs_Name x \<noteq> rs_Name r) rs)"
    by (rule take_new_drop) auto
  finally show ?case using 2 by simp
qed simp

lemma add_pod_monitors_take_new:
  "add_pod_monitors index ms result =
     result @ take_new (rs_Name ` set result) (map (resource_info index) ms)"
proof (induction ms arbitrary: result)
  case (Cons m ms)
  have n: "rs_Name (resource_info index m) = getNameFromUrl m" by (simp add: resource_info_def)
  have "list_ex (\<lambda>existing. rs_Name existing = getNameFromUrl m) result \<longleftrightarrow> getNameFromUrl m \<in> rs_Name ` set result"
    by (auto simp: list_ex_iff image_iff) metis
  with Cons n show ?case by simp
qed simp

lemma unique_pod_monitors_take_new:
  "unique_pod_monitors_from indexes result = result @ take_new (rs_Name ` set result) (all_pod_monitors indexes)"
proof (induction indexes arbitrary: result)
  case (Cons index indexes)
  then show ?case
    by (cases "Option.bind (ix_Config index) rc_Prometheus")
      (simp_all add: all_pod_monitors_def add_pod_monitors_take_new take_new_append image_Un)
qed (simp add: all_pod_monitors_def)

lemma first_named_names: "rs_Name ` set (first_named rs) = rs_Name ` set rs"
  by (induction rs rule: first_named.induct) auto

lemma first_named_distinct: "distinct (map rs_Name (first_named rs))"
proof (induction rs rule: first_named.induct)
  case (2 r rs)
  have "rs_Name r \<notin> rs_Name ` set (first_named (filter (\<lambda>x. rs_Name x \<noteq> rs_Name r) rs))"
    by (auto simp: first_named_names)
  with 2 show ?case by auto
qed simp

lemma getUniquePodMonitors_first: "getUniquePodMonitors indexes = first_named (all_pod_monitors indexes)"
  by (simp add: getUniquePodMonitors_def unique_pod_monitors_take_new take_new_first_named)

section \<open>Frame and convergence\<close>

lemma requested_dashboards_keys:
  "requested_dashboards E cr ds w = Some (Inr obs, w') \<Longrightarrow>
     \<forall>ob \<in> set obs. \<exists>nm. key_of ob = (KGrafanaDashboard, o_namespace cr, nm)"
proof (induction ds arbitrary: w w' obs)
  case Nil
  then show ?case by (simp add: Inr_iffs)
next
  case (Cons d ds)
  show ?case using Cons.prems
    by (auto simp: Inr_iffs dest!: parse_keys Cons.IH split: prod.splits SourceType.splits)
      (metis SourceType.exhaust)
qed

context kube_client begin

lemma fetch_touches [touches_intros]:
  "touches look K (fetchResource E path tag tok)"
  "touches look K (fetchDashboard E path tag tok)"
  unfolding fetchResource_def fetchDashboard_def Let_def by (rule touches_intros)+

lemma requested_dashboards_touches: "touches look K (requested_dashboards E cr ds)"
proof (induction ds)
  case Nil
  show ?case by (simp add: touches_leaf)
next
  case (Cons d ds)
  have "touches look K (case x of (sourceType, source) \<Rightarrow> case sourceType of
         SourceTypeYaml \<Rightarrow>
           attempt (value_of (configuration_parseDashboardFromYaml E cr (di_Name d) source)) (\<lambda>dashboard.
           attempt (requested_dashboards E cr ds) (\<lambda>rest. ret (dashboard # rest)))
       | SourceTypeJson \<Rightarrow>
           attempt (value_of (createDashboardFromSource cr (di_Name d) sourceType source)) (\<lambda>dashboard.
           attempt (requested_dashboards E cr ds) (\<lambda>rest. ret (dashboard # rest)))
       | SourceTypeJsonnet \<Rightarrow> requested_dashboards E cr ds
       | SourceTypeUnknown \<Rightarrow> requested_dashboards E cr ds)" for x
    by (cases x; cases "fst x") (auto intro!: touches_attempt touches_leaf Cons)
  then show ?case by (simp add: touches_attempt fetch_touches)
qed

lemma createRequestedDashboards_touches [touches_intros]: "touches look foreign (createRequestedDashboards E cr ds)"
  unfolding createRequestedDashboards_def
proof (rule touches_post [OF requested_dashboards_touches,
      where P = "\<lambda>obs. \<forall>ob \<in> set obs. \<exists>nm. key_of ob = (KGrafanaDashboard, o_namespace cr, nm)"])
  fix obs :: "kobj list"
  assume "\<forall>ob \<in> set obs. \<exists>nm. key_of ob = (KGrafanaDashboard, o_namespace cr, nm)"
  then show "touches look foreign (each (\<lambda>dashboard. apply_pure E dashboard (install_requested dashboard)) obs)"
    by (intro touches_each touches_apply_pure) (auto simp: foreign_def)
qed (erule requested_dashboards_keys)

lemma createRequested_touches [touches_intros]:
  "touches look foreign (createRequestedRules E cr rules)"
  "touches look foreign (createRequestedPodMonitors E cr rules)"
  unfolding createRequestedRules_def createRequestedPodMonitors_def
  by (rule touches_each fetch_touches touches_value touches_attempt touches_apply_pure
      | simp add: foreign_def parse_keys)+

lemma listed_foreign: "list_matches kd lo ob \<Longrightarrow> kd \<noteq> KObservability \<Longrightarrow> key_of ob \<in> foreign"
  by (simp add: list_matches_def foreign_def key_of_def)

lemma prune_touches: "kd \<noteq> KObservability \<Longrightarrow> touches look foreign (listing E kd lo (delete_unless E P))"
  by (rule touches_listing, rule touches_delete_unless) (blast intro: listed_foreign)

lemma deleteUnrequested_touches [touches_intros]:
  "touches look foreign (deleteUnrequestedDashboards E cr ds)"
  "touches look foreign (deleteUnrequestedRules E cr rules)"
  "touches look foreign (deleteUnrequestedPodMonitors E cr rules)"
  unfolding deleteUnrequestedDashboards_def deleteUnrequestedRules_def deleteUnrequestedPodMonitors_def
  by (simp_all add: prune_touches)

lemma createDMSAlert_touches [touches_intros]: "touches look foreign (createDMSAlert E cr)"
  unfolding createDMSAlert_def by (rule touches_intros | simp add: foreign_def model_obj_defs)+

text \<open>
  A loop that fetches, parses and applies one object per entry, with distinct keys: when it
  ends without an error, every object whose stored version is not terminating is stored as
  its mutate function made it.
\<close>

lemma each_applied:
  assumes fr: "\<And>x. touches look {} (fetch x)"
    and key: "\<And>x b m. parse x b = Inr m \<Longrightarrow> key_of m = key x"
  shows "each (\<lambda>x. attempt (fetch x) (\<lambda>b. attempt (value_of (parse x b)) (\<lambda>m. apply_pure E m (g x m)))) xs w
      = Some (Inr u, w') \<Longrightarrow> distinct (map key xs) \<Longrightarrow> x \<in> set xs \<Longrightarrow>
    \<exists>b m. parse x b = Inr m \<and>
      (m_deletionTimestamp (k_meta (g x m (existing_or (look w) m))) = None \<longrightarrow>
        (\<exists>o'. look w' (key x) = Some o' \<and> k_body o' = admit (k_body (g x m (existing_or (look w) m)))
          \<and> ob_labels o' = ob_labels (g x m (existing_or (look w) m))))"
    (is "?loop xs w = _ \<Longrightarrow> _ \<Longrightarrow> _ \<Longrightarrow> ?stored w")
proof (induction xs arbitrary: w)
  case Nil
  then show ?case by simp
next
  case (Cons y ys)
  from Cons.prems(1) obtain b m w1 w2 where f: "fetch y w = Some (Inr b, w1)"
    and p: "parse y b = Inr m" and a: "CreateOrUpdate E m (g y m) w1 = Some (None, w2)"
    and rest: "?loop ys w2 = Some (Inr u, w')"
    by (auto simp: Inr_iffs)
  have same1: "look w1 = look w" using touchesD [OF fr f] by (auto simp: only_def)
  have "touches look (key ` set ys) (?loop ys)"
    by (rule touches_each, rule touches_attempt [OF touches_mono [OF fr]], simp, rule touches_value,
        rule touches_apply_pure) (simp add: key)
  from touchesD [OF this rest] have out: "k \<notin> key ` set ys \<Longrightarrow> look w' k = look w2 k" for k
    unfolding only_def by blast
  show ?case
  proof (cases "x = y")
    case True
    with Cons.prems(2) out [of "key y"] have "look w' (key y) = look w2 (key y)" by simp
    with CreateOrUpdate_stored [OF a] p key [OF p] same1 True show ?thesis
      by (intro exI [of _ b] exI [of _ m]) simp
  next
    case False
    with Cons.prems have xs: "x \<in> set ys" "distinct (map key ys)" by auto
    then have "key x \<in> key ` set ys" by simp
    with Cons.prems(2) have ne: "key x \<noteq> key y" by auto
    have "look w2 (key x) = look w (key x)"
      using CreateOrUpdate_frame [OF a, of "key x"] ne key [OF p] same1 by simp
    then have ex: "parse x b = Inr m \<Longrightarrow> existing_or (look w2) m = existing_or (look w) m" for b m
      by (auto simp: existing_or_def dest: key)
    from Cons.IH [OF rest xs(2,1)] show ?thesis
    proof (elim exE conjE, goal_cases)
      case (1 b' m')
      from 1(2) [unfolded ex [OF 1(1)]] 1(1) show ?case by (intro exI [of _ b'] exI [of _ m'] conjI)
    qed
  qed
qed

lemma touches_fetch_nothing: "touches look {} (fetchResource E path tag tok)"
  by (rule fetch_touches)

text \<open>What is left of a namespace after the unrequested objects were deleted.\<close>

lemma prune_left:
  assumes "listing E kd (in_namespace ns) (delete_unless E (\<lambda>ob. Q (ob_name ob))) w = Some (Inr u, w')"
    and "\<not> gone (look w') (kd, ns, nm)"
  shows "Q nm"
proof -
  from assms(2) obtain ob where ob: "look w' (kd, ns, nm) = Some ob"
    by (auto simp: gone_def split: option.splits)
  then have key: "key_of ob = (kd, ns, nm)" by (rule look_key)
  have "Q (ob_name ob)"
    by (rule delete_unless_left [OF assms(1) ob _ assms(2)])
      (use key in \<open>auto simp: list_matches_def key_of_def\<close>)
  with key show ?thesis by (simp add: key_of_def)
qed

end

abbreviation rule_key :: "Observability \<Rightarrow> string \<Rightarrow> okey" where
  "rule_key cr nm \<equiv> (KPrometheusRule, GetPrometheusOperatorNamespace cr, nm)"

context kube_client begin

text \<open>Deleting what is not requested and applying what is leaves exactly the requested names.\<close>

lemma prune_and_apply:
  assumes del: "listing E kd (in_namespace ns) (delete_unless E (\<lambda>ob. list_ex (\<lambda>r. ob_name ob = rs_Name r) rs)) w
      = Some (Inr u, w1)"
    and cre: "each (\<lambda>x. attempt (fetchResource E (rs_Url x) (rs_Tag x) (rs_AccessToken x)) (\<lambda>b.
        attempt (value_of (parse (rs_Name x) b)) (\<lambda>m. apply_pure E m (g x m)))) rs w1 = Some (Inr u', w2)"
    and key: "\<And>nm b m. parse nm b = Inr m \<Longrightarrow> key_of m = (kd, ns, nm)"
    and left: "\<not> gone (look w2) (kd, ns, nm)"
  shows "nm \<in> rs_Name ` set rs"
proof (rule ccontr)
  assume n: "nm \<notin> rs_Name ` set rs"
  have "touches look ((\<lambda>x. (kd, ns, rs_Name x)) ` set rs) (each (\<lambda>x.
      attempt (fetchResource E (rs_Url x) (rs_Tag x) (rs_AccessToken x)) (\<lambda>b.
        attempt (value_of (parse (rs_Name x) b)) (\<lambda>m. apply_pure E m (g x m)))) rs)"
    by (rule touches_each fetch_touches touches_value touches_attempt touches_apply_pure | simp add: key)+
  from touchesD [OF this cre] n have "look w2 (kd, ns, nm) = look w1 (kd, ns, nm)"
    unfolding only_def by blast
  with left have "\<not> gone (look w1) (kd, ns, nm)" by (simp add: gone_def)
  from prune_left [of kd ns "\<lambda>n. list_ex (\<lambda>r. n = rs_Name r) rs", OF del this] n show False
    by (auto simp: list_ex_iff)
qed

lemma rules_stored:
  assumes "createRequestedRules E cr rules w = Some (Inr u, w')" and "distinct (map rs_Name rules)" and "rule \<in> set rules"
  shows "\<exists>bytes parsed. parseRuleFromYaml E cr (rs_Name rule) bytes = Inr parsed
    \<and> (m_deletionTimestamp (k_meta (existing_or (look w) parsed)) = None \<longrightarrow>
        (\<exists>ob. look w' (rule_key cr (rs_Name rule)) = Some ob
          \<and> k_body ob = k_body (injectIdLabel (rs_Id rule) parsed)
          \<and> mlookup (ob_labels ob) ''managed-by'' = Some ''observability-operator''))"
proof -
  let ?g = "\<lambda>rule parsed ob. injectIdLabel (rs_Id rule) (install_requested parsed ob)"
  have "distinct (map (\<lambda>r. rule_key cr (rs_Name r)) rules)" using assms(2) by (simp add: distinct_map inj_on_def)
  note stored = each_applied [where fetch = "\<lambda>r. fetchResource E (rs_Url r) (rs_Tag r) (rs_AccessToken r)"
      and parse = "\<lambda>r. parseRuleFromYaml E cr (rs_Name r)" and key = "\<lambda>r. rule_key cr (rs_Name r)" and g = ?g,
      OF touches_fetch_nothing _ assms(1) [unfolded createRequestedRules_def] this assms(3)]
  have g: "k_body (?g rule m ob) = k_body (injectIdLabel (rs_Id rule) m)" 
    "admit (k_body (injectIdLabel (rs_Id rule) m)) = k_body (injectIdLabel (rs_Id rule) m)"
    "ob_labels (?g rule m ob) = MergeLabels (Some managed_label) (ob_labels m)"
    "m_deletionTimestamp (k_meta (?g rule m ob)) = m_deletionTimestamp (k_meta ob)" for m ob
    by (simp_all add: injectIdLabel_def set_body_def install_requested_def set_labels_def)
  have "\<exists>b m. parseRuleFromYaml E cr (rs_Name rule) b = Inr m \<and>
      (m_deletionTimestamp (k_meta (existing_or (look w) m)) = None \<longrightarrow>
        (\<exists>o'. look w' (rule_key cr (rs_Name rule)) = Some o' \<and> k_body o' = k_body (injectIdLabel (rs_Id rule) m)
          \<and> ob_labels o' = MergeLabels (Some managed_label) (ob_labels m)))"
    by (rule stored [unfolded g]) (erule parse_keys(3))
  then show ?thesis using MergeLabels_managed by metis
qed

end

section \<open>Properties\<close>


definition rules_world :: mem where
  "rules_world = (sample_world [named_obj KPrometheusRule ''ops'' ''old''])\<lparr>mw_http :=
     [(''http://repo/rules/a.yaml'', \<lparr>hp_status = 200, hp_statusLine = ''200 OK'', hp_body = Inr []\<rparr>)]\<rparr>"

definition rules_indexes :: "RepositoryIndex list" where
  "rules_indexes = [sample_index ''ix'' (sample_config\<lparr>rc_Prometheus :=
     Some (zero_prometheus_index\<lparr>pi_Rules := [''rules/a.yaml'', ''other/a.yaml'']\<rparr>)\<rparr>)]"


text \<open>
  C29: the pod monitors collected from the indexes are the first ones of each name, in the
  order of the indexes: every name an index asks for is there, once.
\<close>

theorem pod_monitors_first_named:
  "getUniquePodMonitors indexes = first_named (all_pod_monitors indexes)
   \<and> distinct (map rs_Name (getUniquePodMonitors indexes))
   \<and> rs_Name ` set (getUniquePodMonitors indexes) = rs_Name ` set (all_pod_monitors indexes)"
  unfolding getUniquePodMonitors_first by (simp add: first_named_distinct first_named_names)

text \<open>
  C34: a resource is named after its file: the last component of its path up to the first
  dot.
\<close>

theorem name_of_file:
  assumes "CHR ''/'' \<notin> set name" and "CHR ''.'' \<notin> set name" and "CHR ''/'' \<notin> set extension"
  shows "getNameFromUrl (directory @ ''/'' @ name @ ''.'' @ extension) = name"
proof -
  have "Split CHR ''/'' (directory @ ''/'' @ name @ ''.'' @ extension)
      = Split CHR ''/'' directory @ [name @ ''.'' @ extension]"
    using assms(1,3) Split_append_sep [of "CHR ''/''" directory "name @ ''.'' @ extension"]
    by (simp add: Split_single)
  moreover have "Split CHR ''.'' (name @ ''.'' @ extension) = name # Split CHR ''.'' extension"
    using assms(2) Split_append_sep [of "CHR ''.''" name extension] by (simp add: Split_single)
  ultimately show ?thesis by (simp add: getNameFromUrl_def Let_def)
qed

theorem name_of_file_witness: "getNameFromUrl ''a/b.c/rules.prom.yaml'' = ''rules''"
  using name_of_file [of "''rules''" "''prom.yaml''" "''a/b.c''"] by simp

text \<open>
  The dashboards and the rules collected from the indexes have distinct names.
\<close>

lemma requested_names_distinct:
  "distinct (map di_Name (getUniqueDashboards indexes)) \<and> distinct (map rs_Name (getUniqueRules indexes))"
  by (simp add: getUniqueDashboards_def getUniqueRules_def unique_dashboards_from_distinct unique_rules_from_distinct)

text \<open>A rule is lost when an earlier rule of its index has a name that is taken.\<close>

lemma rule_lost:
  "map rs_Name (getUniqueRules
     [sample_index ''x'' (sample_config\<lparr>rc_Prometheus := Some (zero_prometheus_index\<lparr>pi_Rules := [''a.yaml'']\<rparr>)\<rparr>),
      sample_index ''y'' (sample_config\<lparr>rc_Prometheus := Some (zero_prometheus_index\<lparr>pi_Rules := [''a.yaml'', ''b.yaml'']\<rparr>)\<rparr>)])
   = [''a'']"
  by code_simp

end
