(* ===== verification/Cfg_Prometheus.thy ===== *)
theory Cfg_Prometheus
  imports Cfg_Tokens Cfg_Workloads Cfg_Resources
begin

text \<open>
  \<^verbatim>\<open>controllers/reconcilers/configuration/prometheus.go\<close>: federation patterns, the black box
  configuration, remote write targets, and the Prometheus instance with its storage.
\<close>

definition PrometheusBaseImage :: string where
  "PrometheusBaseImage = ''quay.io/prometheus/prometheus''"

definition PrometheusRetention :: string where
  "PrometheusRetention = ''45d''"

section \<open>Federation and black box configuration\<close>

definition quoted :: "string \<Rightarrow> string" where
  "quoted pattern = [CHR 0x27] @ pattern @ [CHR 0x27]"

text \<open>A new pattern is compared, unquoted, with the quoted ones collected so far.\<close>

fun add_patterns :: "string list \<Rightarrow> string list \<Rightarrow> string list" where
  "add_patterns result [] = result"
| "add_patterns result (pattern # patterns) =
     add_patterns (if list_ex (\<lambda>p. pattern = p) result then result else result @ [quoted pattern]) patterns"

fun federation_patterns :: "'w env \<Rightarrow> string list \<Rightarrow> RepositoryIndex list \<Rightarrow> ('w, string list) go" where
  "federation_patterns E result [] = ret result"
| "federation_patterns E result (index # indexes) =
     (case Option.bind (ix_Config index) rc_Prometheus of
        None \<Rightarrow> federation_patterns E result indexes
      | Some prometheus \<Rightarrow>
          if pi_Federation prometheus = [] then federation_patterns E result indexes
          else attempt (fetchResource E (ix_BaseUrl index @ ''/'' @ pi_Federation prometheus)
                          (ix_Tag index) (ix_AccessToken index)) (\<lambda>bytes.
               attempt (value_of (e_decode_federation E bytes)) (\<lambda>match.
               federation_patterns E (add_patterns result match) indexes)))"

definition fetchFederationConfigs :: "'w env \<Rightarrow> Observability \<Rightarrow> RepositoryIndex list \<Rightarrow> ('w, string list) go" where
  "fetchFederationConfigs E cr indexes =
     (if ExternalSyncDisabled cr
      then attempt (need (sp_SelfContained (o_spec cr))) (\<lambda>sc. ret (sc_FederatedMetrics sc))
      else federation_patterns E [] indexes)"

definition createBlackBoxConfig :: "'w env \<Rightarrow> Observability \<Rightarrow> ('w, string) go" where
  "createBlackBoxConfig E cr w =
     (case GetDefaultBlackBoxConfig E cr w of
        ((cfg, hash), w1) \<Rightarrow>
          attempt (apply_pure E (GetPrometheusBlackBoxConfig cr)
                     (set_body (BConfigMap (Some [(''black-box-config.yaml'', cfg)])))) (\<lambda>_. ret hash) w1)"

definition createAdditionalScrapeConfigSecret :: "'w env \<Rightarrow> Observability \<Rightarrow> string list \<Rightarrow> ('w, unit) go" where
  "createAdditionalScrapeConfigSecret E cr patterns =
     apply_pure E (GetPrometheusAdditionalScrapeConfig cr) (\<lambda>secret.
       set_body (BSecret ((secret_of (k_body secret))\<lparr>
         sec_type := ''Opaque'',
         sec_stringData := Some [(''additional-scrape-config.yaml'', GetFederationConfigBearerToken patterns)]\<rparr>)) secret)"

section \<open>Remote write\<close>

definition getRemoteWriteIndex :: "'w env \<Rightarrow> RepositoryIndex \<Rightarrow> ('w, RemoteWriteIndex) go" where
  "getRemoteWriteIndex E index =
     attempt (need (Option.bind (ix_Config index) rc_Prometheus)) (\<lambda>prometheus.
     attempt (fetchResource E (ix_BaseUrl index @ ''/'' @ pi_RemoteWrite prometheus)
                (ix_Tag index) (ix_AccessToken index)) (\<lambda>bytes.
     wrapped ''error parsing remote write index'' (value_of (e_decode_remote_write E bytes))))"

text \<open>The specification and the name of the token secret to mount, empty when there is none.\<close>

definition getRemoteWriteSpecForDex ::
  "RepositoryIndex \<Rightarrow> ObservatoriumIndex \<Rightarrow> RemoteWriteIndex \<Rightarrow> ('w, RemoteWriteSpec \<times> string) go" where
  "getRemoteWriteSpecForDex index observatoriumConfig remoteWrite =
     attempt (need (GetObservatoriumPrometheusSecretName index)) (\<lambda>tokenSecret.
     ret (\<lparr>rw_url = oi_Gateway observatoriumConfig @ ''/api/metrics/v1/'' @ oi_Tenant observatoriumConfig
             @ ''/api/v1/receive'',
           rw_name = ix_Id index,
           rw_remoteTimeout = wi_RemoteTimeout remoteWrite,
           rw_writeRelabelConfigs = wi_WriteRelabelConfigs remoteWrite,
           rw_bearerTokenFile = ''/etc/prometheus/secrets/'' @ tokenSecret @ ''/token'',
           rw_insecureSkipVerify = True,
           rw_proxyURL = wi_ProxyUrl remoteWrite,
           rw_queueConfig = wi_QueueConfig remoteWrite,
           rw_oauth2 = None\<rparr>, tokenSecret))"

definition getRemoteWriteSpecForRedHat ::
  "'w env \<Rightarrow> Observability \<Rightarrow> RepositoryIndex \<Rightarrow> ObservatoriumIndex \<Rightarrow> RemoteWriteIndex
    \<Rightarrow> ('w, RemoteWriteSpec \<times> string) go" where
  "getRemoteWriteSpecForRedHat E cr index observatoriumConfig remoteWrite =
     attempt (GetRemoteWriteOauth2Config E cr) (\<lambda>oauth2Config.
       let remoteWriteTarget =
             (case oauth2Config of
                Some _ \<Rightarrow> oi_Gateway observatoriumConfig
              | None \<Rightarrow> ''http://'' @ GetTokenRefresherName (oi_Id observatoriumConfig) MetricsTokenRefresher
                        @ ''.'' @ GetPrometheusOperatorNamespace cr @ ''.svc.cluster.local'')
       in ret (\<lparr>rw_url = remoteWriteTarget,
                rw_name = ix_Id index,
                rw_remoteTimeout = wi_RemoteTimeout remoteWrite,
                rw_writeRelabelConfigs = wi_WriteRelabelConfigs remoteWrite,
                rw_bearerTokenFile = [],
                rw_insecureSkipVerify = True,
                rw_proxyURL = wi_ProxyUrl remoteWrite,
                rw_queueConfig = wi_QueueConfig remoteWrite,
                rw_oauth2 = oauth2Config\<rparr>, []))"

definition getRemoteWriteSpec ::
  "'w env \<Rightarrow> Observability \<Rightarrow> RepositoryIndex \<Rightarrow> RemoteWriteIndex \<Rightarrow> ('w, RemoteWriteSpec \<times> string) go" where
  "getRemoteWriteSpec E cr index remoteWrite =
     (case Option.bind (ix_Config index) rc_Prometheus of
        None \<Rightarrow> throw (New (''no observatorium config found for '' @ ix_Id index @ '' / prometheus''))
      | Some prometheus \<Rightarrow>
          if pi_Observatorium prometheus = []
          then throw (New (''no observatorium config found for '' @ ix_Id index @ '' / prometheus''))
          else (case GetObservatoriumConfig (Some index) (pi_Observatorium prometheus) of
                  None \<Rightarrow> throw (New (''no observatorium config found for '' @ pi_Observatorium prometheus))
                | Some observatoriumConfig \<Rightarrow>
                    (case oi_AuthType observatoriumConfig of
                       AuthTypeDex \<Rightarrow> getRemoteWriteSpecForDex index observatoriumConfig remoteWrite
                     | AuthTypeRedhat \<Rightarrow> getRemoteWriteSpecForRedHat E cr index observatoriumConfig remoteWrite
                     | AuthType s \<Rightarrow> throw (New (''unknown auth type '' @ s)))))"

text \<open>An index that cannot be read ends the loop; one without a usable observatorium is skipped.\<close>

fun remote_writes :: "'w env \<Rightarrow> Observability \<Rightarrow> RepositoryIndex list \<Rightarrow> ('w, (RemoteWriteSpec \<times> string) list) go" where
  "remote_writes E cr [] = ret []"
| "remote_writes E cr (index # indexes) =
     attempt (getRemoteWriteIndex E index) (\<lambda>rw.
     attempt (recovered (getRemoteWriteSpec E cr index rw)) (\<lambda>spec.
     attempt (remote_writes E cr indexes) (\<lambda>rest.
     ret (case spec of None \<Rightarrow> rest | Some p \<Rightarrow> p # rest))))"

section \<open>The instance\<close>

definition getAlerting :: "Observability \<Rightarrow> AlertmanagerEndpoint list" where
  "getAlerting cr =
     [\<lparr>ae_namespace = GetPrometheusOperatorNamespace cr,
       ae_name = ob_name (GetAlertmanagerCr cr),
       ae_port = FromString ''web'',
       ae_scheme = ''https'',
       ae_caFile = ''/var/run/secrets/kubernetes.io/serviceaccount/service-ca.crt'',
       ae_serverName = ob_name (GetAlertmanagerService cr) @ ''.'' @ GetPrometheusOperatorNamespace cr @ ''.svc'',
       ae_bearerTokenFile = ''/var/run/secrets/kubernetes.io/serviceaccount/token''\<rparr>]"

text \<open>
  The regular expression \<^verbatim>\<open>^[0-9]+(((ms)|y|w|d|h|m|s)){1}$\<close> as a scan: digits, then a unit.
\<close>

definition retention_matches :: "string \<Rightarrow> bool" where
  "retention_matches s =
     (takeWhile (\<lambda>c. CHR ''0'' \<le> c \<and> c \<le> CHR ''9'') s \<noteq> []
      \<and> dropWhile (\<lambda>c. CHR ''0'' \<le> c \<and> c \<le> CHR ''9'') s
         \<in> set [''ms'', ''y'', ''w'', ''d'', ''h'', ''m'', ''s''])"

definition getRetentionHelper :: "Observability \<Rightarrow> string" where
  "getRetentionHelper cr =
     (if \<not> retention_matches (sp_Retention (o_spec cr)) then PrometheusRetention else sp_Retention (o_spec cr))"

definition managed_storage :: "string \<Rightarrow> gomap \<Rightarrow> StorageSpec" where
  "managed_storage volumeName requests =
     \<lparr>ss_claimName = ''managed-services'', ss_volumeName = volumeName, ss_requests = requests, ss_rest = JNull\<rparr>"

definition getPrometheusStorageSpecHelper ::
  "'w env \<Rightarrow> Observability \<Rightarrow> RepositoryIndex list \<Rightarrow> StorageSpec \<Rightarrow> goerr + StorageSpec" where
  "getPrometheusStorageSpecHelper E cr indexes prometheusStorageSpec =
     (if ExternalSyncDisabled cr then Inr prometheusStorageSpec
      else let customStorageSize = GetPrometheusStorageSize cr indexes
           in if customStorageSize = [] then Inr prometheusStorageSpec
              else case e_parse_quantity E customStorageSize of
                     Inl err \<Rightarrow> Inl err
                   | Inr parsedQuantity \<Rightarrow> Inr (managed_storage [] (Some [(''storage'', parsedQuantity)])))"

abbreviation old_claim :: string where
  "old_claim \<equiv> ''managed-services-prometheus-kafka-prometheus-0''"

text \<open>The variable \<^verbatim>\<open>pvc\<close> is the loop variable: the volume is that of the last claim listed.\<close>

definition existingPVC :: "'w env \<Rightarrow> Observability \<Rightarrow> ('w, bool \<times> string) go" where
  "existingPVC E cr =
     attempt (wrapped ''error listing existing volume claims''
       (call (e_list E KPersistentVolumeClaim (in_namespace (GetPrometheusOperatorNamespace cr))))) (\<lambda>items.
     ret (list_ex (\<lambda>pvc. ob_name pvc = old_claim) items,
          if items = [] then [] else pvc_volume_of (k_body (last items))))"

definition useExistingPVForVolumeClaim :: "'w env \<Rightarrow> string \<Rightarrow> Observability \<Rightarrow> ('w, StorageSpec) go" where
  "useExistingPVForVolumeClaim E volumeName cr =
     attempt (call (e_get E KPersistentVolume [] volumeName)) (\<lambda>pv.
     attempt (call (e_update E (set_body (BPersistentVolume ((pv_of (k_body pv))\<lparr>
         pv_claimRef := Some (''managed-services-prometheus-obs-prometheus-0'', GetPrometheusOperatorNamespace cr)\<rparr>)) pv))) (\<lambda>updated.
     ret (managed_storage volumeName (pv_capacity (pv_of (k_body updated))))))"

definition removePVCPostMigration :: "'w env \<Rightarrow> Observability \<Rightarrow> ('w, unit) go" where
  "removePVCPostMigration E cr =
     delete_if_present E (named_obj KPersistentVolumeClaim (GetPrometheusOperatorNamespace cr) old_claim)"

definition prometheus_proxy :: "Observability \<Rightarrow> Container" where
  "prometheus_proxy cr = zero_container\<lparr>
     ct_name := ''oauth-proxy'',
     ct_image := GetOriginOauthProxyImage cr,
     ct_args := [''-provider=openshift'', ''-https-address=:9091'', ''-http-address='', ''-email-domain=*'',
       ''-upstream=http://localhost:9090'',
       ''-openshift-service-account='' @ ob_name (GetPrometheusServiceAccount cr),
       sar_arg, delegate_arg,
       ''-tls-cert=/etc/tls/private/tls.crt'', ''-tls-key=/etc/tls/private/tls.key'',
       ''-client-secret-file=/var/run/secrets/kubernetes.io/serviceaccount/token'',
       ''-cookie-secret-file=/etc/proxy/secrets/session_secret'',
       ''-openshift-ca=/etc/pki/tls/cert.pem'',
       ''-openshift-ca=/var/run/secrets/kubernetes.io/serviceaccount/ca.crt'',
       ''-skip-auth-regex=^/metrics''],
     ct_env := map (\<lambda>n. \<lparr>ev_name = n, ev_value = [], ev_fieldPath = None\<rparr>) [''HTTP_PROXY'', ''HTTPS_PROXY'', ''NO_PROXY''],
     ct_ports := [\<lparr>cp_name = ''proxy'', cp_port = 9091, cp_protocol = []\<rparr>],
     ct_mounts := [\<lparr>vm_name = ''secret-prometheus-k8s-tls'', vm_path = ''/etc/tls/private''\<rparr>,
                   \<lparr>vm_name = ''secret-'' @ ob_name (GetPrometheusProxySecret cr), vm_path = ''/etc/proxy/secrets''\<rparr>]\<rparr>"

definition blackbox_exporter :: "string \<Rightarrow> Container" where
  "blackbox_exporter configHash = zero_container\<lparr>
     ct_name := ''blackbox-exporter'',
     ct_image := ''quay.io/prometheus/blackbox-exporter:v0.19.0'',
     ct_args := [''--config.file=/opt/config/black-box-config.yaml''],
     ct_env := [\<lparr>ev_name = ''CONFIG_HASH'', ev_value = configHash, ev_fieldPath = None\<rparr>],
     ct_ports := [\<lparr>cp_name = ''http'', cp_port = 9115, cp_protocol = []\<rparr>],
     ct_mounts := [\<lparr>vm_name = ''black-box-config'', vm_path = ''/opt/config/''\<rparr>,
                   \<lparr>vm_name = ''secret-prometheus-k8s-tls'', vm_path = ''/etc/tls/private''\<rparr>]\<rparr>"

definition prometheus_spec ::
  "Observability \<Rightarrow> RepositoryIndex list \<Rightarrow> string \<Rightarrow> string \<Rightarrow> (RemoteWriteSpec \<times> string) list \<Rightarrow> PrometheusSpec" where
  "prometheus_spec cr indexes configHash host rws =
     \<lparr>pm_podAnnotations = Some [(''cluster-autoscaler.kubernetes.io/safe-to-evict'', ''true'')],
      pm_image = PrometheusBaseImage @ '':'' @ GetPrometheusVersion cr,
      pm_version = GetPrometheusVersion cr,
      pm_priorityClass = ObservabilityPriorityClassName,
      pm_serviceAccount = ob_name (GetPrometheusServiceAccount cr),
      pm_externalURL = ''https://'' @ host,
      pm_additionalScrapeConfigs = Some (''additional-scrape-configs'', ''additional-scrape-config.yaml''),
      pm_externalLabels = Some [(''cluster_id'', st_ClusterID (o_status cr))],
      pm_volumes = [\<lparr>vol_name = ''black-box-config'', vol_source = VConfigMap ''black-box-config''\<rparr>],
      pm_podMonitorSelector = GetPrometheusPodMonitorLabelSelectors cr indexes,
      pm_podMonitorNamespaceSelector = GetPrometheusPodMonitorNamespaceSelectors cr indexes,
      pm_serviceMonitorSelector = GetPrometheusServiceMonitorLabelSelectors cr indexes,
      pm_serviceMonitorNamespaceSelector = GetPrometheusServiceMonitorNamespaceSelectors cr indexes,
      pm_probeSelector = GetProbeLabelSelectors cr indexes,
      pm_probeNamespaceSelector = GetProbeNamespaceSelectors cr indexes,
      pm_remoteWrite = map fst rws,
      pm_secrets = [ob_name (GetPrometheusProxySecret cr), ''prometheus-k8s-tls'']
        @ filter (\<lambda>tokenSecret. tokenSecret \<noteq> []) (map snd rws),
      pm_containers = prometheus_proxy cr
        # (if BlackboxExporterDisabled cr then [] else [blackbox_exporter configHash]),
      pm_resources = GetPrometheusResourceRequirement cr,
      pm_retention = getRetentionHelper cr,
      pm_ruleSelector = GetPrometheusRuleLabelSelectors cr indexes,
      pm_ruleNamespaceSelector = GetPrometheusRuleNamespaceSelectors cr indexes,
      pm_alerting = getAlerting cr,
      pm_storage = None,
      pm_tolerations = None,
      pm_affinity = None\<rparr>"

definition prometheus_storage ::
  "'w env \<Rightarrow> Observability \<Rightarrow> RepositoryIndex list \<Rightarrow> ('w, StorageSpec option) go" where
  "prometheus_storage E cr indexes =
     (case Option.bind (sp_Storage (o_spec cr)) sg_PrometheusStorageSpec of
        None \<Rightarrow> ret None
      | Some ss \<Rightarrow>
          attempt (existingPVC E cr) (\<lambda>(existingPV, pvName).
          attempt (if existingPV then useExistingPVForVolumeClaim E pvName cr
                   else value_of (getPrometheusStorageSpecHelper E cr indexes ss)) (\<lambda>storage.
          ret (Some storage))))"

text \<open>The mutate function lists the volume claims and may write a volume of its own.\<close>

definition prometheus_mutate ::
  "'w env \<Rightarrow> Observability \<Rightarrow> RepositoryIndex list \<Rightarrow> PrometheusSpec \<Rightarrow> 'w mutator" where
  "prometheus_mutate E cr indexes spec prometheus w =
     (case prometheus_storage E cr indexes w of
        None \<Rightarrow> None
      | Some (Inl err, w1) \<Rightarrow> Some ((Some err, set_body (BPrometheus spec) prometheus), w1)
      | Some (Inr storage, w1) \<Rightarrow>
          Some ((None, set_body (BPrometheus (spec\<lparr>
              pm_storage := storage,
              pm_tolerations := sp_Tolerations (o_spec cr),
              pm_affinity := sp_Affinity (o_spec cr)\<rparr>)) prometheus), w1))"

text \<open>The labels of the custom resource, which the mutate function sets instead of the instance's.\<close>

definition label_prometheus :: "Observability \<Rightarrow> Observability" where
  "label_prometheus cr = cr\<lparr>o_meta := (o_meta cr)\<lparr>m_labels := Some [(''app'', ''prometheus'')]\<rparr>\<rparr>"

definition prometheus_inputs ::
  "'w env \<Rightarrow> Observability \<Rightarrow> RepositoryIndex list \<Rightarrow> ('w, string \<times> (RemoteWriteSpec \<times> string) list) go" where
  "prometheus_inputs E cr indexes =
     attempt (ready_host E (GetPrometheusRoute cr)) (\<lambda>host.
     attempt (if ObservatoriumDisabled cr then ret [] else remote_writes E cr indexes) (\<lambda>rws.
     ret (host, rws)))"

text \<open>The error, and the custom resource as the call leaves it.\<close>

definition reconcilePrometheus ::
  "'w env \<Rightarrow> Observability \<Rightarrow> RepositoryIndex list \<Rightarrow> string \<Rightarrow> 'w \<Rightarrow> ((goerr option \<times> Observability) \<times> 'w) option" where
  "reconcilePrometheus E cr indexes configHash w =
     (case prometheus_inputs E cr indexes w of
        None \<Rightarrow> None
      | Some (Inl err, w1) \<Rightarrow> Some ((Some err, cr), w1)
      | Some (Inr (host, rws), w1) \<Rightarrow>
          (case e_create_or_update E (GetPrometheus cr)
                  (prometheus_mutate E cr indexes (prometheus_spec cr indexes configHash host rws)) w1 of
             None \<Rightarrow> None
           | Some ((er, mutated), w2) \<Rightarrow>
               let cr' = (case mutated of None \<Rightarrow> cr | Some _ \<Rightarrow> label_prometheus cr)
               in case er of
                    Some err \<Rightarrow> Some ((Some err, cr'), w2)
                  | None \<Rightarrow>
                      (case removePVCPostMigration E cr' w2 of
                         None \<Rightarrow> None
                       | Some (Inl err, w3) \<Rightarrow> Some ((Some err, cr'), w3)
                       | Some (Inr _, w3) \<Rightarrow> Some ((None, cr'), w3))))"

section \<open>Lemmas\<close>

lemma label_prometheus_identity: "same_identity cr (label_prometheus cr)"
  by (simp add: same_identity_def label_prometheus_def)

lemma label_prometheus_sel [simp]:
  "o_spec (label_prometheus cr) = o_spec cr" "o_status (label_prometheus cr) = o_status cr"
  "o_namespace (label_prometheus cr) = o_namespace cr" "o_name (label_prometheus cr) = o_name cr"
  by (simp_all add: label_prometheus_def)

lemma label_prometheus_namespace [simp]:
  "GetPrometheusOperatorNamespace (label_prometheus cr) = GetPrometheusOperatorNamespace cr"
  by (simp add: GetPrometheusOperatorNamespace_def DescopedModeEnabled_def)

lemma reconcilePrometheus_identity:
  assumes "reconcilePrometheus E cr indexes h w = Some ((er, cr'), w')"
  shows "cr' = cr \<or> cr' = label_prometheus cr"
  using assms unfolding reconcilePrometheus_def
  by (auto simp: Let_def split: option.splits sum.splits prod.splits)

text \<open>Whatever the custom resource asks for, the retention handed on is one Prometheus accepts.\<close>

lemma retention_default: "retention_matches PrometheusRetention"
  by (simp add: retention_matches_def PrometheusRetention_def less_eq_char_def)

lemma getRetentionHelper_matches: "retention_matches (getRetentionHelper cr)"
  by (simp add: getRetentionHelper_def retention_default)

text \<open>Patterns that do not start with a quote are collected one by one, duplicates included.\<close>

definition plain :: "string \<Rightarrow> bool" where
  "plain p \<longleftrightarrow> (case p of [] \<Rightarrow> True | c # _ \<Rightarrow> c \<noteq> CHR 0x27)"

lemma plain_not_quoted: "plain p \<Longrightarrow> p \<noteq> quoted q"
  by (auto simp: plain_def quoted_def)

lemma add_patterns_plain:
  "list_all plain patterns \<Longrightarrow> result = map quoted ps \<Longrightarrow>
     add_patterns result patterns = map quoted (ps @ patterns)"
proof (induction patterns arbitrary: result ps)
  case Nil
  then show ?case by simp
next
  case (Cons p patterns)
  then have "\<not> list_ex (\<lambda>q. p = q) result" by (auto simp: list_ex_iff dest: plain_not_quoted)
  with Cons.prems Cons.IH [of "map quoted (ps @ [p])" "ps @ [p]"] show ?case by simp
qed

text \<open>Every token secret that a remote write mentions is mounted.\<close>

lemma prometheus_spec_mounts:
  "(spec, tokenSecret) \<in> set rws \<Longrightarrow> tokenSecret \<noteq> [] \<Longrightarrow>
     spec \<in> set (pm_remoteWrite (prometheus_spec cr indexes h host rws))
     \<and> tokenSecret \<in> set (pm_secrets (prometheus_spec cr indexes h host rws))"
  by (force simp: prometheus_spec_def)

text \<open>Where a target is made, its token secret has a name: the call for Dex does not panic.\<close>

lemma prometheus_secret_found:
  assumes "Option.bind (ix_Config index) rc_Prometheus = Some prometheus"
    and "GetObservatoriumConfig (Some index) (pi_Observatorium prometheus) = Some c"
  shows "GetObservatoriumPrometheusSecretName index = Some (GetObservatoriumTokenSecretName c)"
  using assms by (auto simp: GetObservatoriumPrometheusSecretName_def bind_Some_iff)

context kube_client begin

lemma touches_mutate_in:
  assumes "\<And>x. touches look K (f x)" and "key_of ob \<in> K"
  shows "touches look K (e_create_or_update E ob f)"
proof (rule touchesI)
  fix w r w'
  assume "e_create_or_update E ob f w = Some (r, w')"
  then obtain er rs where c: "e_create_or_update E ob f w = Some ((er, rs), w')" by (cases r) auto
  have "look w' k = look w k" if k: "k \<notin> K" for k
  proof (rule apply_frame_at [OF c])
    show "quiet_at look k f"
      unfolding quiet_at_def using touchesD [OF assms(1)] k unfolding only_def by blast
    show "k \<noteq> key_of ob" using k assms(2) by blast
  qed
  then show "only look K w w'" unfolding only_def by blast
qed

lemma federation_patterns_touches [touches_intros]: "touches look K (federation_patterns E result indexes)"
proof (induction indexes arbitrary: result)
  case Nil
  show ?case by (simp add: touches_intros)
next
  case (Cons index indexes)
  show ?case
    by (auto intro!: touches_intros Cons split: option.splits)
qed

lemma fetchFederationConfigs_touches [touches_intros]: "touches look K (fetchFederationConfigs E cr indexes)"
  unfolding fetchFederationConfigs_def by (rule touches_intros)+

lemma createAdditionalScrapeConfigSecret_touches [touches_intros]:
  "touches look foreign (createAdditionalScrapeConfigSecret E cr patterns)"
  unfolding createAdditionalScrapeConfigSecret_def
  by (rule touches_intros) (simp add: foreign_def model_obj_defs)

lemma GetDefaultBlackBoxConfig_frame:
  "GetDefaultBlackBoxConfig E cr w = (r, w') \<Longrightarrow> look w' = look w"
  by (auto simp: GetDefaultBlackBoxConfig_def GetBlackboxBearerToken_def Let_def
      split: prod.splits sum.splits bool.splits dest: get_frame)

lemma createBlackBoxConfig_touches [touches_intros]: "touches look foreign (createBlackBoxConfig E cr)"
proof (rule touchesI)
  fix w r w'
  assume eq: "createBlackBoxConfig E cr w = Some (r, w')"
  obtain cfg hash w1 where g: "GetDefaultBlackBoxConfig E cr w = ((cfg, hash), w1)" by (metis surj_pair)
  let ?m = "attempt (apply_pure E (GetPrometheusBlackBoxConfig cr)
    (set_body (BConfigMap (Some [(''black-box-config.yaml'', cfg)])))) (\<lambda>_. ret hash)"
  have "touches look foreign ?m"
    by (rule touches_intros | simp add: foreign_def model_obj_defs)+
  moreover from eq g have "?m w1 = Some (r, w')" by (simp add: createBlackBoxConfig_def)
  ultimately have "only look foreign w1 w'" by (rule touchesD)
  with same_look(1) [OF GetDefaultBlackBoxConfig_frame [OF g]] show "only look foreign w w'"
    by (rule only_trans)
qed

lemma getRemoteWriteIndex_touches [touches_intros]: "touches look K (getRemoteWriteIndex E index)"
  unfolding getRemoteWriteIndex_def by (rule touches_intros)+

lemma getRemoteWriteSpec_touches [touches_intros]: "touches look K (getRemoteWriteSpec E cr index rw)"
proof -
  have "touches look K (getRemoteWriteSpecForDex index c rw)"
    "touches look K (getRemoteWriteSpecForRedHat E cr index c rw)" for c
    unfolding getRemoteWriteSpecForDex_def getRemoteWriteSpecForRedHat_def Let_def by (rule touches_intros)+
  then show ?thesis
    unfolding getRemoteWriteSpec_def
    by (auto intro!: touches_intros split: ObservabilityAuthType.splits)
qed

lemma remote_writes_touches [touches_intros]: "touches look K (remote_writes E cr indexes)"
  by (induction indexes) (simp_all add: touches_intros)

lemma useExistingPVForVolumeClaim_touches [touches_intros]:
  "touches look foreign (useExistingPVForVolumeClaim E nm cr)"
  unfolding useExistingPVForVolumeClaim_def
  by (rule touches_post [where P = "\<lambda>pv. k_kind pv = KPersistentVolume"])
    (auto intro!: touches_intros simp: Inr_iffs foreign_def key_of_def set_body_def dest!: get_found look_key)

lemma prometheus_storage_touches [touches_intros]: "touches look foreign (prometheus_storage E cr indexes)"
  unfolding prometheus_storage_def existingPVC_def by (rule touches_intros)+

lemma prometheus_mutate_touches: "touches look foreign (prometheus_mutate E cr indexes spec ob)"
  unfolding prometheus_mutate_def
  by (rule touchesI) (auto split: option.splits sum.splits dest: touchesD [OF prometheus_storage_touches])

lemma removePVCPostMigration_touches [touches_intros]: "touches look foreign (removePVCPostMigration E cr)"
  unfolding removePVCPostMigration_def by (rule touches_intros) (simp add: foreign_def)

lemma reconcilePrometheus_touches: "touches look foreign (reconcilePrometheus E cr indexes h)"
proof (rule touchesI)
  fix w r w'
  assume eq: "reconcilePrometheus E cr indexes h w = Some (r, w')"
  have i: "touches look foreign (prometheus_inputs E cr indexes)"
    unfolding prometheus_inputs_def by (rule touches_intros)+
  have m: "touches look foreign (e_create_or_update E (GetPrometheus cr) (prometheus_mutate E cr indexes spec))" for spec
    by (rule touches_mutate_in [OF prometheus_mutate_touches]) (simp add: foreign_def model_obj_defs)
  obtain ri w1 where pi: "prometheus_inputs E cr indexes w = Some (ri, w1)"
    using eq by (auto simp: reconcilePrometheus_def split: option.splits)
  show "only look foreign w w'"
  proof (cases ri)
    case (Inl e)
    with eq pi touchesD [OF i pi] show ?thesis by (simp add: reconcilePrometheus_def)
  next
    case (Inr p)
    obtain host rws where p: "p = (host, rws)" by fastforce
    let ?f = "prometheus_mutate E cr indexes (prometheus_spec cr indexes h host rws)"
    from eq pi Inr p obtain er rs w2 where c: "e_create_or_update E (GetPrometheus cr) ?f w1 = Some ((er, rs), w2)"
      by (auto simp: reconcilePrometheus_def split: option.splits)
    have f2: "only look foreign w w2" by (rule only_trans [OF touchesD [OF i pi] touchesD [OF m c]])
    show ?thesis
    proof (cases er)
      case (Some e)
      with eq pi Inr p c f2 show ?thesis by (simp add: reconcilePrometheus_def Let_def)
    next
      case None
      with eq pi Inr p c obtain cr' r3 where "removePVCPostMigration E cr' w2 = Some (r3, w')"
        by (auto simp: reconcilePrometheus_def Let_def split: option.splits sum.splits)
      from f2 touchesD [OF removePVCPostMigration_touches this] show ?thesis by (rule only_trans)
    qed
  qed
qed

text \<open>The old claim is gone once the instance has been reconciled.\<close>

lemma removePVCPostMigration_gone:
  assumes "removePVCPostMigration E cr w = Some (Inr u, w')"
  shows "gone (look w') (KPersistentVolumeClaim, GetPrometheusOperatorNamespace cr, old_claim)"
  using delete_if_present_gone [OF assms [unfolded removePVCPostMigration_def]] by simp

lemma reconcilePrometheus_old_claim:
  assumes "reconcilePrometheus E cr indexes h w = Some ((None, cr'), w')"
  shows "gone (look w') (KPersistentVolumeClaim, GetPrometheusOperatorNamespace cr, old_claim)"
proof -
  from assms obtain u w2 where "removePVCPostMigration E cr' w2 = Some (Inr u, w')"
    and "cr' = cr \<or> cr' = label_prometheus cr"
    using reconcilePrometheus_identity [OF assms]
    by (auto simp: reconcilePrometheus_def Let_def split: option.splits sum.splits prod.splits)
  with removePVCPostMigration_gone show ?thesis by fastforce
qed

end

section \<open>Properties\<close>

text \<open>
  C21: without an OAuth2 secret, the metrics of an index behind single sign-on are written to
  the service its token refresher is created with, in the namespace that service lives in.
\<close>

theorem remote_write_to_refresher:
  assumes "getRemoteWriteSpec E cr index rw w = Some (Inr (spec, tokenSecret), w')"
    and "Option.bind (ix_Config index) rc_Prometheus = Some prometheus"
    and "GetObservatoriumConfig (Some index) (pi_Observatorium prometheus) = Some observatorium"
    and "oi_AuthType observatorium = AuthTypeRedhat" and "rw_oauth2 spec = None"
    and "getTokenRefresherConfigSetFor E MetricsTokenRefresher observatorium = Inr (Some config)"
    and "service = GetTokenRefresherService cr (tr_Name config)"
  shows "rw_url spec = ''http://'' @ ob_name service @ ''.'' @ ob_namespace service @ ''.svc.cluster.local''
    \<and> tokenSecret = []"
proof -
  from assms(1-4) have "getRemoteWriteSpecForRedHat E cr index observatorium rw w = Some (Inr (spec, tokenSecret), w')"
    by (auto simp: getRemoteWriteSpec_def throw_def split: if_splits)
  with assms(5) have "rw_url spec = ''http://'' @ GetTokenRefresherName (oi_Id observatorium) MetricsTokenRefresher
      @ ''.'' @ GetPrometheusOperatorNamespace cr @ ''.svc.cluster.local''" and "tokenSecret = []"
    by (auto simp: getRemoteWriteSpecForRedHat_def Inr_iffs Let_def)
  with config_set_name [OF assms(6)] assms(7) show ?thesis
    by (simp add: GetTokenRefresherService_def named_obj_def)
qed

definition sso_index :: RepositoryIndex where
  "sso_index = sample_index ''ix'' (sample_config\<lparr>rc_Observatoria := Some [sample_sso]\<rparr>)"

theorem remote_write_to_refresher_witness:
  "\<exists>spec w' config. getRemoteWriteSpec sample_env sample_cr sso_index sample_remote_write (sample_world []) = Some (Inr (spec, []), w')
     \<and> getTokenRefresherConfigSetFor sample_env MetricsTokenRefresher sample_sso = Inr (Some config)
     \<and> rw_url spec = ''http://'' @ ob_name (GetTokenRefresherService sample_cr (tr_Name config)) @ ''.''
          @ ob_namespace (GetTokenRefresherService sample_cr (tr_Name config)) @ ''.svc.cluster.local''"
proof -
  let ?run = "getRemoteWriteSpec sample_env sample_cr sso_index sample_remote_write (sample_world [])"
  have "succeeded ?run (\<lambda>(spec, tok) _. rw_oauth2 spec = None)" by code_simp
  then obtain spec tok w' where run: "?run = Some (Inr (spec, tok), w')" and o: "rw_oauth2 spec = None"
    unfolding succeeded_iff by auto
  have "case getTokenRefresherConfigSetFor sample_env MetricsTokenRefresher sample_sso of Inr (Some _) \<Rightarrow> True | _ \<Rightarrow> False"
    by code_simp
  then obtain config where c: "getTokenRefresherConfigSetFor sample_env MetricsTokenRefresher sample_sso = Inr (Some config)"
    by (auto split: sum.splits option.splits)
  have p: "Option.bind (ix_Config sso_index) rc_Prometheus = Some (zero_prometheus_index\<lparr>pi_Observatorium := ''a''\<rparr>)"
    "GetObservatoriumConfig (Some sso_index) (pi_Observatorium (zero_prometheus_index\<lparr>pi_Observatorium := ''a''\<rparr>)) = Some sample_sso"
    "oi_AuthType sample_sso = AuthTypeRedhat" by code_simp+
  from remote_write_to_refresher [OF run p o c refl] run c show ?thesis by auto
qed

lemma remote_write_token:
  assumes "getRemoteWriteSpec E cr index rw w = Some (Inr (spec, tokenSecret), w')" and "rw_bearerTokenFile spec \<noteq> []"
  shows "tokenSecret \<noteq> [] \<and> rw_bearerTokenFile spec = ''/etc/prometheus/secrets/'' @ tokenSecret @ ''/token''"
proof -
  from assms obtain observatorium where "getRemoteWriteSpecForDex index observatorium rw w = Some (Inr (spec, tokenSecret), w')"
    by (auto simp: getRemoteWriteSpec_def getRemoteWriteSpecForRedHat_def Inr_iffs throw_def Let_def
        split: option.splits if_splits ObservabilityAuthType.splits)
  moreover have "GetObservatoriumPrometheusSecretName index = Some s \<Longrightarrow> s \<noteq> []" for s
    by (auto simp: GetObservatoriumPrometheusSecretName_def GetObservatoriumTokenSecretName_def bind_Some_iff)
  ultimately show ?thesis
    by (auto simp: getRemoteWriteSpecForDex_def Inr_iffs need_def panic_def ret_def split: option.splits)
qed

lemma remote_writes_made:
  "remote_writes E cr indexes w = Some (Inr rws, w') \<Longrightarrow> p \<in> set rws \<Longrightarrow>
     \<exists>index \<in> set indexes. \<exists>rw v v'. getRemoteWriteSpec E cr index rw v = Some (Inr p, v')"
  by (induction indexes arbitrary: w rws) (auto simp: Inr_iffs split: option.splits, blast+)

text \<open>
  C20: every bearer token file a remote write target names lies in a secret that is mounted into the
  Prometheus pods.
\<close>

theorem remote_write_tokens_mounted:
  assumes "remote_writes E cr indexes w = Some (Inr rws, w')"
    and "spec \<in> set (pm_remoteWrite (prometheus_spec cr indexes h host rws))" and "rw_bearerTokenFile spec \<noteq> []"
  shows "\<exists>secret \<in> set (pm_secrets (prometheus_spec cr indexes h host rws)).
    rw_bearerTokenFile spec = ''/etc/prometheus/secrets/'' @ secret @ ''/token''"
proof -
  from assms(2) obtain tokenSecret where p: "(spec, tokenSecret) \<in> set rws"
    by (auto simp: prometheus_spec_def)
  from remote_writes_made [OF assms(1) p] obtain index :: RepositoryIndex and rw v v' where
    "getRemoteWriteSpec E cr index rw v = Some (Inr (spec, tokenSecret), v')" by blast
  from remote_write_token [OF this assms(3)] prometheus_spec_mounts [OF p, of cr indexes h host]
  show ?thesis by blast
qed

definition dex_index :: RepositoryIndex where
  "dex_index = sample_index ''ix'' (sample_config\<lparr>rc_Prometheus :=
     Some (zero_prometheus_index\<lparr>pi_Observatorium := ''a'', pi_RemoteWrite := ''rw.yaml''\<rparr>)\<rparr>)"

definition dex_world :: mem where
  "dex_world = (sample_world [])\<lparr>mw_http :=
     [(''http://repo/rw.yaml'', \<lparr>hp_status = 200, hp_statusLine = ''200 OK'', hp_body = Inr []\<rparr>)]\<rparr>"

theorem remote_write_tokens_mounted_witness:
  "\<exists>rws w'. remote_writes sample_env sample_cr [dex_index] dex_world = Some (Inr rws, w')
     \<and> (\<exists>spec \<in> set (pm_remoteWrite (prometheus_spec sample_cr [dex_index] [] [] rws)).
          \<exists>secret \<in> set (pm_secrets (prometheus_spec sample_cr [dex_index] [] [] rws)).
            rw_bearerTokenFile spec = ''/etc/prometheus/secrets/'' @ secret @ ''/token'')"
proof -
  let ?run = "remote_writes sample_env sample_cr [dex_index] dex_world"
  have "succeeded ?run (\<lambda>rws _. list_ex (\<lambda>(spec, tok). rw_bearerTokenFile spec \<noteq> []) rws)" by code_simp
  then obtain rws w' where run: "?run = Some (Inr rws, w')" and "list_ex (\<lambda>(spec, tok). rw_bearerTokenFile spec \<noteq> []) rws"
    unfolding succeeded_iff by auto
  then obtain spec where s: "spec \<in> fst ` set rws" "rw_bearerTokenFile spec \<noteq> []"
    by (force simp: list_ex_iff)
  have "spec \<in> set (pm_remoteWrite (prometheus_spec sample_cr [dex_index] [] [] rws))"
    using s(1) by (simp add: prometheus_spec_def)
  with remote_write_tokens_mounted [OF run this s(2)] run show ?thesis by blast
qed

text \<open>
  C30: the retention of the Prometheus instance is always one that Prometheus accepts: digits
  and a unit.
\<close>

theorem retention_accepted:
  "\<exists>digits unit. pm_retention (prometheus_spec cr indexes h host rws) = digits @ unit \<and> digits \<noteq> []
     \<and> list_all (\<lambda>c. CHR ''0'' \<le> c \<and> c \<le> CHR ''9'') digits
     \<and> unit \<in> {''ms'', ''y'', ''w'', ''d'', ''h'', ''m'', ''s''}"
proof -
  let ?digit = "\<lambda>c. CHR ''0'' \<le> c \<and> c \<le> CHR ''9''" and ?r = "getRetentionHelper cr"
  have "pm_retention (prometheus_spec cr indexes h host rws) = ?r" by (simp add: prometheus_spec_def)
  moreover have "list_all ?digit (takeWhile ?digit ?r)" by (auto simp: list_all_iff dest: set_takeWhileD)
  ultimately show ?thesis
    using getRetentionHelper_matches [of cr] takeWhile_dropWhile_id [of ?digit ?r]
    unfolding retention_matches_def
    by (intro exI [of _ "takeWhile ?digit ?r"] exI [of _ "dropWhile ?digit ?r"]) simp
qed

text \<open>
  C40: the federation patterns of an index are all added, in order and quoted, even those that are
  there already: the test for a pattern that is already present never succeeds on patterns
  without quotes of their own.
\<close>

theorem federation_patterns_kept:
  assumes "list_all plain patterns"
  shows "add_patterns (map quoted present) patterns = map quoted (present @ patterns)"
  by (rule add_patterns_plain [OF assms]) simp

theorem federation_patterns_kept_witness:
  "add_patterns (map quoted [''up'']) [''up'', ''up''] = map quoted [''up'', ''up'', ''up'']"
  using federation_patterns_kept [of "[''up'', ''up'']" "[''up'']"] by (simp add: plain_def)

text \<open>
  C28: a Prometheus instance that was reconciled without an error leaves no claim of the old
  instance behind, and changes no object of the kind of the custom resource.
\<close>

theorem old_volume_claim_removed:
  assumes "kube_client E look" and "reconcilePrometheus E cr indexes h w = Some ((None, cr'), w')"
  shows "gone (look w') (KPersistentVolumeClaim, GetPrometheusOperatorNamespace cr, old_claim)
    \<and> only look foreign w w'"
  using kube_client.reconcilePrometheus_old_claim [OF assms]
    touchesD [OF kube_client.reconcilePrometheus_touches [OF assms(1)] assms(2)] by blast

theorem old_volume_claim_removed_witness:
  "\<exists>cr' w'. reconcilePrometheus sample_env sample_cr [] []
       (sample_world [named_obj KPersistentVolumeClaim ''ops'' old_claim]) = Some ((None, cr'), w')
     \<and> gone (mem_look w') (KPersistentVolumeClaim, ''ops'', old_claim)"
proof -
  let ?run = "reconcilePrometheus sample_env sample_cr [] [] (sample_world [named_obj KPersistentVolumeClaim ''ops'' old_claim])"
  have "returned ?run (\<lambda>((er, _), _). er = None)" by code_simp
  then obtain cr' w' where run: "?run = Some ((None, cr'), w')" unfolding returned_iff by auto
  have "GetPrometheusOperatorNamespace sample_cr = ''ops''" by code_simp
  with old_volume_claim_removed [OF sample_env_client, OF run] run show ?thesis by simp
qed

end
