(* ===== verification/Cfg_Alertmanager.thy ===== *)
theory Cfg_Alertmanager
  imports Cfg_Workloads Cfg_Resources
begin

text \<open>
  \<^verbatim>\<open>controllers/reconcilers/configuration/alertmanager.go\<close>: the Alertmanager instance and the
  secret with its configuration document, built from the receivers of all indexes.
\<close>

section \<open>The instance\<close>

definition alertmanager_proxy :: "Observability \<Rightarrow> Container" where
  "alertmanager_proxy cr = zero_container\<lparr>
     ct_name := ''oauth-proxy'',
     ct_image := GetOriginOauthProxyImage cr,
     ct_args := [''-provider=openshift'', ''-https-address=:9091'', ''-http-address='', ''-email-domain=*'',
       ''-upstream=http://localhost:9093'', sar_arg, delegate_arg,
       ''-tls-cert=/etc/tls/private/tls.crt'', ''-tls-key=/etc/tls/private/tls.key'',
       ''-client-secret-file=/var/run/secrets/kubernetes.io/serviceaccount/token'',
       ''-cookie-secret-file=/etc/proxy/secrets/session_secret'',
       ''-openshift-service-account='' @ ob_name (GetAlertmanagerServiceAccount cr),
       ''-openshift-ca=/etc/pki/tls/cert.pem'',
       ''-openshift-ca=/var/run/secrets/kubernetes.io/serviceaccount/ca.crt'',
       ''-skip-auth-regex=^/metrics''],
     ct_ports := [\<lparr>cp_name = ''proxy'', cp_port = 9091, cp_protocol = []\<rparr>],
     ct_env := map (\<lambda>n. \<lparr>ev_name = n, ev_value = [], ev_fieldPath = None\<rparr>) [''HTTP_PROXY'', ''HTTPS_PROXY'', ''NO_PROXY''],
     ct_mounts := [\<lparr>vm_name = ''secret-alertmanager-k8s-tls'', vm_path = ''/etc/tls/private''\<rparr>,
                   \<lparr>vm_name = ''secret-'' @ ob_name (GetAlertmanagerProxySecret cr), vm_path = ''/etc/proxy/secrets''\<rparr>]\<rparr>"

definition alertmanager_spec :: "Observability \<Rightarrow> string \<Rightarrow> AlertmanagerSpec" where
  "alertmanager_spec cr host =
     \<lparr>am_podAnnotations = Some [(''cluster-autoscaler.kubernetes.io/safe-to-evict'', ''true'')],
      am_configSecret = GetAlertmanagerSecretName cr,
      am_listenLocal = True,
      am_externalURL = ''https://'' @ host,
      am_serviceAccount = ob_name (GetAlertmanagerServiceAccount cr),
      am_secrets = [ob_name (GetAlertmanagerProxySecret cr), ''alertmanager-k8s-tls''],
      am_priorityClass = ObservabilityPriorityClassName,
      am_containers = [alertmanager_proxy cr],
      am_version = GetAlertmanagerVersion cr,
      am_resources = GetAlertmanagerResourceRequirement cr,
      am_storage = None\<rparr>"

text \<open>A custom size is only checked for being a quantity; the specification is returned as it is.\<close>

definition getAlertManagerStorageSpecHelper ::
  "'w env \<Rightarrow> Observability \<Rightarrow> RepositoryIndex list \<Rightarrow> StorageSpec \<Rightarrow> goerr + StorageSpec" where
  "getAlertManagerStorageSpecHelper E cr indexes alertManagerStorageSpec =
     (let customStorageSize = GetAlertmanagerStorageSize cr indexes
      in if customStorageSize = [] then Inr alertManagerStorageSpec
         else case e_parse_quantity E customStorageSize of
                Inl err \<Rightarrow> Inl err
              | Inr _ \<Rightarrow> Inr alertManagerStorageSpec)"

definition alertmanager_mutate ::
  "'w env \<Rightarrow> Observability \<Rightarrow> RepositoryIndex list \<Rightarrow> string \<Rightarrow> 'w mutator" where
  "alertmanager_mutate E cr indexes host alertmanager w =
     (let spec = alertmanager_spec cr host
      in case Option.bind (sp_Storage (o_spec cr)) sg_AlertManagerStorageSpec of
           None \<Rightarrow> Some ((None, set_body (BAlertmanager spec) alertmanager), w)
         | Some ss \<Rightarrow>
             (case getAlertManagerStorageSpecHelper E cr indexes ss of
                Inl err \<Rightarrow> Some ((Some err, set_body (BAlertmanager spec) alertmanager), w)
              | Inr storage \<Rightarrow>
                  Some ((None, set_body (BAlertmanager (spec\<lparr>am_storage := Some storage\<rparr>)) alertmanager), w)))"

definition reconcileAlertmanager :: "'w env \<Rightarrow> Observability \<Rightarrow> RepositoryIndex list \<Rightarrow> ('w, unit) go" where
  "reconcileAlertmanager E cr indexes =
     attempt (ready_host E (GetAlertmanagerRoute cr)) (\<lambda>host.
     attempt (mutate E (GetAlertmanagerCr cr) (alertmanager_mutate E cr indexes host)) (\<lambda>_. ret ()))"

section \<open>The secrets of the receivers\<close>

text \<open>The value of the first of two keys that is not empty.\<close>

definition first_key :: "gomap \<Rightarrow> string \<Rightarrow> string \<Rightarrow> string" where
  "first_key dat k k' =
     (if length (mget dat k) \<noteq> 0 then mget dat k
      else if length (mget dat k') \<noteq> 0 then mget dat k' else [])"

definition getPagerDutySecret :: "'w env \<Rightarrow> Observability \<Rightarrow> AlertmanagerIndex option \<Rightarrow> ('w, string) go" where
  "getPagerDutySecret E cr config =
     (case config of
        None \<Rightarrow> ret ''dummy''
      | Some c \<Rightarrow>
          if ai_PagerDutySecretName c = [] then ret ''dummy''
          else let ns = (if ai_PagerDutySecretNamespace c \<noteq> [] then ai_PagerDutySecretNamespace c else o_namespace cr)
               in attempt (call (e_get E KSecret ns (ai_PagerDutySecretName c))) (\<lambda>pagerdutySecret.
                  ret (first_key (sec_data (secret_of (k_body pagerdutySecret))) ''PAGERDUTY_KEY'' ''serviceKey'')))"

definition getDeadMansSnitchUrl :: "'w env \<Rightarrow> Observability \<Rightarrow> AlertmanagerIndex option \<Rightarrow> ('w, string) go" where
  "getDeadMansSnitchUrl E cr config =
     (case config of
        None \<Rightarrow> ret ''http://dummy''
      | Some c \<Rightarrow>
          if ai_DeadmansSnitchSecretName c = [] then ret ''http://dummy''
          else let ns = (if ai_DeadmansSnitchSecretNamespace c \<noteq> [] then ai_DeadmansSnitchSecretNamespace c
                         else o_namespace cr)
               in attempt (call (e_get E KSecret ns (ai_DeadmansSnitchSecretName c))) (\<lambda>dmsSecret.
                  ret (first_key (sec_data (secret_of (k_body dmsSecret))) ''SNITCH_URL'' ''url'')))"

definition getSmtpSecret :: "'w env \<Rightarrow> Observability \<Rightarrow> AlertmanagerIndex option \<Rightarrow> ('w, smap) go" where
  "getSmtpSecret E cr config =
     (case config of
        None \<Rightarrow> ret []
      | Some c \<Rightarrow>
          if ai_SmtpSecretName c = [] then ret []
          else let ns = (if ai_SmtpSecretNamespace c \<noteq> [] then ai_SmtpSecretNamespace c else o_namespace cr)
               in attempt (call (e_get E KSecret ns (ai_SmtpSecretName c))) (\<lambda>SmtpSecret.
                  let dat = sec_data (secret_of (k_body SmtpSecret))
                  in ret (map (\<lambda>k. (k, mget dat k))
                            (filter (\<lambda>k. length (mget dat k) \<noteq> 0) [''password'', ''username'', ''host'', ''port'']))))"

section \<open>The configuration document\<close>

text \<open>
  \<open>indexes[0].Config.Alertmanager\<close>, whose fields are read as soon as SMTP is enabled:
  \<open>None\<close> is the panic of an empty list or of a nil pointer on the way.
\<close>

definition first_alertmanager :: "RepositoryIndex list \<Rightarrow> AlertmanagerIndex option" where
  "first_alertmanager indexes =
     (case indexes of [] \<Rightarrow> None | index # _ \<Rightarrow> Option.bind (ix_Config index) rc_Alertmanager)"

definition base_global :: AlertmanagerConfigGlobal where
  "base_global = \<lparr>ag_ResolveTimeout = ''5m'', ag_SmtpSmartHost = [], ag_SmtpFrom = [],
     ag_SmtpAuthUserName = [], ag_SmtpAuthPassword = [], ag_SmtpRequireTls = False\<rparr>"

definition createGlobalConfig ::
  "'w env \<Rightarrow> Observability \<Rightarrow> RepositoryIndex list \<Rightarrow> ('w, AlertmanagerConfigGlobal) go" where
  "createGlobalConfig E cr indexes =
     (if SmtpDisabled cr then ret base_global
      else attempt (need (first_alertmanager indexes)) (\<lambda>am.
        if ai_SmtpToEmailAddress am = [] \<or> ai_SmtpFromEmailAddress am = [] then ret base_global
        else attempt (getSmtpSecret E cr (Some am)) (\<lambda>smtp.
          let smtpSecret = (if length smtp = 0
                            then [(''password'', ''dummy''), (''username'', ''dummy''), (''host'', ''dummy''), (''port'', ''dummy'')]
                            else smtp)
          in ret (base_global\<lparr>
               ag_SmtpAuthUserName := mget (Some smtpSecret) ''username'',
               ag_SmtpAuthPassword := mget (Some smtpSecret) ''password'',
               ag_SmtpSmartHost := mget (Some smtpSecret) ''host'' @ '':'' @ mget (Some smtpSecret) ''port'',
               ag_SmtpFrom := ai_SmtpFromEmailAddress am\<rparr>))))"

text \<open>Every receiver is appended together with the route that leads to it.\<close>

type_synonym receiver_route = "AlertmanagerConfigReceiver \<times> AlertmanagerConfigRoute"

definition pagerduty_receiver :: "string \<Rightarrow> string \<Rightarrow> receiver_route" where
  "pagerduty_receiver ident key =
     (\<lparr>re_Name = ident @ ''-'' @ ''pagerduty'', re_PagerDutyConfigs = [key], re_WebhookConfigs = [], re_EmailConfig = []\<rparr>,
      AlertmanagerConfigRoute (ident @ ''-'' @ ''pagerduty'') []
        (Some [(''severity'', ''critical''), (PrometheusRuleIdentifierKey, ident)]) [])"

definition deadmanssnitch_receiver :: "string \<Rightarrow> string \<Rightarrow> receiver_route" where
  "deadmanssnitch_receiver ident url =
     (\<lparr>re_Name = ident @ ''-'' @ ''deadmanssnitch'', re_PagerDutyConfigs = [], re_WebhookConfigs = [url], re_EmailConfig = []\<rparr>,
      AlertmanagerConfigRoute (ident @ ''-'' @ ''deadmanssnitch'') ''5m''
        (Some [(''alertname'', ''DeadMansSwitch''), (PrometheusRuleIdentifierKey, ident)]) [])"

definition smtp_receiver :: "string \<Rightarrow> string \<Rightarrow> receiver_route" where
  "smtp_receiver ident addr =
     (\<lparr>re_Name = ident @ ''-'' @ ''smtp'', re_PagerDutyConfigs = [], re_WebhookConfigs = [],
       re_EmailConfig = [\<lparr>em_SendResolved = True, em_To = addr, em_Subject = [], em_Html = []\<rparr>]\<rparr>,
      AlertmanagerConfigRoute (ident @ ''-'' @ ''smtp'') []
        (Some [(''severity'', ''warning''), (PrometheusRuleIdentifierKey, ident)]) [])"

definition smtp_receivers :: "Observability \<Rightarrow> string \<Rightarrow> AlertmanagerIndex \<Rightarrow> receiver_route list" where
  "smtp_receivers cr ident am =
     (if \<not> SmtpDisabled cr \<and> length (ai_SmtpToEmailAddress am) > 0 \<and> ai_SmtpFromEmailAddress am \<noteq> []
      then let addr = (if length (ai_SmtpToEmailAddress am) > 1 then Join (ai_SmtpToEmailAddress am) '',''
                       else ai_SmtpToEmailAddress am ! 0)
           in [smtp_receiver ident addr]
      else [])"

text \<open>A secret that cannot be read ends the index with \<^verbatim>\<open>continue\<close>: what was appended before stays.\<close>

definition pagerduty_receivers ::
  "'w env \<Rightarrow> Observability \<Rightarrow> string \<Rightarrow> AlertmanagerIndex \<Rightarrow> ('w, receiver_route list option) go" where
  "pagerduty_receivers E cr ident am =
     (if PagerDutyDisabled cr then ret (Some [])
      else attempt (recovered (getPagerDutySecret E cr (Some am))) (\<lambda>key.
           ret (map_option (\<lambda>k. [pagerduty_receiver ident k]) key)))"

definition deadmanssnitch_receivers ::
  "'w env \<Rightarrow> Observability \<Rightarrow> string \<Rightarrow> AlertmanagerIndex \<Rightarrow> ('w, receiver_route list option) go" where
  "deadmanssnitch_receivers E cr ident am =
     (if DeadMansSnitchDisabled cr then ret (Some [])
      else attempt (recovered (getDeadMansSnitchUrl E cr (Some am))) (\<lambda>url.
           ret (map_option (\<lambda>u. [deadmanssnitch_receiver ident u]) url)))"

definition index_receivers :: "'w env \<Rightarrow> Observability \<Rightarrow> RepositoryIndex \<Rightarrow> ('w, receiver_route list) go" where
  "index_receivers E cr index =
     (case Option.bind (ix_Config index) rc_Alertmanager of
        None \<Rightarrow> ret []
      | Some am \<Rightarrow>
          attempt (pagerduty_receivers E cr (ix_Id index) am) (\<lambda>pagerduty.
          case pagerduty of
            None \<Rightarrow> ret []
          | Some pds \<Rightarrow>
              attempt (deadmanssnitch_receivers E cr (ix_Id index) am) (\<lambda>deadmans.
              case deadmans of
                None \<Rightarrow> ret pds
              | Some dms \<Rightarrow> ret (pds @ dms @ smtp_receivers cr (ix_Id index) am))))"

fun all_receivers :: "'w env \<Rightarrow> Observability \<Rightarrow> RepositoryIndex list \<Rightarrow> ('w, receiver_route list) go" where
  "all_receivers E cr [] = ret []"
| "all_receivers E cr (index # indexes) =
     attempt (index_receivers E cr index) (\<lambda>rs.
     attempt (all_receivers E cr indexes) (\<lambda>rest. ret (rs @ rest)))"

definition alertmanager_root :: "AlertmanagerConfigGlobal \<Rightarrow> receiver_route list \<Rightarrow> AlertmanagerConfigRoot" where
  "alertmanager_root globalConfig rs =
     \<lparr>ac_Global = Some globalConfig,
      ac_Route = Some (AlertmanagerConfigRoute ''default-receiver'' ''12h'' None (map snd rs)),
      ac_Receivers = \<lparr>re_Name = ''default-receiver'', re_PagerDutyConfigs = [], re_WebhookConfigs = [], re_EmailConfig = []\<rparr>
        # map fst rs\<rparr>"

definition reconcileAlertmanagerSecret :: "'w env \<Rightarrow> Observability \<Rightarrow> RepositoryIndex list \<Rightarrow> ('w, unit) go" where
  "reconcileAlertmanagerSecret E cr indexes =
     attempt (createGlobalConfig E cr indexes) (\<lambda>globalConfig.
     attempt (all_receivers E cr indexes) (\<lambda>rs.
     attempt (value_of (e_encode_alertmanager E (alertmanager_root globalConfig rs))) (\<lambda>configBytes.
     apply_pure E (GetAlertmanagerSecret cr) (\<lambda>secret.
       set_body (BSecret ((secret_of (k_body secret))\<lparr>
         sec_type := ''Opaque'', sec_stringData := Some [(''alertmanager.yaml'', configBytes)]\<rparr>)) secret))))"

section \<open>Lemmas\<close>

text \<open>What Alertmanager asks of a configuration: unique receivers, and routes to declared ones only.\<close>

definition sound_root :: "AlertmanagerConfigRoot \<Rightarrow> bool" where
  "sound_root root \<longleftrightarrow>
     (let names = map re_Name (ac_Receivers root)
      in distinct names
         \<and> (case ac_Route root of
              None \<Rightarrow> False
            | Some r \<Rightarrow> ro_Receiver r \<in> set names \<and> list_all (\<lambda>x. ro_Receiver x \<in> set names) (ro_Routes r)))"

definition receiver_names :: "string \<Rightarrow> string set" where
  "receiver_names ident = {ident @ ''-pagerduty'', ident @ ''-deadmanssnitch'', ident @ ''-smtp''}"

lemma receiver_names_last: "n \<in> receiver_names ident \<Longrightarrow> last n = CHR ''y'' \<or> last n = CHR ''h'' \<or> last n = CHR ''p''"
  by (auto simp: receiver_names_def)

lemma receiver_names_distinct:
  "distinct [ident @ ''-pagerduty'', ident @ ''-deadmanssnitch'', ident @ ''-smtp'']"
  by simp

lemma receiver_names_disjoint:
  assumes "n \<in> receiver_names a" and "n \<in> receiver_names b"
  shows "a = b"
proof -
  have no: "x @ ''-pagerduty'' \<noteq> y @ ''-deadmanssnitch''" "x @ ''-pagerduty'' \<noteq> y @ ''-smtp''"
    "x @ ''-deadmanssnitch'' \<noteq> y @ ''-smtp''" for x y :: string
    by (auto dest: arg_cong [of _ _ last])
  from assms show ?thesis
    unfolding receiver_names_def using no by (auto simp: no [symmetric])
qed

lemma receiver_names_default: "''default-receiver'' \<notin> receiver_names ident"
  using receiver_names_last [of "''default-receiver''" ident] by auto

text \<open>
  The receivers of one index: routes lead to their own receivers, whose names carry its id, and
  take only alerts labelled with it.
\<close>

definition owned_receivers :: "string \<Rightarrow> receiver_route list \<Rightarrow> bool" where
  "owned_receivers ident rs \<longleftrightarrow>
     list_all (\<lambda>p. ro_Receiver (snd p) = re_Name (fst p)) rs
     \<and> distinct (map (\<lambda>p. re_Name (fst p)) rs)
     \<and> (\<lambda>p. re_Name (fst p)) ` set rs \<subseteq> receiver_names ident
     \<and> list_all (\<lambda>p. mlookup (ro_Match (snd p)) PrometheusRuleIdentifierKey = Some ident) rs"

lemmas receiver_defs = pagerduty_receiver_def deadmanssnitch_receiver_def smtp_receiver_def

lemma receivers_forms:
  "pagerduty_receivers E cr ident am w = Some (Inr (Some pds), w') \<Longrightarrow> pds = [] \<or> (\<exists>k. pds = [pagerduty_receiver ident k])"
  "deadmanssnitch_receivers E cr ident am w = Some (Inr (Some dms), w') \<Longrightarrow> dms = [] \<or> (\<exists>u. dms = [deadmanssnitch_receiver ident u])"
  "smtp_receivers cr ident am = [] \<or> (\<exists>a. smtp_receivers cr ident am = [smtp_receiver ident a])"
  by (auto simp: pagerduty_receivers_def deadmanssnitch_receivers_def smtp_receivers_def Inr_iffs Let_def
      split: if_splits option.splits)

lemma receivers_owned:
  assumes "pds = [] \<or> (\<exists>k. pds = [pagerduty_receiver ident k])"
    and "dms = [] \<or> (\<exists>u. dms = [deadmanssnitch_receiver ident u])"
    and "ss = [] \<or> (\<exists>a. ss = [smtp_receiver ident a])"
  shows "owned_receivers ident (pds @ dms @ ss)"
proof -
  have "owned_receivers ident [pagerduty_receiver ident k, deadmanssnitch_receiver ident u, smtp_receiver ident a]" for k u a
    by (simp add: owned_receivers_def receiver_defs receiver_names_def gomap_defs PrometheusRuleIdentifierKey_def)
  with assms show ?thesis unfolding owned_receivers_def by fastforce
qed

lemma index_receivers_owned:
  assumes "index_receivers E cr index w = Some (Inr rs, w')"
  shows "owned_receivers (ix_Id index) rs"
proof -
  let ?id = "ix_Id index"
  have nil: "owned_receivers ?id []" by (simp add: owned_receivers_def)
  from assms consider "rs = []"
    | am w1 where "pagerduty_receivers E cr ?id am w = Some (Inr (Some rs), w1)"
    | am pds dms w1 w2 where "pagerduty_receivers E cr ?id am w = Some (Inr (Some pds), w1)"
        "deadmanssnitch_receivers E cr ?id am w1 = Some (Inr (Some dms), w2)"
        "rs = pds @ dms @ smtp_receivers cr ?id am"
    unfolding index_receivers_def by (auto simp: Inr_iffs split: option.splits)
  then show ?thesis
  proof cases
    case 1
    with nil show ?thesis by simp
  next
    case 2
    from receivers_owned [OF receivers_forms(1) [OF 2], of "[]" "[]"] show ?thesis by simp
  next
    case (3 am pds dms w1 w2)
    from receivers_owned [OF receivers_forms(1) [OF 3(1)] receivers_forms(2) [OF 3(2)] receivers_forms(3)] 3(3)
    show ?thesis by simp
  qed
qed

lemma all_receivers_sound:
  "all_receivers E cr indexes w = Some (Inr rs, w') \<Longrightarrow> distinct (map ix_Id indexes) \<Longrightarrow>
     list_all (\<lambda>p. ro_Receiver (snd p) = re_Name (fst p)) rs
     \<and> distinct (map (\<lambda>p. re_Name (fst p)) rs)
     \<and> (\<lambda>p. re_Name (fst p)) ` set rs \<subseteq> \<Union> (receiver_names ` ix_Id ` set indexes)"
proof (induction indexes arbitrary: w rs)
  case Nil
  then show ?case by (simp add: Inr_iffs)
next
  case (Cons index indexes)
  from Cons.prems(1) obtain r1 w1 r2 where i: "index_receivers E cr index w = Some (Inr r1, w1)"
    and a: "all_receivers E cr indexes w1 = Some (Inr r2, w')" and rs: "rs = r1 @ r2"
    by (auto simp: Inr_iffs)
  note o1 = index_receivers_owned [OF i, unfolded owned_receivers_def]
  from Cons.IH [OF a] Cons.prems(2)
  have o2: "list_all (\<lambda>p. ro_Receiver (snd p) = re_Name (fst p)) r2"
    "distinct (map (\<lambda>p. re_Name (fst p)) r2)"
    "(\<lambda>p. re_Name (fst p)) ` set r2 \<subseteq> \<Union> (receiver_names ` ix_Id ` set indexes)" by auto
  have "receiver_names (ix_Id index) \<inter> \<Union> (receiver_names ` ix_Id ` set indexes) = {}"
    using Cons.prems(2) by (auto dest: receiver_names_disjoint)
  with o1 o2 have "(\<lambda>p. re_Name (fst p)) ` set r1 \<inter> (\<lambda>p. re_Name (fst p)) ` set r2 = {}" by blast
  with o1 o2 rs show ?case by auto
qed

lemma all_receivers_labelled:
  "all_receivers E cr indexes w = Some (Inr rs, w') \<Longrightarrow> p \<in> set rs \<Longrightarrow>
     \<exists>index \<in> set indexes. re_Name (fst p) \<in> receiver_names (ix_Id index)
       \<and> mlookup (ro_Match (snd p)) PrometheusRuleIdentifierKey = Some (ix_Id index)"
proof (induction indexes arbitrary: w rs)
  case Nil
  then show ?case by (simp add: Inr_iffs)
next
  case (Cons index indexes)
  from Cons.prems(1) obtain r1 w1 r2 where i: "index_receivers E cr index w = Some (Inr r1, w1)"
    and a: "all_receivers E cr indexes w1 = Some (Inr r2, w')" and rs: "rs = r1 @ r2"
    by (auto simp: Inr_iffs)
  from index_receivers_owned [OF i] Cons.IH [OF a] Cons.prems(2) rs show ?case
    by (auto simp: owned_receivers_def list_all_iff)
qed

lemma alertmanager_root_sound:
  assumes "all_receivers E cr indexes w = Some (Inr rs, w')" and "distinct (map ix_Id indexes)"
  shows "sound_root (alertmanager_root g rs)"
proof -
  note a = all_receivers_sound [OF assms]
  then have "''default-receiver'' \<notin> (\<lambda>p. re_Name (fst p)) ` set rs"
    using receiver_names_default by auto
  with a show ?thesis
    by (auto simp: sound_root_def alertmanager_root_def list_all_iff o_def)
qed

lemma quiet_alertmanager: "quiet look (alertmanager_mutate E cr indexes host)"
  by (auto simp: quiet_def alertmanager_mutate_def Let_def split: option.splits sum.splits)

context kube_client begin

lemma reconcileAlertmanager_touches [touches_intros]: "touches look foreign (reconcileAlertmanager E cr indexes)"
  unfolding reconcileAlertmanager_def
  by (rule touches_intros quiet_alertmanager | simp add: foreign_def model_obj_defs)+

lemma receiver_secrets_touch [touches_intros]:
  "touches look K (getPagerDutySecret E cr c)"
  "touches look K (getDeadMansSnitchUrl E cr c)"
  "touches look K (getSmtpSecret E cr c)"
  unfolding getPagerDutySecret_def getDeadMansSnitchUrl_def getSmtpSecret_def Let_def
  by (rule touches_intros)+

lemma index_receivers_touches [touches_intros]: "touches look K (index_receivers E cr index)"
  unfolding index_receivers_def pagerduty_receivers_def deadmanssnitch_receivers_def by (rule touches_intros)+

lemma all_receivers_touches [touches_intros]: "touches look K (all_receivers E cr indexes)"
  by (induction indexes) (simp_all add: touches_intros)

lemma createGlobalConfig_touches [touches_intros]: "touches look K (createGlobalConfig E cr indexes)"
  unfolding createGlobalConfig_def Let_def by (rule touches_intros)+

lemma reconcileAlertmanagerSecret_touches [touches_intros]:
  "touches look foreign (reconcileAlertmanagerSecret E cr indexes)"
  unfolding reconcileAlertmanagerSecret_def
  by (rule touches_intros | simp add: foreign_def model_obj_defs)+

end

section \<open>Properties\<close>



definition route_takes :: "AlertmanagerConfigRoute \<Rightarrow> gomap \<Rightarrow> bool" where
  "route_takes route labels = list_all (\<lambda>(k, v). mlookup labels k = Some v) (entries (ro_Match route))"


definition sample_alert :: AlertRule where
  "sample_alert = \<lparr>ar_alert = ''Down'', ar_expr = ''up == 0'', ar_labels = Some [(''severity'', ''critical'')]\<rparr>"


end
