(* ===== verification/Configuration_Stage.thy ===== *)
theory Configuration_Stage
  imports Cfg_Prometheus Cfg_Alertmanager
begin

text \<open>
  \<^verbatim>\<open>controllers/reconcilers/configuration/configuration_reconciler.go\<close>: the stage that reads the
  repository indexes named by configuration secrets and brings the monitoring stack in line
  with them.
\<close>

section \<open>Deciding whether a synchronisation is due\<close>

definition check_missing :: "'w env \<Rightarrow> kobj \<Rightarrow> ('w, bool) go" where
  "check_missing E ob w =
     (case e_get E (k_kind ob) (ob_namespace ob) (ob_name ob) w of
        (Inl err, w1) \<Rightarrow> if \<not> IsGone err then Some (Inr True, w1) else Some (Inl err, w1)
      | (Inr _, w1) \<Rightarrow> Some (Inr False, w1))"

definition checkForMissingCR :: "'w env \<Rightarrow> Observability \<Rightarrow> ('w, bool) go" where
  "checkForMissingCR E cr =
     attempt (check_missing E (GetAlertmanagerCr cr)) (\<lambda>missing1.
     attempt (check_missing E (GetPrometheus cr)) (\<lambda>missing2.
     attempt (if DescopedModeEnabled cr then ret False else check_missing E (GetGrafanaCr cr)) (\<lambda>missing3.
     ret (missing1 \<or> missing2 \<or> missing3))))"

text \<open>
  \<^verbatim>\<open>time.Unix(sec, 0).Add(period)\<close> in nanoseconds since the epoch: the seconds since the year 1
  are kept in an int64, which wraps in \<^verbatim>\<open>Unix\<close> and saturates in \<^verbatim>\<open>Add\<close>.
\<close>

definition saturate64 :: "int \<Rightarrow> int" where
  "saturate64 i = (if i > 2 ^ 63 - 1 then 2 ^ 63 - 1 else if i < - (2 ^ 63) then - (2 ^ 63 - 1) else i)"

definition next_sync :: "int \<Rightarrow> int \<Rightarrow> int" where
  "next_sync lastSynced period =
     (saturate64 (wrap64 (lastSynced + unixToInternal) + period div 10 ^ 9) - unixToInternal) * 10 ^ 9
     + period mod 10 ^ 9"

text \<open>A call whose error is counted as a failed synchronisation.\<close>

definition metered :: "'w env \<Rightarrow> ('w, 'a) go \<Rightarrow> ('w, 'a) go" where
  "metered E m w =
     (case m w of
        None \<Rightarrow> None
      | Some (Inl err, w1) \<Rightarrow> Some (Inl err, IncreaseFailedConfigurationSyncsMetric E w1)
      | Some (Inr x, w1) \<Rightarrow> Some (Inr x, w1))"

definition period_elapsed :: "'w env \<Rightarrow> Observability \<Rightarrow> ('w, bool) go" where
  "period_elapsed E cr =
     attempt (metered E (wrapped ''error parsing operator resync period''
                (value_of (e_parse_duration E (sp_ResyncPeriod (o_spec cr)))))) (\<lambda>period w.
     ret (\<not> e_now E w < next_sync (st_LastSynced (o_status cr)) period) w)"

definition sync_due :: "'w env \<Rightarrow> Observability \<Rightarrow> ObservabilityStatus \<Rightarrow> ('w, bool) go" where
  "sync_due E cr s =
     attempt (metered E (wrapped ''error checking observatorium token lifetimes'' (call (TokensExpired E cr)))) (\<lambda>expired.
     attempt (if st_Migrated s then wrapped ''error checking for migrated CR'' (checkForMissingCR E cr)
              else ret False) (\<lambda>missingCR.
     if st_LastSynced (o_status cr) \<noteq> 0 \<and> \<not> (expired \<or> ExternalSyncDisabled cr \<or> missingCR)
     then period_elapsed E cr
     else ret True))"

section \<open>Reading the repositories\<close>

definition is_github :: "RepositoryInfo \<Rightarrow> bool" where
  "is_github repo = HasPrefix (ri_Repository repo) ''https://api.github.com''"

definition getResourcesUrl :: "'w env \<Rightarrow> RepositoryInfo \<Rightarrow> Observability \<Rightarrow> goerr + URL" where
  "getResourcesUrl E repo cr =
     (if \<not> is_github repo then
        if RunningLocally E then
          if st_ResourcesRoute (o_status cr) = [] then Inl (New ''resources route not ready yet'')
          else e_parse_uri E (''http://'' @ st_ResourcesRoute (o_status cr) @ ''/'' @ ri_Channel repo)
        else e_parse_uri E (''http://'' @ GetResourcesDefaultName cr @ ''.'' @ GetPrometheusOperatorNamespace cr
               @ '':8080'' @ ''/'' @ ri_Channel repo)
      else e_parse_uri E (ri_Repository repo @ ''/'' @ ri_Channel repo))"

definition readIndexFile :: "'w env \<Rightarrow> RepositoryInfo \<Rightarrow> Observability \<Rightarrow> ('w, string) go" where
  "readIndexFile E repo cr =
     attempt (value_of (getResourcesUrl E repo cr)) (\<lambda>repoUrl.
       let req = file_request (e_uri_string E (repoUrl\<lparr>u_path := u_path repoUrl @ ''/index.json''\<rparr>))
                   (Contains (u_host repoUrl) ''github.com'') (ri_Tag repo) (ri_AccessToken repo)
       in attempt (call (e_http_get E req)) (\<lambda>resp.
          if hp_status resp \<noteq> 200
          then throw (New (''unexpected status code when reading index file from '' @ e_request_url E req
                           @ '': '' @ FormatInt (hp_status resp)))
          else value_of (hp_body resp)))"

fun read_indexes :: "'w env \<Rightarrow> Observability \<Rightarrow> RepositoryInfo list \<Rightarrow> ('w, RepositoryIndex list) go" where
  "read_indexes E cr [] = ret []"
| "read_indexes E cr (repoInfo # repos) =
     attempt (metered E (readIndexFile E repoInfo cr)) (\<lambda>indexBytes.
     attempt (metered E (value_of (e_decode_index E indexBytes))) (\<lambda>index.
     attempt (value_of (getResourcesUrl E repoInfo cr)) (\<lambda>baseUrl.
     attempt (read_indexes E cr repos) (\<lambda>indexes.
     ret (index\<lparr>ix_BaseUrl := e_uri_string E baseUrl, ix_Tag := ri_Tag repoInfo,
                ix_AccessToken := ri_AccessToken repoInfo, ix_Source := ri_Source repoInfo\<rparr> # indexes)))))"

definition config_secrets :: "'w env \<Rightarrow> Observability \<Rightarrow> ('w, kobj list) go" where
  "config_secrets E cr =
     attempt (need (sp_ConfigurationSelector (o_spec cr))) (\<lambda>selector.
     if ExternalSyncDisabled cr then ret []
     else metered E (call (e_list E KSecret \<lparr>lo_namespace = [], lo_labels = entries (matchLabels selector)\<rparr>)))"

text \<open>Every \<^verbatim>\<open>Source\<close> is the address of the one loop variable.\<close>

definition repo_info :: "kobj \<Rightarrow> RepositoryInfo" where
  "repo_info configSecret =
     (let dat = sec_data (secret_of (k_body configSecret))
      in \<lparr>ri_Repository = mget dat ''repository'', ri_Channel = mget dat ''channel'',
          ri_Tag = mget dat ''tag'', ri_AccessToken = mget dat ''access_token'', ri_Source = Some 0\<rparr>)"

text \<open>A map is ranged over in an order the environment chooses among all orders.\<close>

definition range_over :: "'w env \<Rightarrow> (string \<times> RepositoryInfo) list \<Rightarrow> (string \<times> RepositoryInfo) list" where
  "range_over E repos =
     (if distinct (e_range E repos) \<and> set (e_range E repos) = set repos then e_range E repos else repos)"

section \<open>State of a synchronisation\<close>

text \<open>
  \<^verbatim>\<open>Reconcile\<close> holds pointers to the custom resource and to the next status.  Both are part of
  the state its steps run on; a step that touches neither is lifted.
\<close>

type_synonym 'w cfg = "(Observability \<times> ObservabilityStatus) \<times> 'w"

definition lifted :: "('w \<Rightarrow> ('r \<times> 'w) option) \<Rightarrow> 'w cfg \<Rightarrow> ('r \<times> 'w cfg) option" where
  "lifted m c = (case m (snd c) of None \<Rightarrow> None | Some (r, w) \<Rightarrow> Some (r, (fst c, w)))"

definition resources_route :: "'w env \<Rightarrow> Observability \<Rightarrow> ('w cfg, unit) go" where
  "resources_route E cr c =
     (case c of ((cr0, s), w) \<Rightarrow>
        (case ReconcileResourcesRoute E cr s w of
           None \<Rightarrow> None
         | Some (Inl err, w1) \<Rightarrow> Some (Inl err, ((cr0, s), w1))
         | Some (Inr s', w1) \<Rightarrow> Some (Inr (), ((cr0, s'), w1))))"

definition deploy_resources :: "'w env \<Rightarrow> Observability \<Rightarrow> RepositoryInfo \<Rightarrow> ('w cfg, unit) go" where
  "deploy_resources E cr repo =
     attempt (lifted (metered E (ReconcileResourcesDeployment E cr (ri_Repository repo @ '':'' @ ri_Tag repo)))) (\<lambda>_.
     attempt (lifted (metered E (ReconcileResourcesService E cr))) (\<lambda>_.
     if RunningLocally E then resources_route E cr else ret ()))"

text \<open>The repositories in the order of the secrets, and whether one of them is a container.\<close>

fun collect_repos ::
  "'w env \<Rightarrow> Observability \<Rightarrow> kobj list \<Rightarrow> (string \<times> RepositoryInfo) list \<Rightarrow> bool
    \<Rightarrow> ('w cfg, (string \<times> RepositoryInfo) list \<times> bool) go" where
  "collect_repos E cr [] repos containerResources = ret (repos, containerResources)"
| "collect_repos E cr (configSecret # secrets) repos containerResources =
     (if map_of repos (ob_name configSecret) \<noteq> None
      then collect_repos E cr secrets repos containerResources
      else let repo = repo_info configSecret; repos' = repos @ [(ob_name configSecret, repo)]
           in if \<not> is_github repo \<and> \<not> ExternalSyncDisabled cr
              then attempt (deploy_resources E cr repo) (\<lambda>_. collect_repos E cr secrets repos' True)
              else collect_repos E cr secrets repos' containerResources)"

definition waitForResourcesService :: "'w env \<Rightarrow> Observability \<Rightarrow> 'w \<Rightarrow> 'w outcome" where
  "waitForResourcesService E cr w =
     (case e_get E KService (o_namespace cr) (GetResourcesDefaultName cr) w of
        (Inl err, w1) \<Rightarrow> if IsNotFound err then in_progress w1 else failed err w1
      | (Inr service, w1) \<Rightarrow>
          if IsServiceReady (Some (service_of (k_body service))) then success w1 else in_progress w1)"

definition waitForResourcesDeployment :: "'w env \<Rightarrow> Observability \<Rightarrow> 'w \<Rightarrow> 'w outcome" where
  "waitForResourcesDeployment E cr w =
     (case e_list E KDeployment (in_namespace (o_namespace cr)) w of
        (Inl err, w1) \<Rightarrow> failed err w1
      | (Inr items, w1) \<Rightarrow>
          if list_ex (\<lambda>deployment. HasPrefix (ob_name deployment) (GetResourcesDefaultName cr)
                        \<and> wl_readyReplicas (workload_of (k_body deployment)) > 0) items
          then success w1 else in_progress w1)"

section \<open>Observatoria\<close>

text \<open>The error and the store of the loop variable, which the call annotates and overwrites.\<close>

definition stampConfigSource :: "'w env \<Rightarrow> RepositoryIndex \<Rightarrow> kobj list \<Rightarrow> 'w \<Rightarrow> (goerr option \<times> kobj list) \<times> 'w" where
  "stampConfigSource E index store w =
     (case ix_Source index of
        None \<Rightarrow> ((None, store), w)
      | Some p \<Rightarrow>
          let source = store ! p;
              secret = set_annotations (Some (AList.update ''observability-operator/status'' ''accepted''
                         (entries (m_annotations (k_meta source))))) source
          in case e_update E secret w of
               (Inl err, w1) \<Rightarrow> ((Some err, store[p := secret]), w1)
             | (Inr updated, w1) \<Rightarrow> ((None, store[p := updated]), w1))"

text \<open>An index whose observatoria fail is kept as it was and not stamped.\<close>

fun reconcile_indexes ::
  "'w env \<Rightarrow> Observability \<Rightarrow> kobj list \<Rightarrow> RepositoryIndex list \<Rightarrow> 'w \<Rightarrow> (RepositoryIndex list \<times> 'w) option" where
  "reconcile_indexes E cr store [] w = Some ([], w)"
| "reconcile_indexes E cr store (index # indexes) w =
     (case ReconcileObservatoria E cr (Some index) w of
        None \<Rightarrow> None
      | Some (Inl err, w1) \<Rightarrow>
          map_option (\<lambda>(rest, w2). (index # rest, w2)) (reconcile_indexes E cr store indexes w1)
      | Some (Inr index', w1) \<Rightarrow>
          (case stampConfigSource E (the index') store w1 of
             ((_, store'), w2) \<Rightarrow>
               map_option (\<lambda>(rest, w3). (the index' # rest, w3)) (reconcile_indexes E cr store' indexes w2)))"

section \<open>The synchronisation\<close>

definition sync_credentials ::
  "'w env \<Rightarrow> Observability \<Rightarrow> kobj list \<Rightarrow> RepositoryIndex list \<Rightarrow> ('w, RepositoryIndex list) go" where
  "sync_credentials E cr store indexes =
     attempt (metered E (deleteUnrequestedCredentialSecrets E cr indexes)) (\<lambda>_.
     attempt (\<lambda>w. map_option (\<lambda>(ixs, w1). (Inr ixs, w1)) (reconcile_indexes E cr store indexes w)) (\<lambda>indexes.
     attempt (metered E (wrapped ''error deleting unrequested token refreshers''
                (deleteUnrequestedTokenRefreshers E cr indexes))) (\<lambda>_.
     attempt (metered E (wrapped ''error deleting unrequested network policies''
                (deleteUnrequestedNetworkPolicies E cr indexes))) (\<lambda>_.
     attempt (if ObservatoriumDisabled cr then ret ()
              else metered E (wrapped ''error reconciling token refresher'' (reconcileTokenRefresher E cr indexes))) (\<lambda>_.
     ret indexes)))))"

definition sync_alerting :: "'w env \<Rightarrow> Observability \<Rightarrow> RepositoryIndex list \<Rightarrow> ('w, string) go" where
  "sync_alerting E cr indexes =
     attempt (if ExternalSyncDisabled cr \<or> fst (HasAlertmanagerConfigSecret cr) then ret ()
              else metered E (wrapped ''error reconciling alertmanager secret''
                     (reconcileAlertmanagerSecret E cr indexes))) (\<lambda>_.
     attempt (metered E (wrapped ''error fetching federation config'' (fetchFederationConfigs E cr indexes))) (\<lambda>patterns.
     attempt (metered E (createAdditionalScrapeConfigSecret E cr patterns)) (\<lambda>_.
     attempt (metered E (createBlackBoxConfig E cr)) (\<lambda>hash.
     attempt (metered E (wrapped ''error reconciling alertmanager'' (reconcileAlertmanager E cr indexes))) (\<lambda>_.
     ret hash)))))"

text \<open>The Prometheus step gives the custom resource as it leaves it.\<close>

definition sync_prometheus ::
  "'w env \<Rightarrow> RepositoryIndex list \<Rightarrow> string \<Rightarrow> ('w cfg, Observability) go" where
  "sync_prometheus E indexes hash c =
     (case c of ((cr, s), w) \<Rightarrow>
        (case reconcilePrometheus E cr indexes hash w of
           None \<Rightarrow> None
         | Some ((Some err, cr'), w1) \<Rightarrow>
             Some (Inl (Wrap err ''error reconciling prometheus''),
                   ((cr', s), IncreaseFailedConfigurationSyncsMetric E w1))
         | Some ((None, cr'), w1) \<Rightarrow> Some (Inr cr', ((cr', s), w1))))"

definition sync_dashboards :: "'w env \<Rightarrow> Observability \<Rightarrow> RepositoryIndex list \<Rightarrow> ('w, unit) go" where
  "sync_dashboards E cr indexes =
     (let dashboards = getUniqueDashboards indexes
      in attempt (metered E (wrapped ''error deleting unrequested dashboards''
                    (deleteUnrequestedDashboards E cr dashboards))) (\<lambda>_.
         metered E (wrapped ''error creating requested dashboards'' (createRequestedDashboards E cr dashboards))))"

definition sync_resources :: "'w env \<Rightarrow> Observability \<Rightarrow> RepositoryIndex list \<Rightarrow> ('w, unit) go" where
  "sync_resources E cr indexes =
     (let rules = getUniqueRules indexes; monitors = getUniquePodMonitors indexes
      in attempt (if DescopedModeEnabled cr then ret () else sync_dashboards E cr indexes) (\<lambda>_.
         attempt (metered E (wrapped ''error deleting unrequested prometheus rules''
                    (deleteUnrequestedRules E cr rules))) (\<lambda>_.
         attempt (metered E (wrapped ''error creating requested prometheus rules''
                    (createRequestedRules E cr rules))) (\<lambda>_.
         attempt (metered E (wrapped ''error deleting unrequested pod monitors''
                    (deleteUnrequestedPodMonitors E cr monitors))) (\<lambda>_.
         metered E (wrapped ''error creating requested pod monitors''
                    (createRequestedPodMonitors E cr monitors)))))))"

definition sync_workloads :: "'w env \<Rightarrow> Observability \<Rightarrow> RepositoryIndex list \<Rightarrow> ('w, unit) go" where
  "sync_workloads E cr indexes =
     attempt (if DescopedModeEnabled cr then ret ()
              else metered E (wrapped ''error reconciling grafana'' (reconcileGrafanaCr E cr indexes))) (\<lambda>_.
     attempt (if ExternalSyncDisabled cr
              then metered E (wrapped ''error creating deadmansswitch alert'' (createDMSAlert E cr))
              else sync_resources E cr indexes) (\<lambda>_.
     attempt (metered E (wrapped ''error deleting unrequested promtail daemon sets''
                (deleteUnrequestedDaemonsets E cr indexes))) (\<lambda>_.
     each (\<lambda>index. wrapped (''error creating promtail daemon set for '' @ ix_Id index)
                     (createPromtailDaemonsetFor E cr index)) indexes)))"

definition sync_finished :: "'w env \<Rightarrow> Observability \<Rightarrow> 'w cfg \<Rightarrow> 'w cfg outcome" where
  "sync_finished E cr c =
     (case c of ((cr0, s), w) \<Rightarrow>
        success ((cr0, s\<lparr>st_LastSynced := (if ExternalSyncDisabled cr then 0 else e_now E w div 10 ^ 9)\<rparr>),
                 IncreaseSuccessfulConfigurationSyncsMetric E w))"

definition sync_indexes :: "'w env \<Rightarrow> Observability \<Rightarrow> kobj list \<Rightarrow> RepositoryInfo list \<Rightarrow> 'w cfg \<Rightarrow> 'w cfg outcome" where
  "sync_indexes E cr store repos =
     or_fail (lifted (read_indexes E cr repos)) (\<lambda>indexes.
     or_fail (lifted (sync_credentials E cr store indexes)) (\<lambda>indexes.
     or_fail (lifted (sync_alerting E cr indexes)) (\<lambda>hash.
     or_fail (sync_prometheus E indexes hash) (\<lambda>cr.
     or_fail (lifted (sync_workloads E cr indexes)) (\<lambda>_.
     sync_finished E cr)))))"

definition await_config :: "'w cfg \<Rightarrow> 'w cfg outcome" where
  "await_config c = (case c of ((cr, s), w) \<Rightarrow> in_progress ((cr, s\<lparr>st_LastSynced := 0\<rparr>), w))"

definition synchronise :: "'w env \<Rightarrow> Observability \<Rightarrow> 'w cfg \<Rightarrow> 'w cfg outcome" where
  "synchronise E cr =
     or_fail (lifted (config_secrets E cr)) (\<lambda>items.
     if items = [] \<and> \<not> ExternalSyncDisabled cr then await_config
     else or_fail (collect_repos E cr items [] False) (\<lambda>(repos, containerResources) c.
          and_then (if containerResources then lifted (waitForResourcesDeployment E cr) c else success c)
            (sync_indexes E cr (if items = [] then [] else [last items]) (map snd (range_over E repos)))))"

definition configuration_run :: "'w env \<Rightarrow> Observability \<Rightarrow> ObservabilityStatus \<Rightarrow> 'w cfg \<Rightarrow> 'w cfg outcome" where
  "configuration_run E cr s =
     (if sp_ConfigurationSelector (o_spec cr) = None \<and> \<not> ExternalSyncDisabled cr then success
      else or_fail (lifted (sync_due E cr s)) (\<lambda>due. if due then synchronise E cr else success))"

definition configuration_Reconcile ::
  "'w env \<Rightarrow> Observability \<Rightarrow> ObservabilityStatus \<Rightarrow> 'w
    \<Rightarrow> ((ObservabilityStageStatus \<times> goerr option) \<times> Observability \<times> ObservabilityStatus \<times> 'w) option" where
  "configuration_Reconcile E cr s w =
     (case configuration_run E cr s ((cr, s), w) of
        None \<Rightarrow> None
      | Some (se, ((cr', s'), w')) \<Rightarrow> Some (se, cr', s', w'))"

section \<open>Cleanup\<close>

abbreviation managed_in :: "Observability \<Rightarrow> ListOptions" where
  "managed_in cr \<equiv> \<lparr>lo_namespace = o_namespace cr, lo_labels = managed_label\<rparr>"

abbreviation auth_proxies_in :: "Observability \<Rightarrow> ListOptions" where
  "auth_proxies_in cr \<equiv> \<lparr>lo_namespace = o_namespace cr, lo_labels = auth_proxy_label\<rparr>"

definition cleanup_monitoring :: "'w env \<Rightarrow> Observability \<Rightarrow> ('w, unit) go" where
  "cleanup_monitoring E cr =
     attempt (if \<not> DescopedModeEnabled cr then delete_all E KGrafanaDashboard (managed_in cr) else ret ()) (\<lambda>_.
     attempt (delete_all E KPrometheusRule (managed_in cr)) (\<lambda>_.
     delete_all E KPodMonitor (managed_in cr)))"

definition cleanup_run :: "'w env \<Rightarrow> Observability \<Rightarrow> ('w, unit) go" where
  "cleanup_run E cr =
     attempt (delete_all E KSecret (managed_in cr)) (\<lambda>_.
     attempt (delete_all E KConfigMap (managed_in cr)) (\<lambda>_.
     attempt (if \<not> ExternalSyncDisabled cr then cleanup_monitoring E cr else ret ()) (\<lambda>_.
     attempt (delete_all E KDaemonSet (managed_in cr)) (\<lambda>_.
     attempt (delete_all E KDeployment (auth_proxies_in cr)) (\<lambda>_.
     attempt (delete_if_present E (GetResourcesDeployment cr)) (\<lambda>_.
     attempt (delete_if_present E (GetResourcesService cr)) (\<lambda>_.
     attempt (delete_if_present E (GetResourcesRoute cr)) (\<lambda>_.
     delete_all E KNetworkPolicy (auth_proxies_in cr)))))))))"

definition configuration_Cleanup :: "'w env \<Rightarrow> Observability \<Rightarrow> 'w \<Rightarrow> 'w outcome" where
  "configuration_Cleanup E cr = or_fail (cleanup_run E cr) (\<lambda>_. success)"

definition configuration_reconciler :: "'w reconciler" where
  "configuration_reconciler = \<lparr>rec_Reconcile = configuration_Reconcile, rec_Cleanup = configuration_Cleanup\<rparr>"

section \<open>Frames\<close>

lemma same_identity_trans:
  assumes "same_identity a b" and "same_identity b c"
  shows "same_identity a c"
proof -
  from assms obtain l i where b: "o_meta b = (o_meta a)\<lparr>m_labels := l\<rparr>" "o_status b = (o_status a)\<lparr>st_ClusterID := i\<rparr>"
    and c: "o_meta c = (o_meta b)\<lparr>m_labels := m_labels (o_meta c)\<rparr>"
      "o_status c = (o_status b)\<lparr>st_ClusterID := st_ClusterID (o_status c)\<rparr>"
    unfolding same_identity_def by blast
  from c have "o_meta c = (o_meta a)\<lparr>m_labels := m_labels (o_meta c)\<rparr>"
    "o_status c = (o_status a)\<lparr>st_ClusterID := st_ClusterID (o_status c)\<rparr>"
    unfolding b by simp_all
  then show ?thesis unfolding same_identity_def by blast
qed

definition cfg_frame :: "('w \<Rightarrow> okey \<Rightarrow> kobj option) \<Rightarrow> 'w cfg \<Rightarrow> 'w cfg \<Rightarrow> bool" where
  "cfg_frame look c c' \<longleftrightarrow>
     same_identity (fst (fst c)) (fst (fst c'))
     \<and> same_progress (snd (fst c)) (snd (fst c'))
     \<and> only look foreign (snd c) (snd c')"

lemma cfg_frame_refl [simp]: "cfg_frame look c c"
  by (simp add: cfg_frame_def)

lemma cfg_frame_trans: "cfg_frame look a b \<Longrightarrow> cfg_frame look b c \<Longrightarrow> cfg_frame look a c"
  unfolding cfg_frame_def
  by (auto intro: same_identity_trans only_trans simp: same_progress_def)

definition keeps :: "('w \<Rightarrow> okey \<Rightarrow> kobj option) \<Rightarrow> ('w cfg \<Rightarrow> ('r \<times> 'w cfg) option) \<Rightarrow> bool" where
  "keeps look m \<longleftrightarrow> (\<forall>c r c'. m c = Some (r, c') \<longrightarrow> cfg_frame look c c')"

definition settles :: "('w \<Rightarrow> okey \<Rightarrow> kobj option) \<Rightarrow> ('w cfg \<Rightarrow> 'w cfg outcome) \<Rightarrow> bool" where
  "settles look f \<longleftrightarrow> (\<forall>c s e c'. f c = Some ((s, e), c') \<longrightarrow> (e \<noteq> None \<longrightarrow> s = ResultFailed) \<and> cfg_frame look c c')"

named_theorems keeps_intros \<open>rules for keeps and settles\<close>

lemma keepsD: "keeps look m \<Longrightarrow> m c = Some (r, c') \<Longrightarrow> cfg_frame look c c'"
  unfolding keeps_def by blast

lemma keeps_lifted [keeps_intros]: "touches look foreign m \<Longrightarrow> keeps look (lifted m)"
  unfolding keeps_def lifted_def cfg_frame_def by (auto split: option.splits dest: touchesD)

lemma keeps_ret [keeps_intros]: "keeps look (ret x)"
  by (simp add: keeps_def ret_def)

lemma keeps_attempt [keeps_intros]:
  assumes "keeps look m" and "\<And>x. keeps look (k x)"
  shows "keeps look (attempt m k)"
  unfolding keeps_def
proof (intro allI impI)
  fix c r c'
  assume "attempt m k c = Some (r, c')"
  then consider e where "m c = Some (Inl e, c')" | x c1 where "m c = Some (Inr x, c1)" "k x c1 = Some (r, c')"
    by (auto simp: attempt_def split: option.splits sum.splits)
  then show "cfg_frame look c c'"
    by cases (auto dest: keepsD [OF assms(1)] keepsD [OF assms(2)] intro: cfg_frame_trans)
qed

lemma keeps_if [keeps_intros]:
  "(b \<Longrightarrow> keeps look m) \<Longrightarrow> (\<not> b \<Longrightarrow> keeps look n) \<Longrightarrow> keeps look (if b then m else n)"
  by simp

lemma settles_leaf [keeps_intros]: "settles look success" "settles look await_config" "settles look (sync_finished E cr)"
  if "\<And>nm ls w. look (e_inc_counter E nm ls w) = look w" for look E cr
  using that
  by (auto simp: settles_def success_def await_config_def in_progress_def sync_finished_def cfg_frame_def
      same_progress_def same_look IncreaseSuccessfulConfigurationSyncsMetric_def)

lemma settles_or_fail_post:
  assumes "keeps look m" and "\<And>c x c'. m c = Some (Inr x, c') \<Longrightarrow> P x" and "\<And>x. P x \<Longrightarrow> settles look (k x)"
  shows "settles look (or_fail m k)"
  unfolding settles_def
proof (intro allI impI)
  fix c s e c'
  assume "or_fail m k c = Some ((s, e), c')"
  then consider er where "m c = Some (Inl er, c')" "s = ResultFailed"
    | x c1 where "m c = Some (Inr x, c1)" "k x c1 = Some ((s, e), c')"
    by (auto simp: or_fail_def failed_def split: option.splits sum.splits)
  then show "(e \<noteq> None \<longrightarrow> s = ResultFailed) \<and> cfg_frame look c c'"
  proof cases
    case 1
    with keepsD [OF assms(1)] show ?thesis by auto
  next
    case 2
    with assms(3) [OF assms(2) [OF 2(1)]] keepsD [OF assms(1) 2(1)] show ?thesis
      unfolding settles_def by (blast intro: cfg_frame_trans)
  qed
qed

lemmas settles_or_fail [keeps_intros] = settles_or_fail_post [where P = "\<lambda>_. True", OF _ TrueI]

lemma metered_Inr_iff: "metered E m w = Some (Inr x, w') \<longleftrightarrow> m w = Some (Inr x, w')"
  by (auto simp: metered_def split: option.splits sum.splits)

lemma lifted_Inr_iff: "lifted m c = Some (Inr x, c') \<longleftrightarrow> m (snd c) = Some (Inr x, snd c') \<and> fst c' = fst c"
  by (cases c') (auto simp: lifted_def split: option.splits)

lemma settles_if [keeps_intros]:
  "(b \<Longrightarrow> settles look f) \<Longrightarrow> (\<not> b \<Longrightarrow> settles look g) \<Longrightarrow> settles look (if b then f else g)"
  by simp

lemma settles_and_then [keeps_intros]:
  assumes "settles look f" and "settles look k"
  shows "settles look (\<lambda>c. and_then (f c) k)"
  unfolding settles_def
proof (intro allI impI)
  fix c s e c'
  assume "and_then (f c) k = Some ((s, e), c')"
  then show "(e \<noteq> None \<longrightarrow> s = ResultFailed) \<and> cfg_frame look c c'"
    by (cases rule: and_then_cases)
      (use assms in \<open>unfold settles_def, blast, blast intro: cfg_frame_trans\<close>)
qed

lemma settles_lifted:
  "steps look foreign f \<Longrightarrow> settles look (lifted f)"
  unfolding settles_def lifted_def cfg_frame_def by (auto split: option.splits dest: stepsD)

context kube_client begin

lemma touches_metered [touches_intros]: "touches look K m \<Longrightarrow> touches look K (metered E m)"
  unfolding touches_def metered_def IncreaseFailedConfigurationSyncsMetric_def
  by (auto simp: only_def inc_counter_frame split: option.splits sum.splits)

lemma check_missing_touches [touches_intros]: "touches look K (check_missing E ob)"
  by (rule touchesI) (auto simp: check_missing_def split: prod.splits sum.splits if_splits dest: read_only(1))

lemma TokensExpired_touches [touches_intros]: "touches look K (call (TokensExpired E cr))"
  by (rule touchesI) (auto simp: call_def TokensExpired_def split: prod.splits sum.splits dest: read_only(2))

lemma sync_due_touches [touches_intros]: "touches look K (sync_due E cr s)"
proof -
  have [touches_intros]: "touches look K (\<lambda>w. ret (f w) w)" for f :: "'w \<Rightarrow> bool"
    by (rule touchesI) (simp add: ret_def)
  show ?thesis
    unfolding sync_due_def period_elapsed_def checkForMissingCR_def by (rule touches_intros)+
qed

lemma config_secrets_touches [touches_intros]: "touches look K (config_secrets E cr)"
  unfolding config_secrets_def by (rule touches_intros)+

lemma read_indexes_touches [touches_intros]: "touches look K (read_indexes E cr repos)"
proof -
  have [touches_intros]: "touches look K (readIndexFile E repo cr)" for repo
    unfolding readIndexFile_def Let_def by (rule touches_intros)+
  show ?thesis by (induction repos) (simp_all add: touches_intros)
qed

lemma resources_route_keeps [keeps_intros]: "keeps look (resources_route E cr)"
  unfolding keeps_def
proof (intro allI impI)
  fix c :: "'w cfg" and r c'
  assume eq: "resources_route E cr c = Some (r, c')"
  obtain cr0 s w where c: "c = ((cr0, s), w)" by (metis surj_pair)
  from eq c obtain rr w1 where rr: "ReconcileResourcesRoute E cr s w = Some (rr, w1)"
    by (auto simp: resources_route_def split: option.splits)
  have "same_progress s s'" if "rr = Inr s'" for s'
    using rr that
    by (auto simp: ReconcileResourcesRoute_def route_status_def Let_def same_progress_def
        split: option.splits if_splits)
  with eq c rr touchesD [OF ReconcileResourcesRoute_touches rr] show "cfg_frame look c c'"
    by (auto simp: resources_route_def cfg_frame_def split: sum.splits)
qed

lemma deploy_resources_keeps [keeps_intros]: "keeps look (deploy_resources E cr repo)"
  unfolding deploy_resources_def by (rule keeps_intros touches_intros)+

lemma collect_repos_keeps [keeps_intros]: "keeps look (collect_repos E cr items repos b)"
  by (induction items arbitrary: repos b) (simp_all add: keeps_intros Let_def)

lemma waitForResourcesDeployment_steps: "steps look K (waitForResourcesDeployment E cr)"
proof (rule stepsI)
  fix w s e w'
  assume eq: "waitForResourcesDeployment E cr w = Some ((s, e), w')"
  obtain rl w1 where l: "e_list E KDeployment (in_namespace (o_namespace cr)) w = (rl, w1)" by fastforce
  with eq read_only(2) [OF l] show "(e \<noteq> None \<longrightarrow> s = ResultFailed) \<and> only look K w w'"
    by (auto simp: waitForResourcesDeployment_def idiom_defs split: sum.splits if_splits)
qed

lemma waitForResourcesService_steps: "steps look K (waitForResourcesService E cr)"
proof (rule stepsI)
  fix w s e w'
  assume eq: "waitForResourcesService E cr w = Some ((s, e), w')"
  obtain rl w1 where l: "e_get E KService (o_namespace cr) (GetResourcesDefaultName cr) w = (rl, w1)" by fastforce
  with eq read_only(1) [OF l] show "(e \<noteq> None \<longrightarrow> s = ResultFailed) \<and> only look K w w'"
    by (auto simp: waitForResourcesService_def idiom_defs split: sum.splits if_splits)
qed

text \<open>The store holds secrets only, and the sources point into it.\<close>

lemma ReconcileObservatoria_source:
  assumes "ReconcileObservatoria E cr (Some index) w = Some (Inr index', w')"
  shows "\<exists>ix. index' = Some ix \<and> ix_Source ix = ix_Source index \<and> ix_Id ix = ix_Id index"
  using assms by (auto simp: ReconcileObservatoria_def split: option.splits if_splits sum.splits)

lemma token_secrets_foreign: "token_secrets cr \<subseteq> foreign"
  by (auto simp: token_secrets_def foreign_def)

lemma stampConfigSource_only:
  assumes "stampConfigSource E index store w = ((er, store'), w')"
    and "list_all (\<lambda>ob. k_kind ob = KSecret) store"
    and "\<And>p. ix_Source index = Some p \<Longrightarrow> p < length store"
  shows "only look foreign w w' \<and> list_all (\<lambda>ob. k_kind ob = KSecret) store' \<and> length store' = length store"
proof (cases "ix_Source index")
  case None
  with assms show ?thesis by (simp add: stampConfigSource_def)
next
  case (Some p)
  let ?secret = "set_annotations (Some (AList.update ''observability-operator/status'' ''accepted''
    (entries (m_annotations (k_meta (store ! p)))))) (store ! p)"
  obtain ru w1 where u: "e_update E ?secret w = (ru, w1)" by fastforce
  from assms(2,3) Some have k: "k_kind (store ! p) = KSecret" by (simp add: list_all_length)
  then have ks: "k_kind ?secret = KSecret" by (simp add: set_annotations_def)
  have "key_of ?secret \<in> foreign" using ks by (simp only: foreign_def key_of_def) simp
  note f = write_only(3) [OF u this]
  have "k_kind o' = KSecret" if "ru = Inr o'" for o'
  proof -
    from update_key [OF u [unfolded that]] have "fst (key_of o') = fst (key_of (store ! p))" by simp
    with k show ?thesis by (simp add: key_of_def)
  qed
  with assms(1,2) Some u f ks show ?thesis
    by (auto simp: stampConfigSource_def Let_def list_all_iff dest!: set_update_subset_insert [THEN subsetD]
        split: sum.splits)
qed

lemma reconcile_indexes_only:
  assumes "reconcile_indexes E cr store indexes w = Some (r, w')"
    and "list_all (\<lambda>ob. k_kind ob = KSecret) store"
    and "\<And>ix p. ix \<in> set indexes \<Longrightarrow> ix_Source ix = Some p \<Longrightarrow> p < length store"
  shows "only look foreign w w'"
  using assms
proof (induction indexes arbitrary: store w r)
  case Nil
  then show ?case by simp
next
  case (Cons index indexes)
  from Cons.prems(1) obtain ro w1 where ro: "ReconcileObservatoria E cr (Some index) w = Some (ro, w1)"
    by (auto split: option.splits)
  note f1 = only_mono [OF ReconcileObservatoria_only [OF ro] token_secrets_foreign]
  show ?case
  proof (cases ro)
    case (Inl e)
    with Cons.prems(1) ro obtain r2 where "reconcile_indexes E cr store indexes w1 = Some (r2, w')" by auto
    from Cons.IH [OF this Cons.prems(2)] Cons.prems(3) f1 show ?thesis by (auto intro: only_trans)
  next
    case (Inr index')
    from ReconcileObservatoria_source [OF ro [unfolded Inr]] obtain ix where
      ix: "index' = Some ix" "ix_Source ix = ix_Source index" by blast
    obtain er store' w2 where st: "stampConfigSource E ix store w1 = ((er, store'), w2)" by (metis surj_pair)
    from stampConfigSource_only [OF st Cons.prems(2)] Cons.prems(3) ix
    have f2: "only look foreign w1 w2" and s': "list_all (\<lambda>ob. k_kind ob = KSecret) store'" "length store' = length store"
      by auto
    from Cons.prems(1) ro Inr ix st obtain r2 where "reconcile_indexes E cr store' indexes w2 = Some (r2, w')" by auto
    from Cons.IH [OF this s'(1)] Cons.prems(3) s'(2) only_trans [OF f1 f2] show ?thesis by (auto intro: only_trans)
  qed
qed

lemma stampConfigSource_single:
  assumes "stampConfigSource E index [secret] w = ((er, store'), w')" and "ix_Source index = Some 0"
  shows "\<exists>secret'. store' = [secret'] \<and> key_of secret' = key_of secret \<and> only look {key_of secret} w w'"
proof -
  let ?secret = "set_annotations (Some (AList.update ''observability-operator/status'' ''accepted''
    (entries (m_annotations (k_meta secret))))) secret"
  obtain ru w1 where u: "e_update E ?secret w = (ru, w1)" by fastforce
  have k: "key_of ?secret = key_of secret" by simp
  have "only look {key_of secret} w w1" using write_only(3) [OF u, of "{key_of secret}"] k by simp
  moreover have "key_of o' = key_of secret" if "ru = Inr o'" for o'
    using update_key [OF u [unfolded that]] k by simp
  ultimately show ?thesis
    using assms u k by (cases ru) (auto simp: stampConfigSource_def Let_def)
qed

lemma reconcile_indexes_single:
  assumes "reconcile_indexes E cr [secret] indexes w = Some (r, w')"
    and "list_all (\<lambda>ix. ix_Source ix = Some 0) indexes"
  shows "only look (insert (key_of secret) (token_secrets cr)) w w'"
  using assms
proof (induction indexes arbitrary: secret w r)
  case Nil
  then show ?case by simp
next
  case (Cons index indexes)
  let ?K = "insert (key_of secret) (token_secrets cr)"
  from Cons.prems(1) obtain ro w1 where ro: "ReconcileObservatoria E cr (Some index) w = Some (ro, w1)"
    by (auto split: option.splits)
  have f1: "only look ?K w w1" by (rule only_mono [OF ReconcileObservatoria_only [OF ro]]) blast
  show ?case
  proof (cases ro)
    case (Inl e)
    with Cons.prems(1) ro obtain r2 where "reconcile_indexes E cr [secret] indexes w1 = Some (r2, w')" by auto
    from Cons.IH [OF this] Cons.prems(2) f1 show ?thesis by (auto intro: only_trans)
  next
    case (Inr index')
    from ReconcileObservatoria_source [OF ro [unfolded Inr]] Cons.prems(2) obtain ix where
      ix: "index' = Some ix" "ix_Source ix = Some 0" by auto
    obtain er store' w2 where st: "stampConfigSource E ix [secret] w1 = ((er, store'), w2)" by (metis surj_pair)
    from stampConfigSource_single [OF st ix(2)] obtain secret' where
      s': "store' = [secret']" "key_of secret' = key_of secret" "only look {key_of secret} w1 w2" by blast
    from Cons.prems(1) ro Inr ix st s'(1) obtain r2 where "reconcile_indexes E cr [secret'] indexes w2 = Some (r2, w')" by auto
    from Cons.IH [OF this] Cons.prems(2) s'(2) have "only look ?K w2 w'" by simp
    moreover have "only look ?K w1 w2" by (rule only_mono [OF s'(3)]) blast
    ultimately show ?thesis using f1 by (blast intro: only_trans)
  qed
qed

lemma sync_credentials_touches:
  assumes "list_all (\<lambda>ob. k_kind ob = KSecret) store"
    and "\<And>ix p. ix \<in> set indexes \<Longrightarrow> ix_Source ix = Some p \<Longrightarrow> p < length store"
  shows "touches look foreign (sync_credentials E cr store indexes)"
proof -
  have [touches_intros]:
    "touches look foreign (\<lambda>w. map_option (\<lambda>(ixs, w1). (Inr ixs, w1)) (reconcile_indexes E cr store indexes w))"
    by (rule touchesI) (auto dest: reconcile_indexes_only [OF _ assms])
  show ?thesis unfolding sync_credentials_def by (rule touches_intros)+
qed

lemma sync_alerting_touches [touches_intros]: "touches look foreign (sync_alerting E cr indexes)"
  unfolding sync_alerting_def by (rule touches_intros)+

lemma sync_workloads_touches [touches_intros]: "touches look foreign (sync_workloads E cr indexes)"
  unfolding sync_workloads_def sync_resources_def sync_dashboards_def Let_def by (rule touches_intros)+

lemma sync_prometheus_keeps [keeps_intros]: "keeps look (sync_prometheus E indexes h)"
  unfolding keeps_def
proof (intro allI impI)
  fix c :: "'w cfg" and r c'
  assume eq: "sync_prometheus E indexes h c = Some (r, c')"
  obtain cr s w where c: "c = ((cr, s), w)" by (metis surj_pair)
  from eq c obtain er cr' w1 where rp: "reconcilePrometheus E cr indexes h w = Some ((er, cr'), w1)"
    by (auto simp: sync_prometheus_def split: option.splits)
  note f = touchesD [OF reconcilePrometheus_touches rp]
  have "same_identity cr cr'"
    using reconcilePrometheus_identity [OF rp] label_prometheus_identity [of cr] by auto
  moreover have "only look foreign w (IncreaseFailedConfigurationSyncsMetric E w1)"
    using f by (simp add: IncreaseFailedConfigurationSyncsMetric_def only_def inc_counter_frame)
  ultimately show "cfg_frame look c c'"
    using eq c rp f by (auto simp: sync_prometheus_def cfg_frame_def split: option.splits)
qed

text \<open>Where the sources of the indexes read come from.\<close>

lemma read_indexes_source:
  "read_indexes E cr repos w = Some (Inr indexes, w') \<Longrightarrow> ix \<in> set indexes \<Longrightarrow> ix_Source ix \<in> ri_Source ` set repos"
  by (induction repos arbitrary: w indexes) (force simp: Inr_iffs)+

lemma collect_repos_source:
  "collect_repos E cr items repos b c = Some (Inr (repos', b'), c') \<Longrightarrow>
     list_all (\<lambda>p. ri_Source (snd p) = Some 0) repos \<Longrightarrow> list_all (\<lambda>p. ri_Source (snd p) = Some 0) repos'
     \<and> (items = [] \<longrightarrow> repos' = repos)"
proof (induction items arbitrary: repos b c)
  case Nil
  then show ?case by (simp add: Inr_iffs)
next
  case (Cons item items)
  have "ri_Source (repo_info item) = Some 0" by (simp add: repo_info_def Let_def)
  with Cons.prems Cons.IH [of repos] Cons.IH [of "repos @ [(ob_name item, repo_info item)]"] show ?case
    by (auto simp: Let_def Inr_iffs split: if_splits)
qed

lemma range_over_set: "set (range_over E repos) = set repos"
  by (simp add: range_over_def)

lemmas settles_leaves [keeps_intros] = settles_leaf [of look E, OF inc_counter_frame]

lemma sync_indexes_settles:
  assumes "list_all (\<lambda>ob. k_kind ob = KSecret) store"
    and "\<And>repo p. repo \<in> set repos \<Longrightarrow> ri_Source repo = Some p \<Longrightarrow> p < length store"
  shows "settles look (sync_indexes E cr store repos)"
  unfolding sync_indexes_def
proof (rule settles_or_fail_post [where P = "\<lambda>indexes :: RepositoryIndex list. \<forall>ix \<in> set indexes. ix_Source ix \<in> ri_Source ` set repos"])
  show "keeps look (lifted (read_indexes E cr repos))" by (rule keeps_intros touches_intros)+
next
  fix c indexes c'
  assume "lifted (read_indexes E cr repos) c = Some (Inr indexes, c')"
  then show "\<forall>ix \<in> set indexes. ix_Source ix \<in> ri_Source ` set repos"
    by (auto simp: lifted_Inr_iff dest: read_indexes_source)
next
  fix indexes :: "RepositoryIndex list"
  assume src: "\<forall>ix \<in> set indexes. ix_Source ix \<in> ri_Source ` set repos"
  have "touches look foreign (sync_credentials E cr store indexes)"
    by (rule sync_credentials_touches [OF assms(1)]) (metis assms(2) src imageE)
  then show "settles look (or_fail (lifted (sync_credentials E cr store indexes)) (\<lambda>indexes.
     or_fail (lifted (sync_alerting E cr indexes)) (\<lambda>hash.
     or_fail (sync_prometheus E indexes hash) (\<lambda>cr.
     or_fail (lifted (sync_workloads E cr indexes)) (\<lambda>_. sync_finished E cr)))))"
    by (intro keeps_intros touches_intros)
qed

lemma config_secrets_kind:
  assumes "config_secrets E cr w = Some (Inr items, w')"
  shows "list_all (\<lambda>ob. k_kind ob = KSecret) items"
proof -
  from assms obtain lo w1 where "items = [] \<or> e_list E KSecret lo w1 = (Inr items, w')"
    by (auto simp: config_secrets_def metered_Inr_iff Inr_iffs split: if_splits)
  then show ?thesis by (auto simp: list_all_iff list_matches_def dest: list_items)
qed

lemma synchronise_settles: "settles look (synchronise E cr)"
  unfolding synchronise_def
proof (rule settles_or_fail_post [where P = "list_all (\<lambda>ob. k_kind ob = KSecret)"])
  show "keeps look (lifted (config_secrets E cr))" by (rule keeps_intros touches_intros)+
next
  fix c items c'
  assume "lifted (config_secrets E cr) c = Some (Inr items, c')"
  then show "list_all (\<lambda>ob. k_kind ob = KSecret) items"
    by (auto simp: lifted_Inr_iff dest: config_secrets_kind)
next
  fix items :: "kobj list"
  assume items: "list_all (\<lambda>ob. k_kind ob = KSecret) items"
  let ?store = "if items = [] then [] else [last items]"
  have store: "list_all (\<lambda>ob. k_kind ob = KSecret) ?store"
    using items by (cases items rule: rev_cases) auto
  let ?P = "\<lambda>(repos, b). list_all (\<lambda>p. ri_Source (snd p) = Some 0) repos \<and> (items = [] \<longrightarrow> repos = [])"
  show "settles look (if items = [] \<and> \<not> ExternalSyncDisabled cr then await_config
     else or_fail (collect_repos E cr items [] False) (\<lambda>(repos, containerResources) c.
          and_then (if containerResources then lifted (waitForResourcesDeployment E cr) c else success c)
            (sync_indexes E cr ?store (map snd (range_over E repos)))))"
  proof (rule settles_if, rule settles_leaves, rule settles_or_fail_post [where P = ?P])
    show "keeps look (collect_repos E cr items [] False)" by (rule keeps_intros)
  next
    fix c x c'
    assume "collect_repos E cr items [] False c = Some (Inr x, c')"
    then show "?P x"
      by (cases x) (auto dest!: collect_repos_source)
  next
    fix x :: "(string \<times> RepositoryInfo) list \<times> bool"
    assume P: "?P x"
    obtain repos b where x: "x = (repos, b)" by fastforce
    have w: "settles look (\<lambda>c. if b then lifted (waitForResourcesDeployment E cr) c else success c)"
      using settles_lifted [OF waitForResourcesDeployment_steps] settles_leaves(1) by (cases b) simp_all
    have "settles look (sync_indexes E cr ?store (map snd (range_over E repos)))"
      by (rule sync_indexes_settles [OF store]) (use P x in \<open>fastforce simp: range_over_set list_all_iff\<close>)
    from settles_and_then [OF w this] x
    show "settles look ((\<lambda>(repos, containerResources) c.
      and_then (if containerResources then lifted (waitForResourcesDeployment E cr) c else success c)
        (sync_indexes E cr ?store (map snd (range_over E repos)))) x)" by simp
  qed
qed

lemma configuration_run_settles: "settles look (configuration_run E cr s)"
  unfolding configuration_run_def
  by (rule synchronise_settles keeps_intros touches_intros)+

lemma configuration_Reconcile_laws:
  assumes "configuration_Reconcile E cr s w = Some ((st, er), cr', s', w')"
  shows "(er \<noteq> None \<longrightarrow> st = ResultFailed) \<and> same_identity cr cr' \<and> same_progress s s' \<and> only look foreign w w'"
proof -
  from assms have "configuration_run E cr s ((cr, s), w) = Some ((st, er), ((cr', s'), w'))"
    by (auto simp: configuration_Reconcile_def split: option.splits)
  with configuration_run_settles [of cr s] show ?thesis
    unfolding settles_def cfg_frame_def by fastforce
qed

end

section \<open>What a cleanup deletes\<close>

text \<open>The objects a cleanup finds by their labels.\<close>

definition configuration_labelled :: "('w \<Rightarrow> okey \<Rightarrow> kobj option) \<Rightarrow> Observability \<Rightarrow> 'w \<Rightarrow> okey set" where
  "configuration_labelled look cr w =
     matching look KSecret (managed_in cr) w \<union> matching look KConfigMap (managed_in cr) w
     \<union> (if \<not> ExternalSyncDisabled cr
        then (if \<not> DescopedModeEnabled cr then matching look KGrafanaDashboard (managed_in cr) w else {})
             \<union> matching look KPrometheusRule (managed_in cr) w \<union> matching look KPodMonitor (managed_in cr) w
        else {})
     \<union> matching look KDaemonSet (managed_in cr) w
     \<union> matching look KDeployment (auth_proxies_in cr) w \<union> matching look KNetworkPolicy (auth_proxies_in cr) w"

text \<open>The objects it deletes by name, and all it may touch.\<close>

definition configuration_named :: "Observability \<Rightarrow> okey set" where
  "configuration_named cr =
     {key_of (GetResourcesDeployment cr), key_of (GetResourcesService cr), key_of (GetResourcesRoute cr)}"

definition configuration_owned :: "Observability \<Rightarrow> okey set" where
  "configuration_owned cr =
     (\<Union>kd \<in> {KSecret, KConfigMap, KGrafanaDashboard, KPrometheusRule, KPodMonitor, KDaemonSet, KDeployment,
             KNetworkPolicy}. of_kind kd (o_namespace cr))
     \<union> configuration_named cr"

lemma if_mono: "(b \<Longrightarrow> A \<subseteq> B) \<Longrightarrow> (if b then A else {}) \<subseteq> (if b then B else {})"
  by simp

context kube_client begin

lemma cleanup_monitoring_sweeps:
  "sweeps look (of_kind KGrafanaDashboard (o_namespace cr)
        \<union> (of_kind KPrometheusRule (o_namespace cr) \<union> of_kind KPodMonitor (o_namespace cr)))
     (\<lambda>w. (if \<not> DescopedModeEnabled cr then matching look KGrafanaDashboard (managed_in cr) w else {})
          \<union> (matching look KPrometheusRule (managed_in cr) w \<union> matching look KPodMonitor (managed_in cr) w))
     (cleanup_monitoring E cr)"
  unfolding cleanup_monitoring_def
  by (rule sweeps_attempt sweeps_if sweeps_delete_all Un_mono subset_refl
      | erule matching_stable | simp add: of_kind_def)+

lemma cleanup_run_sweeps:
  "sweeps look (configuration_owned cr) (\<lambda>w. configuration_labelled look cr w \<union> configuration_named cr)
     (cleanup_run E cr)"
proof -
  let ?ns = "o_namespace cr"
  have "sweeps look
      (of_kind KSecret ?ns \<union> (of_kind KConfigMap ?ns \<union>
       ((of_kind KGrafanaDashboard ?ns \<union> (of_kind KPrometheusRule ?ns \<union> of_kind KPodMonitor ?ns)) \<union>
        (of_kind KDaemonSet ?ns \<union> (of_kind KDeployment ?ns \<union>
         ({key_of (GetResourcesDeployment cr)} \<union> ({key_of (GetResourcesService cr)} \<union>
          ({key_of (GetResourcesRoute cr)} \<union> of_kind KNetworkPolicy ?ns))))))))
      (\<lambda>w. matching look KSecret (managed_in cr) w \<union> (matching look KConfigMap (managed_in cr) w \<union>
       ((if \<not> ExternalSyncDisabled cr
         then (if \<not> DescopedModeEnabled cr then matching look KGrafanaDashboard (managed_in cr) w else {})
              \<union> (matching look KPrometheusRule (managed_in cr) w \<union> matching look KPodMonitor (managed_in cr) w)
         else {}) \<union>
        (matching look KDaemonSet (managed_in cr) w \<union> (matching look KDeployment (auth_proxies_in cr) w \<union>
         ({key_of (GetResourcesDeployment cr)} \<union> ({key_of (GetResourcesService cr)} \<union>
          ({key_of (GetResourcesRoute cr)} \<union> matching look KNetworkPolicy (auth_proxies_in cr) w))))))))
      (cleanup_run E cr)"
    unfolding cleanup_run_def
    by (rule sweeps_attempt sweeps_if cleanup_monitoring_sweeps sweeps_delete_all sweeps_delete_if_present
        if_mono Un_mono subset_refl
      | erule matching_stable | simp add: of_kind_def model_obj_defs | force simp: of_kind_def)+
  then show ?thesis
    by (rule sweeps_weaken) (auto simp: configuration_owned_def configuration_named_def configuration_labelled_def)
qed

lemma configuration_Cleanup_cleans:
  "cleans look (configuration_owned cr) (configuration_named cr) (configuration_Cleanup E cr)"
  unfolding configuration_Cleanup_def by (rule sweeps_cleans [OF cleanup_run_sweeps]) simp

lemma configuration_Cleanup_labelled:
  assumes "configuration_Cleanup E cr w = Some ((ResultSuccess, er), w')"
  shows "all_gone look (configuration_labelled look cr w) w'"
proof -
  from assms obtain u where "cleanup_run E cr w = Some (Inr u, w')"
    by (auto simp: configuration_Cleanup_def or_fail_def failed_def success_def split: option.splits sum.splits)
  from sweepsD(3) [OF cleanup_run_sweeps this] show ?thesis by simp
qed

lemma configuration_owned_foreign: "configuration_owned cr \<subseteq> foreign"
  by (auto simp: configuration_owned_def configuration_named_def of_kind_def foreign_def model_obj_defs)

lemma configuration_stage_laws:
  "stage_reconciler E look configuration_reconciler configuration_owned configuration_named"
  by (rule stage_reconcilerI)
    (simp_all add: configuration_reconciler_def configuration_Reconcile_laws configuration_Cleanup_cleans
      configuration_owned_foreign)

end

sublocale kube_client \<subseteq> configuration_stage:
  stage_reconciler E look configuration_reconciler configuration_owned configuration_named
  by (rule configuration_stage_laws)

section \<open>Properties\<close>

text \<open>A server with two configuration secrets and their repositories.\<close>

definition config_secret :: "string \<Rightarrow> kobj" where
  "config_secret nm = set_labels (Some [(''configures'', ''observability-operator'')])
     (sample_secret nm [(''repository'', ''https://api.github.com/'' @ nm), (''channel'', ''resources'')])"

definition served :: "string \<Rightarrow> http_response" where
  "served document = \<lparr>hp_status = 200, hp_statusLine = ''200 OK'', hp_body = Inr document\<rparr>"

definition github_world :: mem where
  "github_world = (sample_world [config_secret ''a'', config_secret ''b''])\<lparr>mw_http :=
     [(''https://api.github.com/a/resources/index.json'', served ''ia''),
      (''https://api.github.com/b/resources/index.json'', served ''ib''),
      (''https://api.github.com/a/resources/'', served []),
      (''https://api.github.com/b/resources/'', served [])]\<rparr>"

definition github_cr :: "int \<Rightarrow> Observability" where
  "github_cr lastSynced = sample_cr\<lparr>o_spec := (o_spec sample_cr)\<lparr>
     sp_ConfigurationSelector := Some (match_labels [(''configures'', ''observability-operator'')])\<rparr>,
     o_status := zero_status\<lparr>st_LastSynced := lastSynced\<rparr>\<rparr>"

lemma next_sync_exact:
  assumes "0 \<le> lastSynced" and "lastSynced < 2 ^ 62" and "0 \<le> period" and "period < 2 ^ 63"
  shows "next_sync lastSynced period = lastSynced * 10 ^ 9 + period"
proof -
  from assms have "wrap64 (lastSynced + unixToInternal) = lastSynced + unixToInternal"
    by (intro wrap64_id) (simp_all add: unixToInternal_def)
  moreover have "0 \<le> period div 10 ^ 9" "period div 10 ^ 9 < 2 ^ 34" using assms by simp_all
  ultimately have "saturate64 (wrap64 (lastSynced + unixToInternal) + period div 10 ^ 9)
      = lastSynced + unixToInternal + period div 10 ^ 9"
    using assms by (simp add: saturate64_def unixToInternal_def)
  then show ?thesis by (simp add: next_sync_def)
qed

text \<open>
  C9: a synchronisation is due exactly when there was none, a token expired, the repositories are
  not read, an instance is missing after the migration, or the period has passed since the last
  one; no overflow gets in the way for times of the next hundred billion years.
\<close>

theorem sync_decision:
  assumes "TokensExpired E cr w = (Inr expired, w1)"
    and "(if st_Migrated s then checkForMissingCR E cr else ret False) w1 = Some (Inr missing, w2)"
    and "e_parse_duration E (sp_ResyncPeriod (o_spec cr)) = Inr period" and "0 \<le> period" and "period < 2 ^ 63"
    and "0 \<le> st_LastSynced (o_status cr)" and "st_LastSynced (o_status cr) < 2 ^ 62"
  shows "sync_due E cr s w = Some (Inr (st_LastSynced (o_status cr) = 0 \<or> expired \<or> ExternalSyncDisabled cr \<or> missing
      \<or> st_LastSynced (o_status cr) * 10 ^ 9 + period \<le> e_now E w2), w2)"
proof -
  have "(if st_Migrated s then wrapped m (checkForMissingCR E cr) else ret False) w1 = Some (Inr missing, w2)" for m
    using assms(2) by (cases "st_Migrated s") (simp_all add: wrapped_Inr_iff)
  with assms(1,3) next_sync_exact [OF assms(6,7,4,5)] show ?thesis
    by (auto simp: sync_due_def period_elapsed_def attempt_def metered_def wrapped_def call_def value_of_def ret_def)
qed

theorem sync_decision_witness:
  "sync_due sample_env (github_cr 999999000) zero_status github_world = Some (Inr False, github_world)
   \<and> sync_due sample_env (github_cr 999996400) zero_status github_world = Some (Inr True, github_world)"
proof -
  have t: "TokensExpired sample_env (github_cr l) github_world = (Inr False, github_world)" if "l \<in> {999999000, 999996400}" for l
    using that by (elim insertE emptyE; hypsubst) code_simp+
  have m: "(if st_Migrated zero_status then checkForMissingCR sample_env (github_cr l) else ret False) github_world
      = Some (Inr False, github_world)" for l by (simp add: zero_status_def ret_def)
  have p: "e_parse_duration sample_env x = Inr (3600 * 10 ^ 9)" for x by (simp add: sample_env_def)
  have now: "e_now sample_env github_world = 10 ^ 18" by (simp add: sample_env_def github_world_def sample_world_def)
  have l: "st_LastSynced (o_status (github_cr l)) = l" "\<not> ExternalSyncDisabled (github_cr l)" for l
    by (simp_all add: github_cr_def sample_cr_def ExternalSyncDisabled_def zero_selfcontained_def deref_true_def)
  show ?thesis
    using sync_decision [OF t m p, of 999999000] sync_decision [OF t m p, of 999996400] by (simp add: l now)
qed

text \<open>
  C23: while no synchronisation is due, the stage succeeds and changes nothing: neither the server,
  nor the resource, nor its status.
\<close>

theorem idle_between_syncs:
  assumes "kube_client E look" and "sync_due E cr s w = Some (Inr False, w1)"
    and "sp_ConfigurationSelector (o_spec cr) \<noteq> None"
  shows "configuration_Reconcile E cr s w = Some ((ResultSuccess, None), cr, s, w1) \<and> look w1 = look w"
proof
  show "configuration_Reconcile E cr s w = Some ((ResultSuccess, None), cr, s, w1)"
    using assms(2,3)
    by (auto simp: configuration_Reconcile_def configuration_run_def or_fail_def lifted_def success_def)
  show "look w1 = look w"
    using touchesD [OF kube_client.sync_due_touches [OF assms(1), of "{}"] assms(2)] by (auto simp: only_def)
qed

theorem idle_between_syncs_witness:
  "configuration_Reconcile sample_env (github_cr 999999000) zero_status github_world
     = Some ((ResultSuccess, None), github_cr 999999000, zero_status, github_world)"
proof -
  have "sync_due sample_env (github_cr 999999000) zero_status github_world = Some (Inr False, github_world)" by code_simp
  moreover have "sp_ConfigurationSelector (o_spec (github_cr 999999000)) \<noteq> None" by code_simp
  ultimately show ?thesis using idle_between_syncs [OF sample_env_client] by blast
qed

lemma or_fail_success:
  "or_fail m k c = Some ((ResultSuccess, er), c') \<longleftrightarrow>
     (\<exists>x c1. m c = Some (Inr x, c1) \<and> k x c1 = Some ((ResultSuccess, er), c'))"
  by (auto simp: or_fail_def failed_def split: option.splits sum.splits)

lemma and_then_success:
  "and_then r k = Some ((ResultSuccess, er), c') \<longleftrightarrow>
     (\<exists>e c1. r = Some ((ResultSuccess, e), c1) \<and> k c1 = Some ((ResultSuccess, er), c'))"
  by (auto simp: and_then_def split: option.splits)

lemma sync_indexes_success:
  assumes "sync_indexes E cr store repos ((cr, s), w) = Some ((ResultSuccess, er), ((cr', s'), w'))"
  shows "\<exists>w1. w' = IncreaseSuccessfulConfigurationSyncsMetric E w1
    \<and> st_LastSynced s' = (if ExternalSyncDisabled cr then 0 else e_now E w1 div 10 ^ 9)"
proof -
  from assms obtain indexes h cr1 c2 c3 c4 where p: "sync_prometheus E indexes h c2 = Some (Inr cr1, c3)"
    and c2: "fst c2 = (cr, s)" and f: "sync_finished E cr1 c4 = Some ((ResultSuccess, er), ((cr', s'), w'))"
    by (auto simp: sync_indexes_def or_fail_success lifted_Inr_iff)
  from p c2 obtain v w1 where "reconcilePrometheus E cr indexes h v = Some ((None, cr1), w1)"
    by (cases c2) (auto simp: sync_prometheus_def split: option.splits)
  from reconcilePrometheus_identity [OF this] have "ExternalSyncDisabled cr1 = ExternalSyncDisabled cr"
    by (auto simp: ExternalSyncDisabled_def)
  with f show ?thesis by (cases c4) (auto simp: sync_finished_def success_def)
qed

lemma resources_route_cr:
  "resources_route E cr c = Some (Inr u, c') \<Longrightarrow> fst (fst c') = fst (fst c)"
  by (cases c; cases "fst c") (auto simp: resources_route_def split: option.splits sum.splits)

lemma deploy_resources_cr:
  assumes "deploy_resources E cr repo c = Some (Inr u, c')"
  shows "fst (fst c') = fst (fst c)"
proof -
  from assms obtain c2 v where "fst c2 = fst c" "(if RunningLocally E then resources_route E cr else ret ()) c2 = Some (Inr v, c')"
    unfolding deploy_resources_def attempt_Inr_iff lifted_Inr_iff by metis
  then show ?thesis using resources_route_cr by (cases "RunningLocally E") (fastforce simp: ret_def)+
qed

lemma collect_repos_cr:
  "collect_repos E cr items repos b c = Some (Inr r, c') \<Longrightarrow> fst (fst c') = fst (fst c)"
proof (induction items arbitrary: repos b c)
  case Nil
  then show ?case by (simp add: Inr_iffs)
next
  case (Cons item items)
  from Cons.prems obtain repos' b' c1 where "fst (fst c1) = fst (fst c)" "collect_repos E cr items repos' b' c1 = Some (Inr r, c')"
    by (auto simp: Let_def attempt_Inr_iff split: if_splits dest: deploy_resources_cr)
  with Cons.IH show ?case by metis
qed

lemma synchronise_success:
  assumes "synchronise E cr ((cr, s), w) = Some ((ResultSuccess, er), c')"
  obtains store repos s2 w2 where "sync_indexes E cr store repos ((cr, s2), w2) = Some ((ResultSuccess, er), c')"
proof -
  let ?rest = "\<lambda>items (repos, containerResources) c.
    and_then (if containerResources then lifted (waitForResourcesDeployment E cr) c else success c)
      (sync_indexes E cr (if items = [] then [] else [last items]) (map snd (range_over E repos)))"
  from assms obtain items c1 where c1: "fst c1 = (cr, s)"
    and k: "(if items = [] \<and> \<not> ExternalSyncDisabled cr then await_config
      else or_fail (collect_repos E cr items [] False) (?rest items)) c1 = Some ((ResultSuccess, er), c')"
    unfolding synchronise_def or_fail_success lifted_Inr_iff by auto
  have "await_config c1 \<noteq> Some ((ResultSuccess, er), c')"
    by (cases c1; cases "fst c1") (simp add: await_config_def in_progress_def)
  with k obtain repos b c2 where cr: "collect_repos E cr items [] False c1 = Some (Inr (repos, b), c2)"
    and r: "?rest items (repos, b) c2 = Some ((ResultSuccess, er), c')"
    unfolding or_fail_success by (auto split: if_splits simp: or_fail_success)
  from r obtain e c3 where wt: "(if b then lifted (waitForResourcesDeployment E cr) c2 else success c2) = Some ((ResultSuccess, e), c3)"
    and si: "sync_indexes E cr (if items = [] then [] else [last items]) (map snd (range_over E repos)) c3
      = Some ((ResultSuccess, er), c')"
    unfolding prod.case and_then_success by blast
  from wt have "fst c3 = fst c2" by (auto simp: lifted_def success_def split: if_splits option.splits)
  with collect_repos_cr [OF cr] c1 obtain s2 w2 where "c3 = ((cr, s2), w2)" by (cases c3; cases "fst c3") auto
  with si that show thesis by blast
qed

text \<open>
  C8: when the stage succeeds, either nothing was to be done or the time of the synchronisation
  is recorded in the status, as zero when the repositories are not read.
\<close>

theorem sync_recorded:
  assumes "kube_client E look" and "configuration_Reconcile E cr s w = Some ((ResultSuccess, er), cr', s', w')"
  shows "cr' = cr \<and> s' = s \<and> look w' = look w
    \<or> (\<exists>w1. w' = IncreaseSuccessfulConfigurationSyncsMetric E w1
        \<and> st_LastSynced s' = (if ExternalSyncDisabled cr then 0 else e_now E w1 div 10 ^ 9))"
proof -
  from assms(2) have run: "configuration_run E cr s ((cr, s), w) = Some ((ResultSuccess, er), ((cr', s'), w'))"
    by (auto simp: configuration_Reconcile_def split: option.splits)
  show ?thesis
  proof (cases "sp_ConfigurationSelector (o_spec cr) = None \<and> \<not> ExternalSyncDisabled cr")
    case True
    with run show ?thesis by (simp add: configuration_run_def success_def)
  next
    case False
    with run obtain due c1 where d: "lifted (sync_due E cr s) ((cr, s), w) = Some (Inr due, c1)"
      and k: "(if due then synchronise E cr else success) c1 = Some ((ResultSuccess, er), ((cr', s'), w'))"
      unfolding configuration_run_def by (simp only: if_False or_fail_success) blast
    from d have c1: "c1 = ((cr, s), snd c1)" and sd: "sync_due E cr s w = Some (Inr due, snd c1)"
      by (cases c1; simp add: lifted_Inr_iff)+
    show ?thesis
    proof (cases due)
      case True
      with k c1 have "synchronise E cr ((cr, s), snd c1) = Some ((ResultSuccess, er), ((cr', s'), w'))" by simp
      then obtain store repos s2 w2 where
        "sync_indexes E cr store repos ((cr, s2), w2) = Some ((ResultSuccess, er), ((cr', s'), w'))"
        by (rule synchronise_success)
      from sync_indexes_success [OF this] show ?thesis by blast
    next
      case False
      with k have "c1 = ((cr', s'), w')" by (simp add: success_def)
      moreover have "look (snd c1) = look w"
        using touchesD [OF kube_client.sync_due_touches [OF assms(1), of "{}"] sd] unfolding only_def by blast
      ultimately show ?thesis using c1 by simp
    qed
  qed
qed

theorem sync_recorded_witness:
  "\<exists>er cr' s' w'. configuration_Reconcile sample_env (github_cr 0) zero_status github_world
       = Some ((ResultSuccess, er), cr', s', w')
     \<and> (\<exists>w1. w' = IncreaseSuccessfulConfigurationSyncsMetric sample_env w1
          \<and> st_LastSynced s' = e_now sample_env w1 div 10 ^ 9)"
proof -
  let ?run = "configuration_Reconcile sample_env (github_cr 0) zero_status github_world"
  have "returned ?run (\<lambda>((st, er), cr', s', w'). st = ResultSuccess \<and> s' \<noteq> zero_status)" by code_simp
  then obtain er cr' s' w' where run: "?run = Some ((ResultSuccess, er), cr', s', w')" and s': "s' \<noteq> zero_status"
    unfolding returned_iff by auto
  have "\<not> ExternalSyncDisabled (github_cr 0)" by code_simp
  with sync_recorded [OF sample_env_client, OF run] s' run show ?thesis by auto
qed







end
