(* ===== verification/Obs_Controller.thy ===== *)
theory Obs_Controller
  imports Promtail_Stage Csv_Stage Migration_Stage Prometheus_Stages Alertmanager_Stage Grafana_Stages
    Logging_Stage Configuration_Stage
begin

text \<open>
  \<^verbatim>\<open>controllers/observability_controller.go\<close>: the reconcile loop over the stages, the finalizer,
  the status update, and the creation of the default custom resource at start-up.
\<close>

section \<open>Constants and state\<close>

text \<open>Durations are nanoseconds.\<close>

definition RequeueDelaySuccess :: int where
  "RequeueDelaySuccess = 10 * 10 ^ 9"

definition RequeueDelayError :: int where
  "RequeueDelayError = 5 * 10 ^ 9"

definition ObservabilityFinalizer :: string where
  "ObservabilityFinalizer = ''observability-cleanup''"

definition NoInitConfigMapName :: string where
  "NoInitConfigMapName = ''observability-operator-no-init''"

record ObservabilityReconciler =
  op_installComplete :: bool
  op_noInit :: bool

record Result =
  res_Requeue :: bool
  res_RequeueAfter :: int

definition zero_result :: Result where
  "zero_result = \<lparr>res_Requeue = False, res_RequeueAfter = 0\<rparr>"

section \<open>The stages\<close>

definition getInstallationStages :: "ObservabilityStageName list" where
  "getInstallationStages =
     [TokenRequest, PrometheusInstallation, PrometheusConfiguration, GrafanaInstallation, GrafanaConfiguration,
      AlertmanagerInstallation, PromtailInstallation, LoggingInstallation, Csv, Migration, Configuration]"

definition getCleanupStages :: "ObservabilityStageName list" where
  "getCleanupStages =
     [PrometheusConfiguration, GrafanaConfiguration, PrometheusInstallation, GrafanaInstallation,
      AlertmanagerInstallation, PromtailInstallation, LoggingInstallation, Configuration, TokenRequest, Csv]"

fun getReconcilerForStage :: "ObservabilityStageName \<Rightarrow> 'w reconciler option" where
  "getReconcilerForStage PrometheusInstallation = Some prometheus_installation_reconciler"
| "getReconcilerForStage PrometheusConfiguration = Some prometheus_configuration_reconciler"
| "getReconcilerForStage GrafanaInstallation = Some grafana_installation_reconciler"
| "getReconcilerForStage GrafanaConfiguration = Some grafana_configuration_reconciler"
| "getReconcilerForStage Csv = Some csv_reconciler"
| "getReconcilerForStage TokenRequest = Some token_reconciler"
| "getReconcilerForStage PromtailInstallation = Some promtail_reconciler"
| "getReconcilerForStage AlertmanagerInstallation = Some alertmanager_reconciler"
| "getReconcilerForStage Configuration = Some configuration_reconciler"
| "getReconcilerForStage LoggingInstallation = Some logging_reconciler"
| "getReconcilerForStage Migration = Some migration_reconciler"
| "getReconcilerForStage (StageName _) = None"

text \<open>One stage: its method, the counters, and what is recorded in the next status.\<close>

definition record_stage ::
  "'w env \<Rightarrow> ObservabilityStageName \<Rightarrow> ObservabilityStageStatus \<Rightarrow> goerr option \<Rightarrow> ObservabilityStatus \<Rightarrow> 'w
    \<Rightarrow> ObservabilityStatus \<times> 'w" where
  "record_stage E stage status err nextStatus w =
     (case err of
        Some e \<Rightarrow> (nextStatus\<lparr>st_LastMessage := err_msg e, st_StageStatus := status\<rparr>,
                   IncreaseFailedReconciliationsMetric E stage w)
      | None \<Rightarrow> (nextStatus\<lparr>st_LastMessage := [], st_StageStatus := status\<rparr>, w))"

definition call_stage ::
  "'w env \<Rightarrow> 'w reconciler \<Rightarrow> Observability \<Rightarrow> ObservabilityStatus \<Rightarrow> 'w
    \<Rightarrow> ((ObservabilityStageStatus \<times> goerr option) \<times> Observability \<times> ObservabilityStatus \<times> 'w) option" where
  "call_stage E R obs nextStatus w =
     (if m_deletionTimestamp (o_meta obs) = None then rec_Reconcile R E obs nextStatus w
      else leave obs nextStatus (rec_Cleanup R E obs w))"

text \<open>The loop gives whether all stages succeeded, and both pointers' targets.\<close>

fun run_stages ::
  "'w env \<Rightarrow> (ObservabilityStageName \<Rightarrow> 'w reconciler option) \<Rightarrow> ObservabilityStageName list
    \<Rightarrow> Observability \<Rightarrow> ObservabilityStatus \<Rightarrow> 'w \<Rightarrow> (bool \<times> Observability \<times> ObservabilityStatus \<times> 'w) option" where
  "run_stages E reconcilerFor [] obs nextStatus w = Some (True, obs, nextStatus, w)"
| "run_stages E reconcilerFor (stage # stages) obs nextStatus w =
     (case reconcilerFor stage of
        None \<Rightarrow> run_stages E reconcilerFor stages obs (nextStatus\<lparr>st_Stage := stage\<rparr>) w
      | Some R \<Rightarrow>
          (case call_stage E R obs (nextStatus\<lparr>st_Stage := stage\<rparr>) (IncreaseTotalReconciliationsMetric E stage w) of
             None \<Rightarrow> None
           | Some ((status, err), obs1, nextStatus1, w1) \<Rightarrow>
               (case record_stage E stage status err nextStatus1 w1 of
                  (nextStatus2, w2) \<Rightarrow>
                    if status \<noteq> ResultSuccess then Some (False, obs1, nextStatus2, w2)
                    else run_stages E reconcilerFor stages obs1 nextStatus2 w2)))"

section \<open>The reconcile loop\<close>

definition updateStatus ::
  "'w env \<Rightarrow> Observability \<Rightarrow> ObservabilityStatus \<Rightarrow> 'w \<Rightarrow> (Result \<times> goerr option) \<times> 'w" where
  "updateStatus E cr nextStatus w =
     (if o_status cr \<noteq> nextStatus then
        (case e_status_update E (obs_obj (cr\<lparr>o_status := nextStatus\<rparr>)) w of
           (Some err, w1) \<Rightarrow> ((\<lparr>res_Requeue = True, res_RequeueAfter = RequeueDelayError\<rparr>, Some err), w1)
         | (None, w1) \<Rightarrow> ((\<lparr>res_Requeue = True, res_RequeueAfter = RequeueDelaySuccess\<rparr>, None), w1))
      else ((\<lparr>res_Requeue = True, res_RequeueAfter = RequeueDelaySuccess\<rparr>, None), w))"

definition set_finalizers :: "string list \<Rightarrow> Observability \<Rightarrow> Observability" where
  "set_finalizers fs obs = obs\<lparr>o_meta := (o_meta obs)\<lparr>m_finalizers := fs\<rparr>\<rparr>"

text \<open>\<open>err = r.Update(ctx, obs)\<close>, of which only the error is kept.\<close>

definition update_error :: "'w env \<Rightarrow> Observability \<Rightarrow> 'w \<Rightarrow> goerr option \<times> 'w" where
  "update_error E obs w =
     (case e_update E (obs_obj obs) w of (Inl err, w1) \<Rightarrow> (Some err, w1) | (Inr _, w1) \<Rightarrow> (None, w1))"

definition finish_reconcile ::
  "'w env \<Rightarrow> ObservabilityReconciler \<Rightarrow> bool \<Rightarrow> Observability \<Rightarrow> ObservabilityStatus \<Rightarrow> 'w
    \<Rightarrow> (Result \<times> goerr option) \<times> ObservabilityReconciler \<times> 'w" where
  "finish_reconcile E r finished obs nextStatus w =
     (let deleted = m_deletionTimestamp (o_meta obs) \<noteq> None;
          r1 = (if \<not> deleted \<and> finished \<and> \<not> op_installComplete r then r\<lparr>op_installComplete := True\<rparr> else r)
      in if deleted \<and> finished then
           (case update_error E (set_finalizers [] obs) w of
              (err, w1) \<Rightarrow> ((zero_result, err), r1\<lparr>op_installComplete := False\<rparr>, w1))
         else if m_finalizers (o_meta obs) \<noteq> [] \<and> \<not> op_noInit r1 then
           (case update_error E (set_finalizers [] obs) w of
              (err, w1) \<Rightarrow> ((\<lparr>res_Requeue = True, res_RequeueAfter = RequeueDelaySuccess\<rparr>, err), r1, w1))
         else (case updateStatus E obs nextStatus w of (re, w1) \<Rightarrow> (re, r1, w1)))"

definition reconcile_instance ::
  "'w env \<Rightarrow> ObservabilityReconciler \<Rightarrow> Observability \<Rightarrow> 'w
    \<Rightarrow> ((Result \<times> goerr option) \<times> ObservabilityReconciler \<times> 'w) option" where
  "reconcile_instance E r obs w =
     (if m_deletionTimestamp (o_meta obs) = None \<and> length (m_finalizers (o_meta obs)) = 0 \<and> op_noInit r then
        (case update_error E (set_finalizers (m_finalizers (o_meta obs) @ [ObservabilityFinalizer]) obs) w of
           (err, w1) \<Rightarrow> Some ((zero_result, err), r, w1))
      else
        (case run_stages E getReconcilerForStage
                (if m_deletionTimestamp (o_meta obs) = None then getInstallationStages else getCleanupStages)
                obs (o_status obs) w of
           None \<Rightarrow> None
         | Some (finished, obs1, nextStatus, w1) \<Rightarrow> Some (finish_reconcile E r finished obs1 nextStatus w1)))"

definition controller_Reconcile ::
  "'w env \<Rightarrow> ObservabilityReconciler \<Rightarrow> string \<Rightarrow> string \<Rightarrow> 'w
    \<Rightarrow> ((Result \<times> goerr option) \<times> ObservabilityReconciler \<times> 'w) option" where
  "controller_Reconcile E r namespace name w =
     (case e_get E KObservability namespace name w of
        (Inl err, w1) \<Rightarrow>
          Some ((zero_result, if IsNotFound err then None else Some err), r, w1)
      | (Inr ob, w1) \<Rightarrow> reconcile_instance E r (obj_obs ob) w1)"

section \<open>Start-up\<close>

definition observabilityInstance :: "string \<Rightarrow> Storage option \<Rightarrow> SelfContained \<Rightarrow> Observability" where
  "observabilityInstance namespace storage selfContained =
     \<lparr>o_meta = zero_meta\<lparr>m_name := ''observability-stack'', m_namespace := TrimSpace namespace,
                          m_labels := Some managed_label\<rparr>,
      o_spec = zero_spec\<lparr>sp_ResyncPeriod := ''1h'', sp_Retention := ''45d'', sp_Storage := storage,
                 sp_SelfContained := Some selfContained,
                 sp_ConfigurationSelector := Some (match_labels [(''configures'', ''observability-operator'')])\<rparr>,
      o_status = zero_status\<rparr>"

definition observabilityInstanceWithStorage :: "string \<Rightarrow> Observability" where
  "observabilityInstanceWithStorage namespace =
     observabilityInstance namespace
       (Some \<lparr>sg_PrometheusStorageSpec = Some (managed_storage [] (Some [(''storage'', PrometheusDefaultStorage)])),
              sg_AlertManagerStorageSpec = None\<rparr>)
       (zero_selfcontained\<lparr>sc_DisableBlackboxExporter := Some True\<rparr>)"

definition observabilityInstanceWithoutStorage :: "string \<Rightarrow> Observability" where
  "observabilityInstanceWithoutStorage namespace =
     observabilityInstance namespace None
       (zero_selfcontained\<lparr>sc_DisableBlackboxExporter := Some True, sc_DisableSmtp := Some True\<rparr>)"

text \<open>A missing config map; \<^verbatim>\<open>IsResourceNotFoundError\<close> is \<^verbatim>\<open>IsNotFound\<close> on errors of the API server.\<close>

definition noInitConfigmapExists :: "'w env \<Rightarrow> string \<Rightarrow> ('w, bool) go" where
  "noInitConfigmapExists E namespace w =
     (case e_get E KConfigMap (TrimSpace namespace) NoInitConfigMapName w of
        (Inl err, w1) \<Rightarrow> if IsNotFound err then Some (Inr False, w1) else Some (Inl err, w1)
      | (Inr _, w1) \<Rightarrow> Some (Inr True, w1))"

definition UpdateOperand :: "'w env \<Rightarrow> Observability \<Rightarrow> Observability \<Rightarrow> ('w, unit) go" where
  "UpdateOperand E from to =
     act (update_error E (to\<lparr>o_meta := (o_meta to)\<lparr>
       m_name := o_name from, m_resourceVersion := m_resourceVersion (o_meta from)\<rparr>\<rparr>))"

text \<open>The panic is the nil dereference of \<^verbatim>\<open>PlatformStatus\<close>; an error counts as no cloud.\<close>

definition running_on_cloud :: "'w env \<Rightarrow> ('w, bool) go" where
  "running_on_cloud E w =
     (case e_get E KInfrastructure [] ''cluster'' w of
        (Inl err, w1) \<Rightarrow> Some (Inr False, w1)
      | (Inr infra, w1) \<Rightarrow>
          (case infrastructure_of (k_body infra) of
             None \<Rightarrow> None
           | Some platform \<Rightarrow> Some (Inr (platform \<noteq> ''Libvirt'' \<and> platform \<noteq> ''None''), w1)))"

text \<open>The storage test looks at the first instance, not at the one to be updated.\<close>

definition adopt_instance :: "'w env \<Rightarrow> bool \<Rightarrow> Observability \<Rightarrow> ObservabilitySpec \<Rightarrow> kobj \<Rightarrow> ('w, unit) go" where
  "adopt_instance E runningOnCloud instance first existing =
     (if mget (ob_labels existing) ''managed-by'' \<noteq> ''observability-operator''
      then UpdateOperand E (obj_obs existing) instance
      else if (sp_Storage first = None \<or> sp_Retention first = []) \<and> runningOnCloud
      then UpdateOperand E (obj_obs existing) instance
      else ret ())"

definition ensure_instance :: "'w env \<Rightarrow> string \<Rightarrow> ('w, unit) go" where
  "ensure_instance E namespace =
     attempt (running_on_cloud E) (\<lambda>cloud.
       let instance = (if cloud then observabilityInstanceWithStorage namespace
                       else observabilityInstanceWithoutStorage namespace)
       in attempt (call (e_list E KObservability (in_namespace []))) (\<lambda>items.
          if items = [] then act (e_create E (obs_obj instance))
          else each (adopt_instance E cloud instance (o_spec (obj_obs (hd items)))) items))"

definition operator_namespace :: "'w env \<Rightarrow> string" where
  "operator_namespace E =
     (case e_read_file E ''/var/run/secrets/kubernetes.io/serviceaccount/namespace'' of
        Inl err \<Rightarrow> e_getenv E ''WATCH_NAMESPACE''
      | Inr ns \<Rightarrow> ns)"

definition InitializeOperand ::
  "'w env \<Rightarrow> ObservabilityReconciler \<Rightarrow> 'w \<Rightarrow> ((goerr option \<times> ObservabilityReconciler) \<times> 'w) option" where
  "InitializeOperand E r w =
     (if operator_namespace E = []
      then Some ((Some (New ''unable to create operand: cannot detect operator namespace''), r), w)
      else case noInitConfigmapExists E (operator_namespace E) w of
             None \<Rightarrow> None
           | Some (Inl err, w1) \<Rightarrow> Some ((Some err, r), w1)
           | Some (Inr noInitExists, w1) \<Rightarrow>
               if noInitExists then Some ((None, r\<lparr>op_noInit := True\<rparr>), w1)
               else (case ensure_instance E (operator_namespace E) w1 of
                       None \<Rightarrow> None
                     | Some (Inl err, w2) \<Rightarrow> Some ((Some err, r\<lparr>op_noInit := False\<rparr>), w2)
                     | Some (Inr _, w2) \<Rightarrow> Some ((None, r\<lparr>op_noInit := False\<rparr>), w2)))"

section \<open>The loop over any table of stages\<close>

lemma run_stages_append:
  "run_stages E table (xs @ ys) obs st w =
     (case run_stages E table xs obs st w of
        None \<Rightarrow> None
      | Some (finished, obs1, st1, w1) \<Rightarrow>
          if finished then run_stages E table ys obs1 st1 w1 else Some (False, obs1, st1, w1))"
  by (induction xs arbitrary: obs st w) (auto split: option.splits prod.splits)

lemma record_stage_sel:
  "record_stage E stage status err st w = (st', w') \<Longrightarrow>
     st_StageStatus st' = status \<and> st_LastMessage st' = (case err of None \<Rightarrow> [] | Some e \<Rightarrow> err_msg e)
     \<and> st_Stage st' = st_Stage st"
  by (auto simp: record_stage_def split: option.splits)

text \<open>A stopped loop names the stage it stopped at, and its status; every stage before it succeeded.\<close>

lemma run_stages_stopped:
  assumes "run_stages E table stages obs st w = Some (False, obs', st', w')"
    and "\<And>stage R obs st w r obs1 st1 w1. table stage = Some R \<Longrightarrow> call_stage E R obs st w = Some (r, obs1, st1, w1)
      \<Longrightarrow> st_Stage st1 = st_Stage st"
  obtains pre stage post obs1 st1 w1 where "stages = pre @ stage # post"
    and "run_stages E table pre obs st w = Some (True, obs1, st1, w1)"
    and "st_Stage st' = stage" and "st_StageStatus st' \<noteq> ResultSuccess" and "table stage \<noteq> None"
    and "run_stages E table [stage] obs1 st1 w1 = Some (False, obs', st', w')"
proof -
  have "\<exists>pre stage post obs1 st1 w1. stages = pre @ stage # post
      \<and> run_stages E table pre obs st w = Some (True, obs1, st1, w1)
      \<and> st_Stage st' = stage \<and> st_StageStatus st' \<noteq> ResultSuccess \<and> table stage \<noteq> None
      \<and> run_stages E table [stage] obs1 st1 w1 = Some (False, obs', st', w')"
    using assms(1)
  proof (induction stages arbitrary: obs st w)
    case Nil
    then show ?case by simp
  next
    case (Cons stage stages)
    show ?case
    proof (cases "\<exists>obs1 st1 w1. run_stages E table [stage] obs st w = Some (True, obs1, st1, w1)")
      case True
      then obtain obs1 st1 w1 where one: "run_stages E table [stage] obs st w = Some (True, obs1, st1, w1)" by blast
      with Cons.prems run_stages_append [of E table "[stage]" stages]
      have "run_stages E table stages obs1 st1 w1 = Some (False, obs', st', w')" by simp
      from Cons.IH [OF this] obtain pre sg post obs2 st2 w2 where
        ih: "stages = pre @ sg # post" "run_stages E table pre obs1 st1 w1 = Some (True, obs2, st2, w2)"
          "st_Stage st' = sg \<and> st_StageStatus st' \<noteq> ResultSuccess \<and> table sg \<noteq> None
            \<and> run_stages E table [sg] obs2 st2 w2 = Some (False, obs', st', w')" by blast
      from one ih(2) run_stages_append [of E table "[stage]" pre]
      have "run_stages E table (stage # pre) obs st w = Some (True, obs2, st2, w2)" by simp
      with ih(1,3) show ?thesis
        by (intro exI [of _ "stage # pre"] exI [of _ sg] exI [of _ post] exI [of _ obs2] exI [of _ st2] exI [of _ w2]) simp
    next
      case False
      with Cons.prems obtain R where R: "table stage = Some R" by (cases "table stage") auto
      with Cons.prems False obtain r obs1 st1 w1 where
        c: "call_stage E R obs (st\<lparr>st_Stage := stage\<rparr>) (IncreaseTotalReconciliationsMetric E stage w) = Some (r, obs1, st1, w1)"
        by (auto split: option.splits)
      obtain status err where r: "r = (status, err)" by fastforce
      obtain st2 w2 where rs: "record_stage E stage status err st1 w1 = (st2, w2)" by fastforce
      have "status \<noteq> ResultSuccess" using False R c r rs by (auto split: if_splits)
      with Cons.prems R c r rs have "st' = st2" and one: "run_stages E table [stage] obs st w = Some (False, obs', st', w')"
        by simp_all
      with record_stage_sel [OF rs] assms(2) [OF R c] \<open>status \<noteq> ResultSuccess\<close> R show ?thesis
        by (intro exI [of _ "[]"] exI [of _ stage] exI [of _ stages] exI [of _ obs] exI [of _ st] exI [of _ w])
          (use one in simp)
    qed
  qed
  then show thesis using that by blast
qed

locale stage_table = kube_client E look
  for E :: "'w env" and look :: "'w \<Rightarrow> okey \<Rightarrow> kobj option" +
  fixes table :: "ObservabilityStageName \<Rightarrow> 'w reconciler option"
    and K D :: "ObservabilityStageName \<Rightarrow> Observability \<Rightarrow> okey set"
  assumes table_stage: "table stage = Some R \<Longrightarrow> stage_reconciler E look R (K stage) (D stage)"
begin

lemma count_total: "look (IncreaseTotalReconciliationsMetric E stage w) = look w"
  by (simp add: IncreaseTotalReconciliationsMetric_def inc_counter_frame)

lemma record_stage_frame: "record_stage E stage status err st w = (st', w') \<Longrightarrow> look w' = look w"
  by (auto simp: record_stage_def IncreaseFailedReconciliationsMetric_def inc_counter_frame split: option.splits)

lemma call_stage_laws:
  assumes "table stage = Some R" and "call_stage E R obs st w = Some ((s, er), obs', st', w')"
  shows "(er \<noteq> None \<longrightarrow> s = ResultFailed) \<and> same_identity obs obs' \<and> same_progress st st' \<and> only look foreign w w'"
proof (cases "m_deletionTimestamp (o_meta obs) = None")
  case True
  with assms(2) have rr: "rec_Reconcile R E obs st w = Some ((s, er), obs', st', w')" by (simp add: call_stage_def)
  note st = table_stage [OF assms(1)]
  from stage_reconciler.reconcile_identity [OF st rr] stage_reconciler.reconcile_progress [OF st rr]
    stage_reconciler.reconcile_frame [OF st rr] stage_reconciler.reconcile_error [OF st] rr
  show ?thesis by auto
next
  case False
  with assms(2) have c: "rec_Cleanup R E obs w = Some ((s, er), w')" and "obs' = obs" "st' = st"
    by (auto simp: call_stage_def leave_Some_iff)
  note st = table_stage [OF assms(1)]
  from cleansD [OF stage_reconciler.cleanup_cleans [OF st] c] only_mono [OF _ stage_reconciler.owned_foreign [OF st]]
    \<open>obs' = obs\<close> \<open>st' = st\<close> show ?thesis by auto
qed

lemma run_stages_Cons:
  assumes "run_stages E table (stage # stages) obs st w = Some (fin, obs', st', w')"
  obtains (skip) "table stage = None" "run_stages E table stages obs (st\<lparr>st_Stage := stage\<rparr>) w = Some (fin, obs', st', w')"
  | (stop) R er st1 w1 w0 where "table stage = Some R" "look w0 = look w"
      "call_stage E R obs (st\<lparr>st_Stage := stage\<rparr>) w0 = Some ((st_StageStatus st', er), obs', st1, w1)"
      "record_stage E stage (st_StageStatus st') er st1 w1 = (st', w')"
      "st_StageStatus st' \<noteq> ResultSuccess" "\<not> fin" "look w' = look w1"
  | (go) R er obs1 st1 w1 st2 w2 w0 where "table stage = Some R" "look w0 = look w"
      "call_stage E R obs (st\<lparr>st_Stage := stage\<rparr>) w0 = Some ((ResultSuccess, er), obs1, st1, w1)"
      "record_stage E stage ResultSuccess er st1 w1 = (st2, w2)" "look w2 = look w1"
      "run_stages E table stages obs1 st2 w2 = Some (fin, obs', st', w')"
proof (cases "table stage")
  case None
  with assms skip show ?thesis by simp
next
  case (Some R)
  let ?w0 = "IncreaseTotalReconciliationsMetric E stage w"
  from assms Some obtain s er obs1 st1 w1 where
    c: "call_stage E R obs (st\<lparr>st_Stage := stage\<rparr>) ?w0 = Some ((s, er), obs1, st1, w1)"
    by (auto split: option.splits)
  obtain st2 w2 where rs: "record_stage E stage s er st1 w1 = (st2, w2)" by fastforce
  note l = record_stage_frame [OF rs] and sel = record_stage_sel [OF rs]
  show ?thesis
  proof (cases "s = ResultSuccess")
    case True
    with assms Some c rs go [OF Some count_total c [unfolded True] rs [unfolded True] l] show ?thesis by simp
  next
    case False
    with assms Some c rs have "obs' = obs1" "st' = st2" "w' = w2" "\<not> fin" by auto
    with c rs l sel False show ?thesis by (intro stop [OF Some count_total]) simp_all
  qed
qed

text \<open>No stage touches a stored custom resource, or the identity of the one in hand.\<close>

lemma run_stages_frame:
  "run_stages E table stages obs st w = Some (fin, obs', st', w') \<Longrightarrow>
     only look foreign w w' \<and> same_identity obs obs'"
proof (induction stages arbitrary: obs st w)
  case Nil
  then show ?case by simp
next
  case (Cons stage stages)
  from Cons.prems show ?case
  proof (cases rule: run_stages_Cons)
    case skip
    from Cons.IH [OF skip(2)] show ?thesis .
  next
    case (stop R er st1 w1 w0)
    from call_stage_laws [OF stop(1,3)] stop show ?thesis by (simp add: only_def)
  next
    case (go R er obs1 st1 w1 st2 w2 w0)
    from call_stage_laws [OF go(1,3)] Cons.IH [OF go(6)] go(2,5) show ?thesis
      by (auto simp: only_def intro: same_identity_trans)
  qed
qed

text \<open>What is recorded: a message comes with a failure, and success of all stages with no message.\<close>

lemma run_stages_recorded:
  "run_stages E table stages obs st w = Some (fin, obs', st', w') \<Longrightarrow>
     (st_LastMessage st \<noteq> [] \<longrightarrow> st_StageStatus st = ResultFailed) \<Longrightarrow>
     (st_LastMessage st' \<noteq> [] \<longrightarrow> st_StageStatus st' = ResultFailed)"
proof (induction stages arbitrary: obs st w)
  case Nil
  then show ?case by simp
next
  case (Cons stage stages)
  from Cons.prems(1) show ?case
  proof (cases rule: run_stages_Cons)
    case skip
    from Cons.IH [OF skip(2)] Cons.prems(2) show ?thesis by simp
  next
    case (stop R er st1 w1 w0)
    from call_stage_laws [OF stop(1,3)] record_stage_sel [OF stop(4)] show ?thesis by (auto split: option.splits)
  next
    case (go R er obs1 st1 w1 st2 w2 w0)
    from call_stage_laws [OF go(1,3)] record_stage_sel [OF go(4)] have "st_LastMessage st2 = []" by (cases er) auto
    with Cons.IH [OF go(6)] show ?thesis by simp
  qed
qed

lemma run_stages_finished:
  "run_stages E table stages obs st w = Some (True, obs', st', w') \<Longrightarrow> stages \<noteq> [] \<Longrightarrow>
     (\<forall>stage \<in> set stages. table stage \<noteq> None) \<Longrightarrow>
     st_Stage st' = last stages \<and> st_StageStatus st' = ResultSuccess \<and> st_LastMessage st' = []"
proof (induction stages arbitrary: obs st w)
  case Nil
  then show ?case by simp
next
  case (Cons stage stages)
  from Cons.prems(1) show ?case
  proof (cases rule: run_stages_Cons)
    case skip
    with Cons.prems(3) show ?thesis by simp
  next
    case (stop R er st1 w1 w0)
    then show ?thesis by simp
  next
    case (go R er obs1 st1 w1 st2 w2 w0)
    from call_stage_laws [OF go(1,3)] record_stage_sel [OF go(4)]
    have "st_Stage st2 = stage" "st_StageStatus st2 = ResultSuccess" "st_LastMessage st2 = []"
      by (cases er; simp add: same_progress_def)+
    with go(6) Cons.IH [OF go(6)] Cons.prems(3) show ?thesis by (cases "stages = []") auto
  qed
qed

text \<open>A cleanup run stays within the stages' objects; when it finishes, all of them are gone.\<close>

lemma run_stages_cleanup:
  "run_stages E table stages obs st w = Some (fin, obs', st', w') \<Longrightarrow> m_deletionTimestamp (o_meta obs) \<noteq> None \<Longrightarrow>
     obs' = obs \<and> only look (\<Union>stage \<in> set stages. K stage obs) w w' \<and> decays look w w'
     \<and> (fin \<longrightarrow> (\<forall>stage \<in> set stages. table stage \<noteq> None \<longrightarrow> all_gone look (D stage obs) w'))"
proof (induction stages arbitrary: st w)
  case Nil
  then show ?case by simp
next
  case (Cons stage stages)
  let ?K = "\<Union>stage \<in> set (stage # stages). K stage obs"
  from Cons.prems(1) show ?case
  proof (cases rule: run_stages_Cons)
    case skip
    from Cons.IH [OF skip(2) Cons.prems(2)] skip(1) show ?thesis
      by (auto elim: only_mono)
  next
    case (stop R er st1 w1 w0)
    from stop(3) Cons.prems(2) have c: "rec_Cleanup R E obs w0 = Some ((st_StageStatus st', er), w1)" "obs' = obs"
      by (auto simp: call_stage_def leave_Some_iff)
    from cleansD [OF stage_reconciler.cleanup_cleans [OF table_stage [OF stop(1)]] c(1)] stop(2,5,6,7) c(2)
    show ?thesis by (auto simp: only_def decays_def)
  next
    case (go R er obs1 st1 w1 st2 w2 w0)
    from go(3) Cons.prems(2) have c: "rec_Cleanup R E obs w0 = Some ((ResultSuccess, er), w1)" "obs1 = obs"
      by (auto simp: call_stage_def leave_Some_iff)
    from cleansD [OF stage_reconciler.cleanup_cleans [OF table_stage [OF go(1)]] c(1)] go(2,5)
    have c1: "only look (K stage obs) w w2" "decays look w w2" "all_gone look (D stage obs) w2"
      by (auto simp: only_def decays_def all_gone_def)
    note ih = Cons.IH [OF go(6) [unfolded c(2)] Cons.prems(2)]
    have "only look ?K w w2" by (rule only_mono [OF c1(1)]) auto
    moreover have "only look ?K w2 w'" using ih by (auto elim: only_mono)
    ultimately have "only look ?K w w'" by (rule only_trans)
    moreover have "decays look w w'" using c1(2) ih by (auto intro: decays_trans)
    moreover have "all_gone look (D stage obs) w'" using c1(3) ih by (auto intro: all_gone_decays)
    ultimately show ?thesis using ih by auto
  qed
qed

end

section \<open>The operator's own table\<close>

fun stage_owned :: "ObservabilityStageName \<Rightarrow> Observability \<Rightarrow> okey set" where
  "stage_owned PrometheusInstallation = prometheus_installation_owned"
| "stage_owned PrometheusConfiguration = prometheus_configuration_owned"
| "stage_owned GrafanaInstallation = grafana_installation_owned"
| "stage_owned GrafanaConfiguration = grafana_configuration_owned"
| "stage_owned Csv = csv_owned"
| "stage_owned TokenRequest = token_owned"
| "stage_owned PromtailInstallation = promtail_owned"
| "stage_owned AlertmanagerInstallation = alertmanager_owned"
| "stage_owned Configuration = configuration_owned"
| "stage_owned LoggingInstallation = logging_owned"
| "stage_owned Migration = (\<lambda>_. {})"
| "stage_owned (StageName _) = (\<lambda>_. {})"

text \<open>The objects that are gone when the cleanup of a stage succeeds.\<close>

fun stage_deleted :: "ObservabilityStageName \<Rightarrow> Observability \<Rightarrow> okey set" where
  "stage_deleted Configuration = configuration_named"
| "stage_deleted LoggingInstallation = (\<lambda>_. {})"
| "stage_deleted stage = stage_owned stage"

definition cleanup_objects :: "Observability \<Rightarrow> okey set" where
  "cleanup_objects cr = (\<Union>stage \<in> set getCleanupStages. stage_deleted stage cr)"

lemma stage_deleted_owned: "stage_deleted stage cr \<subseteq> stage_owned stage cr"
  by (cases stage) (auto simp: configuration_owned_def)

lemma table_total: "stage \<in> set getInstallationStages \<union> set getCleanupStages \<Longrightarrow> getReconcilerForStage stage \<noteq> None"
  by (auto simp: getInstallationStages_def getCleanupStages_def)

context kube_client begin

lemma stage_table_laws: "stage_table E look getReconcilerForStage stage_owned stage_deleted"
proof (rule stage_table.intro [OF kube_client_axioms stage_table_axioms.intro])
  fix stage and R :: "'w reconciler"
  assume "getReconcilerForStage stage = Some R"
  then show "stage_reconciler E look R (stage_owned stage) (stage_deleted stage)"
    by (cases stage)
      (auto simp: prometheus_installation_stage_laws prometheus_configuration_stage_laws
        grafana_installation_stage_laws grafana_configuration_stage_laws csv_stage_laws token_stage_laws
        promtail_stage_laws alertmanager_stage_laws configuration_stage_laws logging_stage_laws
        migration_stage_laws)
qed

end

sublocale kube_client \<subseteq> stages: stage_table E look getReconcilerForStage stage_owned stage_deleted
  by (rule stage_table_laws)

lemma obs_obj_key: "key_of (obs_obj obs) = (KObservability, o_namespace obs, o_name obs)"
  by (simp add: obs_obj_def key_of_def)

lemma obj_obs_meta [simp]: "o_meta (obj_obs ob) = k_meta ob"
  by (cases "k_body ob") simp_all

declare obj_obs.simps [simp del]

text \<open>
  What a request that ran the installation stages leaves in the stored status: the last stage
  and success exactly when every stage succeeded, otherwise the stage that did not.
\<close>

definition status_of_run :: "ObservabilityStatus \<Rightarrow> bool \<Rightarrow> bool" where
  "status_of_run st finished \<longleftrightarrow>
     (if finished then st_Stage st = last getInstallationStages \<and> st_StageStatus st = ResultSuccess \<and> st_LastMessage st = []
      else st_Stage st \<in> set getInstallationStages \<and> st_StageStatus st \<noteq> ResultSuccess
        \<and> (st_LastMessage st \<noteq> [] \<longrightarrow> st_StageStatus st = ResultFailed))"

lemma status_of_run_cluster [simp]: "status_of_run (st\<lparr>st_ClusterID := i\<rparr>) fin = status_of_run st fin"
  by (simp add: status_of_run_def)

text \<open>
  The life of a custom resource: requests are served one at a time, others act in between.
  They may do anything but release a terminating resource.
\<close>

inductive operator_step ::
  "'w env \<Rightarrow> ('w \<Rightarrow> okey \<Rightarrow> kobj option) \<Rightarrow> ObservabilityReconciler \<times> 'w \<Rightarrow> ObservabilityReconciler \<times> 'w \<Rightarrow> bool"
  for E look where
  serve: "controller_Reconcile E r ns nm w = Some (re, r', w') \<Longrightarrow> operator_step E look (r, w) (r', w')"
| others: "(\<forall>ns nm fs t. lifecycle_at (look w) (KObservability, ns, nm) = Some (fs, Some t) \<longrightarrow>
       lifecycle_at (look w') (KObservability, ns, nm) = Some (fs, Some t))
     \<Longrightarrow> operator_step E look (r, w) (r, w')"

text \<open>
  The specification of a request: what it may do to the life of its resource, its finalizers and
  its deletion time.  \<open>cleaned\<close> says whether all objects of the cleanup stages are gone.
\<close>

inductive life_step :: "bool \<Rightarrow> (string list \<times> int option) option \<Rightarrow> (string list \<times> int option) option \<Rightarrow> bool"
  for cleaned where
  stay: "life_step cleaned life life"
| guard: "life_step cleaned (Some ([], None)) (Some ([ObservabilityFinalizer], t))"
| release: "cleaned \<Longrightarrow> life_step cleaned (Some (finalizers, Some t)) None"

inductive_simps life_step_absent: "life_step cleaned None life"

inductive_cases operator_stepE: "operator_step E look (r, w) (r', w')"

lemma finish_reconcile_noInit:
  "finish_reconcile E r fin obs st w = (re, r', w') \<Longrightarrow> op_noInit r' = op_noInit r"
  by (auto simp: finish_reconcile_def Let_def split: prod.splits if_splits)

lemma controller_Reconcile_noInit:
  assumes "controller_Reconcile E r ns nm w = Some (re, r', w')"
  shows "op_noInit r' = op_noInit r"
  using assms
  by (auto simp: controller_Reconcile_def reconcile_instance_def split: prod.splits sum.splits option.splits if_splits
      dest: finish_reconcile_noInit)

context kube_client begin

lemma update_error_only: "update_error E obs w = (er, w') \<Longrightarrow> only look {key_of (obs_obj obs)} w w'"
  unfolding only_def by (auto simp: update_error_def split: prod.splits sum.splits dest: update_frame)

lemma updateStatus_only:
  assumes "updateStatus E obs st w = (re, w')"
  shows "only look {key_of (obs_obj obs)} w w'"
proof (cases "o_status obs = st")
  case True
  with assms show ?thesis by (simp add: updateStatus_def)
next
  case False
  obtain er w1 where u: "e_status_update E (obs_obj (obs\<lparr>o_status := st\<rparr>)) w = (er, w1)" by fastforce
  with False assms have "w' = w1" by (auto simp: updateStatus_def split: option.splits)
  with status_update_frame [OF u] show ?thesis unfolding only_def by (simp add: obs_obj_key)
qed

lemma finish_reconcile_only:
  "finish_reconcile E r fin obs st w = (re, r', w') \<Longrightarrow> only look {key_of (obs_obj obs)} w w'"
  by (auto simp: finish_reconcile_def Let_def split: prod.splits if_splits dest!: update_error_only updateStatus_only)
    (simp_all add: obs_obj_def key_of_def set_finalizers_def)

lemma same_identity_key: "same_identity obs obs' \<Longrightarrow> key_of (obs_obj obs') = key_of (obs_obj obs)"
  unfolding same_identity_def obs_obj_key by (cases "o_meta obs"; cases "o_meta obs'") simp

lemma reconcile_instance_frame:
  assumes "reconcile_instance E r obs w = Some (re, r', w')"
  shows "only look (insert (key_of (obs_obj obs)) foreign) w w'"
proof (cases "m_deletionTimestamp (o_meta obs) = None \<and> length (m_finalizers (o_meta obs)) = 0 \<and> op_noInit r")
  case True
  let ?obs = "set_finalizers (m_finalizers (o_meta obs) @ [ObservabilityFinalizer]) obs"
  from True assms obtain er where u: "update_error E ?obs w = (er, w')"
    by (auto simp: reconcile_instance_def split: prod.splits)
  have "key_of (obs_obj ?obs) = key_of (obs_obj obs)" by (simp add: obs_obj_key set_finalizers_def)
  with update_error_only [OF u] show ?thesis by (auto elim: only_mono)
next
  case False
  let ?stages = "if m_deletionTimestamp (o_meta obs) = None then getInstallationStages else getCleanupStages"
  from False assms obtain fin obs1 st1 w1 where
    run: "run_stages E getReconcilerForStage ?stages obs (o_status obs) w = Some (fin, obs1, st1, w1)"
    and fin: "finish_reconcile E r fin obs1 st1 w1 = (re, r', w')"
    unfolding reconcile_instance_def by (auto split: option.splits)
  note f = stages.run_stages_frame [OF run]
  from finish_reconcile_only [OF fin] same_identity_key [of obs obs1] f
  have "only look (insert (key_of (obs_obj obs)) foreign) w1 w'" by (auto elim: only_mono)
  moreover have "only look (insert (key_of (obs_obj obs)) foreign) w w1"
    using f by (auto elim: only_mono)
  ultimately show ?thesis by (rule only_trans [rotated])
qed

lemma controller_Reconcile_cases:
  assumes "controller_Reconcile E r ns nm w = Some (re, r', w')"
  obtains (unread) "look w' = look w" "r' = r"
  | (read) ob w1 where "look w (KObservability, ns, nm) = Some ob" "look w1 = look w"
      "key_of (obs_obj (obj_obs ob)) = (KObservability, ns, nm)"
      "reconcile_instance E r (obj_obs ob) w1 = Some (re, r', w')"
proof (cases "e_get E KObservability ns nm w")
  case (Pair g w1)
  show thesis
  proof (cases g)
    case (Inl e)
    with assms Pair get_frame [OF Pair] unread show thesis by (simp add: controller_Reconcile_def)
  next
    case (Inr ob)
    from get_found [OF Pair [unfolded Inr]] have l: "look w (KObservability, ns, nm) = Some ob" .
    from look_key [OF l] have "key_of (obs_obj (obj_obs ob)) = (KObservability, ns, nm)"
      unfolding obs_obj_key by (simp add: key_of_def)
    from read [OF l get_frame [OF Pair] this] assms Pair Inr show thesis by (simp add: controller_Reconcile_def)
  qed
qed

lemma controller_Reconcile_frame:
  assumes "controller_Reconcile E r ns nm w = Some (re, r', w')"
  shows "only look (insert (KObservability, ns, nm) foreign) w w'"
  using assms
proof (cases rule: controller_Reconcile_cases)
  case unread
  then show ?thesis by (simp add: same_look)
next
  case (read ob w1)
  from reconcile_instance_frame [OF read(4)] read(2,3) show ?thesis by (simp add: only_def)
qed

lemma cleanup_objects_foreign: "cleanup_objects cr \<subseteq> foreign"
proof -
  have "stage_deleted stage cr \<subseteq> foreign" if "stage \<in> set getCleanupStages" for stage
  proof -
    from that table_total obtain R :: "'w reconciler" where "getReconcilerForStage stage = Some R" by fastforce
    from stage_reconciler.owned_foreign [OF stages.table_stage [OF this]] stage_deleted_owned
    show ?thesis by blast
  qed
  then show ?thesis unfolding cleanup_objects_def by blast
qed

text \<open>A finished cleanup: all objects of the cleanup stages are gone.\<close>

lemma run_cleanup_stages:
  assumes "run_stages E getReconcilerForStage getCleanupStages obs st w = Some (fin, obs', st', w')"
    and "m_deletionTimestamp (o_meta obs) \<noteq> None"
  shows "obs' = obs" and "only look foreign w w'" and "fin \<Longrightarrow> all_gone look (cleanup_objects obs) w'"
proof -
  note c = stages.run_stages_cleanup [OF assms]
  then show "obs' = obs" by blast
  show "only look foreign w w'" using stages.run_stages_frame [OF assms(1)] by blast
  assume fin
  with c have "\<And>stage. stage \<in> set getCleanupStages \<Longrightarrow> all_gone look (stage_deleted stage obs) w'"
    using table_total by auto
  then show "all_gone look (cleanup_objects obs) w'"
    unfolding cleanup_objects_def all_gone_def by blast
qed

lemma updateStatus_lifecycle:
  assumes "updateStatus E obs st w = (re, w')"
  shows "lifecycle_at (look w') (key_of (obs_obj obs)) = lifecycle_at (look w) (key_of (obs_obj obs))"
proof (cases "o_status obs = st")
  case True
  with assms show ?thesis by (simp add: updateStatus_def)
next
  case False
  obtain er w2 where su: "e_status_update E (obs_obj (obs\<lparr>o_status := st\<rparr>)) w = (er, w2)" by fastforce
  with False assms have "w' = w2" by (auto simp: updateStatus_def split: option.splits)
  with status_update_lifecycle [OF su] show ?thesis by (simp add: obs_obj_key)
qed

lemma reconcile_deleted:
  assumes run: "reconcile_instance E r obs w = Some (re, r', w')"
    and del: "m_deletionTimestamp (o_meta obs) \<noteq> None" and "op_noInit r"
  shows "lifecycle_at (look w') (key_of (obs_obj obs)) = lifecycle_at (look w) (key_of (obs_obj obs))
    \<or> all_gone look (cleanup_objects obs) w' \<and> fst re = zero_result"
proof -
  let ?k = "key_of (obs_obj obs)"
  from run del obtain fin obs1 st1 w1 where
    r: "run_stages E getReconcilerForStage getCleanupStages obs (o_status obs) w = Some (fin, obs1, st1, w1)"
    and f: "finish_reconcile E r fin obs1 st1 w1 = (re, r', w')"
    by (auto simp: reconcile_instance_def split: option.splits)
  note c = run_cleanup_stages [OF r del]
  have k: "?k \<notin> foreign" by (simp add: obs_obj_key foreign_def)
  with c(2) have same: "look w1 ?k = look w ?k" unfolding only_def by blast
  show ?thesis
  proof (cases fin)
    case True
    from finish_reconcile_only [OF f] c(1) have "only look {?k} w1 w'" by simp
    moreover have "?k \<notin> cleanup_objects obs" using cleanup_objects_foreign k by blast
    ultimately have "all_gone look (cleanup_objects obs) w'"
      using c(3) [OF True] unfolding all_gone_def only_def gone_def by (metis singletonD)
    moreover have "fst re = zero_result"
      using f True del c(1) by (auto simp: finish_reconcile_def Let_def split: prod.splits)
    ultimately show ?thesis by blast
  next
    case False
    with f del c(1) assms(3) have u: "updateStatus E obs st1 w1 = (re, w')"
      by (auto simp: finish_reconcile_def Let_def split: prod.splits)
    from updateStatus_lifecycle [OF u] have "lifecycle_at (look w') ?k = lifecycle_at (look w1) ?k" .
    with same show ?thesis by (simp add: lifecycle_at_def)
  qed
qed

lemma controller_deleting:
  assumes run: "controller_Reconcile E r ns nm w = Some (re, r', w')"
    and ob: "look w (KObservability, ns, nm) = Some ob" "m_deletionTimestamp (k_meta ob) \<noteq> None" and r: "op_noInit r"
  shows "lifecycle_at (look w') (KObservability, ns, nm) = lifecycle_at (look w) (KObservability, ns, nm)
    \<or> all_gone look (cleanup_objects (obj_obs ob)) w' \<and> fst re = zero_result"
  using run
proof (cases rule: controller_Reconcile_cases)
  case unread
  then show ?thesis by (simp add: lifecycle_at_def)
next
  case (read ob' w1)
  with ob have "ob' = ob" by simp
  with reconcile_deleted [OF read(4) _ r] read(2,3) ob(2) show ?thesis by (simp add: lifecycle_at_def)
qed

text \<open>
  Over any run of the operator, interleaved with changes by others, a terminating resource
  keeps its finalizers until a request during which all objects of the cleanup stages were gone.
\<close>

lemma operator_step_keeps:
  assumes "operator_step E look s1 s2" and "op_noInit (fst s1)"
    and "lifecycle_at (look (snd s1)) (KObservability, ns, nm) = Some (fs, Some t)"
  shows "lifecycle_at (look (snd s2)) (KObservability, ns, nm) = Some (fs, Some t)
    \<or> (\<exists>re ob. controller_Reconcile E (fst s1) ns nm (snd s1) = Some (re, s2)
          \<and> look (snd s1) (KObservability, ns, nm) = Some ob \<and> all_gone look (cleanup_objects (obj_obs ob)) (snd s2))"
  using assms
proof (cases rule: operator_step.cases)
  case (others w w' r)
  with assms(3) show ?thesis by auto
next
  case (serve r ns' nm' w re r' w')
  let ?k = "(KObservability, ns, nm)"
  show ?thesis
  proof (cases "(ns', nm') = (ns, nm)")
    case False
    then have "?k \<notin> insert (KObservability, ns', nm') foreign" by (auto simp: foreign_def)
    with controller_Reconcile_frame [OF serve(3)] have "look w' ?k = look w ?k" unfolding only_def by blast
    with assms(3) serve(1,2) show ?thesis by (simp add: lifecycle_at_def)
  next
    case True
    from assms(3) serve(1) obtain ob where ob: "look w ?k = Some ob" "m_deletionTimestamp (k_meta ob) \<noteq> None"
      by (auto simp: lifecycle_at_def)
    with controller_deleting [of r ns nm w re r' w' ob] True assms(2,3) serve show ?thesis by auto
  qed
qed

lemma operator_run_finalizer:
  assumes "(operator_step E look)\<^sup>*\<^sup>* s s'" and "op_noInit (fst s)"
    and "lifecycle_at (look (snd s)) (KObservability, ns, nm) = Some (fs, Some t)"
  shows "op_noInit (fst s') \<and>
    (lifecycle_at (look (snd s')) (KObservability, ns, nm) = Some (fs, Some t)
     \<or> (\<exists>s1 s2 re ob. (operator_step E look)\<^sup>*\<^sup>* s s1 \<and> (operator_step E look)\<^sup>*\<^sup>* s2 s'
          \<and> lifecycle_at (look (snd s1)) (KObservability, ns, nm) = Some (fs, Some t)
          \<and> controller_Reconcile E (fst s1) ns nm (snd s1) = Some (re, s2)
          \<and> look (snd s1) (KObservability, ns, nm) = Some ob
          \<and> all_gone look (cleanup_objects (obj_obs ob)) (snd s2)))" (is "_ \<and> (?kept s' \<or> ?released s')")
  using assms(1)
proof (induction rule: rtranclp_induct)
  case base
  with assms(2,3) show ?case by simp
next
  case (step s1 s2)
  from step.hyps(2) have noInit: "op_noInit (fst s2) = op_noInit (fst s1)"
    by (cases rule: operator_step.cases) (auto dest: controller_Reconcile_noInit)
  have more: "(operator_step E look)\<^sup>*\<^sup>* u s2" if "(operator_step E look)\<^sup>*\<^sup>* u s1" for u
    using that step.hyps(2) by simp
  from step.IH have "?kept s1 \<or> ?released s1" by blast
  then have "?kept s2 \<or> ?released s2"
  proof
    assume "?released s1"
    with more show ?thesis by blast
  next
    assume kept: "?kept s1"
    from operator_step_keeps [OF step.hyps(2) _ kept] step.IH show ?thesis
      using step.hyps(1) kept rtranclp.rtrancl_refl [of "operator_step E look" s2] by blast
  qed
  with noInit step.IH show ?case by simp
qed

text \<open>A request for a guarded resource that is not being deleted leaves its life as it is.\<close>

lemma controller_guarded:
  assumes run: "controller_Reconcile E r ns nm w = Some (re, r', w')"
    and ob: "look w (KObservability, ns, nm) = Some ob" "m_deletionTimestamp (k_meta ob) = None"
      "m_finalizers (k_meta ob) \<noteq> []" and r: "op_noInit r"
  shows "lifecycle_at (look w') (KObservability, ns, nm) = lifecycle_at (look w) (KObservability, ns, nm)"
  using run
proof (cases rule: controller_Reconcile_cases)
  case unread
  then show ?thesis by simp
next
  case (read ob' w1)
  with ob have [simp]: "ob' = ob" by simp
  let ?obs = "obj_obs ob" and ?k = "(KObservability, ns, nm)"
  from read(4) ob obtain fin obs1 st1 w2 where
    rs: "run_stages E getReconcilerForStage getInstallationStages ?obs (o_status ?obs) w1 = Some (fin, obs1, st1, w2)"
    and f: "finish_reconcile E r fin obs1 st1 w2 = (re, r', w')"
    by (auto simp: reconcile_instance_def split: option.splits)
  from stages.run_stages_frame [OF rs] have id: "same_identity ?obs obs1" and fr: "only look foreign w1 w2" by auto
  from fr read(2) have "look w2 ?k = look w ?k" unfolding only_def foreign_def by simp
  moreover have "m_deletionTimestamp (o_meta obs1) = None" "m_finalizers (o_meta obs1) \<noteq> []"
    using id ob(2,3) unfolding same_identity_def by (cases "o_meta obs1"; cases "k_meta ob"; simp)+
  with f r have "updateStatus E obs1 st1 w2 = (re, w')"
    by (auto simp: finish_reconcile_def Let_def split: prod.splits if_splits)
  note updateStatus_lifecycle [OF this, unfolded same_identity_key [OF id]]
  ultimately show ?thesis using read(3) by (simp add: lifecycle_at_def)
qed

text \<open>A request for a terminating resource that asks for no other has released it.\<close>

lemma controller_released:
  assumes run: "controller_Reconcile E r ns nm w = Some ((zero_result, None), r', w')"
    and ob: "look w (KObservability, ns, nm) = Some ob" "m_deletionTimestamp (k_meta ob) \<noteq> None"
  shows "look w' (KObservability, ns, nm) = None \<and> all_gone look (cleanup_objects (obj_obs ob)) w'
    \<and> \<not> op_installComplete r'"
proof -
  let ?obs = "obj_obs ob" and ?k = "(KObservability, ns, nm)"
  obtain g w1 where g: "e_get E KObservability ns nm w = (g, w1)" by fastforce
  have "g = Inr ob"
  proof (cases g)
    case (Inl e)
    with run g have "IsNotFound e" by (auto simp: controller_Reconcile_def split: if_splits)
    with get_notfound [OF g [unfolded Inl]] ob(1) show ?thesis by simp
  next
    case (Inr ob')
    with get_found [OF g [unfolded Inr]] ob(1) show ?thesis by simp
  qed
  note same = get_frame [OF g]
  from run g \<open>g = Inr ob\<close> ob obtain fin obs1 st1 w2 where
    rs: "run_stages E getReconcilerForStage getCleanupStages ?obs (o_status ?obs) w1 = Some (fin, obs1, st1, w2)"
    and fr: "finish_reconcile E r fin obs1 st1 w2 = ((zero_result, None), r', w')"
    by (auto simp: controller_Reconcile_def reconcile_instance_def split: option.splits)
  from ob(2) have del: "m_deletionTimestamp (o_meta ?obs) \<noteq> None" by simp
  note c = run_cleanup_stages [OF rs del]
  from fr c(1) del have fin and u: "update_error E (set_finalizers [] ?obs) w2 = (None, w')" and "\<not> op_installComplete r'"
    by (auto simp: finish_reconcile_def zero_result_def updateStatus_def Let_def split: prod.splits if_splits option.splits)
  from u obtain ou where up: "e_update E (obs_obj (set_finalizers [] ?obs)) w2 = (Inr ou, w')"
    by (auto simp: update_error_def split: prod.splits sum.splits)
  from look_key [OF ob(1)] have k: "key_of (obs_obj (set_finalizers [] ?obs)) = ?k"
    unfolding obs_obj_key by (simp add: key_of_def set_finalizers_def)
  have cur: "look w2 ?k = Some ob" using c(2) same ob(1) unfolding only_def foreign_def by simp
  have "look w' ?k = None"
    by (rule update_released [OF up, unfolded k, OF cur]) (use ob(2) in \<open>simp_all add: obs_obj_def set_finalizers_def\<close>)
  moreover have "?k \<notin> cleanup_objects ?obs" using cleanup_objects_foreign [of ?obs] by (auto simp: foreign_def)
  with c(3) [OF \<open>fin\<close>] update_error_only [OF u] k have "all_gone look (cleanup_objects ?obs) w'"
    unfolding all_gone_def only_def gone_def by (metis singletonD)
  ultimately show ?thesis using \<open>\<not> op_installComplete r'\<close> by blast
qed

text \<open>A new resource under manual control gets the finalizer before any stage runs.\<close>

lemma fresh_gets_finalizer:
  assumes run: "controller_Reconcile E r ns nm w = Some ((res, None), r', w')"
    and ob: "look w (KObservability, ns, nm) = Some ob" "m_deletionTimestamp (k_meta ob) = None"
      "m_finalizers (k_meta ob) = []" and r: "op_noInit r"
  shows "lifecycle_at (look w') (KObservability, ns, nm) = Some ([ObservabilityFinalizer], None)
      \<or> (\<exists>t. lifecycle_at (look w') (KObservability, ns, nm) = Some ([ObservabilityFinalizer], Some t))"
    and "only look {(KObservability, ns, nm)} w w'" and "r' = r"
proof -
  obtain g w1 where g: "e_get E KObservability ns nm w = (g, w1)" by fastforce
  have "g = Inr ob"
  proof (cases g)
    case (Inl e)
    with run g have "IsNotFound e" by (auto simp: controller_Reconcile_def split: if_splits)
    with get_notfound [OF g [unfolded Inl]] ob(1) show ?thesis by simp
  next
    case (Inr ob')
    with get_found [OF g [unfolded Inr]] ob(1) show ?thesis by simp
  qed
  note same = get_frame [OF g]
  let ?obs = "set_finalizers [ObservabilityFinalizer] (obj_obs ob)"
  from run g \<open>g = Inr ob\<close> ob r have u: "update_error E ?obs w1 = (None, w')" and "r' = r"
    by (auto simp: controller_Reconcile_def reconcile_instance_def split: prod.splits)
  from look_key [OF ob(1)] have k: "key_of (obs_obj ?obs) = (KObservability, ns, nm)"
    unfolding obs_obj_key by (simp add: key_of_def set_finalizers_def)
  from update_error_only [OF u] k same show "only look {(KObservability, ns, nm)} w w'" by (simp add: only_def)
  from u obtain ou where up: "e_update E (obs_obj ?obs) w1 = (Inr ou, w')"
    by (auto simp: update_error_def split: prod.splits sum.splits)
  have "m_deletionTimestamp (k_meta (obs_obj ?obs)) = None"
    "m_finalizers (k_meta (obs_obj ?obs)) = [ObservabilityFinalizer]"
    using ob(2) by (simp_all add: obs_obj_def set_finalizers_def)
  with update_stored [OF up] k show "lifecycle_at (look w') (KObservability, ns, nm) = Some ([ObservabilityFinalizer], None)
      \<or> (\<exists>t. lifecycle_at (look w') (KObservability, ns, nm) = Some ([ObservabilityFinalizer], Some t))"
    by (cases "m_deletionTimestamp (k_meta ou)") (simp_all add: lifecycle_at_def)
  show "r' = r" by fact
qed

text \<open>Together, a request without an error is a step of the specification.\<close>

lemma controller_life:
  assumes run: "controller_Reconcile E r ns nm w = Some ((res, None), r', w')" and r: "op_noInit r"
  shows "life_step (\<exists>ob. look w (KObservability, ns, nm) = Some ob \<and> all_gone look (cleanup_objects (obj_obs ob)) w')
    (lifecycle_at (look w) (KObservability, ns, nm)) (lifecycle_at (look w') (KObservability, ns, nm))"
    (is "life_step ?cleaned ?old ?new")
proof (cases "look w (KObservability, ns, nm)")
  case None
  from run have "look w' = look w" by (cases rule: controller_Reconcile_cases) (simp_all add: None)
  then show ?thesis by (simp add: life_step.stay)
next
  case (Some ob)
  then have old: "?old = Some (m_finalizers (k_meta ob), m_deletionTimestamp (k_meta ob))" by (simp add: lifecycle_at_def)
  consider t where "m_deletionTimestamp (k_meta ob) = Some t"
    | "m_deletionTimestamp (k_meta ob) = None" "m_finalizers (k_meta ob) = []"
    | "m_deletionTimestamp (k_meta ob) = None" "m_finalizers (k_meta ob) \<noteq> []" by fastforce
  then show ?thesis
  proof cases
    case 1
    show ?thesis
    proof (cases "?new = ?old")
      case False
      with controller_deleting [OF run Some _ r] 1 have "all_gone look (cleanup_objects (obj_obs ob)) w'" "res = zero_result" by auto
      moreover from controller_released [OF run [unfolded this(2)] Some] 1 have "?new = None" by (simp add: lifecycle_at_def)
      ultimately show ?thesis using Some old 1 by (auto intro: life_step.release)
    qed (simp add: life_step.stay)
  next
    case 2
    with fresh_gets_finalizer(1) [OF run Some 2 r] old show ?thesis by (auto intro: life_step.guard)
  next
    case 3
    with controller_guarded [OF run Some 3 r] show ?thesis by (simp add: life_step.stay)
  qed
qed

lemma installation_status:
  assumes run: "run_stages E getReconcilerForStage getInstallationStages obs (o_status obs) w = Some (fin, obs', st', w')"
  shows "status_of_run st' fin"
proof (cases fin)
  case True
  have "getInstallationStages \<noteq> []" by (simp add: getInstallationStages_def)
  moreover from run True have "run_stages E getReconcilerForStage getInstallationStages obs (o_status obs) w
    = Some (True, obs', st', w')" by simp
  moreover have "\<forall>stage \<in> set getInstallationStages. (getReconcilerForStage stage :: 'w reconciler option) \<noteq> None"
    using table_total by blast
  ultimately have "st_Stage st' = last getInstallationStages \<and> st_StageStatus st' = ResultSuccess \<and> st_LastMessage st' = []"
    by (intro stages.run_stages_finished)
  with True show ?thesis by (simp add: status_of_run_def)
next
  case False
  have keep: "st_Stage st1 = st_Stage st"
    if "getReconcilerForStage stage = Some R" "call_stage E R obs st w = Some (x, obs1, st1, w1)"
    for stage and R :: "'w reconciler" and obs st w x obs1 st1 w1
    using stages.call_stage_laws [OF that(1)] that(2) by (cases x) (auto simp: same_progress_def)
  from run False have "run_stages E getReconcilerForStage getInstallationStages obs (o_status obs) w
    = Some (False, obs', st', w')" by simp
  then obtain pre stage post obs1 st1 w1 where
    p: "getInstallationStages = pre @ stage # post"
      "run_stages E getReconcilerForStage pre obs (o_status obs) w = Some (True, obs1, st1, w1)"
      "st_Stage st' = stage" "st_StageStatus st' \<noteq> ResultSuccess"
    by (rule run_stages_stopped [OF _ keep])
  from run p(1) run_stages_append [of E getReconcilerForStage pre "stage # post" obs "o_status obs" w] p(2)
  have "run_stages E getReconcilerForStage (stage # post) obs1 st1 w1 = Some (fin, obs', st', w')" by simp
  then have "st_LastMessage st' \<noteq> [] \<longrightarrow> st_StageStatus st' = ResultFailed"
  proof (cases rule: stages.run_stages_Cons)
    case skip
    have "stage \<in> set getInstallationStages" by (simp add: p(1))
    with table_total [of stage, where 'a = 'w] skip(1) show ?thesis by simp
  next
    case (stop R er st2 w2 w0)
    from stages.call_stage_laws [OF stop(1,3)] record_stage_sel [OF stop(4)] show ?thesis by (auto split: option.splits)
  next
    case (go R er obs2 st2 w2 st3 w3 w0)
    from stages.call_stage_laws [OF go(1,3)] record_stage_sel [OF go(4)]
    have "st_LastMessage st3 \<noteq> [] \<longrightarrow> st_StageStatus st3 = ResultFailed" by (cases er) auto
    from stages.run_stages_recorded [OF go(6) this] show ?thesis .
  qed
  moreover have "st_Stage st' \<in> set getInstallationStages" by (simp add: p(1,3))
  ultimately show ?thesis using p(4) False by (simp add: status_of_run_def)
qed

lemma updateStatus_stored:
  assumes u: "updateStatus E obs1 st w = ((res, None), w')"
    and ob: "look w (key_of (obs_obj obs1)) = Some ob"
      "o_status obs1 = (o_status (obj_obs ob))\<lparr>st_ClusterID := st_ClusterID (o_status obs1)\<rparr>"
  shows "\<exists>ob' i. look w' (key_of (obs_obj obs1)) = Some ob' \<and> st = (o_status (obj_obs ob'))\<lparr>st_ClusterID := i\<rparr>"
proof (cases "o_status obs1 = st")
  case True
  with u ob show ?thesis by (auto simp: updateStatus_def)
next
  case False
  obtain er w1 where su: "e_status_update E (obs_obj (obs1\<lparr>o_status := st\<rparr>)) w = (er, w1)" by fastforce
  with False u have "er = None" "w' = w1" by (auto simp: updateStatus_def split: option.splits)
  from status_update_stored [OF su [unfolded this(1)]] obtain ob' where
    "look w1 (key_of (obs_obj obs1)) = Some ob'" "o_status (obj_obs ob') = st"
    by (auto simp: obs_obj_key)
  with \<open>w' = w1\<close> show ?thesis by (intro exI [of _ ob'] exI [of _ "st_ClusterID st"]) simp
qed

lemma controller_records:
  assumes run: "controller_Reconcile E r ns nm w = Some ((res, None), r', w')"
    and ob: "look w (KObservability, ns, nm) = Some ob" "m_deletionTimestamp (k_meta ob) = None"
    and fin: "m_finalizers (k_meta ob) \<noteq> [] \<longleftrightarrow> op_noInit r"
  shows "\<exists>ob' finished. look w' (KObservability, ns, nm) = Some ob'
    \<and> status_of_run (o_status (obj_obs ob')) finished
    \<and> (op_installComplete r' \<longleftrightarrow> op_installComplete r \<or> finished)"
proof -
  obtain g w1 where g: "e_get E KObservability ns nm w = (g, w1)" by fastforce
  have "g = Inr ob"
  proof (cases g)
    case (Inl e)
    with run g have "IsNotFound e" by (auto simp: controller_Reconcile_def split: if_splits)
    with get_notfound [OF g [unfolded Inl]] ob(1) show ?thesis by simp
  next
    case (Inr ob')
    with get_found [OF g [unfolded Inr]] ob(1) show ?thesis by simp
  qed
  note same = get_frame [OF g]
  let ?obs = "obj_obs ob" and ?k = "(KObservability, ns, nm)"
  from look_key [OF ob(1)] have k: "key_of (obs_obj ?obs) = ?k"
    unfolding obs_obj_key by (simp add: key_of_def)
  from run g \<open>g = Inr ob\<close> ob fin obtain finished obs1 st1 w2 where
    rs: "run_stages E getReconcilerForStage getInstallationStages ?obs (o_status ?obs) w1 = Some (finished, obs1, st1, w2)"
    and fr: "finish_reconcile E r finished obs1 st1 w2 = ((res, None), r', w')"
    by (auto simp: controller_Reconcile_def reconcile_instance_def split: option.splits if_splits)
  note f = stages.run_stages_frame [OF rs]
  from f have id: "same_identity ?obs obs1" by blast
  have key1: "key_of (obs_obj obs1) = ?k" using same_identity_key [OF id] k by simp
  from f have "look w2 ?k = Some ob" using same ob(1) unfolding only_def foreign_def by simp
  moreover have meta: "m_deletionTimestamp (o_meta obs1) = None" "m_finalizers (o_meta obs1) = m_finalizers (k_meta ob)"
    using id ob(2) unfolding same_identity_def by (cases "o_meta obs1"; cases "k_meta ob"; simp)+
  moreover from fr meta fin obtain re where u: "updateStatus E obs1 st1 w2 = ((res, None), w')"
    and r': "op_installComplete r' \<longleftrightarrow> op_installComplete r \<or> finished"
    by (auto simp: finish_reconcile_def Let_def split: prod.splits if_splits)
  ultimately obtain ob' i where "look w' ?k = Some ob'" "st1 = (o_status (obj_obs ob'))\<lparr>st_ClusterID := i\<rparr>"
    using updateStatus_stored [OF u, of ob] key1 id unfolding same_identity_def by auto
  with installation_status [OF rs] r' show ?thesis by auto
qed

section \<open>Start-up\<close>

lemma initialize_no_init:
  assumes "InitializeOperand E r w = Some ((None, r'), w')" and "op_noInit r'"
  shows "look w' = look w"
proof -
  obtain g w1 where g: "e_get E KConfigMap (TrimSpace (operator_namespace E)) NoInitConfigMapName w = (g, w1)" by fastforce
  with assms get_frame [OF g] show ?thesis
    by (auto simp: InitializeOperand_def noInitConfigmapExists_def split: sum.splits if_splits option.splits)
qed

lemma InitializeOperand_run:
  assumes "InitializeOperand E r w = Some ((None, r'), w')" and "\<not> op_noInit r'"
  obtains w1 where "look w1 = look w" "ensure_instance E (operator_namespace E) w1 = Some (Inr (), w')"
proof -
  obtain g w1 where g: "e_get E KConfigMap (TrimSpace (operator_namespace E)) NoInitConfigMapName w = (g, w1)" by fastforce
  with assms have "ensure_instance E (operator_namespace E) w1 = Some (Inr (), w')"
    by (auto simp: InitializeOperand_def noInitConfigmapExists_def split: sum.splits if_splits option.splits)
  with get_frame [OF g] show thesis by (rule that)
qed

lemma running_on_cloud_look: "running_on_cloud E w = Some (r, w') \<Longrightarrow> look w' = look w"
  by (auto simp: running_on_cloud_def split: prod.splits sum.splits option.splits dest: get_frame)

lemma initialize_creates:
  assumes run: "InitializeOperand E r w = Some ((None, r'), w')" and "\<not> op_noInit r'"
    and none: "\<And>ns nm. look w (KObservability, ns, nm) = None"
  shows "\<exists>cloud ob. let cr = (if cloud then observabilityInstanceWithStorage (operator_namespace E)
                             else observabilityInstanceWithoutStorage (operator_namespace E))
     in look w' (key_of (obs_obj cr)) = Some ob \<and> k_body ob = BObservability (o_spec cr) zero_status
        \<and> ob_labels ob = Some managed_label"
proof -
  from run assms(2) obtain w1 where s1: "look w1 = look w"
    and e: "ensure_instance E (operator_namespace E) w1 = Some (Inr (), w')" by (rule InitializeOperand_run)
  let ?cr = "\<lambda>cloud. if cloud then observabilityInstanceWithStorage (operator_namespace E)
    else observabilityInstanceWithoutStorage (operator_namespace E)"
  from e obtain cloud w2 items w3 where c: "running_on_cloud E w1 = Some (Inr cloud, w2)"
    and l: "e_list E KObservability (in_namespace []) w2 = (Inr items, w3)"
    and rest: "(if items = [] then act (e_create E (obs_obj (?cr cloud)))
       else each (adopt_instance E cloud (?cr cloud) (o_spec (obj_obs (hd items)))) items) w3 = Some (Inr (), w')"
    by (auto simp: ensure_instance_def Let_def Inr_iffs)
  have "items = []"
  proof (rule ccontr)
    assume "items \<noteq> []"
    then obtain ob where "ob \<in> set items" by (cases items) auto
    with list_items [OF l] running_on_cloud_look [OF c] s1 none show False
      by (auto simp: list_matches_def key_of_def)
  qed
  with rest have cr: "e_create E (obs_obj (?cr cloud)) w3 = (None, w')" by (simp add: act_Inr_iff)
  from create_stored [OF cr] obtain ob where ob: "look w' (key_of (obs_obj (?cr cloud))) = Some ob"
    "k_body ob = admit (k_body (obs_obj (?cr cloud)))" "ob_labels ob = ob_labels (obs_obj (?cr cloud))" by blast
  have "k_body (obs_obj (?cr cloud)) = BObservability (o_spec (?cr cloud)) zero_status"
    "ob_labels (obs_obj (?cr cloud)) = Some managed_label"
    by (simp_all add: obs_obj_def observabilityInstance_def observabilityInstanceWithStorage_def
        observabilityInstanceWithoutStorage_def)
  with ob have "let cr = ?cr cloud in look w' (key_of (obs_obj cr)) = Some ob
      \<and> k_body ob = BObservability (o_spec cr) zero_status \<and> ob_labels ob = Some managed_label"
    unfolding Let_def by simp
  then show ?thesis by blast
qed

end

end
