(* ===== verification/Spec2Isabelle.thy ===== *)
theory Spec2Isabelle
  imports Obs_Controller
begin

text \<open>
  The observability operator: a Kubernetes operator that installs and configures Prometheus,
  Alertmanager, Grafana, Promtail and cluster logging from one custom resource of kind
  Observability, and that reads what to monitor from configuration repositories.

  \<^bold>\<open>The program.\<close>  A request of the controller (\<^verbatim>\<open>controllers/observability_controller.go\<close>) reads the
  custom resource, runs the stages of \<^verbatim>\<open>controllers/reconcilers\<close> in order until one does not
  succeed, and records the outcome in the status; a deleted resource runs the cleanups of the
  stages and is then released.  The stages install operators and role-based access, fetch
  tokens for the observatoria metrics and logs are sent to, migrate objects with old names and,
  last, synchronise the cluster with the repositories.  They name their objects through
  \<^verbatim>\<open>controllers/model\<close> and act through the Kubernetes client alone.

  \<^bold>\<open>The state.\<close>  The world is a type variable \<open>'w\<close>, passed through every operation.  The record
  \<open>env\<close> (\<open>Kube_Api\<close>) holds the operations on it that are not part of the repository: the client of
  controller-runtime, HTTP, the clock, random bytes, the file system, the parsers and printers
  of YAML, JSON, URLs, durations and quantities, hashes, and the order in which a map is ranged
  over.  \<open>look w\<close> is the store of objects by kind, namespace and name, which theorems speak about.
  An operation that returns a value and an error has the type \<open>('w, 'a) go\<close> (\<open>Go_Effects\<close>): \<open>None\<close> is a
  panic, \<open>Inl\<close> an error, \<open>Inr\<close> a value.  A stage gives a status and an error (\<open>'w outcome\<close>,
  \<open>Obs_Stage\<close>).  A mutated pointer argument is returned updated: the two the stages share, the
  custom resource and the next status, are part of the state in \<open>Configuration_Stage\<close>.

  \<^bold>\<open>The theories.\<close>
  \<^item> \<open>Go_Prelude\<close>, \<open>Go_Effects\<close>: the strings, maps, errors and integers of Go, the results above.
  \<^item> \<open>Kube_Types\<close>, \<open>Kube_Api\<close>, \<open>Kube_Mem\<close>: the fields of the Kubernetes types in use, the
    environment with its contract \<open>kube_client\<close>, and an in-memory server with injected faults that
    satisfies it.
  \<^item> \<open>Obs_Api\<close> (\<^verbatim>\<open>api/v1\<close>), \<open>Obs_Utils\<close> (\<^verbatim>\<open>controllers/utils\<close>, \<^verbatim>\<open>controllers/metrics\<close>), \<open>Obs_Model\<close>
    (\<^verbatim>\<open>controllers/model\<close>): the custom resource, the index of a repository, the webhook, and the
    names, selectors and texts of the managed objects.
  \<^item> \<open>Obs_Stage\<close>: the interface of a stage and its contract, the locale \<open>stage_reconciler\<close>.
  \<^item> \<open>Token_Stage\<close>, \<open>Promtail_Stage\<close>, \<open>Csv_Stage\<close>, \<open>Migration_Stage\<close>, \<open>Prometheus_Stages\<close>,
    \<open>Alertmanager_Stage\<close>, \<open>Grafana_Stages\<close>, \<open>Logging_Stage\<close>: a theory for each directory of
    \<^verbatim>\<open>controllers/reconcilers\<close> (two for the installation and configuration of one product), each
    shown to meet the contract.
  \<^item> \<open>Cfg_Resources\<close>, \<open>Cfg_Tokens\<close>, \<open>Cfg_Workloads\<close>, \<open>Cfg_Alertmanager\<close>, \<open>Cfg_Prometheus\<close>: the files of
    \<^verbatim>\<open>controllers/reconcilers/configuration\<close>, composed in \<open>Configuration_Stage\<close>.
  \<^item> \<open>Obs_Controller\<close>: the stage table, the request, the finalizer and the start-up.

  Operations keep the names of the code; where several packages use one name it is prefixed with
  the package.  A long handler is cut into named pieces at its comments, and the handler composes
  them.

  \<^bold>\<open>What is shown.\<close>  The locale \<open>kube_client\<close> states what the code relies on of the client: reads
  return what is stored, an accepted write is stored, a write changes no other key, a deletion
  removes the object or marks it, a terminating object without finalizers goes away.  An object
  is \<open>gone\<close> when it is absent or marked for deletion: what a deletion call can promise.  The
  contract \<open>stage_reconciler\<close> is proved in it for every stage, and \<open>stage_table\<close> for the table of
  the controller, from which the properties of requests follow here.  They are:
  \<^item> the life of the custom resource: the finalizer comes first and goes last, a request refines
    the specification \<open>life_step\<close>, and a last request releases the resource with everything
    cleaned up;
  \<^item> requests: order of the stages, the recorded status, no other resource touched; start-up;
  \<^item> tokens: a saved token is found again, expiry with the hour of margin and its overflow, when
    reading settings from a secret returns;
  \<^item> the synchronisation: when it is due, what it records, convergence of the rules, soundness and
    separation of the Alertmanager configuration, wiring of token refreshers, remote write and
    Promtail, and what a cleanup deletes;
  \<^item> the places where the code panics or drops data, as theorems of the same kind.

  Each property with hypotheses is evaluated on the in-memory server.

  \<^bold>\<open>Bounds.\<close>  Integers of Go are kept as integers, with the wrap-around of \<^verbatim>\<open>int64\<close> written out where it
  can occur (\<open>wrap64\<close>, \<open>saturate64\<close>).  Loops are recursions over the lists they range over.  No fuel
  is used; the one recursion that may not end, \<open>assignFromSecret\<close>, is a partial function, and the
  theorem on it says exactly when it returns.

  \<^bold>\<open>Not modelled.\<close>  The client is read without a cache, so staleness of reads between two requests
  is not represented, and requests are served one at a time, as the controller's default
  concurrency of one has it.  Left out are generated deep copies (values are immutable), the
  registration of types, schemes, watches and the webhook with the manager, \<^verbatim>\<open>main.go\<close> and
  \<^verbatim>\<open>runners\<close>, which start it, log lines, and the fields of Kubernetes types the code never names.
\<close>

section \<open>The webhook\<close>

text \<open>
  C33: the admission webhook lets an update pass exactly when the three default names are
  unchanged.
\<close>

theorem webhook_freezes_names:
  "ValidateUpdate new old = None \<longleftrightarrow>
     sp_AlertManagerDefaultName (o_spec new) = sp_AlertManagerDefaultName (o_spec old)
     \<and> sp_GrafanaDefaultName (o_spec new) = sp_GrafanaDefaultName (o_spec old)
     \<and> sp_PrometheusDefaultName (o_spec new) = sp_PrometheusDefaultName (o_spec old)"
  by (rule ValidateUpdate_iff)

section \<open>Requests\<close>

text \<open>Custom resources and an operator under manual control, to evaluate requests on.\<close>

definition stored_cr :: "string list \<Rightarrow> int option \<Rightarrow> kobj" where
  "stored_cr finalizers deleted =
     (let cr = observabilityInstanceWithStorage ''ops''
      in (obs_obj cr)\<lparr>k_meta := (o_meta cr)\<lparr>m_finalizers := finalizers, m_deletionTimestamp := deleted\<rparr>\<rparr>)"

definition manual :: ObservabilityReconciler where
  "manual = \<lparr>op_installComplete = False, op_noInit = True\<rparr>"

abbreviation stored_key :: okey where
  "stored_key \<equiv> (KObservability, ''ops'', ''observability-stack'')"

abbreviation served_request ::
  "mem \<Rightarrow> ((Result \<times> goerr option) \<times> ObservabilityReconciler \<times> mem) option" where
  "served_request \<equiv> controller_Reconcile sample_env manual ''ops'' ''observability-stack''"







text \<open>
  C14: a new resource of an operator under manual control gets the finalizer before any stage
  runs: the first request changes the resource alone.
\<close>

theorem finalizer_before_stages:
  assumes "kube_client E look" and "controller_Reconcile E r ns nm w = Some ((res, None), r', w')"
    and "look w (KObservability, ns, nm) = Some ob" and "m_deletionTimestamp (k_meta ob) = None"
    and "m_finalizers (k_meta ob) = []" and "op_noInit r"
  shows "only look {(KObservability, ns, nm)} w w' \<and> r' = r
    \<and> (\<exists>t. lifecycle_at (look w') (KObservability, ns, nm) = Some ([ObservabilityFinalizer], t))"
  using kube_client.fresh_gets_finalizer [OF assms] by blast

theorem finalizer_before_stages_witness:
  "\<exists>res r' w'. served_request (sample_world [stored_cr [] None]) = Some ((res, None), r', w')
     \<and> only mem_look {stored_key} (sample_world [stored_cr [] None]) w'"
proof -
  let ?w = "sample_world [stored_cr [] None]"
  have "returned (served_request ?w) (\<lambda>((_, er), _). er = None)" by code_simp
  then obtain res r' w' where run: "served_request ?w = Some ((res, None), r', w')"
    unfolding returned_iff by auto
  have "returned (mem_look ?w stored_key) (\<lambda>ob. m_deletionTimestamp (k_meta ob) = None \<and> m_finalizers (k_meta ob) = [])"
    by code_simp
  then obtain ob where ob: "mem_look ?w stored_key = Some ob" "m_deletionTimestamp (k_meta ob) = None"
    "m_finalizers (k_meta ob) = []" unfolding returned_iff by blast
  have "op_noInit manual" by (simp add: manual_def)
  from run conjunct1 [OF finalizer_before_stages [OF sample_env_client, OF run ob this]] show ?thesis by (intro exI conjI)
qed

text \<open>
  C15: a request changes no Observability resource but the one it names: the stages themselves
  write none.
\<close>

theorem request_stays_with_its_resource:
  assumes "kube_client E look" and "controller_Reconcile E r ns nm w = Some (re, r', w')"
    and "(ns', nm') \<noteq> (ns, nm)"
  shows "look w' (KObservability, ns', nm') = look w (KObservability, ns', nm')"
  using kube_client.controller_Reconcile_frame [OF assms(1,2)] assms(3) unfolding only_def foreign_def by auto

theorem request_stays_with_its_resource_witness:
  "\<exists>re r' w'. served_request (sample_world [stored_cr [ObservabilityFinalizer] (Some 5), named_obj KObservability ''other'' ''obs''])
       = Some (re, r', w')
     \<and> mem_look w' (KObservability, ''other'', ''obs'') \<noteq> None"
proof -
  let ?w = "sample_world [stored_cr [ObservabilityFinalizer] (Some 5), named_obj KObservability ''other'' ''obs'']"
  have "returned (served_request ?w) (\<lambda>_. True)" by code_simp
  then obtain re r' w' where run: "served_request ?w = Some (re, r', w')" unfolding returned_iff by auto
  have "mem_look ?w (KObservability, ''other'', ''obs'') \<noteq> None" by code_simp
  with request_stays_with_its_resource [OF sample_env_client, OF run, of "''other''" "''obs''"] run show ?thesis by auto
qed



section \<open>Stages\<close>



text \<open>
  C11: the stages run in order up to the first that does not succeed, which the status names; the
  stages after it are not run.
\<close>

theorem stages_stop_at_first_failure:
  assumes "kube_client E look"
    and "run_stages E getReconcilerForStage stages obs st w = Some (False, obs', st', w')"
  shows "\<exists>pre post obs1 st1 w1. stages = pre @ st_Stage st' # post \<and> st_StageStatus st' \<noteq> ResultSuccess
    \<and> run_stages E getReconcilerForStage pre obs st w = Some (True, obs1, st1, w1)
    \<and> run_stages E getReconcilerForStage [st_Stage st'] obs1 st1 w1 = Some (False, obs', st', w')"
proof -
  have keep: "st_Stage st1 = st_Stage st"
    if "getReconcilerForStage stage = Some R" "call_stage E R obs st w = Some (x, obs1, st1, w1)"
    for stage R obs st w x obs1 st1 w1
    using stage_table.call_stage_laws [OF kube_client.stage_table_laws [OF assms(1)] that(1)] that(2)
    by (cases x) (auto simp: same_progress_def)
  from assms(2) obtain pre stage post obs1 st1 w1 where "stages = pre @ stage # post"
    "run_stages E getReconcilerForStage pre obs st w = Some (True, obs1, st1, w1)"
    "st_Stage st' = stage" "st_StageStatus st' \<noteq> ResultSuccess"
    "run_stages E getReconcilerForStage [stage] obs1 st1 w1 = Some (False, obs', st', w')"
    by (rule run_stages_stopped [OF _ keep])
  then show ?thesis by blast
qed

theorem stages_stop_at_first_failure_witness:
  "\<exists>obs' st' w' pre post. run_stages sample_env getReconcilerForStage getInstallationStages sample_cr zero_status (sample_world [])
       = Some (False, obs', st', w')
     \<and> getInstallationStages = pre @ st_Stage st' # post \<and> st_StageStatus st' \<noteq> ResultSuccess"
proof -
  let ?run = "run_stages sample_env getReconcilerForStage getInstallationStages sample_cr zero_status (sample_world [])"
  have "returned ?run (\<lambda>(finished, _). \<not> finished)" by code_simp
  then obtain obs' st' w' where run: "?run = Some (False, obs', st', w')" unfolding returned_iff by auto
  from stages_stop_at_first_failure [OF sample_env_client, OF run] run show ?thesis by blast
qed

section \<open>Start-up\<close>

text \<open>
  C31: started without the no-init config map on a cluster without a custom resource, the operator
  creates the default one in its own namespace, labelled as its own.
\<close>

theorem startup_creates_resource:
  assumes "kube_client E look" and "InitializeOperand E r w = Some ((None, r'), w')" and "\<not> op_noInit r'"
    and "\<And>ns nm. look w (KObservability, ns, nm) = None"
  shows "\<exists>cloud ob. let cr = (if cloud then observabilityInstanceWithStorage (operator_namespace E)
                             else observabilityInstanceWithoutStorage (operator_namespace E))
     in look w' (key_of (obs_obj cr)) = Some ob \<and> k_body ob = BObservability (o_spec cr) zero_status
        \<and> ob_labels ob = Some managed_label"
  by (rule kube_client.initialize_creates [OF assms])

theorem startup_creates_resource_witness:
  "\<exists>r' w' cloud ob. InitializeOperand sample_env manual (sample_world []) = Some ((None, r'), w')
     \<and> (let cr = (if cloud then observabilityInstanceWithStorage ''ops'' else observabilityInstanceWithoutStorage ''ops'')
        in mem_look w' (key_of (obs_obj cr)) = Some ob)"
proof -
  let ?run = "InitializeOperand sample_env manual (sample_world [])"
  have "returned ?run (\<lambda>((er, r'), _). er = None \<and> \<not> op_noInit r')" by code_simp
  then obtain r' w' where run: "?run = Some ((None, r'), w')" "\<not> op_noInit r'" unfolding returned_iff by auto
  have "mem_look (sample_world []) k = None" for k by (simp add: sample_world_def mem_look_def)
  note made = startup_creates_resource [OF sample_env_client, OF run this]
  have "operator_namespace sample_env = ''ops''" by code_simp
  with made run(1) show ?thesis unfolding Let_def by metis
qed

text \<open>
  C32: started with the no-init config map, the operator changes nothing.
\<close>

theorem startup_respects_no_init:
  assumes "kube_client E look" and "InitializeOperand E r w = Some ((None, r'), w')"
    and "look w (KConfigMap, TrimSpace (operator_namespace E), NoInitConfigMapName) \<noteq> None"
  shows "op_noInit r' \<and> look w' = look w"
proof -
  obtain g w1 where g: "e_get E KConfigMap (TrimSpace (operator_namespace E)) NoInitConfigMapName w = (g, w1)" by fastforce
  have "\<not> IsNotFound e" if "g = Inl e" for e
    using kube_client.get_notfound [OF assms(1) g [unfolded that]] assms(3) by blast
  with assms(2) g have "op_noInit r'"
    by (auto simp: InitializeOperand_def noInitConfigmapExists_def split: sum.splits if_splits)
  with kube_client.initialize_no_init [OF assms(1,2)] show ?thesis by blast
qed

theorem startup_respects_no_init_witness:
  "\<exists>r' w'. InitializeOperand sample_env manual (sample_world [named_obj KConfigMap ''ops'' NoInitConfigMapName]) = Some ((None, r'), w')
     \<and> mem_look w' = mem_look (sample_world [named_obj KConfigMap ''ops'' NoInitConfigMapName])"
proof -
  let ?w = "sample_world [named_obj KConfigMap ''ops'' NoInitConfigMapName]"
  have "returned (InitializeOperand sample_env manual ?w) (\<lambda>((er, _), _). er = None)" by code_simp
  then obtain r' w' where run: "InitializeOperand sample_env manual ?w = Some ((None, r'), w')" unfolding returned_iff by auto
  have "mem_look ?w (KConfigMap, TrimSpace (operator_namespace sample_env), NoInitConfigMapName) \<noteq> None" by code_simp
  from startup_respects_no_init [OF sample_env_client, OF run this] run show ?thesis by blast
qed

end
